(* ===== verification/Go_Prelude.thy ===== *)
theory Go_Prelude
  imports Complex_Main "HOL-Library.Multiset" "HOL-Library.AList"
begin

section \<open>Go programs that talk to the outside world\<close>

text \<open>
  What the component theories share.  A Go function that calls PostgreSQL, the Kubernetes API
  or an HTTP service is a value of type \<open>('c, 'r, 'a) prog\<close>: a tree whose inner nodes are
  the calls (of type \<open>'c\<close>) the function makes, each with the continuation for the response
  (of type \<open>'r\<close>), and whose leaves are the value returned or the Go panic raised.  Nothing
  is assumed about the responses: a claim about all behaviours of a program is a claim about
  every server it may talk to.

  The theory holds the combinators the models are written with (sequencing, \<open>defer\<close>,
  \<open>recover\<close>, \<open>for\<close> loops with early return), the behaviours \<^verbatim>\<open>beh\<close> of a program, the
  executable evaluator \<^verbatim>\<open>run\<close> for a given environment and their agreement, the specification
  predicate \<^verbatim>\<open>spec\<close> with its calculus, the interface \<^verbatim>\<open>trace_law\<close> of properties that are
  closed under concatenation of traces, the order in which Go ranges over a map, and the string
  functions of the Go standard library that the sources use.
\<close>

named_theorems spec_simps \<open>predicate transformer equations of the program combinators\<close>
named_theorems emits_intros \<open>rules for properties of all traces of a program\<close>

type_synonym err = string

datatype 'a outcome = Val 'a | Panicked string

datatype ('c, 'r, 'a) prog =
    Ret 'a
  | Panic string
  | Call 'c "'r \<Rightarrow> ('c, 'r, 'a) prog"

type_synonym ('c, 'r) trace = "('c \<times> 'r) list"

primrec pbind :: "('c, 'r, 'a) prog \<Rightarrow> ('a \<Rightarrow> ('c, 'r, 'b) prog) \<Rightarrow> ('c, 'r, 'b) prog" where
  "pbind (Ret x) f = f x"
| "pbind (Panic e) f = Panic e"
| "pbind (Call c k) f = Call c (\<lambda>r. pbind (k r) f)"

text \<open>\<open>defer d()\<close>: the deferred call runs when the body returns and when it panics.\<close>

primrec pdefer :: "('c, 'r, 'a) prog \<Rightarrow> ('c, 'r, unit) prog \<Rightarrow> ('c, 'r, 'a) prog" where
  "pdefer (Ret x) d = pbind d (\<lambda>_. Ret x)"
| "pdefer (Panic e) d = pbind d (\<lambda>_. Panic e)"
| "pdefer (Call c k) d = Call c (\<lambda>r. pdefer (k r) d)"

text \<open>\<open>defer func() { if r := recover(); r != nil { h(r) } }()\<close>.\<close>

primrec precover :: "('c, 'r, 'a) prog \<Rightarrow> (string \<Rightarrow> ('c, 'r, 'a) prog) \<Rightarrow> ('c, 'r, 'a) prog" where
  "precover (Ret x) h = Ret x"
| "precover (Panic e) h = h e"
| "precover (Call c k) h = Call c (\<lambda>r. precover (k r) h)"

text \<open>
  A \<open>for _, x := range xs\<close> loop over the loop state \<open>s\<close>: the body gives \<open>Inl\<close> for a
  \<open>return\<close> out of the loop and \<open>Inr\<close> for the state of the next round.
\<close>

fun foreach :: "'x list \<Rightarrow> 's \<Rightarrow> ('x \<Rightarrow> 's \<Rightarrow> ('c, 'r, 'e + 's) prog) \<Rightarrow> ('c, 'r, 'e + 's) prog" where
  "foreach [] s body = Ret (Inr s)"
| "foreach (x # xs) s body =
     pbind (body x s) (\<lambda>res. case res of Inl e \<Rightarrow> Ret (Inl e) | Inr s' \<Rightarrow> foreach xs s' body)"

text \<open>The idiom \<open>if err != nil { return err }\<close> after a call that returns a value and an error.\<close>

definition ptry :: "('c, 'r, 'e + 'a) prog \<Rightarrow> ('a \<Rightarrow> ('c, 'r, 'e + 'b) prog) \<Rightarrow> ('c, 'r, 'e + 'b) prog" where
  "ptry m f = pbind m (\<lambda>res. case res of Inl e \<Rightarrow> Ret (Inl e) | Inr x \<Rightarrow> f x)"

abbreviation pseq :: "('c, 'r, 'a) prog \<Rightarrow> ('c, 'r, 'b) prog \<Rightarrow> ('c, 'r, 'b) prog" where
  "pseq m n \<equiv> pbind m (\<lambda>_. n)"

text \<open>Loops without state: one that always runs to the end, and one left at the first error.\<close>

fun for_do :: "'x list \<Rightarrow> ('x \<Rightarrow> ('c, 'r, unit) prog) \<Rightarrow> ('c, 'r, unit) prog" where
  "for_do [] body = Ret ()"
| "for_do (x # xs) body = pseq (body x) (for_do xs body)"

fun for_err :: "'x list \<Rightarrow> ('x \<Rightarrow> ('c, 'r, 'e option) prog) \<Rightarrow> ('c, 'r, 'e option) prog" where
  "for_err [] body = Ret None"
| "for_err (x # xs) body =
     pbind (body x) (\<lambda>err. case err of Some e \<Rightarrow> Ret (Some e) | None \<Rightarrow> for_err xs body)"

subsection \<open>Behaviours\<close>

text \<open>
  \<open>beh m out u\<close>: the program \<open>m\<close> can make exactly the calls of \<open>u\<close>, get the responses
  recorded there, and end with \<open>out\<close>.
\<close>

fun beh :: "('c, 'r, 'a) prog \<Rightarrow> 'a outcome \<Rightarrow> ('c, 'r) trace \<Rightarrow> bool" where
  "beh (Ret x) out u \<longleftrightarrow> out = Val x \<and> u = []"
| "beh (Panic e) out u \<longleftrightarrow> out = Panicked e \<and> u = []"
| "beh (Call c k) out [] \<longleftrightarrow> False"
| "beh (Call c k) out ((c', r) # u) \<longleftrightarrow> c = c' \<and> beh (k r) out u"

text \<open>
  An environment answers a call from the calls made so far; \<open>run\<close> evaluates a program in it.
\<close>

type_synonym ('c, 'r) environment = "('c, 'r) trace \<Rightarrow> 'c \<Rightarrow> 'r"

primrec run :: "('c, 'r) environment \<Rightarrow> ('c, 'r, 'a) prog \<Rightarrow> ('c, 'r) trace \<Rightarrow> 'a outcome \<times> ('c, 'r) trace" where
  "run E (Ret x) t = (Val x, [])"
| "run E (Panic e) t = (Panicked e, [])"
| "run E (Call c k) t =
     (let r = E t c; res = run E (k r) (t @ [(c, r)]) in (fst res, (c, r) # snd res))"

definition spec :: "('c, 'r, 'a) prog \<Rightarrow> ('a outcome \<Rightarrow> ('c, 'r) trace \<Rightarrow> bool) \<Rightarrow> bool" where
  "spec m Q \<longleftrightarrow> (\<forall>out u. beh m out u \<longrightarrow> Q out u)"

definition emits :: "(('c, 'r) trace \<Rightarrow> bool) \<Rightarrow> ('c, 'r, 'a) prog \<Rightarrow> bool" where
  "emits P m \<longleftrightarrow> spec m (\<lambda>_ u. P u)"

definition never_panics :: "('c, 'r, 'a) prog \<Rightarrow> bool" where
  "never_panics m \<longleftrightarrow> spec m (\<lambda>out _. \<exists>x. out = Val x)"

lemma beh_Call_iff: "beh (Call c k) out u \<longleftrightarrow> (\<exists>r u'. u = (c, r) # u' \<and> beh (k r) out u')"
  by (cases u) auto

text \<open>The equation for evaluation: the rest of the run appears once.\<close>

lemma run_Call: "run E (Call c k) t = apsnd (Cons (c, E t c)) (run E (k (E t c)) (t @ [(c, E t c)]))"
  by (simp add: Let_def apsnd_def map_prod_def split_beta)

declare run.simps(3) [simp del] run_Call [simp]

lemma run_beh: "beh m (fst (run E m t)) (snd (run E m t))"
  by (induction m arbitrary: t) simp_all

text \<open>Every behaviour is the run of some environment: \<open>beh\<close> is not weaker than \<open>run\<close>.\<close>

definition replay :: "('c, 'r) trace \<Rightarrow> ('c, 'r) environment" where
  "replay u t c = snd (u ! length t)"

lemma replay_next: "replay (t @ (c, r) # u) t c = r"
  by (simp add: replay_def nth_append)

lemma run_replay: "beh m out u \<Longrightarrow> run (replay (t @ u)) m t = (out, u)"
proof (induction m arbitrary: t u)
  case (Call c k)
  then obtain r u' where u: "u = (c, r) # u'" and b: "beh (k r) out u'"
    by (auto simp: beh_Call_iff)
  have "run (replay ((t @ [(c, r)]) @ u')) (k r) (t @ [(c, r)]) = (out, u')"
    by (rule Call.IH [OF _ b]) simp
  with u show ?case by (simp add: replay_next)
qed auto

lemma beh_iff_run: "beh m out u \<longleftrightarrow> (\<exists>E. run E m [] = (out, u))"
proof
  assume "beh m out u"
  then have "run (replay ([] @ u)) m [] = (out, u)" by (rule run_replay)
  then show "\<exists>E. run E m [] = (out, u)" by blast
next
  assume "\<exists>E. run E m [] = (out, u)"
  then obtain E where "run E m [] = (out, u)" ..
  then show "beh m out u" using run_beh [of m E "[]"] by simp
qed

lemma beh_total: "\<exists>out u. beh m out u"
  using run_beh by blast

subsection \<open>Monad laws\<close>

lemma pbind_assoc [simp]: "pbind (pbind m f) g = pbind m (\<lambda>x. pbind (f x) g)"
  by (induction m) auto

lemma pbind_Ret [simp]: "pbind m Ret = m"
  by (induction m) auto

lemma ptry_Ret [simp]: "ptry (Ret (Inr x)) f = f x" "ptry (Ret (Inl e)) f = Ret (Inl e)"
  by (simp_all add: ptry_def)

lemma ptry_Call [simp]: "ptry (Call c k) f = Call c (\<lambda>r. ptry (k r) f)"
  by (simp add: ptry_def)

lemma ptry_Panic [simp]: "ptry (Panic e) f = Panic e"
  by (simp add: ptry_def)

lemma foreach_append:
  "foreach (xs @ ys) s body =
     pbind (foreach xs s body) (\<lambda>res. case res of Inl e \<Rightarrow> Ret (Inl e) | Inr s' \<Rightarrow> foreach ys s' body)"
  by (induction xs arbitrary: s) (auto intro!: arg_cong2 [where f = pbind] split: sum.splits)

subsection \<open>The specification calculus\<close>

lemma spec_Ret [spec_simps]: "spec (Ret x) Q \<longleftrightarrow> Q (Val x) []"
  by (simp add: spec_def)

lemma spec_Panic [spec_simps]: "spec (Panic e) Q \<longleftrightarrow> Q (Panicked e) []"
  by (simp add: spec_def)

lemma spec_Call [spec_simps]:
  "spec (Call c k) Q \<longleftrightarrow> (\<forall>r. spec (k r) (\<lambda>out u. Q out ((c, r) # u)))"
  by (auto simp: spec_def beh_Call_iff)

lemma spec_pbind [spec_simps]:
  "spec (pbind m f) Q \<longleftrightarrow>
     spec m (\<lambda>out u. case out of
       Val x \<Rightarrow> spec (f x) (\<lambda>out' u'. Q out' (u @ u'))
     | Panicked e \<Rightarrow> Q (Panicked e) u)"
  by (induction m arbitrary: Q) (simp_all add: spec_simps cong: outcome.case_cong)

lemma spec_pdefer [spec_simps]:
  "spec (pdefer m d) Q \<longleftrightarrow>
     spec m (\<lambda>out u. spec d (\<lambda>out' u'. case out' of
       Val _ \<Rightarrow> Q out (u @ u') | Panicked e \<Rightarrow> Q (Panicked e) (u @ u')))"
  by (induction m arbitrary: Q) (simp_all add: spec_simps cong: outcome.case_cong)

lemma spec_precover [spec_simps]:
  "spec (precover m h) Q \<longleftrightarrow>
     spec m (\<lambda>out u. case out of
       Val x \<Rightarrow> Q (Val x) u
     | Panicked e \<Rightarrow> spec (h e) (\<lambda>out' u'. Q out' (u @ u')))"
  by (induction m arbitrary: Q) (simp_all add: spec_simps cong: outcome.case_cong)

lemma spec_ptry [spec_simps]:
  "spec (ptry m f) Q \<longleftrightarrow>
     spec m (\<lambda>out u. case out of
       Val (Inr x) \<Rightarrow> spec (f x) (\<lambda>out' u'. Q out' (u @ u'))
     | Val (Inl e) \<Rightarrow> Q (Val (Inl e)) u
     | Panicked e \<Rightarrow> Q (Panicked e) u)"
  by (auto simp: ptry_def spec_pbind spec_Ret fun_eq_iff intro!: arg_cong [where f = "spec m"]
      split: outcome.splits sum.splits)

lemma spec_mono: "spec m P \<Longrightarrow> (\<And>out u. P out u \<Longrightarrow> Q out u) \<Longrightarrow> spec m Q"
  by (auto simp: spec_def)

lemma spec_conj: "spec m P \<Longrightarrow> spec m Q \<Longrightarrow> spec m (\<lambda>out u. P out u \<and> Q out u)"
  by (auto simp: spec_def)

lemma specD: "spec m Q \<Longrightarrow> beh m out u \<Longrightarrow> Q out u"
  by (auto simp: spec_def)

lemma spec_True [simp]: "spec m (\<lambda>_ _. True)"
  by (simp add: spec_def)

lemma specI: "(\<And>out u. beh m out u \<Longrightarrow> Q out u) \<Longrightarrow> spec m Q"
  by (simp add: spec_def)

lemma spec_pbindI:
  assumes "spec m P"
    and "\<And>x u. P (Val x) u \<Longrightarrow> spec (f x) (\<lambda>out u'. Q out (u @ u'))"
    and "\<And>e u. P (Panicked e) u \<Longrightarrow> Q (Panicked e) u"
  shows "spec (pbind m f) Q"
  unfolding spec_pbind
  using assms(1) by (rule spec_mono) (auto intro: assms(2,3) split: outcome.split)

lemma spec_ptryI:
  assumes "spec m P"
    and "\<And>x u. P (Val (Inr x)) u \<Longrightarrow> spec (f x) (\<lambda>out u'. Q out (u @ u'))"
    and "\<And>e u. P (Val (Inl e)) u \<Longrightarrow> Q (Val (Inl e)) u"
    and "\<And>e u. P (Panicked e) u \<Longrightarrow> Q (Panicked e) u"
  shows "spec (ptry m f) Q"
  unfolding spec_ptry
  using assms(1) by (rule spec_mono) (auto intro: assms(2,3,4) split: outcome.split sum.split)

lemma beh_pbind:
  "beh (pbind m f) out u \<longleftrightarrow>
     (\<exists>u1 u2 x. beh m (Val x) u1 \<and> beh (f x) out u2 \<and> u = u1 @ u2)
   \<or> (\<exists>e. beh m (Panicked e) u \<and> out = Panicked e)"
proof (induction m arbitrary: u)
  case (Ret x)
  then show ?case by auto
next
  case (Panic e)
  then show ?case by auto
next
  case (Call c k)
  have *: "(\<exists>u1 u2 x. beh (Call c k) (Val x) u1 \<and> beh (f x) out u2 \<and> u = u1 @ u2) \<longleftrightarrow>
      (\<exists>r u1 u2 x. u = (c, r) # u1 @ u2 \<and> beh (k r) (Val x) u1 \<and> beh (f x) out u2)"
    by (fastforce simp: beh_Call_iff)
  show ?case unfolding * by (simp add: beh_Call_iff Call.IH) blast
qed

text \<open>
  A loop: \<open>I s n u\<close> relates the state after the first \<open>n\<close> rounds with what was done so far.
\<close>

lemma spec_foreach:
  assumes init: "I s xs []"
    and step: "\<And>x ys t u. I t (x # ys) u \<Longrightarrow>
      spec (body x t) (\<lambda>out u'. case out of
        Val (Inr t') \<Rightarrow> I t' ys (u @ u')
      | Val (Inl e) \<Rightarrow> Q (Val (Inl e)) (u @ u')
      | Panicked e \<Rightarrow> Q (Panicked e) (u @ u'))"
    and fin: "\<And>t u. I t [] u \<Longrightarrow> Q (Val (Inr t)) u"
  shows "spec (foreach xs s body) Q"
proof -
  have "I s xs u \<Longrightarrow> spec (foreach xs s body) (\<lambda>out u'. Q out (u @ u'))" for u
  proof (induction xs arbitrary: s u)
    case Nil
    then show ?case by (simp add: spec_simps fin)
  next
    case (Cons x xs)
    show ?case
      unfolding foreach.simps
    proof (rule spec_pbindI [OF step [OF Cons.prems]])
      fix res u'
      assume *: "case Val res of Val (Inr t') \<Rightarrow> I t' xs (u @ u')
        | Val (Inl e) \<Rightarrow> Q (Val (Inl e)) (u @ u') | Panicked e \<Rightarrow> Q (Panicked e) (u @ u')"
      show "spec (case res of Inl e \<Rightarrow> Ret (Inl e) | Inr s' \<Rightarrow> foreach xs s' body)
          (\<lambda>out u''. Q out (u @ u' @ u''))"
        using * Cons.IH [of _ "u @ u'"] by (cases res) (simp_all add: spec_simps)
    qed simp
  qed
  from this [OF init] show ?thesis by simp
qed

subsection \<open>Properties of traces that are closed under concatenation\<close>

text \<open>
  The interface between a trace property and the programs: a property that holds of the empty
  trace and of the concatenation of two traces that have it is inherited by every program whose
  parts have it.
\<close>

locale trace_law =
  fixes P :: "('c \<times> 'r) list \<Rightarrow> bool"
  assumes law_Nil: "P []"
    and law_append: "P u \<Longrightarrow> P v \<Longrightarrow> P (u @ v)"
begin

lemma emits_Ret: "emits P (Ret x)"
  by (simp add: emits_def spec_simps law_Nil)

lemma emits_Panic: "emits P (Panic e)"
  by (simp add: emits_def spec_simps law_Nil)

lemma emits_Call:
  assumes "\<And>r. P [(c, r)]" and "\<And>r. emits P (k r)"
  shows "emits P (Call c k)"
  unfolding emits_def spec_Call
proof
  fix r
  have "spec (k r) (\<lambda>_ u. P u)" using assms(2) by (simp add: emits_def)
  then show "spec (k r) (\<lambda>out u. P ((c, r) # u))"
    by (rule spec_mono) (use assms(1) law_append [of "[(c, r)]"] in simp)
qed

lemma emits_pbind:
  assumes "emits P m" and "\<And>x. emits P (f x)"
  shows "emits P (pbind m f)"
  unfolding emits_def
  by (rule spec_pbindI [OF assms(1) [unfolded emits_def]])
    (use assms(2) law_append in \<open>auto simp: emits_def intro: spec_mono\<close>)

lemma emits_ptry:
  assumes "emits P m" and "\<And>x. emits P (f x)"
  shows "emits P (ptry m f)"
  unfolding ptry_def
  by (rule emits_pbind [OF assms(1)]) (simp add: assms(2) emits_Ret split: sum.split)

lemma emits_pdefer:
  assumes "emits P m" and "emits P d"
  shows "emits P (pdefer m d)"
proof -
  have d: "P u \<Longrightarrow> spec d (\<lambda>_ u'. P (u @ u'))" for u
    using assms(2) unfolding emits_def by (rule spec_mono) (rule law_append)
  show ?thesis
    using assms(1) unfolding emits_def spec_pdefer
    by (rule spec_mono) (auto dest!: d intro: spec_mono split: outcome.split)
qed

lemma emits_precover:
  assumes "emits P m" and "\<And>e. emits P (h e)"
  shows "emits P (precover m h)"
proof -
  have h: "P u \<Longrightarrow> spec (h e) (\<lambda>_ u'. P (u @ u'))" for u e
    using assms(2) [of e] unfolding emits_def by (rule spec_mono) (rule law_append)
  show ?thesis
    using assms(1) unfolding emits_def spec_precover
    by (rule spec_mono) (simp add: h split: outcome.split)
qed

lemma emits_foreach:
  assumes "\<And>x s. emits P (body x s)"
  shows "emits P (foreach xs s body)"
  by (induction xs arbitrary: s)
    (auto intro!: emits_pbind emits_Ret assms split: sum.split)

lemma emits_for_do:
  assumes "\<And>x. emits P (body x)"
  shows "emits P (for_do xs body)"
  by (induction xs) (auto intro!: emits_pbind emits_Ret assms)

lemma emits_for_err:
  assumes "\<And>x. emits P (body x)"
  shows "emits P (for_err xs body)"
  by (induction xs) (auto intro!: emits_pbind emits_Ret assms split: option.split)

lemma emits_if: "(b \<Longrightarrow> emits P m) \<Longrightarrow> (\<not> b \<Longrightarrow> emits P n) \<Longrightarrow> emits P (if b then m else n)"
  by simp

lemma emits_case_sum:
  "(\<And>e. emits P (f e)) \<Longrightarrow> (\<And>x. emits P (g x)) \<Longrightarrow> emits P (case s of Inl e \<Rightarrow> f e | Inr x \<Rightarrow> g x)"
  by (cases s) auto

lemma emits_case_option:
  "emits P m \<Longrightarrow> (\<And>x. emits P (g x)) \<Longrightarrow> emits P (case s of None \<Rightarrow> m | Some x \<Rightarrow> g x)"
  by (cases s) auto

lemma emits_case_prod: "(\<And>a b. emits P (f a b)) \<Longrightarrow> emits P (case p of (a, b) \<Rightarrow> f a b)"
  by (cases p) auto

lemma emits_case_prod_app:
  "(\<And>a b. emits P (f a b s)) \<Longrightarrow> emits P ((case p of (a, b) \<Rightarrow> f a b) s)"
  by (cases p) auto

lemma emits_let: "(\<And>x. emits P (f x)) \<Longrightarrow> emits P (let x = v in f x)"
  by simp

lemmas emits_rules = emits_Ret emits_Panic emits_pbind emits_ptry emits_pdefer emits_precover
  emits_foreach emits_for_do emits_for_err emits_if emits_case_sum emits_case_option
  emits_case_prod emits_case_prod_app emits_let

end

lemma emitsD: "emits P m \<Longrightarrow> beh m out u \<Longrightarrow> P u"
  by (auto simp: emits_def spec_def)

lemma emits_mono: "emits P m \<Longrightarrow> (\<And>u. P u \<Longrightarrow> Q u) \<Longrightarrow> emits Q m"
  unfolding emits_def by (erule spec_mono) simp

text \<open>The calls a program makes, whatever the responses.\<close>

definition all_calls :: "('c \<Rightarrow> bool) \<Rightarrow> ('c \<times> 'r) list \<Rightarrow> bool" where
  "all_calls F u \<longleftrightarrow> list_all (\<lambda>(c, _). F c) u"

interpretation calls: trace_law "all_calls F" for F :: "'c \<Rightarrow> bool"
  by unfold_locales (auto simp: all_calls_def)

lemma all_calls_simps [simp]:
  "all_calls F []"
  "all_calls F ((c, r) # u) \<longleftrightarrow> F c \<and> all_calls F u"
  "all_calls F (u @ v) \<longleftrightarrow> all_calls F u \<and> all_calls F v"
  by (auto simp: all_calls_def)

lemma all_calls_set: "all_calls F u \<longleftrightarrow> (\<forall>(c, r) \<in> set u. F c)"
  by (auto simp: all_calls_def list_all_iff)

lemma all_calls_mem: "all_calls F u \<Longrightarrow> (c, r) \<in> set u \<Longrightarrow> F c"
  by (auto simp: all_calls_set)

subsection \<open>Taking behaviours apart\<close>

lemma beh_ptry:
  "beh (ptry m f) out u \<longleftrightarrow>
     (\<exists>u1 u2 x. beh m (Val (Inr x)) u1 \<and> beh (f x) out u2 \<and> u = u1 @ u2)
   \<or> (\<exists>e. beh m (Val (Inl e)) u \<and> out = Val (Inl e))
   \<or> (\<exists>e. beh m (Panicked e) u \<and> out = Panicked e)"
proof (induction m arbitrary: u)
  case (Ret res)
  then show ?case by (cases res) auto
next
  case (Panic e)
  then show ?case by auto
next
  case (Call c k)
  have *: "(\<exists>u1 u2 x. beh (Call c k) (Val (Inr x)) u1 \<and> beh (f x) out u2 \<and> u = u1 @ u2) \<longleftrightarrow>
      (\<exists>r u1 u2 x. u = (c, r) # u1 @ u2 \<and> beh (k r) (Val (Inr x)) u1 \<and> beh (f x) out u2)"
    by (fastforce simp: beh_Call_iff)
  show ?case unfolding * by (simp add: beh_Call_iff Call.IH) blast
qed

lemma ex_outcome: "(\<exists>out. P out) \<longleftrightarrow> (\<exists>x. P (Val x)) \<or> (\<exists>e. P (Panicked e))"
proof
  assume "\<exists>out. P out"
  then obtain out where "P out" ..
  then show "(\<exists>x. P (Val x)) \<or> (\<exists>e. P (Panicked e))" by (cases out) auto
qed auto

lemma beh_pdefer:
  "beh (pdefer m d) out u \<longleftrightarrow>
     (\<exists>u1 u2 out1 out2. beh m out1 u1 \<and> beh d out2 u2 \<and> u = u1 @ u2
        \<and> out = (case out2 of Val _ \<Rightarrow> out1 | Panicked e \<Rightarrow> Panicked e))"
proof (induction m arbitrary: u)
  case (Ret x)
  then show ?case by (auto simp: beh_pbind ex_outcome)
next
  case (Panic p)
  then show ?case by (auto simp: beh_pbind ex_outcome)
next
  case (Call c k)
  have *: "(\<exists>u1 u2 out1 out2. beh (Call c k) out1 u1 \<and> beh d out2 u2 \<and> u = u1 @ u2
        \<and> out = (case out2 of Val _ \<Rightarrow> out1 | Panicked e \<Rightarrow> Panicked e)) \<longleftrightarrow>
      (\<exists>r u1 u2 out1 out2. u = (c, r) # u1 @ u2 \<and> beh (k r) out1 u1 \<and> beh d out2 u2
        \<and> out = (case out2 of Val _ \<Rightarrow> out1 | Panicked e \<Rightarrow> Panicked e))"
    by (fastforce simp: beh_Call_iff)
  show ?case unfolding * by (simp add: beh_Call_iff Call.IH) blast
qed

text \<open>A program is deterministic in its responses: a prefix of the trace fixes what was returned.\<close>

lemma beh_pbind_prefix:
  "beh m (Val x) u1 \<Longrightarrow> beh (pbind m f) out (u1 @ u2) \<Longrightarrow> beh (f x) out u2"
proof (induction m arbitrary: u1)
  case (Call c k)
  then obtain r w where u1: "u1 = (c, r) # w" and w: "beh (k r) (Val x) w"
    by (auto simp: beh_Call_iff)
  have "beh (pbind (k r) f) out (w @ u2)" using Call.prems(2) u1 by simp
  with Call.IH [OF _ w] show ?case by simp
qed auto

text \<open>The step \<open>if err != nil { return err }\<close> on the way to a success.\<close>

lemma beh_err_steps:
  "beh (pbind m (\<lambda>err. case err of Some e \<Rightarrow> Ret (Inl e) | None \<Rightarrow> k)) (Val (Inr x)) u \<longleftrightarrow>
     (\<exists>u1 u2. u = u1 @ u2 \<and> beh m (Val None) u1 \<and> beh k (Val (Inr x)) u2)"
  "beh (pbind m (\<lambda>err. case err of Some e \<Rightarrow> Ret (Some e) | None \<Rightarrow> k')) (Val None) u \<longleftrightarrow>
     (\<exists>u1 u2. u = u1 @ u2 \<and> beh m (Val None) u1 \<and> beh k' (Val None) u2)"
  by (auto simp: beh_pbind split_option_ex)

text \<open>A call that the first part of a program never makes is made by the second part.\<close>

lemma beh_skip:
  assumes "beh (pbind p f) out u" and "(c, r) \<in> set u" and "emits (all_calls F) p" and "\<not> F c"
  obtains u1 u2 x where "u = u1 @ u2" "beh p (Val x) u1" "all_calls F u1" "beh (f x) out u2" "(c, r) \<in> set u2"
proof -
  have none: "beh p o1 v \<Longrightarrow> all_calls F v \<and> (c, r) \<notin> set v" for o1 v
  proof -
    assume "beh p o1 v"
    then have "all_calls F v" by (rule emitsD [OF assms(3)])
    with assms(4) show "all_calls F v \<and> (c, r) \<notin> set v" by (auto simp: all_calls_set)
  qed
  with assms(1,2) obtain u1 u2 x where "u = u1 @ u2" "beh p (Val x) u1" "beh (f x) out u2"
    unfolding beh_pbind by blast
  with none assms(2) that show ?thesis by auto
qed

lemma beh_skip_err:
  assumes "beh (pbind p (\<lambda>err. case err of Some e \<Rightarrow> Ret (Some e) | None \<Rightarrow> k)) out u" and "(c, r) \<in> set u"
    and "emits (all_calls F) p" and "\<not> F c"
  obtains u1 u2 where "u = u1 @ u2" "beh p (Val None) u1" "all_calls F u1" "beh k out u2" "(c, r) \<in> set u2"
  using assms(1-4)
proof (rule beh_skip)
  fix u1 u2 err
  assume "u = u1 @ u2" "beh p (Val err) u1" "all_calls F u1"
    "beh (case err of Some e \<Rightarrow> Ret (Some e) | None \<Rightarrow> k) out u2" "(c, r) \<in> set u2"
  then show thesis by (cases err) (auto intro: that)
qed

lemma run_pbind_Val:
  "fst (run E p t) = Val x \<Longrightarrow>
     run E (pbind p f) t = apsnd (append (snd (run E p t))) (run E (f x) (t @ snd (run E p t)))"
  by (induction p arbitrary: t) (auto simp: apsnd_def map_prod_def split_beta)

end
