(* ===== verification/Go_Stdlib.thy ===== *)
theory Go_Stdlib
  imports Go_Prelude
begin

section \<open>The parts of the Go standard library the sources use\<close>

text \<open>
  Strings are byte lists.  Quotes are named because the SQL text is full of them: \<^verbatim>\<open>dquote\<close> and
  \<^verbatim>\<open>squote\<close> are the formats \<^verbatim>\<open>\"%s\"\<close> and \<^verbatim>\<open>'%s'\<close>.  The theory also holds the iteration order
  of Go maps: a \<open>range\<close> over a map visits the entries in an unspecified order, which the
  environment chooses by a number that \<^verbatim>\<open>shuffle\<close> turns into a permutation.
\<close>

abbreviation dq :: char where "dq \<equiv> CHR 0x22"
abbreviation sq :: char where "sq \<equiv> CHR 0x27"

definition dquote :: "string \<Rightarrow> string" where
  "dquote s = dq # s @ [dq]"

definition squote :: "string \<Rightarrow> string" where
  "squote s = sq # s @ [sq]"

subsection \<open>Package strings\<close>

fun split_on :: "char \<Rightarrow> string \<Rightarrow> string list" where
  "split_on c [] = [[]]"
| "split_on c (x # xs) =
     (if x = c then [] # split_on c xs
      else case split_on c xs of [] \<Rightarrow> [[x]] | w # ws \<Rightarrow> (x # w) # ws)"

definition replace_char :: "char \<Rightarrow> string \<Rightarrow> string \<Rightarrow> string" where
  "replace_char c new s = concat (map (\<lambda>x. if x = c then new else [x]) s)"

definition has_prefix :: "string \<Rightarrow> string \<Rightarrow> bool" where
  "has_prefix s p \<longleftrightarrow> take (length p) s = p"

text \<open>\<open>strings.Contains\<close>, with the text that is looked for first.\<close>

fun contains_sub :: "string \<Rightarrow> string \<Rightarrow> bool" where
  "contains_sub p [] = (p = [])"
| "contains_sub p (c # cs) = (has_prefix (c # cs) p \<or> contains_sub p cs)"

fun join_with :: "string \<Rightarrow> string list \<Rightarrow> string" where
  "join_with sep [] = []"
| "join_with sep [x] = x"
| "join_with sep (x # y # ys) = x @ sep @ join_with sep (y # ys)"

definition upper_char :: "char \<Rightarrow> char" where
  "upper_char c = (let n = of_char c :: nat in if 97 \<le> n \<and> n \<le> 122 then char_of (n - 32) else c)"

definition lower_char :: "char \<Rightarrow> char" where
  "lower_char c = (let n = of_char c :: nat in if 65 \<le> n \<and> n \<le> 90 then char_of (n + 32) else c)"

definition to_upper :: "string \<Rightarrow> string" where
  "to_upper = map upper_char"

definition to_lower :: "string \<Rightarrow> string" where
  "to_lower = map lower_char"

lemma split_on_nonempty [simp]: "split_on c s \<noteq> []"
  by (induction s) (auto split: list.splits)

lemma hd_split_on: "hd (split_on c s) = takeWhile (\<lambda>x. x \<noteq> c) s"
proof (induction s)
  case (Cons x xs)
  then show ?case by (cases "split_on c xs") auto
qed simp

lemma length_split_on: "length (split_on c s) = Suc (count_list s c)"
proof (induction s)
  case (Cons x xs)
  then show ?case by (cases "split_on c xs") auto
qed simp

lemma join_split_on: "join_with [c] (split_on c s) = s"
proof (induction s)
  case (Cons x xs)
  then show ?case by (cases "split_on c xs" rule: remdups_adj.cases) auto
qed simp

lemma split_on_free: "c \<notin> set s \<Longrightarrow> split_on c s = [s]"
  by (induction s) auto

lemma split_on_append: "c \<notin> set s \<Longrightarrow> split_on c (s @ c # t) = s # split_on c t"
  by (induction s) auto

lemma split_join: "as \<noteq> [] \<Longrightarrow> \<forall>a \<in> set as. c \<notin> set a \<Longrightarrow> split_on c (join_with [c] as) = as"
  by (induction as rule: remdups_adj.induct) (auto simp: split_on_free split_on_append)

lemma replace_char_simps [simp]:
  "replace_char c new [] = []"
  "replace_char c new (x # xs) = (if x = c then new else [x]) @ replace_char c new xs"
  "replace_char c new (s @ t) = replace_char c new s @ replace_char c new t"
  by (simp_all add: replace_char_def)

lemma replace_char_id: "c \<notin> set s \<Longrightarrow> replace_char c new s = s"
  by (induction s) auto

lemma set_replace_char_empty: "c \<notin> set (replace_char c [] s)"
  by (induction s) auto

lemma length_to_lower [simp]: "length (to_lower s) = length s"
  by (simp add: to_lower_def)

lemma length_quotes [simp]: "length (dquote s) = length s + 2" "length (squote s) = length s + 2"
  by (simp_all add: dquote_def squote_def)

subsection \<open>Package strconv\<close>

definition digit_char :: "nat \<Rightarrow> char" where
  "digit_char n = char_of (48 + n mod 10)"

fun nat_str :: "nat \<Rightarrow> string" where
  "nat_str n = (if n < 10 then [digit_char n] else nat_str (n div 10) @ [digit_char n])"

declare nat_str.simps [simp del]

definition itoa :: "int \<Rightarrow> string" where
  "itoa i = (if i < 0 then CHR 0x2D # nat_str (nat (- i)) else nat_str (nat i))"

definition is_digit :: "char \<Rightarrow> bool" where
  "is_digit c \<longleftrightarrow> (let n = of_char c :: nat in 48 \<le> n \<and> n \<le> 57)"

definition digit_val :: "char \<Rightarrow> nat" where
  "digit_val c = of_char c - 48"

definition digits_val :: "string \<Rightarrow> nat" where
  "digits_val s = foldl (\<lambda>n c. 10 * n + digit_val c) 0 s"

text \<open>
  \<open>strconv.Atoi\<close> on a 64-bit platform: the value and whether the error is nil.  A syntax error
  gives 0, a value out of range the nearest bound.
\<close>

definition atoi :: "string \<Rightarrow> int \<times> bool" where
  "atoi s =
     (let neg = (s \<noteq> [] \<and> hd s = CHR 0x2D);
          body = (if s \<noteq> [] \<and> (hd s = CHR 0x2D \<or> hd s = CHR 0x2B) then tl s else s)
      in if body = [] \<or> \<not> list_all is_digit body then (0, False)
         else let n = int (digits_val body) in
           if neg then (if n > 2 ^ 63 then (- (2 ^ 63), False) else (- n, True))
           else if n > 2 ^ 63 - 1 then (2 ^ 63 - 1, False) else (n, True))"

lemma digit_char_val: "n < 10 \<Longrightarrow> is_digit (digit_char n) \<and> digit_val (digit_char n) = n"
  by (simp add: digit_char_def is_digit_def digit_val_def Let_def)

lemma nat_str_digits: "list_all is_digit (nat_str n) \<and> digits_val (nat_str n) = n \<and> nat_str n \<noteq> []"
proof (induction n rule: nat_str.induct)
  case (1 n)
  have d: "is_digit (digit_char n)" "digit_val (digit_char n) = n mod 10"
    using digit_char_val [of "n mod 10"] by (simp_all add: digit_char_def)
  show ?case
  proof (cases "n < 10")
    case True
    with d show ?thesis by (subst (1 2 3) nat_str.simps) (simp add: digits_val_def)
  next
    case False
    with 1 d show ?thesis
      by (subst (1 2 3) nat_str.simps) (simp add: digits_val_def)
  qed
qed

lemma atoi_itoa:
  assumes "- (2 ^ 63) \<le> i" and "i < 2 ^ 63"
  shows "atoi (itoa i) = (i, True)"
proof -
  have hd: "hd (nat_str n) \<noteq> CHR 0x2D" "hd (nat_str n) \<noteq> CHR 0x2B" for n
    using nat_str_digits [of n] by (cases "nat_str n"; force simp: is_digit_def)+
  show ?thesis
    using assms nat_str_digits [of "nat i"] nat_str_digits [of "nat (- i)"] hd [of "nat i"]
    by (auto simp: atoi_def itoa_def Let_def)
qed

subsection \<open>Go maps\<close>

text \<open>
  A map is an association list with distinct keys; the list order is not observable, since every
  \<open>range\<close> goes through \<^verbatim>\<open>shuffle\<close> with a number of the environment's choice.
\<close>

function shuffle :: "nat \<Rightarrow> 'a list \<Rightarrow> 'a list" where
  "shuffle n xs =
     (if xs = [] then []
      else let i = n mod length xs in
        xs ! i # shuffle (n div length xs) (take i xs @ drop (Suc i) xs))"
  by pat_completeness auto
termination
  by (relation "measure (\<lambda>(n, xs). length xs)") 
    (auto simp: min_def, meson length_greater_0_conv mod_less_divisor not_le)

declare shuffle.simps [simp del]

lemma shuffle_Nil [simp]: "shuffle n [] = []"
  by (simp add: shuffle.simps)

lemma shuffle_one [simp]: "shuffle n [x] = [x]"
  by (simp add: shuffle.simps)

lemma mset_take_nth_drop: "i < length xs \<Longrightarrow> mset (xs ! i # take i xs @ drop (Suc i) xs) = mset xs"
  by (metis id_take_nth_drop mset_append mset.simps(2) union_mset_add_mset_right)

lemma mset_shuffle [simp]: "mset (shuffle n xs) = mset xs"
proof (induction n xs rule: shuffle.induct)
  case (1 n xs)
  show ?case
  proof (cases "xs = []")
    case False
    let ?i = "n mod length xs"
    have "?i < length xs" using False by simp
    from mset_take_nth_drop [OF this] False 1 show ?thesis
      by (subst shuffle.simps) (simp add: Let_def)
  qed simp
qed

lemma set_shuffle [simp]: "set (shuffle n xs) = set xs"
  using mset_eq_setD [OF mset_shuffle] .

lemma length_shuffle [simp]: "length (shuffle n xs) = length xs"
  using mset_eq_length [OF mset_shuffle] .

lemma shuffle_eq_Nil [simp]: "shuffle n xs = [] \<longleftrightarrow> xs = []"
  using length_shuffle [of n xs] by (metis length_0_conv)

lemma distinct_shuffle [simp]: "distinct (shuffle n xs) \<longleftrightarrow> distinct xs"
  by (metis mset_eq_imp_distinct_iff mset_shuffle)

lemma distinct_keys_shuffle [simp]: "distinct (map fst (shuffle n xs)) \<longleftrightarrow> distinct (map fst xs)"
  by (metis mset_eq_imp_distinct_iff mset_map mset_shuffle)

text \<open>Every order is possible.\<close>

lemma shuffle_onto: "mset ys = mset xs \<Longrightarrow> \<exists>n. shuffle n xs = ys"
proof (induction ys arbitrary: xs)
  case Nil
  then show ?case by simp
next
  case (Cons y ys)
  then have "y \<in> set xs" by (metis list.set_intros(1) mset_eq_setD)
  then obtain i where i: "i < length xs" "xs ! i = y" by (meson in_set_conv_nth)
  have "mset ys = mset (take i xs @ drop (Suc i) xs)"
    using mset_take_nth_drop [OF i(1)] Cons.prems i(2)
    by (metis add_mset_remove_trivial mset.simps(2))
  then obtain m where m: "shuffle m (take i xs @ drop (Suc i) xs) = ys"
    using Cons.IH by blast
  have "shuffle (m * length xs + i) xs = y # ys"
    using i m by (subst shuffle.simps) (auto simp: Let_def)
  then show ?case by blast
qed

lemma map_of_shuffle: "distinct (map fst xs) \<Longrightarrow> map_of (shuffle n xs) = map_of xs"
  by (rule map_of_eqI) (auto simp: fun_eq_iff intro!: map_of_eqI)

end
