(* ===== verification/Sql_Helper.thy ===== *)
theory Sql_Helper
  imports Go_Stdlib
begin

section \<open>SQL text of the DBaaS adapter\<close>

text \<open>
  Models \<^verbatim>\<open>services/dbaas-adapter/adapter/basic/sql_helper.go\<close>: every statement the adapter
  sends, as text, with the quoting the source uses.  The reference definitions at the end are
  PostgreSQL's lexical rules for quoted identifiers and string literals; the lemmas about
  \<^verbatim>\<open>escapeInputValue\<close> are stated against them.
\<close>

subsection \<open>Constants\<close>

definition OracleFdw :: string where "OracleFdw = ''oracle_fdw''"
definition Dblink :: string where "Dblink = ''dblink''"

definition protectedRoles :: "string list" where
  "protectedRoles = [squote ''rdsadmin'', squote ''cloudsqladmin'', squote ''azuresu'']"

definition dblinkFuncs :: "string list" where
  "dblinkFuncs = [''dblink_connect_u(text)'', ''dblink_connect_u(text, text)'']"

definition crParamsKeys :: "string list" where
  "crParamsKeys = [''OWNER'', ''TEMPLATE'', ''ENCODING'', ''LOCALE'', ''LC_COLLATE'',
     ''LC_CTYPE'', ''TABLESPACE'', ''ALLOW_CONNECTIONS'', ''CONNECTION LIMIT'', ''IS_TEMPLATE'']"

definition getDatabases :: string where
  "getDatabases = ''SELECT DATNAME FROM pg_database;''"
definition deleteMetaData :: string where
  "deleteMetaData = ''DELETE FROM _DBAAS_METADATA''"
definition insertIntoMetaTable :: string where
  "insertIntoMetaTable = ''INSERT INTO _DBAAS_METADATA VALUES ($1, $2)''"
definition selectPostgresAvailableExtensions :: string where
  "selectPostgresAvailableExtensions = ''SELECT NAME FROM PG_AVAILABLE_EXTENSIONS''"
definition createMetaTable :: string where
  "createMetaTable = ''CREATE TABLE IF NOT EXISTS public._DBAAS_METADATA (key varchar(256) PRIMARY KEY, value json)''"
definition getUser :: string where
  "getUser = ''SELECT 1 FROM pg_roles WHERE rolname = $1;''"
definition getDatabase :: string where
  "getDatabase = ''SELECT 1 FROM pg_database WHERE datname = $1;''"
definition dropConnectionsToDb :: string where
  "dropConnectionsToDb = ''SELECT pg_terminate_backend(pg_stat_activity.pid) FROM pg_stat_activity WHERE datname = $1;''"
definition terminateListenConnections :: string where
  "terminateListenConnections =
     ''SELECT pg_terminate_backend(pg_stat_activity.pid) FROM pg_stat_activity WHERE pid <> pg_backend_pid() AND (query LIKE '' @ squote ''%listen%''
     @ '' OR query LIKE '' @ squote ''%LISTEN%'' @ '') AND wait_event = '' @ squote ''ClientWrite''
     @ '' AND state_change IS NOT NULL AND (now() - pg_stat_activity.state_change) > interval '' @ squote ''1 second'' @ '';''"
definition prohibitConnectionsToDb :: string where
  "prohibitConnectionsToDb = ''UPDATE pg_database SET datallowconn = false WHERE datname = $1;''"
definition prohibitConnectionsToDbExt :: "string \<Rightarrow> string" where
  "prohibitConnectionsToDbExt dbName = ''ALTER DATABASE '' @ dquote dbName @ '' WITH ALLOW_CONNECTIONS false;''"
definition getDependenceDbForRole :: string where
  "getDependenceDbForRole =
     ''SELECT distinct datname FROM pg_database WHERE has_database_privilege($1, datname, '' @ squote ''CREATE''
     @ '') or oid in (select dbid from pg_shdepend join pg_roles on pg_shdepend.refobjid = pg_roles.oid where rolname =$2);''"
definition dropUserConnectionsToDb :: string where
  "dropUserConnectionsToDb = ''SELECT pg_terminate_backend(pg_stat_activity.pid) FROM pg_stat_activity WHERE usename = $1;''"
definition getOwnerForMetaData :: string where
  "getOwnerForMetaData = ''select tableowner from pg_tables where tablename = '' @ squote ''_dbaas_metadata'' @ '';''"
definition getMetadata :: string where
  "getMetadata = ''SELECT value FROM _DBAAS_METADATA where key = $1;''"
definition getAllMetadata :: string where
  "getAllMetadata = ''SELECT * FROM _DBAAS_METADATA;''"
definition getConnectionLimitFromTemplate1 :: string where
  "getConnectionLimitFromTemplate1 = ''select datconnlimit::text from pg_database where datname = '' @ squote ''template1'' @ '';''"
definition existsRollbackTransactions :: string where
  "existsRollbackTransactions = ''SELECT EXISTS (SELECT 1 FROM pg_prepared_xacts WHERE database = $1);''"
definition selectPreparedTransactions :: string where
  "selectPreparedTransactions = ''SELECT gid FROM pg_prepared_xacts WHERE database = $1;''"

subsection \<open>Statements\<close>

definition escapeInputValue :: "string \<Rightarrow> string" where
  "escapeInputValue value = replace_char sq [sq, sq] (replace_char dq [dq, dq] value)"

text \<open>\<open>parameters\<close> is the map in the order in which the loop visits it.\<close>

definition createDatabase :: "string \<Rightarrow> (string \<times> string) list \<Rightarrow> string" where
  "createDatabase dbName parameters =
     ''CREATE DATABASE '' @ dquote (escapeInputValue dbName)
     @ (if parameters = [] then []
        else '' WITH'' @ concat (map (\<lambda>(k, v).
            if k = ''connection limit'' then '' '' @ k @ ''='' @ itoa (fst (atoi v))
            else '' '' @ k @ ''='' @ squote (escapeInputValue v)) parameters))
     @ '';''"

definition createUser :: "string \<Rightarrow> string \<Rightarrow> string" where
  "createUser userName password = ''CREATE USER '' @ dquote userName @ '' WITH PASSWORD '' @ squote password"

definition createSchema :: "string \<Rightarrow> string" where
  "createSchema schema = ''CREATE SCHEMA IF NOT EXISTS '' @ dquote (escapeInputValue schema)"

definition grantAllRightsOnDatabase :: "string \<Rightarrow> string \<Rightarrow> string" where
  "grantAllRightsOnDatabase dbName userName =
     ''GRANT ALL PRIVILEGES ON DATABASE '' @ dquote dbName @ '' TO '' @ dquote userName @ '';''"

definition grantSchemaCreate :: "string \<Rightarrow> string \<Rightarrow> string" where
  "grantSchemaCreate schema userName = ''GRANT CREATE ON SCHEMA '' @ dquote schema @ '' TO '' @ dquote userName @ '';''"

definition grantSchemaUsage :: "string \<Rightarrow> string \<Rightarrow> string" where
  "grantSchemaUsage schema userName = ''GRANT USAGE ON SCHEMA '' @ dquote schema @ '' TO '' @ dquote userName @ '';''"

definition revokeRights :: string where
  "revokeRights = ''REVOKE CREATE ON SCHEMA public FROM public;''"

definition dropDatabase :: "string \<Rightarrow> string" where
  "dropDatabase dbName = ''DROP DATABASE IF EXISTS '' @ dquote dbName @ '';''"

definition dropUser :: "string \<Rightarrow> string" where
  "dropUser userName = ''DROP USER IF EXISTS '' @ dquote userName @ '';''"

definition alterOwnerMetaTable :: "string \<Rightarrow> string" where
  "alterOwnerMetaTable userName = ''ALTER TABLE _DBAAS_METADATA OWNER TO '' @ dquote userName"

definition alterOwnerForTable :: "string \<Rightarrow> string \<Rightarrow> string \<Rightarrow> string" where
  "alterOwnerForTable schema tableName userName =
     ''ALTER TABLE '' @ dquote schema @ ''.'' @ dquote tableName @ '' OWNER TO '' @ dquote userName"

definition alterOwnerForSequence :: "string \<Rightarrow> string \<Rightarrow> string \<Rightarrow> string" where
  "alterOwnerForSequence schema sequenceName newOwner =
     ''ALTER SEQUENCE '' @ dquote schema @ ''.'' @ dquote sequenceName @ '' OWNER TO '' @ dquote newOwner"

definition alterOwnerForLargeObject :: "string \<Rightarrow> string \<Rightarrow> string \<Rightarrow> string" where
  "alterOwnerForLargeObject schema oid userName =
     ''ALTER LARGE OBJECT '' @ oid @ '' OWNER TO '' @ dquote userName @ '';''"

definition alterOwnerForSchema :: "string \<Rightarrow> string \<Rightarrow> string" where
  "alterOwnerForSchema schema userName = ''ALTER SCHEMA '' @ dquote schema @ '' OWNER TO '' @ dquote userName"

definition alterDatabaseOwnerQuery :: "string \<Rightarrow> string \<Rightarrow> string" where
  "alterDatabaseOwnerQuery dbName userName =
     ''ALTER DATABASE '' @ dquote dbName @ '' OWNER TO '' @ dquote userName @ '';''"

definition alterProcedureOwnerQuery :: "string \<Rightarrow> string \<Rightarrow> string \<Rightarrow> string" where
  "alterProcedureOwnerQuery schema procedure userName =
     ''ALTER PROCEDURE '' @ procedure @ '' OWNER TO '' @ dquote userName"

definition alterFunctionOwnerQuery :: "string \<Rightarrow> string \<Rightarrow> string \<Rightarrow> string" where
  "alterFunctionOwnerQuery schema procedure userName =
     ''ALTER FUNCTION '' @ procedure @ '' OWNER TO '' @ dquote userName"

definition alterViewOwnerQuery :: "string \<Rightarrow> string \<Rightarrow> string \<Rightarrow> string" where
  "alterViewOwnerQuery schema view userName =
     ''ALTER VIEW '' @ dquote schema @ ''.'' @ dquote view @ '' OWNER TO '' @ dquote userName"

definition alterTypeOwnerQuery :: "string \<Rightarrow> string \<Rightarrow> string \<Rightarrow> string" where
  "alterTypeOwnerQuery schema typeForAlter userName =
     ''ALTER TYPE '' @ dquote schema @ ''.'' @ dquote typeForAlter @ '' OWNER TO '' @ dquote userName"

definition createExtensionIfNotExist :: "string \<Rightarrow> string" where
  "createExtensionIfNotExist extension = ''CREATE EXTENSION IF NOT EXISTS '' @ dquote extension @ '' CASCADE;''"

definition grantRightsForFdw :: "string \<Rightarrow> string \<Rightarrow> string" where
  "grantRightsForFdw fdwname userName =
     ''GRANT ALL ON FOREIGN DATA WRAPPER '' @ dquote fdwname @ '' to '' @ dquote userName @ '';''"

definition changeUserPassword :: "string \<Rightarrow> string \<Rightarrow> string" where
  "changeUserPassword userName password =
     ''ALTER USER '' @ dquote userName @ '' WITH PASSWORD '' @ squote password @ '' ;''"

definition deleteExtension :: "string \<Rightarrow> string" where
  "deleteExtension extension = ''DROP EXTENSION IF EXISTS '' @ dquote extension @ '';''"

definition allowConnectionsToDb :: "string \<Rightarrow> string" where
  "allowConnectionsToDb dbName =
     ''UPDATE pg_database SET datallowconn = true WHERE datname = '' @ squote dbName @ '';''"

definition allowConnectionsToDbExt :: "string \<Rightarrow> string" where
  "allowConnectionsToDbExt dbName = ''ALTER DATABASE '' @ dquote dbName @ '' WITH ALLOW_CONNECTIONS true;''"

definition dropOldDatabase :: "string \<Rightarrow> string" where
  "dropOldDatabase dbName =
     ''DROP DATABASE IF EXISTS '' @ dquote (replace_char dq [CHR 0x5C, dq] dbName) @ '';''"

definition reassignGrants :: "string \<Rightarrow> string \<Rightarrow> string" where
  "reassignGrants userName tempRole =
     ''REASSIGN OWNED BY '' @ dquote userName @ '' TO '' @ dquote tempRole @ '';''"

definition dropOwnedObjects :: "string \<Rightarrow> string" where
  "dropOwnedObjects userName = ''DROP OWNED BY '' @ dquote userName @ '';''"

definition grantUserToAdmin :: "string \<Rightarrow> string \<Rightarrow> string" where
  "grantUserToAdmin userName adminName = ''GRANT '' @ dquote userName @ '' TO '' @ dquote adminName @ '';''"

definition setReadOnlyRoleGrants :: "string \<Rightarrow> string \<Rightarrow> string" where
  "setReadOnlyRoleGrants schema userName =
     ''GRANT SELECT ON ALL TABLES IN SCHEMA '' @ dquote schema @ '' TO '' @ dquote userName @ '';''"

definition setAdminRoleSequencesGrants :: "string \<Rightarrow> string \<Rightarrow> string" where
  "setAdminRoleSequencesGrants schema userName =
     ''GRANT ALL ON ALL SEQUENCES IN SCHEMA '' @ dquote schema @ '' TO '' @ dquote userName @ '';''"

definition setReadWriteRoleGrants :: "string \<Rightarrow> string \<Rightarrow> string" where
  "setReadWriteRoleGrants schema userName =
     ''GRANT SELECT, INSERT, UPDATE, DELETE ON ALL TABLES IN SCHEMA '' @ dquote schema @ '' TO '' @ dquote userName @ '';''"

definition setReadWriteRoleSequencesGrants :: "string \<Rightarrow> string \<Rightarrow> string" where
  "setReadWriteRoleSequencesGrants schema userName =
     ''GRANT USAGE, SELECT ON ALL SEQUENCES IN SCHEMA '' @ dquote schema @ '' TO '' @ dquote userName @ '';''"

definition setReadOnlyRoleSequencesGrants :: "string \<Rightarrow> string \<Rightarrow> string" where
  "setReadOnlyRoleSequencesGrants schema userName =
     ''GRANT SELECT ON ALL SEQUENCES IN SCHEMA '' @ dquote schema @ '' TO '' @ dquote userName @ '';''"

definition setAdminGrants :: "string \<Rightarrow> string \<Rightarrow> string" where
  "setAdminGrants schema userName =
     ''GRANT ALL ON ALL TABLES IN SCHEMA '' @ dquote schema @ '' TO '' @ dquote userName @ '';''"

definition setReadOnlyRoleDefaultGrants :: "string \<Rightarrow> string \<Rightarrow> string" where
  "setReadOnlyRoleDefaultGrants owner userName =
     ''ALTER DEFAULT PRIVILEGES for role '' @ dquote owner @ '' GRANT SELECT ON TABLES TO '' @ dquote userName @ '';''"

definition setReadWriteRoleDefaultGrants :: "string \<Rightarrow> string \<Rightarrow> string" where
  "setReadWriteRoleDefaultGrants owner userName =
     ''ALTER DEFAULT PRIVILEGES for role '' @ dquote owner
     @ '' GRANT SELECT, INSERT, UPDATE, DELETE ON TABLES TO '' @ dquote userName @ '';''"

definition setSchemasDefaultGrants :: "string \<Rightarrow> string \<Rightarrow> string" where
  "setSchemasDefaultGrants adminUser userName =
     ''ALTER DEFAULT PRIVILEGES for role '' @ dquote adminUser @ '' GRANT USAGE ON SCHEMAS TO '' @ dquote userName @ '';''"

definition setSequencesRODefaultGrants :: "string \<Rightarrow> string \<Rightarrow> string" where
  "setSequencesRODefaultGrants adminUser userName =
     ''ALTER DEFAULT PRIVILEGES for role '' @ dquote adminUser @ '' GRANT SELECT ON SEQUENCES TO '' @ dquote userName @ '';''"

definition setSequencesRWDefaultGrants :: "string \<Rightarrow> string \<Rightarrow> string" where
  "setSequencesRWDefaultGrants adminUser userName =
     ''ALTER DEFAULT PRIVILEGES for role '' @ dquote adminUser @ '' GRANT USAGE, SELECT ON SEQUENCES TO '' @ dquote userName @ '';''"

definition setGrantAsForRole :: "string \<Rightarrow> string \<Rightarrow> string" where
  "setGrantAsForRole owner userName = ''GRANT '' @ dquote owner @ '' TO '' @ dquote userName @ '';''"

definition grantConnectionToDB :: "string \<Rightarrow> string \<Rightarrow> string" where
  "grantConnectionToDB dbName userName =
     ''GRANT CONNECT ON DATABASE '' @ dquote dbName @ '' TO '' @ dquote userName @ '';''"

text \<open>\<open>extType\<close> is the package variable \<^verbatim>\<open>util.ExternalPostgreSQLType\<close>.\<close>

definition AllowReplicationForUser :: "string \<Rightarrow> string \<Rightarrow> string" where
  "AllowReplicationForUser extType userName =
     (if to_upper extType = ''RDS'' then ''GRANT rds_replication TO '' @ dquote userName @ '';''
      else ''ALTER USER '' @ dquote userName @ '' WITH REPLICATION;'')"

definition getExtPreparedQuery :: "string \<Rightarrow> string \<Rightarrow> bool \<Rightarrow> string" where
  "getExtPreparedQuery originalQuery additionalCond external =
     originalQuery @ (if external then '' and '' @ additionalCond else []) @ '';''"

definition getTablesListQuery :: "string \<Rightarrow> bool \<Rightarrow> string" where
  "getTablesListQuery schema external = getExtPreparedQuery
     (''SELECT tablename FROM pg_catalog.pg_tables WHERE schemaname = '' @ squote schema
      @ '' and tablename != '' @ squote ''_dbaas_metadata'')
     (''tableowner not in ('' @ join_with '','' protectedRoles @ '')'') external"

definition getSequenceListQuery :: "string \<Rightarrow> bool \<Rightarrow> string" where
  "getSequenceListQuery schema external = getExtPreparedQuery
     (''SELECT sequencename FROM pg_sequences WHERE schemaname = '' @ squote schema)
     (''sequenceowner not in ('' @ join_with '','' protectedRoles @ '')'') external"

definition getLargeObjectsListQuery :: "bool \<Rightarrow> string" where
  "getLargeObjectsListQuery external =
     ''SELECT oid::TEXT FROM pg_catalog.pg_largeobject_metadata''
     @ (if external then '' where lomowner != 10'' else []) @ '';''"

definition getViewsListQuery :: "string \<Rightarrow> bool \<Rightarrow> string" where
  "getViewsListQuery schema external = getExtPreparedQuery
     (''select viewname from pg_catalog.pg_views where schemaname='' @ squote schema)
     (''viewowner not in ('' @ join_with '','' protectedRoles @ '')'') external"

definition getProceduresListQuery :: "string \<Rightarrow> bool \<Rightarrow> string" where
  "getProceduresListQuery schema external = getExtPreparedQuery
     (''SELECT p.oid::regprocedure FROM pg_catalog.pg_namespace n JOIN pg_catalog.pg_proc p ON p.pronamespace = n.oid WHERE p.prokind = ''
      @ squote ''p'' @ '' AND n.nspname = '' @ squote schema)
     ''p.proowner != 10'' external"

definition getFunctionsListQuery :: "string \<Rightarrow> bool \<Rightarrow> string" where
  "getFunctionsListQuery schema external = getExtPreparedQuery
     (''SELECT p.oid::regprocedure FROM pg_catalog.pg_namespace n JOIN pg_catalog.pg_proc p ON p.pronamespace = n.oid WHERE p.prokind <> ''
      @ squote ''p'' @ '' AND n.nspname = '' @ squote schema
      @ '' and not (n.nspname = '' @ squote ''public'' @ '' and p.oid::regprocedure::text='' @ squote ''lookup(name)'' @ '')'')
     ''p.proowner != 10'' external"

definition getCustomTypesListQuery :: "string \<Rightarrow> bool \<Rightarrow> string" where
  "getCustomTypesListQuery schema external = getExtPreparedQuery
     (''SELECT t.typname FROM pg_type t LEFT JOIN pg_catalog.pg_namespace n ON n.oid = t.typnamespace WHERE (t.typrelid = 0 OR (SELECT c.relkind = ''
      @ squote ''c'' @ '' FROM pg_catalog.pg_class c WHERE c.oid = t.typrelid)) AND NOT EXISTS(SELECT 1 FROM pg_catalog.pg_type el WHERE el.oid = t.typelem AND el.typarray = t.oid) AND n.nspname = ''
      @ squote schema)
     ''t.typowner != 10'' external"

definition getMetadataGrantQuery :: "string \<Rightarrow> string \<Rightarrow> string" where
  "getMetadataGrantQuery grantee privilege =
     ''select 1 from information_schema.role_table_grants where table_name='' @ squote ''_dbaas_metadata''
     @ '' and grantee='' @ squote (escapeInputValue grantee) @ '' and privilege_type='' @ squote privilege @ '';''"

definition getSchemasQuery :: string where
  "getSchemasQuery =
     ''SELECT schema_name from information_schema.schemata WHERE NOT schema_name LIKE '' @ squote ''pg_%''
     @ '' AND schema_name <> '' @ squote ''information_schema'' @ '';''"

definition setGrantOnFunction :: "string \<Rightarrow> string \<Rightarrow> string" where
  "setGrantOnFunction funcName user =
     ''GRANT EXECUTE ON FUNCTION '' @ funcName @ '' TO '' @ dquote (escapeInputValue user) @ '';''"

definition rollbackPreparedByGid :: "string \<Rightarrow> string" where
  "rollbackPreparedByGid idTrans = ''ROLLBACK PREPARED '' @ squote idTrans @ '';''"

subsection \<open>Identifier patterns\<close>

text \<open>
  \<^verbatim>\<open>DbPrefixPattern\<close> and \<^verbatim>\<open>DbIdentifiersPattern\<close> as matchers: a first character that is an
  underscore or a lower case letter, then at most 29 (62) word characters, with the hyphen
  allowed in the second pattern only.
\<close>

definition is_lower :: "char \<Rightarrow> bool" where
  "is_lower c \<longleftrightarrow> (let n = of_char c :: nat in 97 \<le> n \<and> n \<le> 122)"

definition is_word :: "char \<Rightarrow> bool" where
  "is_word c \<longleftrightarrow> (let n = of_char c :: nat in
     48 \<le> n \<and> n \<le> 57 \<or> 65 \<le> n \<and> n \<le> 90 \<or> 97 \<le> n \<and> n \<le> 122 \<or> n = 95)"

datatype id_pattern = DbPrefixPattern | DbIdentifiersPattern

fun pattern_text :: "id_pattern \<Rightarrow> string" where
  "pattern_text DbPrefixPattern =
     ''^(_|[a-z])['' @ [CHR 0x5C] @ ''w'' @ [CHR 0x5C] @ ''d_]{0,29}$''"
| "pattern_text DbIdentifiersPattern =
     ''^(_|[a-z])['' @ [CHR 0x5C] @ ''w'' @ [CHR 0x5C] @ ''d_-]{0,62}$''"

fun match_pattern :: "id_pattern \<Rightarrow> string \<Rightarrow> bool" where
  "match_pattern _ [] = False"
| "match_pattern DbPrefixPattern (c # cs) =
     ((c = CHR 0x5F \<or> is_lower c) \<and> list_all is_word cs \<and> length cs \<le> 29)"
| "match_pattern DbIdentifiersPattern (c # cs) =
     ((c = CHR 0x5F \<or> is_lower c) \<and> list_all (\<lambda>x. is_word x \<or> x = CHR 0x2D) cs \<and> length cs \<le> 62)"

end
