(* ===== verification/Dbaas_Util.thy ===== *)
theory Dbaas_Util
  imports Sql_Helper
begin

section \<open>Values and utilities of the DBaaS adapter\<close>

text \<open>
  Models \<^verbatim>\<open>services/dbaas-adapter/adapter/util/util.go\<close> and the values of type
  \<^verbatim>\<open>interface{}\<close> the adapter reads from requests, files and the metadata table.  A failed type
  assertion panics in Go: such functions give \<open>Inl\<close> of the panic's message.
\<close>

datatype json =
    JNull
  | JBool bool
  | JNum real
  | JStr string
  | JArr "json list"
  | JObj "(string \<times> json) list"
  | JStrMap "(string \<times> string) list" \<comment> \<open>a Go value of type \<open>map[string]string\<close>\<close>

type_synonym gomap = "(string \<times> json) list"

text \<open>\<open>m[k]\<close>: a missing key reads as the nil interface.\<close>

definition map_get :: "gomap \<Rightarrow> string \<Rightarrow> json" where
  "map_get m k = (case map_of m k of None \<Rightarrow> JNull | Some v \<Rightarrow> v)"

text \<open>What \<open>json.Marshal\<close> followed by \<open>json.Unmarshal\<close> makes of a value.\<close>

fun marshalled :: "json \<Rightarrow> json" where
  "marshalled (JStrMap m) = JObj (map (\<lambda>(k, v). (k, JStr v)) m)"
| "marshalled (JArr js) = JArr (map marshalled js)"
| "marshalled (JObj m) = JObj (map (\<lambda>(k, v). (k, marshalled v)) m)"
| "marshalled j = j"

definition conversion_panic :: string where
  "conversion_panic = ''interface conversion''"

definition MaxPgDBLength :: int where "MaxPgDBLength = 63"
definition rolesVersion :: real where "rolesVersion = 1"

fun Contains :: "string list \<Rightarrow> string \<Rightarrow> bool" where
  "Contains [] str = False"
| "Contains (a # array) str = (if a = str then True else Contains array str)"

fun strings_of_json :: "json list \<Rightarrow> string + string list" where
  "strings_of_json [] = Inr []"
| "strings_of_json (JStr s # js) = (case strings_of_json js of Inl e \<Rightarrow> Inl e | Inr ss \<Rightarrow> Inr (s # ss))"
| "strings_of_json (_ # js) = Inl conversion_panic"

fun GetStringArrayFromInterface :: "json \<Rightarrow> string + string list" where
  "GetStringArrayFromInterface JNull = Inr []"
| "GetStringArrayFromInterface (JArr interfaceArray) = strings_of_json interfaceArray"
| "GetStringArrayFromInterface _ = Inl conversion_panic"

fun string_map_of_json :: "gomap \<Rightarrow> string + (string \<times> string) list" where
  "string_map_of_json [] = Inr []"
| "string_map_of_json ((k, JStr s) # m) =
     (case string_map_of_json m of Inl e \<Rightarrow> Inl e | Inr ss \<Rightarrow> Inr ((k, s) # ss))"
| "string_map_of_json (_ # m) = Inl conversion_panic"

fun GetMapStringFromMapInterface :: "json \<Rightarrow> string + (string \<times> string) list" where
  "GetMapStringFromMapInterface JNull = Inr []"
| "GetMapStringFromMapInterface (JObj rawMap) = string_map_of_json rawMap"
| "GetMapStringFromMapInterface _ = Inl conversion_panic"

text \<open>\<open>lookupEnv\<close> is \<open>os.LookupEnv\<close>.\<close>

definition GetEnv :: "(string \<Rightarrow> string option) \<Rightarrow> string \<Rightarrow> string \<Rightarrow> string" where
  "GetEnv lookupEnv key fallback = (case lookupEnv key of Some value \<Rightarrow> value | None \<Rightarrow> fallback)"

definition GetEnvInt :: "(string \<Rightarrow> string option) \<Rightarrow> string \<Rightarrow> int \<Rightarrow> int" where
  "GetEnvInt lookupEnv key fallback =
     (case lookupEnv key of
        Some value \<Rightarrow> (case atoi value of (ivalue, ok) \<Rightarrow> if ok then ivalue else fallback)
      | None \<Rightarrow> fallback)"

definition parse_bool :: "string \<Rightarrow> bool option" where
  "parse_bool s =
     (if Contains [''1'', ''t'', ''T'', ''TRUE'', ''true'', ''True''] s then Some True
      else if Contains [''0'', ''f'', ''F'', ''FALSE'', ''false'', ''False''] s then Some False
      else None)"

definition GetEnvBool :: "(string \<Rightarrow> string option) \<Rightarrow> string \<Rightarrow> bool \<Rightarrow> string + bool" where
  "GetEnvBool lookupEnv key fallback =
     (case lookupEnv key of
        Some value \<Rightarrow> (case parse_bool value of None \<Rightarrow> Inl ''invalid syntax'' | Some b \<Rightarrow> Inr b)
      | None \<Rightarrow> Inr fallback)"

definition is_space :: "char \<Rightarrow> bool" where
  "is_space c \<longleftrightarrow> (let n = of_char c :: nat in n = 32 \<or> 9 \<le> n \<and> n \<le> 13)"

definition trim_space :: "string \<Rightarrow> string" where
  "trim_space s = rev (dropWhile is_space (rev (dropWhile is_space s)))"

text \<open>\<open>contents\<close> is what \<open>os.ReadFile\<close> gives, \<open>None\<close> for an error.\<close>

definition ReadSecretFile :: "string option \<Rightarrow> string \<Rightarrow> string" where
  "ReadSecretFile contents defaultVal =
     (case contents of
        None \<Rightarrow> defaultVal
      | Some data \<Rightarrow> let value = trim_space data in if value = '''' then defaultVal else value)"

definition GetPgDBLength :: int where "GetPgDBLength = MaxPgDBLength"
definition GetRolesVersion :: real where "GetRolesVersion = rolesVersion"

subsection \<open>Lemmas\<close>

lemma Contains_iff [simp]: "Contains array str \<longleftrightarrow> str \<in> set array"
  by (induction array) auto

lemma strings_of_json_map [simp]: "strings_of_json (map JStr ss) = Inr ss"
  by (induction ss) auto

lemma strings_of_json_Inr: "strings_of_json js = Inr ss \<longleftrightarrow> js = map JStr ss"
proof
  show "strings_of_json js = Inr ss \<Longrightarrow> js = map JStr ss"
    by (induction js arbitrary: ss rule: strings_of_json.induct) (auto split: sum.splits)
qed simp

lemma string_map_of_json_Inr:
  "string_map_of_json m = Inr ss \<longleftrightarrow> m = map (\<lambda>(k, v). (k, JStr v)) ss"
proof
  show "string_map_of_json m = Inr ss \<Longrightarrow> m = map (\<lambda>(k, v). (k, JStr v)) ss"
    by (induction m arbitrary: ss rule: string_map_of_json.induct) (auto split: sum.splits)
next
  show "m = map (\<lambda>(k, v). (k, JStr v)) ss \<Longrightarrow> string_map_of_json m = Inr ss"
    by (induction ss arbitrary: m) auto
qed

text \<open>A \<open>map[string]string\<close> survives being stored as JSON and read back.\<close>

lemma strmap_roundtrip: "GetMapStringFromMapInterface (marshalled (JStrMap m)) = Inr m"
  by (simp add: string_map_of_json_Inr)

lemma map_get_update [simp]:
  "map_get (AList.update k v m) k' = (if k' = k then v else map_get m k')"
  by (simp add: map_get_def update_conv')

lemma trim_space_no_outer:
  assumes "trim_space s \<noteq> []"
  shows "\<not> is_space (hd (trim_space s)) \<and> \<not> is_space (last (trim_space s))"
proof
  let ?d = "dropWhile is_space s"
  have r: "trim_space s = rev (dropWhile is_space (rev ?d))" by (simp add: trim_space_def)
  from assms have ne: "dropWhile is_space (rev ?d) \<noteq> []" unfolding r by simp
  from hd_dropWhile [OF ne] show "\<not> is_space (last (trim_space s))"
    unfolding r using ne by (simp add: last_rev)
  obtain w where w: "rev ?d = w @ dropWhile is_space (rev ?d)"
    by (metis takeWhile_dropWhile_id)
  then have "?d = trim_space s @ rev w" unfolding r by (metis rev_append rev_rev_ident)
  then have "hd ?d = hd (trim_space s)" "?d \<noteq> []" using assms by auto
  with hd_dropWhile [of is_space s] show "\<not> is_space (hd (trim_space s))" by simp
qed

end
