(* ===== verification/Cluster_Adapter.thy ===== *)
theory Cluster_Adapter
  imports Dbaas_Util
begin

section \<open>Connections to PostgreSQL\<close>

text \<open>
  Models \<^verbatim>\<open>services/dbaas-adapter/adapter/cluster/cluster.go\<close> and fixes the calls the DBaaS
  adapter makes: creating and closing a connection pool (the driver pgx and the server are the
  environment), executing and querying SQL text with its arguments, ranging over a Go map,
  locking the adapter's mutex, generating a UUID, the name generators of the
  \<^verbatim>\<open>qubership-dbaas-adapter-core\<close> package, and reading files and config maps.  Logging is left
  out.  A query's response holds its rows; a row that cannot be scanned is \<open>ScanErr\<close>.

  Two trace properties are the subject of the adapter's resource claims: every pool that is
  opened is closed later (\<^verbatim>\<open>no_leak\<close>), and the mutex is never locked while it is held and is
  released at the end (\<^verbatim>\<open>well_locked\<close>).
\<close>

record conn =
  conn_id :: nat
  conn_db :: string
  conn_user :: string

datatype gval = VStr string | VBool bool | VJson json

datatype scan = ScanErr err | Row "gval list"

datatype db_call =
    CNew string string string \<comment> \<open>database, user and URL of \<open>pgxpool.New\<close>\<close>
  | CClose nat
  | CExec conn string "gval list"
  | CQuery conn string "gval list"
  | CRange
  | CLock
  | CUnlock
  | CTimer
  | CGenerate
  | CRegenerateDbName string int
  | CGetNsAndMsName gomap
  | CPrepareDatabaseName string string int
  | CReadFile string
  | CGetCM string
  | CUpdateCM string "(string \<times> json) list"

datatype db_resp =
    RErr err
  | ROk
  | RConn nat
  | RRows "scan list"
  | RStr string
  | RStr2 string string
  | RNat nat
  | RJson json

type_synonym 'a db = "(db_call, db_resp, 'a) prog"
type_synonym db_trace = "(db_call \<times> db_resp) list"

subsection \<open>Reading responses\<close>

definition unexpected :: err where "unexpected = ''unexpected response''"

fun as_error :: "db_resp \<Rightarrow> err option" where
  "as_error (RErr e) = Some e"
| "as_error _ = None"

fun as_conn :: "db_resp \<Rightarrow> err + nat" where
  "as_conn (RConn h) = Inr h"
| "as_conn (RErr e) = Inl e"
| "as_conn _ = Inl unexpected"

fun as_rows :: "db_resp \<Rightarrow> err + scan list" where
  "as_rows (RRows rows) = Inr rows"
| "as_rows (RErr e) = Inl e"
| "as_rows _ = Inl unexpected"

fun as_str :: "db_resp \<Rightarrow> err + string" where
  "as_str (RStr s) = Inr s"
| "as_str (RErr e) = Inl e"
| "as_str _ = Inl unexpected"

fun as_nat :: "db_resp \<Rightarrow> nat" where
  "as_nat (RNat n) = n"
| "as_nat _ = 0"

fun scan_string :: "scan \<Rightarrow> err + string" where
  "scan_string (Row [VStr s]) = Inr s"
| "scan_string (ScanErr e) = Inl e"
| "scan_string _ = Inl ''cannot scan''"

fun scan_bool :: "scan \<Rightarrow> err + bool" where
  "scan_bool (Row [VBool b]) = Inr b"
| "scan_bool (ScanErr e) = Inl e"
| "scan_bool _ = Inl ''cannot scan''"

fun scan_map :: "scan \<Rightarrow> err + gomap" where
  "scan_map (Row [VJson (JObj m)]) = Inr m"
| "scan_map (Row [VJson JNull]) = Inr []"
| "scan_map (ScanErr e) = Inl e"
| "scan_map _ = Inl ''cannot scan''"

fun scan_key_value :: "scan \<Rightarrow> err + string \<times> json" where
  "scan_key_value (Row [VStr k, VJson v]) = Inr (k, v)"
| "scan_key_value (ScanErr e) = Inl e"
| "scan_key_value _ = Inl ''cannot scan''"

text \<open>\<open>for rows.Next() { err = rows.Scan(&x); if err != nil { return err }; xs = append(xs, x) }\<close>\<close>

fun scan_all :: "(scan \<Rightarrow> err + 'a) \<Rightarrow> scan list \<Rightarrow> err + 'a list" where
  "scan_all f [] = Inr []"
| "scan_all f (s # ss) =
     (case f s of
        Inl e \<Rightarrow> Inl e
      | Inr x \<Rightarrow> (case scan_all f ss of Inl e \<Rightarrow> Inl e | Inr xs \<Rightarrow> Inr (x # xs)))"

subsection \<open>Primitive calls\<close>

definition Exec :: "conn \<Rightarrow> string \<Rightarrow> gval list \<Rightarrow> err option db" where
  "Exec c sql args = Call (CExec c sql args) (\<lambda>r. Ret (as_error r))"

definition Query :: "conn \<Rightarrow> string \<Rightarrow> gval list \<Rightarrow> (err + scan list) db" where
  "Query c sql args = Call (CQuery c sql args) (\<lambda>r. Ret (as_rows r))"

definition QueryRow :: "conn \<Rightarrow> string \<Rightarrow> gval list \<Rightarrow> scan db" where
  "QueryRow c sql args = Call (CQuery c sql args) (\<lambda>r. Ret (case as_rows r of
     Inl e \<Rightarrow> ScanErr e | Inr [] \<Rightarrow> ScanErr ''no rows in result set'' | Inr (s # _) \<Rightarrow> s))"

definition Close :: "conn \<Rightarrow> unit db" where
  "Close c = Call (CClose (conn_id c)) (\<lambda>_. Ret ())"

definition range_map :: "('k \<times> 'v) list \<Rightarrow> ('k \<times> 'v) list db" where
  "range_map m = Call CRange (\<lambda>r. Ret (shuffle (as_nat r) m))"

text \<open>\<open>sa.Mutex.Lock(); defer sa.Mutex.Unlock()\<close>\<close>

definition withLock :: "'a db \<Rightarrow> 'a db" where
  "withLock body = Call CLock (\<lambda>_. pdefer body (Call CUnlock (\<lambda>_. Ret ())))"

text \<open>
  \<open>conn, err := get(); if err != nil { onerr }; defer conn.Close(); body\<close>
\<close>

definition withConn :: "(err + conn) db \<Rightarrow> (err \<Rightarrow> 'a db) \<Rightarrow> (conn \<Rightarrow> 'a db) \<Rightarrow> 'a db" where
  "withConn get onerr body =
     pbind get (\<lambda>res. case res of Inl e \<Rightarrow> onerr e | Inr c \<Rightarrow> pdefer (body c) (Close c))"

definition or_panic :: "string + 'a \<Rightarrow> 'a db" where
  "or_panic v = (case v of Inl e \<Rightarrow> Panic e | Inr x \<Rightarrow> Ret x)"

subsection \<open>The cluster adapter\<close>

record cluster_adapter =
  ca_Host :: string
  ca_Port :: int
  ca_SSl :: string
  ca_User :: string
  ca_Password :: string
  ca_Database :: string
  ca_Health :: string

definition HealthUP :: string where "HealthUP = ''UP''"
definition HealthOOS :: string where "HealthOOS = ''OUT_OF_SERVICE''"

text \<open>\<open>url.PathEscape\<close>: the bytes that stay as they are in a path segment.\<close>

definition path_keep :: "char \<Rightarrow> bool" where
  "path_keep c \<longleftrightarrow> is_word c \<or> c \<in> set ''-.~$&+=:@''"

definition hex_digit :: "nat \<Rightarrow> char" where
  "hex_digit n = (if n < 10 then char_of (48 + n) else char_of (55 + n))"

definition PathEscape :: "string \<Rightarrow> string" where
  "PathEscape s = concat (map (\<lambda>c. if path_keep c then [c]
     else [CHR 0x25, hex_digit (of_char c div 16), hex_digit (of_char c mod 16)]) s)"

definition getConnectionUrl :: "cluster_adapter \<Rightarrow> string \<Rightarrow> string \<Rightarrow> string \<Rightarrow> string" where
  "getConnectionUrl ca username password database =
     (if ca_SSl ca = ''on'' then
        ''postgres://'' @ username @ '':'' @ password @ ''@'' @ ca_Host ca @ '':'' @ itoa (ca_Port ca)
        @ ''/'' @ database @ ''?'' @ ''sslmode=require''
      else
        ''postgres://'' @ username @ '':'' @ password @ ''@'' @ ca_Host ca @ '':'' @ itoa (ca_Port ca)
        @ ''/'' @ database)"

definition getConnectionToDbWithUser :: "cluster_adapter \<Rightarrow> string \<Rightarrow> string \<Rightarrow> string \<Rightarrow> (err + conn) db" where
  "getConnectionToDbWithUser ca database username password =
     Call (CNew database username (getConnectionUrl ca username password database))
       (\<lambda>r. Ret (case as_conn r of
          Inl e \<Rightarrow> Inl e
        | Inr h \<Rightarrow> Inr \<lparr>conn_id = h, conn_db = database, conn_user = username\<rparr>))"

definition GetConnectionToDbWithUser :: "cluster_adapter \<Rightarrow> string \<Rightarrow> string \<Rightarrow> string \<Rightarrow> (err + conn) db" where
  "GetConnectionToDbWithUser ca database username password =
     getConnectionToDbWithUser ca database username password"

definition GetConnectionToDb :: "cluster_adapter \<Rightarrow> string \<Rightarrow> (err + conn) db" where
  "GetConnectionToDb ca database =
     GetConnectionToDbWithUser ca (if database = '''' then ca_Database ca else database)
       (ca_User ca) (ca_Password ca)"

definition GetConnection :: "cluster_adapter \<Rightarrow> (err + conn) db" where
  "GetConnection ca = GetConnectionToDb ca (ca_Database ca)"

definition executeHealthQuery :: "cluster_adapter \<Rightarrow> err option db" where
  "executeHealthQuery ca =
     withConn (getConnectionToDbWithUser ca (ca_Database ca) (ca_User ca) (ca_Password ca))
       (\<lambda>e. Ret (Some e))
       (\<lambda>c. Exec c ''SELECT * FROM pg_catalog.pg_tables'' [])"

definition getHealth :: "cluster_adapter \<Rightarrow> string db" where
  "getHealth ca = pbind (executeHealthQuery ca)
     (\<lambda>err. Ret (if err \<noteq> None then HealthOOS else HealthUP))"

text \<open>
  The \<open>select\<close> between the health check and the timer: the environment says which wins.
\<close>

definition RequestHealth :: "cluster_adapter \<Rightarrow> string db" where
  "RequestHealth ca = Call CTimer (\<lambda>r.
     if as_error r \<noteq> None then Panic ''postgres connection timeout expired''
     else pbind (getHealth ca) (\<lambda>h.
       if h = HealthOOS then Panic ''postgres is unavailable'' else Ret h))"

definition NewAdapter :: "string \<Rightarrow> int \<Rightarrow> string \<Rightarrow> string \<Rightarrow> string \<Rightarrow> string \<Rightarrow> cluster_adapter db" where
  "NewAdapter host port username password database ssl =
     (let c = \<lparr>ca_Host = host, ca_Port = port, ca_SSl = ssl, ca_User = PathEscape username,
               ca_Password = PathEscape password, ca_Database = database, ca_Health = HealthUP\<rparr>
      in pbind (RequestHealth c) (\<lambda>_. Ret c))"

subsection \<open>Pools are closed\<close>

text \<open>Every successful \<open>pgxpool.New\<close> of a trace is followed by a \<open>Close\<close> of that pool.\<close>

fun no_leak :: "db_trace \<Rightarrow> bool" where
  "no_leak [] = True"
| "no_leak ((CNew d u w, RConn h) # t) = ((\<exists>r. (CClose h, r) \<in> set t) \<and> no_leak t)"
| "no_leak (_ # t) = no_leak t"

lemma no_leak_Cons: "no_leak ((c, r) # t) \<longleftrightarrow>
    (\<forall>d u w h. c = CNew d u w \<and> r = RConn h \<longrightarrow> (\<exists>r'. (CClose h, r') \<in> set t)) \<and> no_leak t"
  by (cases "((c, r) # t)" rule: no_leak.cases) auto

lemma no_leak_append: "no_leak u \<Longrightarrow> no_leak v \<Longrightarrow> no_leak (u @ v)"
  by (induction u) (auto simp: no_leak_Cons, blast)

interpretation pools: trace_law no_leak
  by unfold_locales (simp_all add: no_leak_append)

subsection \<open>The mutex\<close>

fun locks :: "bool \<Rightarrow> db_trace \<Rightarrow> bool option" where
  "locks held [] = Some held"
| "locks held ((CLock, _) # t) = (if held then None else locks True t)"
| "locks held ((CUnlock, _) # t) = (if held then locks False t else None)"
| "locks held (_ # t) = locks held t"

definition well_locked :: "db_trace \<Rightarrow> bool" where
  "well_locked t \<longleftrightarrow> locks False t = Some False"

lemma locks_append: "locks h u = Some h' \<Longrightarrow> locks h (u @ v) = locks h' v"
  by (induction h u rule: locks.induct) (auto split: if_splits)

interpretation mutex: trace_law well_locked
  by unfold_locales (simp_all add: well_locked_def locks_append [of False _ False])

text \<open>Between lock and unlock the code makes no lock call of its own.\<close>

definition lock_free :: "db_trace \<Rightarrow> bool" where
  "lock_free = all_calls (\<lambda>c. c \<noteq> CLock \<and> c \<noteq> CUnlock)"

lemma locks_lock_free: "lock_free u \<Longrightarrow> locks h (u @ v) = locks h v"
  by (induction h u rule: locks.induct) (auto simp: lock_free_def)

lemma lock_free_well_locked: "lock_free u \<Longrightarrow> well_locked u"
  using locks_lock_free [of u False "[]"] by (simp add: well_locked_def)

interpretation lockfree: trace_law lock_free
  by unfold_locales (simp_all add: lock_free_def)

subsection \<open>Rules for the combinators\<close>

lemma no_leak_calls [emits_intros]:
  "emits no_leak (Exec c sql args)" "emits no_leak (Query c sql args)"
  "emits no_leak (QueryRow c sql args)" "emits no_leak (Close c)" "emits no_leak (range_map m)"
  by (simp_all add: emits_def Exec_def Query_def QueryRow_def Close_def range_map_def spec_simps)

lemma lock_free_calls [emits_intros]:
  "emits lock_free (Exec c sql args)" "emits lock_free (Query c sql args)"
  "emits lock_free (QueryRow c sql args)" "emits lock_free (Close c)" "emits lock_free (range_map m)"
  by (simp_all add: emits_def Exec_def Query_def QueryRow_def Close_def range_map_def spec_simps
      lock_free_def)

lemma no_leak_or_panic [emits_intros]: "emits no_leak (or_panic v)"
  by (simp add: or_panic_def emits_def spec_simps split: sum.split)

lemma lock_free_or_panic [emits_intros]: "emits lock_free (or_panic v)"
  by (simp add: or_panic_def emits_def spec_simps lock_free_def split: sum.split)

definition opens_pool :: "(err + conn) db \<Rightarrow> bool" where
  "opens_pool m \<longleftrightarrow> spec m (\<lambda>out u. \<exists>d us w r. u = [(CNew d us w, r)] \<and>
     (case out of Val (Inr c) \<Rightarrow> r = RConn (conn_id c) | Val (Inl _) \<Rightarrow> (\<forall>h. r \<noteq> RConn h) | Panicked _ \<Rightarrow> False))"

lemma opens_pool_get [emits_intros]:
  "opens_pool (getConnectionToDbWithUser ca database username password)"
  "opens_pool (GetConnectionToDbWithUser ca database username password)"
  "opens_pool (GetConnectionToDb ca database)"
  "opens_pool (GetConnection ca)"
proof -
  have as: "as_conn r = Inr h \<longleftrightarrow> r = RConn h" for r h by (cases r) auto
  show "opens_pool (getConnectionToDbWithUser ca database username password)"
    for database username password
    by (auto simp: opens_pool_def getConnectionToDbWithUser_def spec_simps as split: sum.split)
  then show "opens_pool (GetConnectionToDbWithUser ca database username password)"
    "opens_pool (GetConnectionToDb ca database)" "opens_pool (GetConnection ca)"
    by (simp_all only: GetConnectionToDbWithUser_def GetConnectionToDb_def GetConnection_def)
qed

lemma no_leak_withConn [emits_intros]:
  assumes get: "opens_pool get" and onerr: "\<And>e. emits no_leak (onerr e)"
    and body: "\<And>c. emits no_leak (body c)"
  shows "emits no_leak (withConn get onerr body)"
  unfolding emits_def withConn_def
proof (rule spec_pbindI [OF get [unfolded opens_pool_def]])
  fix res :: "err + conn" and u
  assume *: "\<exists>d us w r. u = [(CNew d us w, r)] \<and> (case Val res of
      Val (Inr c) \<Rightarrow> r = RConn (conn_id c) | Val (Inl _) \<Rightarrow> \<forall>h. r \<noteq> RConn h | Panicked _ \<Rightarrow> False)"
  show "spec (case res of Inl e \<Rightarrow> onerr e | Inr c \<Rightarrow> pdefer (body c) (Close c)) (\<lambda>_ u'. no_leak (u @ u'))"
  proof (cases res)
    case (Inl e)
    with * show ?thesis
      using onerr [of e] by (auto simp: emits_def no_leak_Cons elim: spec_mono)
  next
    case (Inr c)
    with * obtain d us w where u: "u = [(CNew d us w, RConn (conn_id c))]" by auto
    have "spec (body c) (\<lambda>out v. spec (Close c) (\<lambda>out' u'. case out' of
        Val _ \<Rightarrow> no_leak (u @ v @ u') | Panicked e \<Rightarrow> no_leak (u @ v @ u')))"
      using body [of c] unfolding emits_def
    proof (rule spec_mono)
      fix out v
      assume v: "no_leak v"
      have "no_leak (v @ [(CClose (conn_id c), r)])" for r
        by (rule no_leak_append [OF v]) simp
      then show "spec (Close c) (\<lambda>out' u'. case out' of
        Val _ \<Rightarrow> no_leak (u @ v @ u') | Panicked e \<Rightarrow> no_leak (u @ v @ u'))"
        by (auto simp: Close_def spec_simps u no_leak_Cons)
    qed
    with Inr show ?thesis by (simp add: spec_pdefer)
  qed
qed auto

lemma opens_pool_lock_free: "opens_pool m \<Longrightarrow> emits lock_free m"
  unfolding opens_pool_def emits_def by (erule spec_mono) (auto simp: lock_free_def)

lemma lock_free_withConn [emits_intros]:
  assumes "opens_pool get" and "\<And>e. emits lock_free (onerr e)" and "\<And>c. emits lock_free (body c)"
  shows "emits lock_free (withConn get onerr body)"
  unfolding withConn_def
  by (rule lockfree.emits_pbind [OF opens_pool_lock_free [OF assms(1)]])
    (auto intro!: lockfree.emits_rules assms emits_intros split: sum.split)

lemma well_locked_withLock [emits_intros]:
  assumes "emits lock_free body"
  shows "emits well_locked (withLock body)"
proof -
  have "spec body (\<lambda>_ u. lock_free u)" using assms by (simp add: emits_def)
  then have "spec body (\<lambda>_ u. \<forall>r r'. well_locked ((CLock, r) # u @ [(CUnlock, r')]))"
    by (rule spec_mono) (simp add: well_locked_def locks_lock_free)
  then show ?thesis
    by (simp add: emits_def withLock_def spec_simps) (auto elim: spec_mono)
qed

lemma no_leak_withLock [emits_intros]:
  assumes "emits no_leak body"
  shows "emits no_leak (withLock body)"
  unfolding withLock_def
  by (rule pools.emits_Call) (auto intro!: pools.emits_rules assms pools.emits_Call)

lemma well_locked_of_lock_free: "emits lock_free m \<Longrightarrow> emits well_locked m"
  using lock_free_well_locked by (rule emits_mono [rotated])

subsection \<open>What a trace did\<close>

text \<open>The statements a trace executed, each with its response.\<close>

fun execs :: "db_trace \<Rightarrow> (string \<times> db_resp) list" where
  "execs [] = []"
| "execs ((CExec c sql args, r) # t) = (sql, r) # execs t"
| "execs (_ # t) = execs t"

text \<open>Calls that reach the database server.\<close>

fun touches_db :: "db_call \<Rightarrow> bool" where
  "touches_db (CNew _ _ _) = True"
| "touches_db (CExec _ _ _) = True"
| "touches_db (CQuery _ _ _) = True"
| "touches_db _ = False"

lemma execs_append [simp]: "execs (u @ v) = execs u @ execs v"
  by (induction u rule: execs.induct) auto

lemma execs_in: "(sql, r) \<in> set (execs u) \<longleftrightarrow> (\<exists>c args. (CExec c sql args, r) \<in> set u)"
  by (induction u rule: execs.induct) auto

lemma beh_calls:
  "beh (Exec c sql args) out u \<longleftrightarrow> (\<exists>r. u = [(CExec c sql args, r)] \<and> out = Val (as_error r))"
  "beh (Query c sql args) out' v \<longleftrightarrow> (\<exists>r. v = [(CQuery c sql args, r)] \<and> out' = Val (as_rows r))"
  "beh (Close c) out'' w \<longleftrightarrow> (\<exists>r. w = [(CClose (conn_id c), r)] \<and> out'' = Val ())"
  by (auto simp: Exec_def Query_def Close_def beh_Call_iff)

lemma beh_range_map:
  "beh (range_map m) out u \<longleftrightarrow> (\<exists>r. u = [(CRange, r)] \<and> out = Val (shuffle (as_nat r) m))"
  by (auto simp: range_map_def beh_Call_iff)

text \<open>With a connection: opening it failed, or the body ran on it and it was closed.\<close>

lemma beh_withConn:
  assumes "opens_pool get" and "beh (withConn get onerr body) out u"
  obtains (failed) d us w r e u' where "u = (CNew d us w, r) # u'" "\<And>h. r \<noteq> RConn h"
      "beh get (Val (Inl e)) [(CNew d us w, r)]" "beh (onerr e) out u'"
  | (opened) d us w c u' r where "u = (CNew d us w, RConn (conn_id c)) # u' @ [(CClose (conn_id c), r)]"
      "beh get (Val (Inr c)) [(CNew d us w, RConn (conn_id c))]" "beh (body c) out u'"
proof -
  have get: "beh get o1 u1 \<Longrightarrow> \<exists>d us w r. u1 = [(CNew d us w, r)] \<and> (case o1 of
      Val (Inr c) \<Rightarrow> r = RConn (conn_id c) | Val (Inl _) \<Rightarrow> (\<forall>h. r \<noteq> RConn h) | Panicked _ \<Rightarrow> False)" for o1 u1
    using assms(1) unfolding opens_pool_def by (rule specD)
  from assms(2) obtain u1 u2 res where b: "beh get (Val res) u1" "u = u1 @ u2"
    "beh (case res of Inl e \<Rightarrow> onerr e | Inr c \<Rightarrow> pdefer (body c) (Close c)) out u2"
    unfolding withConn_def beh_pbind using get by (fastforce)
  show ?thesis
  proof (cases res)
    case (Inl e)
    with get [OF b(1)] b failed show ?thesis by auto
  next
    case (Inr c)
    with get [OF b(1)] obtain d us w where u1: "u1 = [(CNew d us w, RConn (conn_id c))]" by auto
    from b(3) Inr obtain u' r where "u2 = u' @ [(CClose (conn_id c), r)]" "beh (body c) out u'"
      by (auto simp: beh_pdefer beh_calls)
    with opened u1 b Inr show ?thesis by auto
  qed
qed

lemma beh_withLock:
  "beh (withLock body) out u \<longleftrightarrow> (\<exists>u' r r'. u = (CLock, r) # u' @ [(CUnlock, r')] \<and> beh body out u')"
  by (fastforce simp: withLock_def beh_Call_iff beh_pdefer)

text \<open>A loop of statements that is left at the first error.\<close>

lemma beh_for_err_Exec:
  assumes "beh (for_err xs (\<lambda>x. Exec c (f x) [])) out u"
  shows "map fst (execs u) = map f (take (length u) xs)
    \<and> (out = Val None \<and> length u = length xs \<and> list_all (\<lambda>(_, r). as_error r = None) (execs u)
       \<or> (\<exists>e. out = Val (Some e) \<and> execs u \<noteq> [] \<and> list_all (\<lambda>(_, r). as_error r = None) (butlast (execs u))
            \<and> as_error (snd (last (execs u))) = Some e))"
  using assms
proof (induction xs arbitrary: u)
  case (Cons x xs)
  then obtain r v where u: "u = (CExec c (f x) [], r) # v"
    and v: "beh (case as_error r of Some e \<Rightarrow> Ret (Some e) | None \<Rightarrow> for_err xs (\<lambda>x. Exec c (f x) [])) out v"
    by (auto simp: beh_pbind beh_calls)
  show ?case
  proof (cases "as_error r")
    case (Some e)
    with u v show ?thesis by auto
  next
    case None
    with v have "beh (for_err xs (\<lambda>x. Exec c (f x) [])) out v" by simp
    from Cons.IH [OF this] u None show ?thesis
      by (cases v) (auto split: if_splits)
  qed
qed simp

subsection \<open>Calls allowed by a predicate\<close>

lemma all_calls_base [emits_intros]:
  "F (CExec c sql args) \<Longrightarrow> emits (all_calls F) (Exec c sql args)"
  "F (CQuery c sql args) \<Longrightarrow> emits (all_calls F) (Query c sql args)"
  "F (CQuery c sql args) \<Longrightarrow> emits (all_calls F) (QueryRow c sql args)"
  "F (CClose (conn_id c)) \<Longrightarrow> emits (all_calls F) (Close c)"
  "F CRange \<Longrightarrow> emits (all_calls F) (range_map m)"
  by (simp_all add: emits_def Exec_def Query_def QueryRow_def Close_def range_map_def spec_simps)

lemma all_calls_or_panic [emits_intros]: "emits (all_calls F) (or_panic v)"
  by (simp add: or_panic_def emits_def spec_simps split: sum.split)

lemma all_calls_withConn [emits_intros]:
  assumes get: "opens_pool get" and "\<And>d u w. F (CNew d u w)" and "\<And>h. F (CClose h)"
    and "\<And>e. emits (all_calls F) (onerr e)" and "\<And>c. emits (all_calls F) (body c)"
  shows "emits (all_calls F) (withConn get onerr body)"
  unfolding withConn_def
proof (rule calls.emits_pbind)
  show "emits (all_calls F) get"
    using get unfolding opens_pool_def emits_def by (rule spec_mono) (auto simp: assms(2))
qed (auto intro!: calls.emits_rules emits_intros assms split: sum.split)

text \<open>Programs that execute no statement.\<close>

definition not_exec :: "db_call \<Rightarrow> bool" where
  "not_exec c \<longleftrightarrow> (\<forall>cn sql args. c \<noteq> CExec cn sql args)"

lemma not_exec_simps [simp]:
  "not_exec (CNew d u w)" "not_exec (CClose h)" "not_exec (CQuery cn sql args)" "not_exec CRange"
  "\<not> not_exec (CExec cn sql args)" "not_exec CLock" "not_exec CUnlock" "not_exec CGenerate"
  by (simp_all add: not_exec_def)

lemma execs_none: "all_calls not_exec u \<Longrightarrow> execs u = []"
  by (induction u rule: execs.induct) auto

lemma execs_not_exec: "emits (all_calls not_exec) m \<Longrightarrow> beh m out u \<Longrightarrow> execs u = []"
  by (rule execs_none) (rule emitsD)

subsection \<open>Specifications of the executed statements\<close>

text \<open>Rules for properties that depend on the outcome and the executed statements only.\<close>

lemma spec_withConn:
  assumes get: "opens_pool get" and onerr: "\<And>e. spec (onerr e) (\<lambda>out u. Q out (execs u))"
    and body: "\<And>c. spec (body c) (\<lambda>out u. Q out (execs u))"
  shows "spec (withConn get onerr body) (\<lambda>out u. Q out (execs u))"
proof (rule specI)
  fix out u
  assume "beh (withConn get onerr body) out u"
  with get show "Q out (execs u)"
  proof (cases rule: beh_withConn)
    case (failed d us w r e u')
    then show ?thesis using specD [OF onerr] by simp
  next
    case (opened d us w c u' r)
    then show ?thesis using specD [OF body] by simp
  qed
qed

lemma spec_withLock: "spec body (\<lambda>out u. Q out (execs u)) \<Longrightarrow> spec (withLock body) (\<lambda>out u. Q out (execs u))"
  by (auto simp: spec_def beh_withLock)

lemma spec_Query:
  "(\<And>res. spec (f res) (\<lambda>out u. Q out (execs u))) \<Longrightarrow> spec (pbind (Query c sql args) f) (\<lambda>out u. Q out (execs u))"
  "(\<And>row. spec (g row) (\<lambda>out u. Q out (execs u))) \<Longrightarrow> spec (pbind (QueryRow c sql args) g) (\<lambda>out u. Q out (execs u))"
  by (simp_all add: Query_def QueryRow_def spec_Call)

lemma spec_Exec:
  "spec (pbind (Exec c sql args) f) (\<lambda>out u. Q out (execs u)) \<longleftrightarrow>
     (\<forall>r. spec (f (as_error r)) (\<lambda>out u. Q out ((sql, r) # execs u)))"
  by (simp add: Exec_def spec_Call)

end
