(* ===== verification/Replication_Controller.thy ===== *)
theory Replication_Controller
  imports Cluster_Adapter
begin

section \<open>The replication controller\<close>

text \<open>
  Models \<^verbatim>\<open>services/replication-controller\<close>: the client of PostgreSQL (\<^verbatim>\<open>pkg/postgres/client.go\<close>), the
  publications of logical replication (\<^verbatim>\<open>pkg/publicaion\<close>) and the replication right of users
  (\<^verbatim>\<open>pkg/users\<close>).  Connections and statements are the calls of \<^verbatim>\<open>Cluster_Adapter\<close>.  A handler gives
  \<open>Inl\<close> for an error it returns to the framework and \<open>Inr\<close> for the response it writes; a panic reaches the
  recovery of the framework.
\<close>

subsection \<open>The client\<close>

record rc_client =
  rc_Host :: string
  rc_Port :: int
  rc_SSl :: string
  rc_User :: string
  rc_Password :: string
  rc_DefaultDB :: string
  rc_Health :: string

definition rc_healthQuery :: string where
  "rc_healthQuery = ''SELECT 1 FROM pg_catalog.pg_tables''"

definition EscapeInputValue :: "string \<Rightarrow> string" where
  "EscapeInputValue value = replace_char dq [dq, dq] (replace_char sq [sq, sq] value)"

definition rc_getConnectionUrl :: "rc_client \<Rightarrow> string \<Rightarrow> string \<Rightarrow> string \<Rightarrow> string" where
  "rc_getConnectionUrl ca username password database =
     (if rc_SSl ca = ''on'' then
        ''postgres://'' @ username @ '':'' @ password @ ''@'' @ rc_Host ca @ '':'' @ itoa (rc_Port ca)
        @ ''/'' @ database @ ''?'' @ ''sslmode=require''
      else
        ''postgres://'' @ username @ '':'' @ password @ ''@'' @ rc_Host ca @ '':'' @ itoa (rc_Port ca)
        @ ''/'' @ database)"

definition rc_getConnectionToDbWithUser :: "rc_client \<Rightarrow> string \<Rightarrow> string \<Rightarrow> string \<Rightarrow> (err + conn) db" where
  "rc_getConnectionToDbWithUser ca database username password =
     Call (CNew database username (rc_getConnectionUrl ca username password database))
       (\<lambda>r. Ret (case as_conn r of
          Inl e \<Rightarrow> Inl e
        | Inr h \<Rightarrow> Inr \<lparr>conn_id = h, conn_db = database, conn_user = username\<rparr>))"

definition rc_GetConnectionToDbWithUser :: "rc_client \<Rightarrow> string \<Rightarrow> string \<Rightarrow> string \<Rightarrow> (err + conn) db" where
  "rc_GetConnectionToDbWithUser ca database username password =
     rc_getConnectionToDbWithUser ca database username password"

definition rc_GetConnectionToDb :: "rc_client \<Rightarrow> string \<Rightarrow> (err + conn) db" where
  "rc_GetConnectionToDb ca database =
     rc_GetConnectionToDbWithUser ca (if database = '''' then rc_DefaultDB ca else database)
       (rc_User ca) (rc_Password ca)"

definition rc_GetConnection :: "rc_client \<Rightarrow> (err + conn) db" where
  "rc_GetConnection ca = rc_GetConnectionToDb ca (rc_DefaultDB ca)"

definition rc_executeHealthQuery :: "rc_client \<Rightarrow> err option db" where
  "rc_executeHealthQuery ca =
     withConn (rc_getConnectionToDbWithUser ca (rc_DefaultDB ca) (rc_User ca) (rc_Password ca))
       (\<lambda>e. Ret (Some e)) (\<lambda>c. Exec c rc_healthQuery [])"

definition rc_getHealth :: "rc_client \<Rightarrow> string db" where
  "rc_getHealth ca = pbind (rc_executeHealthQuery ca) (\<lambda>err.
     Ret (if err \<noteq> None then HealthOOS else HealthUP))"

definition rc_RequestHealth :: "rc_client \<Rightarrow> string db" where
  "rc_RequestHealth ca = Call CTimer (\<lambda>r.
     if as_error r \<noteq> None then Panic ''postgres connection timeout expired''
     else pbind (rc_getHealth ca) (\<lambda>healthStatus.
       if healthStatus = HealthOOS then Panic ''postgres is unavailable'' else Ret healthStatus))"

definition rc_NewClient :: "string \<Rightarrow> int \<Rightarrow> string \<Rightarrow> string \<Rightarrow> string \<Rightarrow> string \<Rightarrow> rc_client db" where
  "rc_NewClient host port username password database ssl =
     (let c = \<lparr>rc_Host = host, rc_Port = port, rc_SSl = ssl, rc_User = PathEscape username,
               rc_Password = PathEscape password, rc_DefaultDB = database, rc_Health = HealthUP\<rparr>
      in pseq (rc_RequestHealth c) (Ret c))"

subsection \<open>SQL of publications\<close>

definition pubGetQuery :: string where
  "pubGetQuery = ''select pubname as name, pubowner::regrole as owner from pg_publication where pubname=$1''"

definition pubGetTablesQuery :: string where
  "pubGetTablesQuery = ''select schemaname, tablename, attnames::TEXT, Coalesce(rowfilter,'' @ squote ''''
     @ '') from pg_publication_tables where pubname=$1''"

text \<open>A format with two verbs, as the function of its arguments.\<close>

type_synonym format2 = "string \<Rightarrow> string \<Rightarrow> string"

definition pubCreateWithTablesQuery :: format2 where
  "pubCreateWithTablesQuery p ts = ''CREATE publication '' @ dquote p @ '' FOR TABLE '' @ ts"
definition pubCreateWithSchemasQuery :: format2 where
  "pubCreateWithSchemasQuery p ss = ''CREATE publication '' @ dquote p @ '' FOR TABLES IN SCHEMA '' @ ss"
definition pubAlterAddWithTablesQuery :: format2 where
  "pubAlterAddWithTablesQuery p ts = ''ALTER PUBLICATION '' @ dquote p @ '' ADD TABLE '' @ ts"
definition pubAlterAddWithSchemasQuery :: format2 where
  "pubAlterAddWithSchemasQuery p ss = ''ALTER PUBLICATION '' @ dquote p @ '' ADD TABLES IN SCHEMA '' @ ss"
definition pubAlterSetWithTablesQuery :: format2 where
  "pubAlterSetWithTablesQuery p ts = ''ALTER PUBLICATION '' @ dquote p @ '' SET TABLE '' @ ts"

definition schemasAppend :: string where "schemasAppend = ''TABLES IN SCHEMA''"

definition getPubCreateAllTablesQuery :: "string \<Rightarrow> string" where
  "getPubCreateAllTablesQuery publication =
     ''CREATE publication '' @ dquote (EscapeInputValue publication) @ '' FOR ALL TABLES;''"

definition getPubDropQuery :: "string \<Rightarrow> string" where
  "getPubDropQuery publication = ''DROP publication '' @ dquote (EscapeInputValue publication) @ '';''"

text \<open>\<open>strings.Split\<close> gives at least one element, so the first index never panics.\<close>

definition prepareTableWithArgs :: "string \<Rightarrow> string" where
  "prepareTableWithArgs table =
     (let tableWithArgs = split_on CHR ''('' table in
      if length tableWithArgs > 1 then dquote (tableWithArgs ! 0) @ ''('' @ tableWithArgs ! 1
      else dquote table)"

definition prepareTableWithSchema :: "string \<Rightarrow> string" where
  "prepareTableWithSchema table =
     (let tableArr = split_on CHR ''.'' table in
      dquote (tableArr ! 0) @ ''.'' @ prepareTableWithArgs (tableArr ! 1))"

definition prepareTables :: "string list \<Rightarrow> string list" where
  "prepareTables tables = map (\<lambda>origTable.
     let table = EscapeInputValue origTable in
     if contains_sub ''.'' table then prepareTableWithSchema table else prepareTableWithArgs table) tables"

definition prepareSchemas :: "string list \<Rightarrow> string list" where
  "prepareSchemas schemas = map (\<lambda>origSchema. dquote (EscapeInputValue origSchema)) schemas"

definition formQueryWithTablesAndSchemas ::
  "string \<Rightarrow> string list \<Rightarrow> string list \<Rightarrow> format2 \<Rightarrow> format2 \<Rightarrow> string" where
  "formQueryWithTablesAndSchemas publication tables schemas queryForTables queryForSchemas =
     (let areTablesPresent = (length tables > 0);
          areSchemasPresent = (length schemas > 0);
          query = (if areTablesPresent
            then queryForTables (EscapeInputValue publication) (join_with '','' (prepareTables tables)) else '''')
      in if areSchemasPresent then
           (let prepSchemas = prepareSchemas schemas in
            if areTablesPresent then query @ '', '' @ schemasAppend @ '' '' @ join_with '','' prepSchemas @ '';''
            else queryForSchemas (EscapeInputValue publication) (join_with '','' prepSchemas))
         else query)"

definition getPubCreateQuery :: "string \<Rightarrow> string list \<Rightarrow> string list \<Rightarrow> string" where
  "getPubCreateQuery publication tables schemas =
     formQueryWithTablesAndSchemas publication tables schemas pubCreateWithTablesQuery pubCreateWithSchemasQuery"

definition getPubAlterAddQuery :: "string \<Rightarrow> string list \<Rightarrow> string list \<Rightarrow> string" where
  "getPubAlterAddQuery publication tables schemas =
     formQueryWithTablesAndSchemas publication tables schemas pubAlterAddWithTablesQuery pubAlterAddWithSchemasQuery"

definition getPubAlterSetQuery :: "string \<Rightarrow> string list \<Rightarrow> string list \<Rightarrow> string" where
  "getPubAlterSetQuery publication tables schemas =
     formQueryWithTablesAndSchemas publication tables schemas pubAlterSetWithTablesQuery pubAlterAddWithSchemasQuery"

subsection \<open>The publication controller\<close>

datatype pub_error = ErrNoRows | PubError err

record common_request =
  PubName :: string
  Database :: string
  Tables :: "string list"
  Schemas :: "string list"

record pub_table =
  t_Name :: string
  t_Attr :: "string list"
  t_RowFilter :: string

record publication_info =
  pi_Name :: string
  pi_Owner :: string
  pi_Database :: string
  pi_Tables :: "(string \<times> pub_table list) list"

definition validatePublication :: "string \<Rightarrow> string \<Rightarrow> err option" where
  "validatePublication publication database =
     (if length database = 0 then Some ''database must not be empty''
      else if length publication = 0 then Some ''database must not be empty''
      else None)"

definition trim_char :: "char \<Rightarrow> string \<Rightarrow> string" where
  "trim_char c s = rev (dropWhile (\<lambda>x. x = c) (rev (dropWhile (\<lambda>x. x = c) s)))"

definition convAttrStrToSlice :: "string \<Rightarrow> string list" where
  "convAttrStrToSlice attrs = split_on CHR '','' (trim_char CHR ''}'' (trim_char CHR ''{'' attrs))"

fun scan_table :: "scan \<Rightarrow> err + string \<times> pub_table" where
  "scan_table (Row [VStr schema, VStr name, VStr attrStr, VStr rowFilter]) =
     Inr (schema, \<lparr>t_Name = name, t_Attr = convAttrStrToSlice attrStr, t_RowFilter = rowFilter\<rparr>)"
| "scan_table (ScanErr e) = Inl e"
| "scan_table _ = Inl ''cannot scan''"

definition addTable :: "(string \<times> pub_table list) list \<Rightarrow> string \<times> pub_table \<Rightarrow> (string \<times> pub_table list) list" where
  "addTable tablesInfo entry = (case entry of (schema, table) \<Rightarrow>
     (case map_of tablesInfo schema of
        Some tables \<Rightarrow> AList.update schema (tables @ [table]) tablesInfo
      | None \<Rightarrow> AList.update schema [table] tablesInfo))"

definition processTableRows :: "scan list \<Rightarrow> err + (string \<times> pub_table list) list" where
  "processTableRows rows =
     (case scan_all scan_table rows of
        Inl e \<Rightarrow> Inl e
      | Inr entries \<Rightarrow> Inr (foldl addTable [] entries))"

fun scan_two :: "scan \<Rightarrow> err + string \<times> string" where
  "scan_two (Row [VStr a, VStr b]) = Inr (a, b)"
| "scan_two (ScanErr e) = Inl e"
| "scan_two _ = Inl ''cannot scan''"

definition getPublicationInternal :: "rc_client \<Rightarrow> string \<Rightarrow> string \<Rightarrow> bool \<Rightarrow> (pub_error + publication_info) db" where
  "getPublicationInternal pgClient publication database withTables =
     withConn (rc_GetConnectionToDb pgClient database)
       (\<lambda>e. if contains_sub ''(SQLSTATE 3D000)'' e then Ret (Inl ErrNoRows) else Panic e)
       (\<lambda>c. pbind (Query c pubGetQuery [VStr publication]) (\<lambda>rows. case rows of
          Inl e \<Rightarrow> Panic e
        | Inr [] \<Rightarrow> Ret (Inl ErrNoRows)
        | Inr (row # _) \<Rightarrow> (case scan_two row of
            Inl e \<Rightarrow> Panic e
          | Inr (name, owner) \<Rightarrow>
            pbind (if withTables then
                pbind (Query c pubGetTablesQuery [VStr publication]) (\<lambda>rows. case rows of
                  Inl e \<Rightarrow> Panic e
                | Inr rs \<Rightarrow> or_panic (processTableRows rs))
              else Ret []) (\<lambda>tables.
            Ret (Inr \<lparr>pi_Name = name, pi_Owner = owner, pi_Database = database, pi_Tables = tables\<rparr>)))))"

definition getPublication :: "rc_client \<Rightarrow> common_request \<Rightarrow> bool \<Rightarrow> (pub_error + publication_info) db" where
  "getPublication pgClient request withTables =
     (case validatePublication (PubName request) (Database request) of
        Some e \<Rightarrow> Ret (Inl (PubError e))
      | None \<Rightarrow> getPublicationInternal pgClient (PubName request) (Database request) withTables)"

definition isPublicationExists :: "rc_client \<Rightarrow> string \<Rightarrow> string \<Rightarrow> bool db" where
  "isPublicationExists pgClient publication database =
     pbind (getPublicationInternal pgClient publication database False) (\<lambda>res. Ret (res \<noteq> Inl ErrNoRows))"

text \<open>The tail of the changing operations: connect, execute, panic on an error.\<close>

definition execOrPanic :: "rc_client \<Rightarrow> string \<Rightarrow> string \<Rightarrow> pub_error option db" where
  "execOrPanic pgClient database query =
     withConn (rc_GetConnectionToDb pgClient database) Panic (\<lambda>c.
       pbind (Exec c query []) (\<lambda>err. case err of Some e \<Rightarrow> Panic e | None \<Rightarrow> Ret None))"

definition createPublication :: "rc_client \<Rightarrow> common_request \<Rightarrow> pub_error option db" where
  "createPublication pgClient request =
     (case validatePublication (PubName request) (Database request) of
        Some e \<Rightarrow> Ret (Some (PubError e))
      | None \<Rightarrow>
        pbind (isPublicationExists pgClient (PubName request) (Database request)) (\<lambda>exists.
        if exists then Ret None
        else execOrPanic pgClient (Database request)
          (if length (Tables request) = 0 \<and> length (Schemas request) = 0
           then getPubCreateAllTablesQuery (PubName request)
           else getPubCreateQuery (PubName request) (Tables request) (Schemas request))))"

text \<open>
  The two alterations differ in the statement only.  An object that is a member already, SQLSTATE
  42710, is an error of the request, every other error a panic.
\<close>

definition alterWith :: "(string \<Rightarrow> string list \<Rightarrow> string list \<Rightarrow> string) \<Rightarrow> rc_client \<Rightarrow> common_request \<Rightarrow> pub_error option db" where
  "alterWith query pgClient request =
     (case validatePublication (PubName request) (Database request) of
        Some e \<Rightarrow> Ret (Some (PubError e))
      | None \<Rightarrow>
        pbind (isPublicationExists pgClient (PubName request) (Database request)) (\<lambda>exists.
        if \<not> exists then Ret (Some ErrNoRows)
        else if length (Tables request) = 0 \<and> length (Schemas request) = 0 then
          Ret (Some (PubError (''Nothing to add to publication '' @ PubName request @ '' in database '' @ Database request)))
        else withConn (rc_GetConnectionToDb pgClient (Database request)) Panic (\<lambda>c.
          pbind (Exec c (query (PubName request) (Tables request) (Schemas request)) []) (\<lambda>err. case err of
            Some e \<Rightarrow> if contains_sub ''(SQLSTATE 42710)'' e then Ret (Some (PubError e)) else Panic e
          | None \<Rightarrow> Ret None))))"

definition alterAddPublication :: "rc_client \<Rightarrow> common_request \<Rightarrow> pub_error option db" where
  "alterAddPublication = alterWith getPubAlterAddQuery"

definition alterSetPublication :: "rc_client \<Rightarrow> common_request \<Rightarrow> pub_error option db" where
  "alterSetPublication = alterWith getPubAlterSetQuery"

definition dropPublication :: "rc_client \<Rightarrow> common_request \<Rightarrow> pub_error option db" where
  "dropPublication pgClient request =
     (case validatePublication (PubName request) (Database request) of
        Some e \<Rightarrow> Ret (Some (PubError e))
      | None \<Rightarrow>
        pbind (isPublicationExists pgClient (PubName request) (Database request)) (\<lambda>exists.
        if \<not> exists then Ret None
        else execOrPanic pgClient (Database request) (getPubDropQuery (PubName request))))"

subsection \<open>Handlers\<close>

datatype rc_body = RText string | RPublication publication_info | REmpty

type_synonym rc_response = "err + nat \<times> rc_body"

fun pub_error_text :: "pub_error \<Rightarrow> string" where
  "pub_error_text ErrNoRows = ''no rows in result set''"
| "pub_error_text (PubError e) = e"

definition badReq :: "pub_error \<Rightarrow> nat \<times> rc_body" where
  "badReq e = (400, RText (pub_error_text e))"

definition okResponse :: "nat \<times> rc_body" where
  "okResponse = (200, RText ''OK'')"

text \<open>\<open>body\<close> is what parsing the request gives; an empty body is the request with empty fields.\<close>

definition handleCommonFunc :: "(common_request \<Rightarrow> pub_error option db) \<Rightarrow> err + common_request \<Rightarrow> rc_response db" where
  "handleCommonFunc handleFunc body =
     (case body of
        Inl e \<Rightarrow> Ret (Inl e)
      | Inr request \<Rightarrow> pbind (handleFunc request) (\<lambda>err.
          Ret (Inr (case err of Some e \<Rightarrow> badReq e | None \<Rightarrow> okResponse))))"

definition PublicationCreateHandler :: "rc_client \<Rightarrow> err + common_request \<Rightarrow> rc_response db" where
  "PublicationCreateHandler pc = handleCommonFunc (createPublication pc)"
definition PublicationAlterAddHandler :: "rc_client \<Rightarrow> err + common_request \<Rightarrow> rc_response db" where
  "PublicationAlterAddHandler pc = handleCommonFunc (alterAddPublication pc)"
definition PublicationAlterSetHandler :: "rc_client \<Rightarrow> err + common_request \<Rightarrow> rc_response db" where
  "PublicationAlterSetHandler pc = handleCommonFunc (alterSetPublication pc)"
definition PublicationDropHandler :: "rc_client \<Rightarrow> err + common_request \<Rightarrow> rc_response db" where
  "PublicationDropHandler pc = handleCommonFunc (dropPublication pc)"

definition getQueryBoolParam :: "string option \<Rightarrow> err + bool" where
  "getQueryBoolParam param =
     (case parse_bool (case param of Some s \<Rightarrow> s | None \<Rightarrow> ''false'') of
        None \<Rightarrow> Inl ''invalid syntax'' | Some b \<Rightarrow> Inr b)"

definition PublicationGetHandler :: "rc_client \<Rightarrow> string \<Rightarrow> string \<Rightarrow> string option \<Rightarrow> rc_response db" where
  "PublicationGetHandler pc database publication withTablesParam =
     (case getQueryBoolParam withTablesParam of
        Inl e \<Rightarrow> Ret (Inr (badReq (PubError e)))
      | Inr withTables \<Rightarrow>
        pbind (getPublication pc \<lparr>PubName = publication, Database = database, Tables = [], Schemas = []\<rparr> withTables) (\<lambda>res.
        Ret (Inr (case res of
           Inl ErrNoRows \<Rightarrow> (404, REmpty)
         | Inl e \<Rightarrow> badReq e
         | Inr pubInfo \<Rightarrow> (200, RPublication pubInfo)))))"

subsection \<open>Users\<close>

definition validateGrantRequest :: "string \<Rightarrow> err option" where
  "validateGrantRequest username = (if length username = 0 then Some ''username must not be empty'' else None)"

definition getGrantReplicationQuery :: "string \<Rightarrow> string" where
  "getGrantReplicationQuery username = ''ALTER ROLE '' @ EscapeInputValue username @ '' WITH REPLICATION;''"

definition grantUserToReplication :: "rc_client \<Rightarrow> string \<Rightarrow> pub_error option db" where
  "grantUserToReplication pgClient username =
     (case validateGrantRequest username of
        Some e \<Rightarrow> Ret (Some (PubError e))
      | None \<Rightarrow> withConn (rc_GetConnection pgClient) Panic (\<lambda>c.
          pbind (Exec c (getGrantReplicationQuery username) []) (\<lambda>err. case err of
            Some e \<Rightarrow> Panic e | None \<Rightarrow> Ret None)))"

definition GrantUserHandler :: "rc_client \<Rightarrow> err + string \<Rightarrow> rc_response db" where
  "GrantUserHandler pc body =
     (case body of
        Inl e \<Rightarrow> Ret (Inl e)
      | Inr username \<Rightarrow> pbind (grantUserToReplication pc username) (\<lambda>err.
          Ret (Inr (case err of Some e \<Rightarrow> badReq e | None \<Rightarrow> okResponse))))"

end
