(* ===== verification/Dbaas_Service.thy ===== *)
theory Dbaas_Service
  imports Cluster_Adapter
begin

section \<open>The service adapter: state and helpers\<close>

text \<open>
  Models the types of \<^verbatim>\<open>services/dbaas-adapter/adapter/basic/type.go\<close>, the request and response
  types of the core package as far as the adapter reads and writes them, and the helper methods
  of \<^verbatim>\<open>basic.go\<close> the other theories build on: name validation, settings, extensions, connection
  properties and the best-effort clean-up of databases and users.
\<close>

subsection \<open>Types\<close>

record service_adapter =
  ClusterAdapter :: cluster_adapter
  DefaultExt :: "string list option" \<comment> \<open>\<open>None\<close> is the nil slice\<close>
  ExtUpdateRequired :: bool
  ApiVersion :: string
  sa_roles :: "string list"
  sa_features :: "(string \<times> bool) list"
  EXTERNAL_POSTGRESQL :: string \<comment> \<open>the environment variable, empty when it is not set\<close>

record db_resource =
  Kind :: string
  Name :: string
  Status :: string
  ErrorMessage :: string

record db_create_request =
  cr_Metadata :: "gomap option" \<comment> \<open>\<open>None\<close> is the nil map\<close>
  cr_DbName :: string
  cr_NamePrefix :: "string option"
  cr_Username :: string
  cr_Password :: string
  cr_Settings :: gomap

record user_create_request =
  ur_UsernamePrefix :: string
  ur_DbName :: string
  ur_Role :: string
  ur_Password :: string

record described_database =
  dd_ConnectionProperties :: "gomap list"
  dd_Resources :: "db_resource list"

record created_user =
  cu_ConnectionProperties :: gomap
  cu_Name :: string
  cu_Resources :: "db_resource list"

record pg_settings =
  CreationParameters :: "(string \<times> string) list"
  Extensions :: "string list"
  NotSupported :: "string list"

definition DbKind :: string where "DbKind = ''database''"
definition UserKind :: string where "UserKind = ''user''"
definition DeletedStatus :: string where "DeletedStatus = ''DELETED''"
definition DeleteFailedStatus :: string where "DeleteFailedStatus = ''DELETE_FAILED''"
definition BadRequest :: string where "BadRequest = ''BAD_REQUEST''"
definition Failed :: string where "Failed = ''FAILED''"
definition Skipped :: string where "Skipped = ''SKIPPED''"
definition Successful :: string where "Successful = ''SUCCESSFUL''"
definition RolesVersionKey :: string where "RolesVersionKey = ''rolesVersion''"
definition RolesKey :: string where "RolesKey = ''roles''"
definition MetadataKey :: string where "MetadataKey = ''metadata''"
definition DefaultPrefix :: string where "DefaultPrefix = ''dbaas''"
definition CreationParametersKey :: string where "CreationParametersKey = ''dbCreationParameters''"
definition PGExtensionsKey :: string where "PGExtensionsKey = ''pgExtensions''"
definition UpdateRequiredKey :: string where "UpdateRequiredKey = ''updateRequired''"
definition ExtensionsKey :: string where "ExtensionsKey = ''extensions''"
definition ExtensionPath :: string where "ExtensionPath = ''/app/extensions/''"
definition ExtensionName :: string where "ExtensionName = ''dbaas.default_extensions.json''"
definition defaultSchema :: string where "defaultSchema = ''public''"
definition FeatureMultiUsers :: string where "FeatureMultiUsers = ''multiusers''"

abbreviation saUser :: "service_adapter \<Rightarrow> string" where
  "saUser sa \<equiv> ca_User (ClusterAdapter sa)"

definition resource :: "string \<Rightarrow> string \<Rightarrow> db_resource" where
  "resource kind name = \<lparr>Kind = kind, Name = name, Status = '''', ErrorMessage = ''''\<rparr>"

subsection \<open>Construction\<close>

text \<open>
  The file is read and parsed by the environment: \<open>RErr\<close> is a read error, \<open>RJson\<close> the parsed
  object and any other response text that does not parse.
\<close>

definition readDefaultExtFile :: "(string list \<times> bool) db" where
  "readDefaultExtFile = Call (CReadFile (ExtensionPath @ ExtensionName)) (\<lambda>r.
     case r of
       RErr _ \<Rightarrow> Ret ([], False)
     | _ \<Rightarrow>
       (let extensionMap = (case r of RJson (JObj m) \<Rightarrow> m | _ \<Rightarrow> []) in
        pbind (or_panic (GetStringArrayFromInterface (map_get extensionMap ExtensionsKey))) (\<lambda>extensionSlice.
        case map_get extensionMap UpdateRequiredKey of
          JBool updateRequired \<Rightarrow> Ret (extensionSlice, updateRequired)
        | _ \<Rightarrow> Panic conversion_panic)))"

definition NewServiceAdapter ::
  "cluster_adapter \<Rightarrow> string \<Rightarrow> string list \<Rightarrow> (string \<times> bool) list \<Rightarrow> string \<Rightarrow> service_adapter db" where
  "NewServiceAdapter clusterAdapter version roles features ext =
     pbind readDefaultExtFile (\<lambda>(exts, upd).
       Ret \<lparr>ClusterAdapter = clusterAdapter, DefaultExt = Some exts, ExtUpdateRequired = upd,
            ApiVersion = version, sa_roles = roles, sa_features = features,
            EXTERNAL_POSTGRESQL = ext\<rparr>)"

definition IsMultiUsersEnabled :: "service_adapter \<Rightarrow> bool" where
  "IsMultiUsersEnabled sa = (case map_of (sa_features sa) FeatureMultiUsers of Some b \<Rightarrow> b | None \<Rightarrow> False)"

definition GetSupportedRoles :: "service_adapter \<Rightarrow> string list" where
  "GetSupportedRoles sa = (if IsMultiUsersEnabled sa then sa_roles sa else [''admin''])"

definition GetDBPrefixDelimiter :: string where "GetDBPrefixDelimiter = ''_''"

definition IsExternalPostgreSQl :: "service_adapter \<Rightarrow> bool" where
  "IsExternalPostgreSQl sa \<longleftrightarrow> EXTERNAL_POSTGRESQL sa \<noteq> ''''"

subsection \<open>Names and connection properties\<close>

definition Generate :: "string db" where
  "Generate = Call CGenerate (\<lambda>r. Ret (replace_char CHR ''-'' []
     (case as_str r of Inr s \<Rightarrow> s | Inl _ \<Rightarrow> [])))"

definition validateDbIdentifierParam :: "string \<Rightarrow> id_pattern \<Rightarrow> bool" where
  "validateDbIdentifierParam paramValue pattern =
     (if paramValue \<noteq> '''' then match_pattern pattern paramValue else True)"

text \<open>The message of the errors built when a name does not match.\<close>

definition idPatternError :: "string \<Rightarrow> id_pattern \<Rightarrow> err" where
  "idPatternError param pattern = param @ '' must comply to the pattern '' @ pattern_text pattern"

definition getUsernameWithoutHost :: "string \<Rightarrow> string" where
  "getUsernameWithoutHost username = hd (split_on CHR ''@'' username)"

definition getUserNameWithHostName :: "service_adapter \<Rightarrow> string \<Rightarrow> string" where
  "getUserNameWithHostName sa userName =
     (let values = split_on CHR ''@'' (saUser sa) in
      if length values > 1 then userName @ ''@'' @ values ! 1 else userName)"

definition getConnectionProperties :: "service_adapter \<Rightarrow> string \<Rightarrow> string \<Rightarrow> string \<Rightarrow> string \<Rightarrow> gomap" where
  "getConnectionProperties sa dbName username role password =
     (let url = ''jdbc:postgresql://'' @ ca_Host (ClusterAdapter sa) @ '':'' @ itoa (ca_Port (ClusterAdapter sa)) @ ''/'' @ dbName;
          connectionProps =
            [(''name'', JStr dbName), (''url'', JStr url),
             (''host'', JStr (ca_Host (ClusterAdapter sa))),
             (''port'', JNum (of_int (ca_Port (ClusterAdapter sa)))),
             (''username'', JStr (getUserNameWithHostName sa username)),
             (''password'', JStr password)]
      in if length role > 0 then AList.update ''role'' (JStr role) connectionProps else connectionProps)"

subsection \<open>Extensions and settings\<close>

text \<open>
  The error of the query is dropped in the source: pgx then gives rows that are empty.
\<close>

definition getPostgresAvailableExtensions :: "service_adapter \<Rightarrow> (err + string list) db" where
  "getPostgresAvailableExtensions sa =
     withConn (GetConnection (ClusterAdapter sa)) (\<lambda>e. Ret (Inl e)) (\<lambda>c.
       pbind (Query c selectPostgresAvailableExtensions []) (\<lambda>rows.
         case rows of Inl _ \<Rightarrow> Ret (Inr []) | Inr rs \<Rightarrow> Ret (scan_all scan_string rs)))"

definition validateSettings :: "service_adapter \<Rightarrow> gomap \<Rightarrow> err option db" where
  "validateSettings sa settings =
     (if map_get settings PGExtensionsKey \<noteq> JNull then
        pbind (getPostgresAvailableExtensions sa) (\<lambda>res. case res of
          Inl e \<Rightarrow> Ret (Some e)
        | Inr extensions \<Rightarrow>
            pbind (or_panic (GetStringArrayFromInterface (map_get settings PGExtensionsKey))) (\<lambda>requested.
              for_err requested (\<lambda>requestExtension.
                if \<not> Contains extensions requestExtension
                then Ret (Some (''request contains not valid Postgres extensions. '' @ requestExtension))
                else Ret None)))
      else Ret None)"

fun ValidateExtensionList :: "string list \<Rightarrow> string list \<Rightarrow> bool" where
  "ValidateExtensionList availableExtensions [] = True"
| "ValidateExtensionList availableExtensions (extension # extensions) =
     (if \<not> Contains availableExtensions extension then False
      else ValidateExtensionList availableExtensions extensions)"

definition ValidatePostgresAvailableExtensions :: "service_adapter \<Rightarrow> string list \<Rightarrow> (err + bool) db" where
  "ValidatePostgresAvailableExtensions sa extensions =
     ptry (getPostgresAvailableExtensions sa) (\<lambda>availableExtensions.
       Ret (Inr (ValidateExtensionList availableExtensions extensions)))"

definition getConnectionLimitFromTemplate1Db :: "service_adapter \<Rightarrow> string db" where
  "getConnectionLimitFromTemplate1Db sa =
     withConn (GetConnection (ClusterAdapter sa)) (\<lambda>e. Ret ''-1'') (\<lambda>c.
       pbind (Query c getConnectionLimitFromTemplate1 []) (\<lambda>rows. Ret (case rows of
          Inl _ \<Rightarrow> ''-1''
        | Inr rs \<Rightarrow> (case scan_all scan_string rs of
            Inl _ \<Rightarrow> ''-1''
          | Inr limits \<Rightarrow> if limits = [] then '''' else last limits))))"

text \<open>\<open>parameters\<close> in the order of the \<open>range\<close>.\<close>

fun validateCreationParameters :: "(string \<times> string) list \<Rightarrow> err option" where
  "validateCreationParameters [] = None"
| "validateCreationParameters ((k, _) # parameters) =
     (if \<not> Contains crParamsKeys (to_upper k)
      then Some (''request contains not valid parameter '' @ squote k @ '' in the creation parameters'')
      else validateCreationParameters parameters)"

definition getPgSettings_step :: "service_adapter \<Rightarrow> string \<times> json \<Rightarrow> pg_settings \<Rightarrow> (err + pg_settings) db" where
  "getPgSettings_step sa kv s = (case kv of (key, value) \<Rightarrow>
     if key = CreationParametersKey then
       pbind (or_panic (GetMapStringFromMapInterface value)) (\<lambda>creationParameters.
       pbind (range_map creationParameters) (\<lambda>ordered.
       case validateCreationParameters ordered of
         Some e \<Rightarrow> Ret (Inl e)
       | None \<Rightarrow> pbind (getConnectionLimitFromTemplate1Db sa) (\<lambda>limit.
           Ret (Inr (s\<lparr>CreationParameters := AList.update ''connection limit'' limit creationParameters\<rparr>)))))
     else if key = PGExtensionsKey then
       pbind (or_panic (GetStringArrayFromInterface value)) (\<lambda>extensions.
         Ret (Inr (s\<lparr>Extensions := extensions\<rparr>)))
     else Ret (Inr (s\<lparr>NotSupported := NotSupported s @ [key]\<rparr>)))"

definition getPgSettings :: "service_adapter \<Rightarrow> gomap \<Rightarrow> (err + pg_settings) db" where
  "getPgSettings sa settings =
     pbind (range_map settings) (\<lambda>entries.
       foreach entries \<lparr>CreationParameters = [], Extensions = [], NotSupported = []\<rparr>
         (getPgSettings_step sa))"

definition CreateExtFromSlice :: "conn \<Rightarrow> string \<Rightarrow> string list \<Rightarrow> unit db" where
  "CreateExtFromSlice c username extensions =
     for_do extensions (\<lambda>extension.
       pseq (Exec c (createExtensionIfNotExist extension) [])
       (if extension = OracleFdw then
          pseq (Exec c (grantRightsForFdw extension username) []) (Ret ())
        else if extension = Dblink then
          pseq (Exec c (grantRightsForFdw ''dblink_fdw'' username) [])
          (for_do dblinkFuncs (\<lambda>function. pseq (Exec c (setGrantOnFunction function username) []) (Ret ())))
        else Ret ()))"

definition createExtensions :: "service_adapter \<Rightarrow> string \<Rightarrow> string \<Rightarrow> string list \<Rightarrow> unit db" where
  "createExtensions sa dbName username extensions =
     (if username = '''' then Ret ()
      else withConn (GetConnectionToDb (ClusterAdapter sa) dbName) (\<lambda>_. Ret ()) (\<lambda>c.
        pseq (if length extensions > 0 then CreateExtFromSlice c username extensions else Ret ())
        (case DefaultExt sa of
           Some defaults \<Rightarrow> CreateExtFromSlice c username defaults
         | None \<Rightarrow> Ret ())))"

subsection \<open>Clean-up and small queries\<close>

definition sa_dropDatabase :: "service_adapter \<Rightarrow> string \<Rightarrow> unit db" where
  "sa_dropDatabase sa dbName =
     withConn (GetConnection (ClusterAdapter sa)) (\<lambda>_. Ret ()) (\<lambda>c.
       pseq (Exec c (dropDatabase dbName) []) (Ret ()))"

definition sa_dropUser :: "service_adapter \<Rightarrow> string \<Rightarrow> unit db" where
  "sa_dropUser sa username =
     withConn (GetConnection (ClusterAdapter sa)) (\<lambda>_. Ret ()) (\<lambda>c.
       pseq (Exec c (dropUser username) []) (Ret ()))"

definition sa_dropUsers :: "service_adapter \<Rightarrow> (string \<times> string) list \<Rightarrow> unit db" where
  "sa_dropUsers sa users =
     pbind (range_map users) (\<lambda>entries. for_do entries (\<lambda>(user, _). sa_dropUser sa user))"

definition enableDatabase :: "service_adapter \<Rightarrow> string \<Rightarrow> unit db" where
  "enableDatabase sa dbName =
     withConn (GetConnection (ClusterAdapter sa)) (\<lambda>_. Ret ()) (\<lambda>c.
       pseq (if EXTERNAL_POSTGRESQL sa \<noteq> '''' then Exec c (allowConnectionsToDbExt dbName) []
             else Exec c (allowConnectionsToDb dbName) [])
       (Ret ()))"

definition isUserExist :: "conn \<Rightarrow> string \<Rightarrow> (err + bool) db" where
  "isUserExist c username =
     pbind (Query c getUser [VStr username]) (\<lambda>rows. Ret (case rows of
       Inl e \<Rightarrow> Inl e | Inr rs \<Rightarrow> Inr (rs \<noteq> [])))"

definition getSchemasFromDB :: "service_adapter \<Rightarrow> string \<Rightarrow> (err + string list) db" where
  "getSchemasFromDB sa dbName =
     withConn (GetConnectionToDb (ClusterAdapter sa) dbName) (\<lambda>_. Ret (Inr [])) (\<lambda>c.
       ptry (Query c getSchemasQuery []) (\<lambda>rows. Ret (scan_all scan_string rows)))"

definition GetSchemas :: "service_adapter \<Rightarrow> string \<Rightarrow> (err + string list) db" where
  "GetSchemas sa dbName = ptry (getSchemasFromDB sa dbName) (\<lambda>schemas. Ret (Inr ([] @ schemas)))"

text \<open>Values of \<open>GetDatabases\<close>: every error is a panic.\<close>

definition sa_GetDatabases :: "service_adapter \<Rightarrow> string list db" where
  "sa_GetDatabases sa =
     withConn (GetConnection (ClusterAdapter sa)) Panic (\<lambda>c.
       pbind (Query c getDatabases []) (\<lambda>rows. case rows of
         Inl e \<Rightarrow> Panic e
       | Inr rs \<Rightarrow> or_panic (scan_all scan_string rs)))"

end
