(* ===== verification/Sql_Quoting.thy ===== *)
theory Sql_Quoting
  imports Dbaas_Service
begin

section \<open>What the SQL text means to PostgreSQL\<close>

text \<open>
  A reference definition of PostgreSQL's lexical rules (section 4.1 of its manual), as far as
  quoting goes: a quoted identifier or a string literal runs to the next quote that is not doubled,
  and every other character stands for itself.  The lemmas say how the statements of
  \<^verbatim>\<open>sql_helper.go\<close> are read under these rules, whatever the values put into them.
\<close>

subsection \<open>Tokens\<close>

datatype sql_token = Plain char | Identifier string | Literal string

text \<open>The token after its opening quote \<open>q\<close>, and the text behind it.\<close>

fun quoted :: "char \<Rightarrow> string \<Rightarrow> (string \<times> string) option" where
  "quoted q [] = None"
| "quoted q (c # cs) =
     (if c \<noteq> q then map_option (\<lambda>(v, rest). (c # v, rest)) (quoted q cs)
      else case cs of
        [] \<Rightarrow> Some ([], [])
      | d # ds \<Rightarrow> if d = q then map_option (\<lambda>(v, rest). (q # v, rest)) (quoted q ds) else Some ([], cs))"

lemma quoted_shorter: "quoted q s = Some (v, rest) \<Longrightarrow> length rest < length s"
  by (induction q s arbitrary: v rule: quoted.induct) (fastforce split: if_splits list.splits)+

function sql_tokens :: "string \<Rightarrow> sql_token list option" where
  "sql_tokens [] = Some []"
| "sql_tokens (c # cs) =
     (if c = dq \<or> c = sq then
        (case quoted c cs of
           None \<Rightarrow> None
         | Some (v, rest) \<Rightarrow>
             map_option (\<lambda>ts. (if c = dq then Identifier v else Literal v) # ts) (sql_tokens rest))
      else map_option (\<lambda>ts. Plain c # ts) (sql_tokens cs))"
  by pat_completeness auto
termination
  by (relation "measure length") (auto dest: quoted_shorter)

definition quote_free :: "string \<Rightarrow> bool" where
  "quote_free s \<longleftrightarrow> dq \<notin> set s \<and> sq \<notin> set s"

lemma quote_free_simps [simp]:
  "quote_free []"
  "quote_free (c # s) \<longleftrightarrow> c \<noteq> dq \<and> c \<noteq> sq \<and> quote_free s"
  "quote_free (s @ t) \<longleftrightarrow> quote_free s \<and> quote_free t"
  by (auto simp: quote_free_def)

lemma sql_tokens_plain:
  "quote_free s \<Longrightarrow> sql_tokens (s @ t) = map_option (\<lambda>ts. map Plain s @ ts) (sql_tokens t)"
  by (induction s) (cases "sql_tokens t"; simp)+

lemma sql_tokens_plain_all: "quote_free s \<Longrightarrow> sql_tokens s = Some (map Plain s)"
  using sql_tokens_plain [of s "[]"] by simp

text \<open>A doubled quote inside a token is one quote of its value; a text without the quote is itself.\<close>

lemma quoted_escaped:
  assumes "rest = [] \<or> hd rest \<noteq> q"
  shows "quoted q (replace_char q [q, q] v @ q # rest) = Some (v, rest)"
  using assms by (induction v) (auto split: list.split)

lemma quoted_verbatim:
  assumes "q \<notin> set v" and "rest = [] \<or> hd rest \<noteq> q"
  shows "quoted q (v @ q # rest) = Some (v, rest)"
  using quoted_escaped [OF assms(2), of v] by (simp add: replace_char_id [OF assms(1)])

subsection \<open>The escaping function\<close>

lemma replace_char_commute:
  "c \<noteq> d \<Longrightarrow> replace_char c [c, c] (replace_char d [d, d] v) = replace_char d [d, d] (replace_char c [c, c] v)"
  by (induction v) auto

lemma escape_id: "quote_free v \<Longrightarrow> escapeInputValue v = v"
  by (simp add: escapeInputValue_def quote_free_def replace_char_id)

lemma quoted_escape_identifier:
  "rest = [] \<or> hd rest \<noteq> dq \<Longrightarrow>
     quoted dq (escapeInputValue v @ dq # rest) = Some (replace_char sq [sq, sq] v, rest)"
  using quoted_escaped [of rest dq "replace_char sq [sq, sq] v"]
  by (simp add: escapeInputValue_def replace_char_commute [of sq dq])

lemma quoted_escape_literal:
  "rest = [] \<or> hd rest \<noteq> sq \<Longrightarrow>
     quoted sq (escapeInputValue v @ sq # rest) = Some (replace_char dq [dq, dq] v, rest)"
  using quoted_escaped [of rest sq "replace_char dq [dq, dq] v"]
  by (simp add: escapeInputValue_def)

lemma tokens_identifier:
  "rest = [] \<or> hd rest \<noteq> dq \<Longrightarrow>
     sql_tokens (dquote (escapeInputValue v) @ rest)
       = map_option (Cons (Identifier (replace_char sq [sq, sq] v))) (sql_tokens rest)"
  by (simp add: dquote_def quoted_escape_identifier)

lemma tokens_literal:
  "rest = [] \<or> hd rest \<noteq> sq \<Longrightarrow>
     sql_tokens (squote (escapeInputValue v) @ rest)
       = map_option (Cons (Literal (replace_char dq [dq, dq] v))) (sql_tokens rest)"
  by (simp add: squote_def quoted_escape_literal)

lemma tokens_plain_identifier:
  "quote_free v \<Longrightarrow> rest = [] \<or> hd rest \<noteq> dq \<Longrightarrow>
     sql_tokens (dquote v @ rest) = map_option (Cons (Identifier v)) (sql_tokens rest)"
  by (simp add: dquote_def quoted_verbatim quote_free_def)

lemma tokens_plain_literal:
  "quote_free v \<Longrightarrow> rest = [] \<or> hd rest \<noteq> sq \<Longrightarrow>
     sql_tokens (squote v @ rest) = map_option (Cons (Literal v)) (sql_tokens rest)"
  by (simp add: squote_def quoted_verbatim quote_free_def)

subsection \<open>Names and parameters that pass the checks\<close>

lemma is_word_quote: "is_word c \<Longrightarrow> c \<noteq> dq \<and> c \<noteq> sq" "is_lower c \<Longrightarrow> c \<noteq> dq \<and> c \<noteq> sq"
  by (auto simp: is_word_def is_lower_def Let_def)

lemma match_pattern_quote_free: "match_pattern p v \<Longrightarrow> quote_free v \<and> v \<noteq> [] \<and> length v \<le> 63"
  by (cases "(p, v)" rule: match_pattern.cases)
    (auto simp: quote_free_def list_all_iff dest: is_word_quote)

lemma is_digit_quote: "is_digit c \<Longrightarrow> c \<noteq> dq \<and> c \<noteq> sq"
  by (auto simp: is_digit_def Let_def)

lemma quote_free_itoa [simp]: "quote_free (itoa i)"
proof -
  have "quote_free (nat_str n)" for n
    using nat_str_digits [of n] by (auto simp: quote_free_def list_all_iff dest: is_digit_quote)
  then show ?thesis by (simp add: itoa_def)
qed

lemma to_upper_quote: "q \<in> {dq, sq} \<Longrightarrow> q \<in> set v \<Longrightarrow> q \<in> set (to_upper v)"
  by (force simp: to_upper_def upper_char_def Let_def intro: rev_image_eqI)

lemma creation_parameters_quote_free:
  "validateCreationParameters ps = None \<Longrightarrow> (k, v) \<in> set ps \<Longrightarrow> quote_free k"
proof (induction ps rule: validateCreationParameters.induct)
  case (2 k' v' ps)
  have "quote_free (to_upper k')"
    using 2(2) by (auto simp: crParamsKeys_def split: if_splits)
  then have "quote_free k'"
    using to_upper_quote [of _ k'] by (auto simp: quote_free_def)
  with 2 show ?case by (auto split: if_splits)
qed simp

text \<open>How one creation parameter is read.\<close>

fun parameter_tokens :: "string \<times> string \<Rightarrow> sql_token list" where
  "parameter_tokens (k, v) = map Plain ('' '' @ k @ ''='') @
     (if k = ''connection limit'' then map Plain (itoa (fst (atoi v)))
      else [Literal (replace_char dq [dq, dq] v)])"

lemma tokens_parameters:
  assumes "\<And>k v. (k, v) \<in> set ps \<Longrightarrow> quote_free k"
  shows "sql_tokens (concat (map (\<lambda>(k, v).
      if k = ''connection limit'' then '' '' @ k @ ''='' @ itoa (fst (atoi v))
      else '' '' @ k @ ''='' @ squote (escapeInputValue v)) ps) @ '';'')
    = Some (concat (map parameter_tokens ps) @ [Plain CHR '';''])"
  using assms
proof (induction ps)
  case (Cons p ps)
  obtain k v where p: "p = (k, v)" by fastforce
  let ?rest = "concat (map (\<lambda>(k, v).
      if k = ''connection limit'' then '' '' @ k @ ''='' @ itoa (fst (atoi v))
      else '' '' @ k @ ''='' @ squote (escapeInputValue v)) ps) @ '';''"
  have k: "quote_free k" using Cons.prems [of k v] p by simp
  have IH: "sql_tokens ?rest = Some (concat (map parameter_tokens ps) @ [Plain CHR '';''])"
    by (rule Cons.IH) (rule Cons.prems, rule list.set_intros(2))
  have hd: "?rest = [] \<or> hd ?rest \<noteq> sq"
    by (cases ps) (auto split: if_splits)
  have lit: "sql_tokens (squote (escapeInputValue v) @ ?rest)
      = Some (Literal (replace_char dq [dq, dq] v) # concat (map parameter_tokens ps) @ [Plain CHR '';''])"
    by (subst tokens_literal [OF hd]) (simp only: IH option.map)
  show ?case
    using sql_tokens_plain [of "itoa (fst (atoi v))" ?rest]
      sql_tokens_plain [of "'' '' @ k @ ''=''" "squote (escapeInputValue v) @ ?rest"] k
    by (simp add: p IH lit)
qed simp

subsection \<open>How the statements are read\<close>

text \<open>
  (C14) No value can break out of a CREATE DATABASE statement: whatever the database name and the
  values of the accepted creation parameters are, PostgreSQL reads the fixed words of the statement,
  one quoted identifier for the name and one string literal for each value.
\<close>

theorem createDatabase_reads:
  assumes "validateCreationParameters parameters = None"
  shows "sql_tokens (createDatabase dbName parameters) =
    Some (map Plain ''CREATE DATABASE '' @ [Identifier (replace_char sq [sq, sq] dbName)]
      @ (if parameters = [] then [] else map Plain '' WITH'' @ concat (map parameter_tokens parameters))
      @ [Plain CHR '';''])"
proof (cases "parameters = []")
  case True
  then show ?thesis by (simp add: createDatabase_def tokens_identifier)
next
  case False
  from tokens_parameters [OF creation_parameters_quote_free [OF assms]] False show ?thesis
    by (simp add: createDatabase_def tokens_identifier)
qed

theorem createDatabase_reads_witness:
  "sql_tokens (createDatabase (''a'' @ [dq] @ ''b'') [(''OWNER'', ''x'' @ [sq] @ ''y'')]) =
     Some (map Plain ''CREATE DATABASE '' @ [Identifier (''a'' @ [dq] @ ''b'')] @ map Plain '' WITH OWNER=''
       @ [Literal (''x'' @ [sq] @ ''y''), Plain CHR '';''])"
  using createDatabase_reads [of "[(''OWNER'', ''x'' @ [sq] @ ''y'')]" "''a'' @ [dq] @ ''b''"]
  by (simp add: crParamsKeys_def to_upper_def upper_char_def Let_def)



text \<open>
  (C16) The password of a request is not escaped: a password with two single quotes in it ends the
  literal, and the text between the quotes is read as SQL of the CREATE USER statement.
\<close>

theorem createUser_password_breaks_out:
  assumes "quote_free userName" and "quote_free a" and "quote_free injected" and "quote_free b"
    and "injected \<noteq> ''''"
  shows "sql_tokens (createUser userName (a @ [sq] @ injected @ [sq] @ b)) =
    Some (map Plain ''CREATE USER '' @ [Identifier userName] @ map Plain '' WITH PASSWORD ''
      @ [Literal a] @ map Plain injected @ [Literal b])"
proof -
  have hd: "injected @ sq # b @ [sq] = [] \<or> hd (injected @ sq # b @ [sq]) \<noteq> sq"
    using assms(3,5) by (cases injected) auto
  have "quoted sq (a @ sq # injected @ sq # b @ [sq]) = Some (a, injected @ sq # b @ [sq])"
    using assms(2) by (intro quoted_verbatim [OF _ hd]) (simp add: quote_free_def)
  moreover have "quoted sq (b @ [sq]) = Some (b, [])"
    using assms(4) by (intro quoted_verbatim) (simp_all add: quote_free_def)
  ultimately show ?thesis
    using assms(1,3) by (simp add: createUser_def tokens_plain_identifier squote_def sql_tokens_plain)
qed

theorem createUser_password_breaks_out_witness:
  "sql_tokens (createUser ''app'' (''x'' @ [sq] @ '' SUPERUSER PASSWORD '' @ [sq] @ ''y'')) =
    Some (map Plain ''CREATE USER '' @ [Identifier ''app''] @ map Plain '' WITH PASSWORD ''
      @ [Literal ''x''] @ map Plain '' SUPERUSER PASSWORD '' @ [Literal ''y''])"
  using createUser_password_breaks_out [of "''app''" "''x''" "'' SUPERUSER PASSWORD ''" "''y''"] by simp

end
