(* ===== verification/Sample_Server.thy ===== *)
theory Sample_Server
  imports Dbaas_Service
begin

section \<open>A concrete adapter and servers to run it against\<close>

text \<open>
  A configuration of the adapter and environments with fixed answers.  They make the behaviours that
  the claims quantify over concrete: \<^verbatim>\<open>run\<close> computes the trace of a program in an environment.
\<close>

definition sample_ca :: cluster_adapter where
  "sample_ca = \<lparr>ca_Host = ''pg'', ca_Port = 5432, ca_SSl = ''off'', ca_User = ''postgres'',
     ca_Password = ''secret'', ca_Database = ''postgres'', ca_Health = HealthUP\<rparr>"

definition sample_sa :: service_adapter where
  "sample_sa = \<lparr>ClusterAdapter = sample_ca, DefaultExt = None, ExtUpdateRequired = False,
     ApiVersion = ''v2'', sa_roles = [''admin'', ''ro''], sa_features = [(FeatureMultiUsers, True)],
     EXTERNAL_POSTGRESQL = ''''\<rparr>"

text \<open>A server that accepts everything and has no rows.\<close>

definition accepting :: "(db_call, db_resp) environment" where
  "accepting t c = (case c of
     CNew _ _ _ \<Rightarrow> RConn (length t)
   | CQuery _ _ _ \<Rightarrow> RRows []
   | CGenerate \<Rightarrow> RStr ''0a1b''
   | CRange \<Rightarrow> RNat 0
   | _ \<Rightarrow> ROk)"

text \<open>The same server, but it refuses the given statement.\<close>

definition refusing :: "string \<Rightarrow> (db_call, db_resp) environment" where
  "refusing bad t c = (case c of CExec _ sql _ \<Rightarrow> if sql = bad then RErr ''refused'' else ROk | _ \<Rightarrow> accepting t c)"

lemmas sample_simps = sample_ca_def sample_sa_def accepting_def refusing_def GetConnection_def
  GetConnectionToDb_def GetConnectionToDbWithUser_def getConnectionToDbWithUser_def withConn_def
  withLock_def Exec_def Query_def QueryRow_def Close_def range_map_def Generate_def

end
