(* ===== verification/Replication_Safety.thy ===== *)
theory Replication_Safety
  imports Replication_Controller Sql_Quoting Sample_Server
begin

section \<open>Safety of the replication controller\<close>

text \<open>
  Claims about the publications and users of \<^verbatim>\<open>services/replication-controller\<close>: which statements a
  request leads to, how PostgreSQL reads them, and how the tables of a publication are listed.
\<close>

subsection \<open>Connections\<close>

lemma rc_opens_pool [emits_intros]:
  "opens_pool (rc_getConnectionToDbWithUser ca database username password)"
  "opens_pool (rc_GetConnectionToDb ca database)" "opens_pool (rc_GetConnection ca)"
proof -
  have as: "as_conn r = Inr h \<longleftrightarrow> r = RConn h" for r h by (cases r) auto
  show "opens_pool (rc_getConnectionToDbWithUser ca database username password)"
    for database username password
    by (auto simp: opens_pool_def rc_getConnectionToDbWithUser_def spec_simps as split: sum.split)
  then show "opens_pool (rc_GetConnectionToDb ca database)" "opens_pool (rc_GetConnection ca)"
    by (simp_all only: rc_GetConnectionToDbWithUser_def rc_GetConnectionToDb_def rc_GetConnection_def)
qed

lemmas publication_defs = getPublicationInternal_def isPublicationExists_def execOrPanic_def
  createPublication_def alterWith_def dropPublication_def grantUserToReplication_def

lemma emits_case_list:
  "emits P m \<Longrightarrow> (\<And>x xs. emits P (g x xs)) \<Longrightarrow> emits P (case l of [] \<Rightarrow> m | x # xs \<Rightarrow> g x xs)"
  by (cases l) auto

lemma no_leak_publications:
  "emits no_leak (createPublication pc req)" "emits no_leak (dropPublication pc req)"
  "emits no_leak (alterWith query pc req)" "emits no_leak (getPublicationInternal pc p d t)"
  "emits no_leak (grantUserToReplication pc username)" "emits no_leak (rc_executeHealthQuery pc)"
  unfolding publication_defs rc_executeHealthQuery_def
  by (intro pools.emits_rules emits_intros emits_case_list)+

subsection \<open>The existence check\<close>

text \<open>What the server said about a publication: a row, or no row or no such database.\<close>

definition pub_present :: "string \<Rightarrow> db_trace \<Rightarrow> bool" where
  "pub_present p u \<longleftrightarrow> (\<exists>c row rows. (CQuery c pubGetQuery [VStr p], RRows (row # rows)) \<in> set u)"

definition pub_absent :: "string \<Rightarrow> db_trace \<Rightarrow> bool" where
  "pub_absent p u \<longleftrightarrow> (\<exists>c. (CQuery c pubGetQuery [VStr p], RRows []) \<in> set u)
     \<or> (\<exists>d us w e. (CNew d us w, RErr e) \<in> set u \<and> contains_sub ''(SQLSTATE 3D000)'' e)"

lemma pub_append:
  "pub_present p (u @ v) \<longleftrightarrow> pub_present p u \<or> pub_present p v"
  "pub_absent p (u @ v) \<longleftrightarrow> pub_absent p u \<or> pub_absent p v"
  unfolding pub_present_def pub_absent_def set_append Un_iff by blast+

lemma as_rows_Inr: "as_rows r = Inr rs \<longleftrightarrow> r = RRows rs"
  by (cases r) auto

lemma as_conn_error: "as_conn r = Inl e \<Longrightarrow> contains_sub ''(SQLSTATE 3D000)'' e \<Longrightarrow> r = RErr e"
  by (cases r) (auto simp: unexpected_def has_prefix_def)

lemmas rc_conn_defs = withConn_def rc_GetConnectionToDb_def rc_GetConnectionToDbWithUser_def
  rc_getConnectionToDbWithUser_def rc_GetConnection_def Query_def Exec_def Close_def or_panic_def

lemma isPublicationExists_spec:
  "spec (isPublicationExists pc p d) (\<lambda>out u. execs u = [] \<and> (case out of
     Val b \<Rightarrow> if b then pub_present p u else pub_absent p u | Panicked e \<Rightarrow> True))"
  unfolding isPublicationExists_def getPublicationInternal_def rc_conn_defs
  by (auto simp: spec_simps pub_present_def pub_absent_def as_rows_Inr dest: as_conn_error
      split: sum.split list.split)

subsection \<open>The changing operations\<close>

text \<open>An accepted statement is a success, a refused one a panic that carries the error.\<close>

definition outcome_of :: "db_resp \<Rightarrow> pub_error option outcome" where
  "outcome_of r = (case as_error r of None \<Rightarrow> Val None | Some e \<Rightarrow> Panicked e)"

definition alter_outcome :: "db_resp \<Rightarrow> pub_error option outcome" where
  "alter_outcome r = (case as_error r of None \<Rightarrow> Val None
     | Some e \<Rightarrow> if contains_sub ''(SQLSTATE 42710)'' e then Val (Some (PubError e)) else Panicked e)"

text \<open>
  A request that changed nothing satisfies \<open>idle\<close>; the others executed the one statement \<open>q\<close>, after
  the server had said \<open>needed\<close>.
\<close>

definition once ::
  "bool \<Rightarrow> ('a outcome \<Rightarrow> bool) \<Rightarrow> string \<Rightarrow> (db_resp \<Rightarrow> 'a outcome) \<Rightarrow> 'a outcome \<Rightarrow> db_trace \<Rightarrow> bool" where
  "once needed idle q result out u \<longleftrightarrow>
     execs u = [] \<and> idle out \<or> needed \<and> (\<exists>r. execs u = [(q, r)] \<and> out = result r)"

lemma execOrPanic_spec:
  "spec (execOrPanic pc d q) (\<lambda>out u. once True (\<lambda>out. \<exists>e. out = Panicked e) q outcome_of out u)"
  unfolding execOrPanic_def once_def
  by (rule spec_withConn) (auto intro!: rc_opens_pool simp: spec_simps spec_Exec Exec_def outcome_of_def split: option.split)

lemma checked_spec:
  assumes none: "spec (k False) (\<lambda>out u. Q out (execs u))" and some: "spec (k True) (\<lambda>out u. Q' out (execs u))"
    and Q: "\<And>out u. pub_absent p u \<Longrightarrow> Q out (execs u) \<Longrightarrow> R out u"
    and Q': "\<And>out u. pub_present p u \<Longrightarrow> Q' out (execs u) \<Longrightarrow> R out u"
    and panic: "\<And>e u. execs u = [] \<Longrightarrow> R (Panicked e) u"
  shows "spec (pbind (isPublicationExists pc p d) k) R"
proof (rule spec_pbindI [OF isPublicationExists_spec])
  fix b u
  assume *: "execs u = [] \<and> (case Val b of Val b \<Rightarrow> if b then pub_present p u else pub_absent p u | Panicked e \<Rightarrow> True)"
  show "spec (k b) (\<lambda>out v. R out (u @ v))"
  proof (cases b)
    case True
    with some have "spec (k b) (\<lambda>out u. Q' out (execs u))" by simp
    then show ?thesis by (rule spec_mono) (use * True in \<open>auto intro: Q' simp: pub_append\<close>)
  next
    case False
    with none have "spec (k b) (\<lambda>out u. Q out (execs u))" by simp
    then show ?thesis by (rule spec_mono) (use * False in \<open>auto intro: Q simp: pub_append\<close>)
  qed
qed (simp add: panic)

lemma alterWith_spec:
  "spec (alterWith query pc req) (\<lambda>out u. once (pub_present (PubName req) u \<and> Tables req @ Schemas req \<noteq> [])
     (\<lambda>out. (\<exists>e. out = Val (Some e)) \<or> (\<exists>e. out = Panicked e))
     (query (PubName req) (Tables req) (Schemas req)) alter_outcome out u)"
proof (cases "validatePublication (PubName req) (Database req)")
  case None
  have "spec (withConn (rc_GetConnectionToDb pc (Database req)) Panic (\<lambda>c.
          pbind (Exec c (query (PubName req) (Tables req) (Schemas req)) []) (\<lambda>err. case err of
            Some e \<Rightarrow> if contains_sub ''(SQLSTATE 42710)'' e then Ret (Some (PubError e)) else Panic e
          | None \<Rightarrow> Ret None)))
      (\<lambda>out u. execs u = [] \<and> (\<exists>e. out = Panicked e)
         \<or> (\<exists>r. execs u = [(query (PubName req) (Tables req) (Schemas req), r)] \<and> out = alter_outcome r))"
    by (rule spec_withConn)
      (auto intro!: rc_opens_pool simp: spec_simps Exec_def alter_outcome_def split: option.split)
  with None show ?thesis
    unfolding alterWith_def once_def
    by (auto intro!: checked_spec [where Q = "\<lambda>out es. es = [] \<and> (\<exists>e. out = Val (Some e))" and
        Q' = "\<lambda>out es. es = [] \<and> ((\<exists>e. out = Val (Some e)) \<or> (\<exists>e. out = Panicked e))
          \<or> Tables req @ Schemas req \<noteq> [] \<and> (\<exists>r. es = [(query (PubName req) (Tables req) (Schemas req), r)] \<and> out = alter_outcome r)"]
        elim!: spec_mono simp: spec_Ret)
next
  case (Some e)
  then show ?thesis by (auto simp: alterWith_def once_def spec_Ret)
qed

lemma createPublication_spec:
  "spec (createPublication pc req) (\<lambda>out u. once (pub_absent (PubName req) u)
     (\<lambda>out. out = Val None \<and> pub_present (PubName req) u \<or> (\<exists>e. out = Val (Some (PubError e)) \<and> u = []) \<or> (\<exists>e. out = Panicked e))
     (if Tables req = [] \<and> Schemas req = [] then getPubCreateAllTablesQuery (PubName req)
      else getPubCreateQuery (PubName req) (Tables req) (Schemas req)) outcome_of out u)"
proof (cases "validatePublication (PubName req) (Database req)")
  case None
  then show ?thesis
    unfolding createPublication_def once_def
    by (auto intro!: checked_spec [where Q = "\<lambda>out es. es = [] \<and> (\<exists>e. out = Panicked e) \<or> (\<exists>r. es = [(if Tables req = [] \<and> Schemas req = []
      then getPubCreateAllTablesQuery (PubName req) else getPubCreateQuery (PubName req) (Tables req) (Schemas req), r)] \<and> out = outcome_of r)"
        and Q' = "\<lambda>out es. es = [] \<and> out = Val None"] execOrPanic_spec [unfolded once_def, simplified]
        simp: spec_Ret)
next
  case (Some e)
  then show ?thesis by (auto simp: createPublication_def once_def spec_Ret)
qed

lemma dropPublication_spec:
  "spec (dropPublication pc req) (\<lambda>out u. once (pub_present (PubName req) u)
     (\<lambda>out. out = Val None \<and> pub_absent (PubName req) u \<or> (\<exists>e. out = Val (Some (PubError e)) \<and> u = []) \<or> (\<exists>e. out = Panicked e))
     (getPubDropQuery (PubName req)) outcome_of out u)"
proof (cases "validatePublication (PubName req) (Database req)")
  case None
  then show ?thesis
    unfolding dropPublication_def once_def
    by (auto intro!: checked_spec [where Q = "\<lambda>out es. es = [] \<and> out = Val None" and
        Q' = "\<lambda>out es. es = [] \<and> (\<exists>e. out = Panicked e) \<or> (\<exists>r. es = [(getPubDropQuery (PubName req), r)] \<and> out = outcome_of r)"]
        execOrPanic_spec [unfolded once_def, simplified] simp: spec_Ret)
next
  case (Some e)
  then show ?thesis by (auto simp: dropPublication_def once_def spec_Ret)
qed

text \<open>
  (C39) A request for a publication executes at most one statement, and only when the server said it is needed: a
  publication is created only if it does not exist, dropped only if it does, and altered only if it
  exists and something is to be added.  A request that executes nothing either failed or found the
  wanted state; a refused statement is a panic with the server's error, except that an object which is a
  member already is an error of the request.
\<close>

theorem publications_change_when_needed:
  "spec (createPublication pc req) (\<lambda>out u. once (pub_absent (PubName req) u)
     (\<lambda>out. out = Val None \<and> pub_present (PubName req) u \<or> (\<exists>e. out = Val (Some (PubError e)) \<and> u = []) \<or> (\<exists>e. out = Panicked e))
     (if Tables req = [] \<and> Schemas req = [] then getPubCreateAllTablesQuery (PubName req)
      else getPubCreateQuery (PubName req) (Tables req) (Schemas req)) outcome_of out u)
   \<and> spec (dropPublication pc req) (\<lambda>out u. once (pub_present (PubName req) u)
     (\<lambda>out. out = Val None \<and> pub_absent (PubName req) u \<or> (\<exists>e. out = Val (Some (PubError e)) \<and> u = []) \<or> (\<exists>e. out = Panicked e))
     (getPubDropQuery (PubName req)) outcome_of out u)
   \<and> spec (alterAddPublication pc req) (\<lambda>out u. once (pub_present (PubName req) u \<and> Tables req @ Schemas req \<noteq> [])
     (\<lambda>out. (\<exists>e. out = Val (Some e)) \<or> (\<exists>e. out = Panicked e))
     (getPubAlterAddQuery (PubName req) (Tables req) (Schemas req)) alter_outcome out u)
   \<and> spec (alterSetPublication pc req) (\<lambda>out u. once (pub_present (PubName req) u \<and> Tables req @ Schemas req \<noteq> [])
     (\<lambda>out. (\<exists>e. out = Val (Some e)) \<or> (\<exists>e. out = Panicked e))
     (getPubAlterSetQuery (PubName req) (Tables req) (Schemas req)) alter_outcome out u)"
  using createPublication_spec dropPublication_spec alterWith_spec
  by (simp add: alterAddPublication_def alterSetPublication_def)

subsection \<open>How the statements are read\<close>

lemma EscapeInputValue_eq: "EscapeInputValue = escapeInputValue"
  by (simp add: fun_eq_iff EscapeInputValue_def escapeInputValue_def replace_char_commute)

text \<open>The identifiers of a list of schemas, separated by commas.\<close>

fun name_tokens :: "string list \<Rightarrow> sql_token list" where
  "name_tokens [] = []"
| "name_tokens [s] = [Identifier (replace_char sq [sq, sq] s)]"
| "name_tokens (s # ss) = Identifier (replace_char sq [sq, sq] s) # Plain CHR '','' # name_tokens ss"

lemma tokens_schemas: "sql_tokens (join_with '','' (prepareSchemas ss)) = Some (name_tokens ss)"
proof (induction ss rule: name_tokens.induct)
  case (2 s)
  then show ?case using tokens_identifier [of "[]" s] by (simp add: prepareSchemas_def EscapeInputValue_eq)
next
  case (3 s s' ss)
  then show ?case by (simp add: prepareSchemas_def EscapeInputValue_eq tokens_identifier)
qed (simp add: prepareSchemas_def)


text \<open>
  The user name of the replication right is not quoted: a name without quotes is read as SQL, character
  by character, so its text may hold further options or a further statement.
\<close>

lemma grant_user_name_is_sql:
  assumes "quote_free username"
  shows "sql_tokens (getGrantReplicationQuery username) =
    Some (map Plain (''ALTER ROLE '' @ username @ '' WITH REPLICATION;''))"
  using assms sql_tokens_plain_all [of "''ALTER ROLE '' @ username @ '' WITH REPLICATION;''"]
  by (simp add: getGrantReplicationQuery_def EscapeInputValue_eq escape_id)

subsection \<open>The tables of a publication\<close>

lemma dropWhile_free: "c \<notin> set s \<Longrightarrow> dropWhile (\<lambda>x. x = c) s = s"
  by (cases s) auto

lemma trim_free: "c \<notin> set s \<Longrightarrow> trim_char c s = s"
  by (simp add: trim_char_def dropWhile_free)

lemma set_join: "x \<in> set (join_with sep as) \<Longrightarrow> x \<in> set sep \<or> (\<exists>a \<in> set as. x \<in> set a)"
  by (induction sep as rule: join_with.induct) auto

lemma convAttr_braces:
  assumes "CHR ''{'' \<notin> set s" and "CHR ''}'' \<notin> set s"
  shows "convAttrStrToSlice (''{'' @ s @ ''}'') = split_on CHR '','' s"
proof -
  have "trim_char CHR ''{'' (''{'' @ s @ ''}'') = s @ ''}''"
    using assms(1) dropWhile_free [of "CHR ''{''" "s @ ''}''"] by (simp add: trim_char_def)
  moreover have "trim_char CHR ''}'' (s @ ''}'') = s"
    using assms(2) by (cases s) (auto simp: trim_char_def dropWhile_free)
  ultimately show ?thesis by (simp add: convAttrStrToSlice_def)
qed

definition tables_of :: "string \<Rightarrow> (string \<times> pub_table) list \<Rightarrow> pub_table list" where
  "tables_of schema entries = map snd (filter (\<lambda>e. fst e = schema) entries)"

lemma addTable_map:
  "map_of (addTable m (schema, t)) = (map_of m)(schema \<mapsto> (case map_of m schema of Some ts \<Rightarrow> ts @ [t] | None \<Rightarrow> [t]))"
  "distinct (map fst m) \<Longrightarrow> distinct (map fst (addTable m (schema, t)))"
  by (auto simp: addTable_def update_conv' distinct_update split: option.split)

lemma foldl_addTable:
  "distinct (map fst m) \<Longrightarrow> distinct (map fst (foldl addTable m entries))
     \<and> map_of (foldl addTable m entries) schema =
       (case map_of m schema of
          Some ts \<Rightarrow> Some (ts @ tables_of schema entries)
        | None \<Rightarrow> if tables_of schema entries = [] then None else Some (tables_of schema entries))"
proof (induction entries arbitrary: m)
  case (Cons e entries)
  obtain s t where e: "e = (s, t)" by fastforce
  from Cons.IH [of "addTable m (s, t)"] Cons.prems e show ?case
    by (auto simp: addTable_map tables_of_def split: option.split)
qed (auto simp: tables_of_def split: option.split)

text \<open>
  Reading the tables of a publication gives back what the server holds: when the rows can be read,
  every schema of the result lists exactly its tables in the order of the rows, a schema without a table is
  not listed and none twice; and the text of an array of column names without commas and braces is
  read back as these names.
\<close>

theorem tables_are_read_back:
  assumes "scan_all scan_table rows = Inr entries" and "attrs \<noteq> []"
    and "\<forall>a \<in> set attrs. CHR '','' \<notin> set a \<and> CHR ''{'' \<notin> set a \<and> CHR ''}'' \<notin> set a"
  shows "(\<exists>m. processTableRows rows = Inr m \<and> distinct (map fst m)
      \<and> (\<forall>schema. map_of m schema = (if tables_of schema entries = [] then None else Some (tables_of schema entries))))
    \<and> convAttrStrToSlice (''{'' @ join_with '','' attrs @ ''}'') = attrs"
proof -
  have braces: "CHR ''{'' \<notin> set (join_with '','' attrs)" "CHR ''}'' \<notin> set (join_with '','' attrs)"
    using assms(3) by (auto dest: set_join)
  have "split_on CHR '','' (join_with '','' attrs) = attrs"
    using assms(2,3) by (intro split_join) auto
  with convAttr_braces [OF braces] have "convAttrStrToSlice (''{'' @ join_with '','' attrs @ ''}'') = attrs" by simp
  moreover have "distinct (map fst (foldl addTable [] entries)) \<and> (\<forall>schema. map_of (foldl addTable [] entries) schema
      = (if tables_of schema entries = [] then None else Some (tables_of schema entries)))"
    using foldl_addTable [of "[]" entries] by simp
  ultimately show ?thesis using assms(1) by (simp add: processTableRows_def)
qed

theorem tables_are_read_back_witness:
  "processTableRows [Row [VStr ''s'', VStr ''t'', VStr ''{a,b}'', VStr ''''], Row [VStr ''s'', VStr ''u'', VStr ''{c}'', VStr ''c > 1'']]
     = Inr [(''s'', [\<lparr>t_Name = ''t'', t_Attr = [''a'', ''b''], t_RowFilter = ''''\<rparr>, \<lparr>t_Name = ''u'', t_Attr = [''c''], t_RowFilter = ''c > 1''\<rparr>])]
   \<and> convAttrStrToSlice ''{a,b}'' = [''a'', ''b'']"
  using convAttr_braces [of "''c''"] convAttr_braces [of "''a,b''"] tables_are_read_back [of "[Row [VStr ''s'', VStr ''t'', VStr ''{a,b}'', VStr ''''], Row [VStr ''s'', VStr ''u'', VStr ''{c}'', VStr ''c > 1'']]"
      "[(''s'', \<lparr>t_Name = ''t'', t_Attr = [''a'', ''b''], t_RowFilter = ''''\<rparr>), (''s'', \<lparr>t_Name = ''u'', t_Attr = [''c''], t_RowFilter = ''c > 1''\<rparr>)]"
      "[''a'', ''b'']"]
  by (simp add: processTableRows_def addTable_def)

end
