(* ===== verification/Dbaas_Metadata.thy ===== *)
theory Dbaas_Metadata
  imports Dbaas_Service
begin

section \<open>The metadata table of a logical database\<close>

text \<open>
  Models the metadata operations of \<^verbatim>\<open>basic.go\<close> and \<^verbatim>\<open>validateRole\<close> of \<^verbatim>\<open>basic_roles.go\<close>.
  Each logical database keeps one JSON object in the table \<^verbatim>\<open>_DBAAS_METADATA\<close> under the key
  \<^verbatim>\<open>metadata\<close>; older databases keep one row per key.  The object holds the users with their roles
  and the version of the roles model.  Marshalling a map of JSON values cannot fail, so the error
  branches of \<open>json.Marshal\<close> have no counterpart.
\<close>

definition createMetadata :: "service_adapter \<Rightarrow> string \<Rightarrow> string \<Rightarrow> string \<Rightarrow> gomap \<Rightarrow> err option db" where
  "createMetadata sa dbName username0 password metadata =
     (let username = getUsernameWithoutHost username0 in
      withConn (GetConnectionToDbWithUser (ClusterAdapter sa) dbName username password) (\<lambda>e. Ret (Some e)) (\<lambda>c.
        pbind (Exec c createMetaTable []) (\<lambda>err. case err of Some e \<Rightarrow> Ret (Some e) | None \<Rightarrow>
        if length metadata > 0 then
          (let metadata' = AList.update RolesVersionKey (JNum GetRolesVersion) metadata in
           pbind (Exec c insertIntoMetaTable [VStr MetadataKey, VJson (marshalled (JObj metadata'))]) (\<lambda>err.
           case err of Some e \<Rightarrow> Ret (Some e) | None \<Rightarrow>
           pbind (Exec c (alterOwnerMetaTable username) []) (\<lambda>err.
           case err of Some e \<Rightarrow> Ret (Some e) | None \<Rightarrow> Ret None)))
        else Ret None)))"

definition getOldFormatMetadata :: "service_adapter \<Rightarrow> string \<Rightarrow> (err + gomap) db" where
  "getOldFormatMetadata sa logicalDatabase =
     withConn (GetConnectionToDb (ClusterAdapter sa) logicalDatabase) (\<lambda>e. Ret (Inl e)) (\<lambda>c.
       ptry (Query c getAllMetadata []) (\<lambda>rows.
         Ret (case scan_all scan_key_value rows of
            Inl e \<Rightarrow> Inl e
          | Inr kvs \<Rightarrow> Inr (foldl (\<lambda>m (k, v). AList.update k v m) [] kvs))))"

text \<open>
  When the row is missing or empty the source closes the pool before it asks for the old format,
  and the deferred close follows; closing a pool twice is allowed.
\<close>

definition GetMetadataInternal :: "service_adapter \<Rightarrow> string \<Rightarrow> (err + gomap) db" where
  "GetMetadataInternal sa logicalDatabase =
     withConn (GetConnectionToDb (ClusterAdapter sa) logicalDatabase) (\<lambda>e. Ret (Inl e)) (\<lambda>c.
       ptry (Query c getMetadata [VStr ''metadata'']) (\<lambda>rows.
         case scan_all scan_map rows of
           Inl e \<Rightarrow> Ret (Inl e)
         | Inr maps \<Rightarrow>
             (let metadata = (if maps = [] then [] else last maps) in
              if length metadata = 0 then
                pseq (Close c) (getOldFormatMetadata sa logicalDatabase)
              else Ret (Inr metadata))))"

definition sa_GetMetadata :: "service_adapter \<Rightarrow> string \<Rightarrow> gomap db" where
  "sa_GetMetadata sa logicalDatabase =
     pbind (GetMetadataInternal sa logicalDatabase) or_panic"

definition UpdateMetadataInternal :: "service_adapter \<Rightarrow> gomap \<Rightarrow> string \<Rightarrow> err option db" where
  "UpdateMetadataInternal sa metadata dbName =
     (if \<not> validateDbIdentifierParam dbName DbIdentifiersPattern then Ret (Some (idPatternError ''dbName'' DbIdentifiersPattern))
      else withConn (GetConnectionToDb (ClusterAdapter sa) dbName) (\<lambda>e. Ret (Some e)) (\<lambda>c.
        let metadata' = (if map_of metadata RolesVersionKey = None
                         then AList.update RolesVersionKey (JNum GetRolesVersion) metadata else metadata) in
        pbind (Exec c createMetaTable []) (\<lambda>err. case err of Some e \<Rightarrow> Ret (Some e) | None \<Rightarrow>
        pbind (Exec c deleteMetaData []) (\<lambda>err. case err of Some e \<Rightarrow> Ret (Some e) | None \<Rightarrow>
        pbind (Exec c insertIntoMetaTable [VStr MetadataKey, VJson (marshalled (JObj metadata'))]) (\<lambda>err.
        case err of Some e \<Rightarrow> Ret (Some e) | None \<Rightarrow> Ret None)))))"

text \<open>Only a value of type \<open>map[string]interface{}\<close> counts; a role that is no string panics.\<close>

definition GetRolesFromMetadata :: "gomap \<Rightarrow> string + (string \<times> string) list" where
  "GetRolesFromMetadata metadata =
     (case map_of metadata RolesKey of
        Some (JObj rolesFromMeta) \<Rightarrow> GetMapStringFromMapInterface (JObj rolesFromMeta)
      | _ \<Rightarrow> Inr [])"

definition UpdateMetadata_merge :: "gomap \<Rightarrow> gomap \<Rightarrow> string + gomap" where
  "UpdateMetadata_merge metadata metadataOld =
     (case GetRolesFromMetadata metadataOld of
        Inl e \<Rightarrow> Inl e
      | Inr roles \<Rightarrow>
          (let metadata1 = (if length roles > 0 then AList.update RolesKey (JStrMap roles) metadata else metadata)
           in Inr (case map_of metadataOld RolesVersionKey of
                Some v \<Rightarrow> AList.update RolesVersionKey v metadata1
              | None \<Rightarrow> metadata1)))"

definition UpdateMetadata :: "service_adapter \<Rightarrow> gomap \<Rightarrow> string \<Rightarrow> unit db" where
  "UpdateMetadata sa metadata dbName =
     pbind (GetMetadataInternal sa dbName) (\<lambda>res.
     pbind (case res of
         Inl _ \<Rightarrow> Ret metadata
       | Inr metadataOld \<Rightarrow> or_panic (UpdateMetadata_merge metadata metadataOld)) (\<lambda>metadata'.
     pbind (UpdateMetadataInternal sa metadata' dbName) (\<lambda>err.
       case err of Some e \<Rightarrow> Panic e | None \<Rightarrow> Ret ())))"

definition validateRole :: "conn \<Rightarrow> string \<Rightarrow> string \<Rightarrow> (err + bool) db" where
  "validateRole c username role =
     (let privilegeType = (if role = ''ro'' then ''SELECT'' else if role = ''rw'' then ''UPDATE'' else ''TRUNCATE'') in
      ptry (Query c (getMetadataGrantQuery username privilegeType) []) (\<lambda>rows. Ret (Inr (rows \<noteq> []))))"

definition GetValidRoles_step ::
  "conn \<Rightarrow> string \<times> string \<Rightarrow> (string \<times> string) list \<Rightarrow> (err + (string \<times> string) list) db" where
  "GetValidRoles_step c entry roles = (case entry of (username, role) \<Rightarrow>
     ptry (isUserExist c username) (\<lambda>exist.
       if \<not> exist then Ret (Inr (AList.delete username roles))
       else ptry (validateRole c username role) (\<lambda>isValid.
         Ret (Inr (if \<not> isValid then AList.delete username roles else roles)))))"

definition GetValidRolesFromMetadata :: "service_adapter \<Rightarrow> string \<Rightarrow> gomap \<Rightarrow> (err + (string \<times> string) list) db" where
  "GetValidRolesFromMetadata sa dbName metadata =
     withConn (GetConnectionToDb (ClusterAdapter sa) dbName) (\<lambda>e. Ret (Inl e)) (\<lambda>c.
       pbind (or_panic (GetRolesFromMetadata metadata)) (\<lambda>roles.
       pbind (range_map roles) (\<lambda>entries.
         foreach entries roles (GetValidRoles_step c))))"

definition saveRolesInMetadata :: "service_adapter \<Rightarrow> string \<Rightarrow> (string \<times> string) list \<Rightarrow> err option db" where
  "saveRolesInMetadata sa dbName roles =
     pbind (GetMetadataInternal sa dbName) (\<lambda>res. case res of
       Inl e \<Rightarrow> Ret (Some e)
     | Inr metadata \<Rightarrow> UpdateMetadataInternal sa (AList.update RolesKey (JStrMap roles) metadata) dbName)"

definition getCurrentUserForDb :: "service_adapter \<Rightarrow> string \<Rightarrow> (err + string) db" where
  "getCurrentUserForDb sa dbName =
     withConn (GetConnectionToDb (ClusterAdapter sa) dbName) (\<lambda>e. Ret (Inl e)) (\<lambda>c.
       ptry (Query c getOwnerForMetaData []) (\<lambda>rows.
         Ret (case scan_all scan_string rows of
            Inl e \<Rightarrow> Inl e
          | Inr owners \<Rightarrow> Inr (if owners = [] then '''' else last owners))))"

subsection \<open>Resource rules\<close>


lemma no_leak_Generate [emits_intros]: "emits no_leak Generate"
  by (simp add: Generate_def emits_def spec_simps)

lemma lock_free_Generate [emits_intros]: "emits lock_free Generate"
  by (simp add: Generate_def emits_def spec_simps lock_free_def)

lemma no_leak_service [emits_intros]:
  "emits no_leak (getPostgresAvailableExtensions sa)"
  "emits no_leak (validateSettings sa settings)"
  "emits no_leak (ValidatePostgresAvailableExtensions sa extensions)"
  "emits no_leak (getConnectionLimitFromTemplate1Db sa)"
  "emits no_leak (CreateExtFromSlice c username extensions)"
  "emits no_leak (createExtensions sa dbName username extensions)"
  "emits no_leak (sa_dropDatabase sa dbName)"
  "emits no_leak (sa_dropUser sa username)"
  "emits no_leak (sa_dropUsers sa users)"
  "emits no_leak (enableDatabase sa dbName)"
  "emits no_leak (isUserExist c username)"
  "emits no_leak (getSchemasFromDB sa dbName)"
  "emits no_leak (sa_GetDatabases sa)"
  unfolding getPostgresAvailableExtensions_def validateSettings_def
    ValidatePostgresAvailableExtensions_def getConnectionLimitFromTemplate1Db_def
    CreateExtFromSlice_def createExtensions_def sa_dropDatabase_def sa_dropUser_def
    sa_dropUsers_def enableDatabase_def isUserExist_def getSchemasFromDB_def sa_GetDatabases_def
  by (intro pools.emits_rules emits_intros)+

lemma lock_free_service [emits_intros]:
  "emits lock_free (getPostgresAvailableExtensions sa)"
  "emits lock_free (validateSettings sa settings)"
  "emits lock_free (ValidatePostgresAvailableExtensions sa extensions)"
  "emits lock_free (getConnectionLimitFromTemplate1Db sa)"
  "emits lock_free (CreateExtFromSlice c username extensions)"
  "emits lock_free (createExtensions sa dbName username extensions)"
  "emits lock_free (sa_dropDatabase sa dbName)"
  "emits lock_free (sa_dropUser sa username)"
  "emits lock_free (sa_dropUsers sa users)"
  "emits lock_free (enableDatabase sa dbName)"
  "emits lock_free (isUserExist c username)"
  "emits lock_free (getSchemasFromDB sa dbName)"
  "emits lock_free (sa_GetDatabases sa)"
  unfolding getPostgresAvailableExtensions_def validateSettings_def
    ValidatePostgresAvailableExtensions_def getConnectionLimitFromTemplate1Db_def
    CreateExtFromSlice_def createExtensions_def sa_dropDatabase_def sa_dropUser_def
    sa_dropUsers_def enableDatabase_def isUserExist_def getSchemasFromDB_def sa_GetDatabases_def
  by (intro lockfree.emits_rules emits_intros)+

end
