(* ===== verification/Dbaas_Grants.thy ===== *)
theory Dbaas_Grants
  imports Dbaas_Metadata
begin

section \<open>Granting roles\<close>

text \<open>
  Models \<^verbatim>\<open>services/dbaas-adapter/adapter/basic/basic_roles.go\<close> from \<^verbatim>\<open>GrantUsersAccordingRoles\<close>
  to \<^verbatim>\<open>grantRightsToPostgres\<close>: the adapter collects the statements for all users of a database
  in one list and executes it under the adapter's mutex, stopping at the first error.
\<close>

definition grantUserOnTablesQuery :: "string \<Rightarrow> string \<Rightarrow> string \<Rightarrow> string" where
  "grantUserOnTablesQuery schema username role =
     (if role = ''rw'' then setReadWriteRoleGrants schema username
      else if role = ''ro'' then setReadOnlyRoleGrants schema username
      else setAdminGrants schema username)"

definition grantUserOnSequencesQuery :: "string \<Rightarrow> string \<Rightarrow> string \<Rightarrow> string" where
  "grantUserOnSequencesQuery schema username role =
     (if role = ''rw'' then setReadWriteRoleSequencesGrants schema username
      else if role = ''ro'' then setReadOnlyRoleSequencesGrants schema username
      else setAdminRoleSequencesGrants schema username)"

definition executeQueries :: "service_adapter \<Rightarrow> string \<Rightarrow> string list \<Rightarrow> err option db" where
  "executeQueries sa dbName queries =
     withLock (withConn (GetConnectionToDb (ClusterAdapter sa) dbName) (\<lambda>e. Ret (Some e)) (\<lambda>c.
       for_err queries (\<lambda>query. Exec c query [])))"

definition grantCreateOnSchema :: "service_adapter \<Rightarrow> string \<Rightarrow> string \<Rightarrow> string \<Rightarrow> err option db" where
  "grantCreateOnSchema sa dbName schema username =
     withConn (GetConnectionToDb (ClusterAdapter sa) dbName) (\<lambda>e. Ret (Some e)) (\<lambda>c.
       Exec c (grantSchemaCreate schema username) [])"

definition GrantAllOnSchemaToUser :: "service_adapter \<Rightarrow> string \<Rightarrow> string \<Rightarrow> string \<Rightarrow> err option db" where
  "GrantAllOnSchemaToUser sa dbName schema username =
     withConn (GetConnectionToDb (ClusterAdapter sa) dbName) (\<lambda>e. Ret (Some e)) (\<lambda>c.
       Exec c (''GRANT ALL ON SCHEMA '' @ schema @ '' TO '' @ username) [])"

definition getStringsFromQuery :: "service_adapter \<Rightarrow> string \<Rightarrow> string \<Rightarrow> (err + string list) db" where
  "getStringsFromQuery sa dbName query =
     withConn (GetConnectionToDb (ClusterAdapter sa) dbName) (\<lambda>e. Ret (Inl e)) (\<lambda>c.
       ptry (Query c query []) (\<lambda>rows. Ret (scan_all scan_string rows)))"

definition executeForResourceQueries ::
  "service_adapter \<Rightarrow> string \<Rightarrow> string \<Rightarrow> string \<Rightarrow> string \<Rightarrow> (string \<Rightarrow> string \<Rightarrow> string \<Rightarrow> string)
   \<Rightarrow> (err + string list) db" where
  "executeForResourceQueries sa schema dbName userName resourceQuery appliedQuery =
     ptry (getStringsFromQuery sa dbName resourceQuery) (\<lambda>resources.
       Ret (Inr (map (\<lambda>resource. appliedQuery schema resource userName) resources)))"

text \<open>The classification of the users, in the order of the \<open>range\<close>.\<close>

fun classifyUsers ::
  "(string \<times> string) list \<Rightarrow> string list \<times> string list \<times> string list \<Rightarrow> string list \<times> string list \<times> string list" where
  "classifyUsers [] acc = acc"
| "classifyUsers ((userName, role) # users) (adminUsers, RWUsers, ROUsers) =
     (if role = ''admin'' then classifyUsers users (adminUsers @ [userName], RWUsers, ROUsers)
      else if role = ''streaming'' then classifyUsers users (adminUsers @ [userName], RWUsers, ROUsers)
      else if role = ''rw'' then classifyUsers users (adminUsers, RWUsers @ [userName], ROUsers)
      else if role = ''ro'' then classifyUsers users (adminUsers, RWUsers, ROUsers @ [userName])
      else classifyUsers users (adminUsers, RWUsers, ROUsers))"

definition userSchemaQueries :: "service_adapter \<Rightarrow> string \<Rightarrow> string \<Rightarrow> string \<times> string \<Rightarrow> string list" where
  "userSchemaQueries sa dbName schema entry = (case entry of (userName, role) \<Rightarrow>
     [grantConnectionToDB dbName userName]
     @ (if Contains (GetSupportedRoles sa) role then
          [grantSchemaUsage schema userName, grantUserOnTablesQuery schema userName role,
           grantUserOnSequencesQuery schema userName role]
        else []))"

text \<open>The \<open>for\<close> loop that selects the future owner of the metadata, with its \<open>break\<close>.\<close>

fun selectOwner :: "service_adapter \<Rightarrow> (string \<times> string) list \<Rightarrow> string list \<Rightarrow> string option" where
  "selectOwner sa users [] = None"
| "selectOwner sa users (adminUser # adminUsers) =
     (if adminUser \<noteq> saUser sa \<and> map_of users adminUser \<noteq> Some ''streaming''
      then Some adminUser else selectOwner sa users adminUsers)"

definition alterOperations :: "string \<Rightarrow> bool \<Rightarrow> (string \<times> (string \<Rightarrow> string \<Rightarrow> string \<Rightarrow> string)) list" where
  "alterOperations schema isExternalPg =
     [(getTablesListQuery schema isExternalPg, alterOwnerForTable),
      (getSequenceListQuery schema isExternalPg, alterOwnerForSequence),
      (getLargeObjectsListQuery isExternalPg, alterOwnerForLargeObject),
      (getViewsListQuery schema isExternalPg, alterViewOwnerQuery),
      (getFunctionsListQuery schema isExternalPg, alterFunctionOwnerQuery),
      (getProceduresListQuery schema isExternalPg, alterProcedureOwnerQuery),
      (getCustomTypesListQuery schema isExternalPg, alterTypeOwnerQuery)]"

record grant_state =
  gs_queries :: "string list"
  gs_owner :: string
  gs_changed :: bool

definition schemaStep ::
  "service_adapter \<Rightarrow> string \<Rightarrow> (string \<times> string) list \<Rightarrow> string list \<Rightarrow> string \<Rightarrow> grant_state
   \<Rightarrow> (err + grant_state) db" where
  "schemaStep sa dbName users adminUsers schema s =
     pbind (range_map users) (\<lambda>entries.
     let queries = gs_queries s @ [revokeRights]
           @ concat (map (userSchemaQueries sa dbName schema) entries)
           @ map (grantSchemaCreate schema) adminUsers;
         chosen = (if gs_owner s = saUser sa then selectOwner sa users adminUsers else None);
         metadataOwner = (case chosen of Some adminUser \<Rightarrow> adminUser | None \<Rightarrow> gs_owner s);
         isOwnerChanged = (case chosen of Some _ \<Rightarrow> True | None \<Rightarrow> gs_changed s)
     in ptry (if isOwnerChanged then
                foreach (alterOperations schema (IsExternalPostgreSQl sa)) queries (\<lambda>(selectQuery, alterQuery) qs.
                  ptry (executeForResourceQueries sa schema dbName metadataOwner selectQuery alterQuery) (\<lambda>new.
                    Ret (Inr (qs @ new))))
              else Ret (Inr queries)) (\<lambda>queries'.
          Ret (Inr \<lparr>gs_queries = queries' @ (if metadataOwner \<noteq> '''' then
                       [alterOwnerForSchema schema metadataOwner, alterDatabaseOwnerQuery dbName metadataOwner] else []),
                    gs_owner = metadataOwner, gs_changed = isOwnerChanged\<rparr>)))"

definition adminQueries ::
  "service_adapter \<Rightarrow> string \<Rightarrow> string \<Rightarrow> string list \<Rightarrow> string list \<Rightarrow> string \<Rightarrow> string list" where
  "adminQueries sa dbName metadataOwner ROUsers RWUsers adminUserName =
     (if adminUserName \<noteq> saUser sa then
        [grantAllRightsOnDatabase dbName adminUserName,
         AllowReplicationForUser (EXTERNAL_POSTGRESQL sa) adminUserName] else [])
     @ (if metadataOwner \<noteq> '''' \<and> adminUserName \<noteq> metadataOwner \<and> metadataOwner \<noteq> saUser sa
        then [setGrantAsForRole metadataOwner adminUserName] else [])
     @ concat (map (\<lambda>ROUserName.
         [setReadOnlyRoleDefaultGrants adminUserName ROUserName,
          setSchemasDefaultGrants adminUserName ROUserName,
          setSequencesRODefaultGrants adminUserName ROUserName]) ROUsers)
     @ concat (map (\<lambda>RWUserName.
         [setReadWriteRoleDefaultGrants adminUserName RWUserName,
          setSchemasDefaultGrants adminUserName RWUserName,
          setSequencesRWDefaultGrants adminUserName RWUserName]) RWUsers)"

text \<open>The rest of \<^verbatim>\<open>GrantUsersAccordingRoles\<close>, once the owner and the order of the users are known.\<close>

definition grantClassified ::
  "service_adapter \<Rightarrow> string \<Rightarrow> (string \<times> string) list \<Rightarrow> string list \<Rightarrow> string \<Rightarrow> (string \<times> string) list
   \<Rightarrow> err option db" where
  "grantClassified sa dbName users schemas metadataOwner entries =
     (case classifyUsers entries ([saUser sa], [], []) of (adminUsers, RWUsers, ROUsers) \<Rightarrow>
      let queries0 = (if IsExternalPostgreSQl sa then
            map (\<lambda>adminUser. grantUserToAdmin adminUser (saUser sa))
              (filter (\<lambda>adminUser. adminUser \<noteq> saUser sa) adminUsers) else [])
      in pbind (foreach schemas
            \<lparr>gs_queries = queries0, gs_owner = metadataOwner, gs_changed = False\<rparr>
            (schemaStep sa dbName users adminUsers)) (\<lambda>res. case res of
          Inl errCh \<Rightarrow> Ret (Some errCh)
        | Inr s \<Rightarrow>
            executeQueries sa dbName (gs_queries s
              @ concat (map (adminQueries sa dbName (gs_owner s) ROUsers RWUsers) adminUsers)
              @ [alterOwnerMetaTable (gs_owner s)])))"

definition GrantUsersAccordingRoles ::
  "service_adapter \<Rightarrow> string \<Rightarrow> (string \<times> string) list \<Rightarrow> string list \<Rightarrow> err option db" where
  "GrantUsersAccordingRoles sa dbName users schemas =
     pbind (getCurrentUserForDb sa dbName) (\<lambda>owner.
     pbind (range_map users) (\<lambda>entries.
       grantClassified sa dbName users schemas (case owner of Inl _ \<Rightarrow> '''' | Inr o' \<Rightarrow> o') entries))"

definition GrantUsersForAllSchemas :: "service_adapter \<Rightarrow> string \<Rightarrow> (string \<times> string) list \<Rightarrow> err option db" where
  "GrantUsersForAllSchemas sa dbName rolesMap =
     pbind (saveRolesInMetadata sa dbName rolesMap) (\<lambda>err. case err of
       Some e \<Rightarrow> Ret (Some e)
     | None \<Rightarrow> pbind (GetSchemas sa dbName) (\<lambda>res. case res of
         Inl e \<Rightarrow> Ret (Some e)
       | Inr schemasList \<Rightarrow> GrantUsersAccordingRoles sa dbName rolesMap schemasList))"

definition grantUserAndSave :: "service_adapter \<Rightarrow> string \<Rightarrow> string \<Rightarrow> string \<Rightarrow> err option db" where
  "grantUserAndSave sa dbName username role =
     pbind (GetMetadataInternal sa dbName) (\<lambda>res. case res of
       Inl e \<Rightarrow> Ret (Some e)
     | Inr metadata \<Rightarrow> pbind (GetValidRolesFromMetadata sa dbName metadata) (\<lambda>res. case res of
         Inl e \<Rightarrow> Ret (Some e)
       | Inr rolesMap \<Rightarrow> GrantUsersForAllSchemas sa dbName (AList.update username role rolesMap)))"

definition grantRightsToPostgres :: "service_adapter \<Rightarrow> string \<Rightarrow> err option db" where
  "grantRightsToPostgres sa user =
     withConn (GetConnection (ClusterAdapter sa)) (\<lambda>e. Ret (Some e)) (\<lambda>c.
       Exec c (grantUserToAdmin user (saUser sa)) [])"

definition reassignGrantsToNewUserForDb :: "service_adapter \<Rightarrow> string \<Rightarrow> string \<Rightarrow> err option db" where
  "reassignGrantsToNewUserForDb sa dbName newUserName =
     pbind (getCurrentUserForDb sa dbName) (\<lambda>res. case res of
       Inl e \<Rightarrow> Ret (Some e)
     | Inr currentUserName \<Rightarrow>
         withConn (GetConnectionToDb (ClusterAdapter sa) dbName) (\<lambda>e. Ret (Some e)) (\<lambda>c.
           Exec c (reassignGrants currentUserName newUserName) []))"

end
