(* ===== verification/Dbaas_Provision.thy ===== *)
theory Dbaas_Provision
  imports Dbaas_Grants
begin

section \<open>Creating databases, users and roles\<close>

text \<open>
  Models \<^verbatim>\<open>CreateDatabase\<close> and \<^verbatim>\<open>CreateUser\<close> of \<^verbatim>\<open>basic.go\<close> and \<^verbatim>\<open>CreateRoles\<close> of
  \<^verbatim>\<open>basic_roles.go\<close>.  The body of \<^verbatim>\<open>CreateDatabase\<close> is long; its parts (the choice of the name,
  the checks, the branch for API version v1, the loop over the roles and the rest of the v2 branch)
  are definitions of their own, composed in \<^verbatim>\<open>CreateDatabase\<close>.
\<close>

subsection \<open>CreateDatabase\<close>

definition chooseDbName :: "db_create_request \<Rightarrow> (err + string) db" where
  "chooseDbName req =
     (if cr_DbName req \<noteq> '''' then Ret (Inr (cr_DbName req))
      else case cr_NamePrefix req of
        Some prefix \<Rightarrow>
          if \<not> validateDbIdentifierParam prefix DbPrefixPattern \<or> prefix = ''''
          then Ret (Inl (idPatternError ''namePrefix'' DbPrefixPattern))
          else Call (CRegenerateDbName prefix GetPgDBLength) (\<lambda>r.
            Ret (Inr (case as_str r of Inr s \<Rightarrow> s | Inl _ \<Rightarrow> [])))
      | None \<Rightarrow>
          Call (CGetNsAndMsName (case cr_Metadata req of Some m \<Rightarrow> m | None \<Rightarrow> [])) (\<lambda>r. case r of
            RStr2 namespace msName \<Rightarrow>
              Call (CPrepareDatabaseName namespace msName GetPgDBLength) (\<lambda>r. case as_str r of
                Inl e \<Rightarrow> Panic e
              | Inr dbGeneratedName \<Rightarrow> Ret (Inr dbGeneratedName))
          | RErr e \<Rightarrow> Ret (Inl e)
          | _ \<Rightarrow> Ret (Inl unexpected)))"

definition generatedName :: "string \<Rightarrow> string db" where
  "generatedName requested =
     (if requested \<noteq> '''' then Ret requested else pbind Generate (\<lambda>g. Ret (''dbaas_'' @ g)))"

definition generatedPassword :: "string \<Rightarrow> string db" where
  "generatedPassword requested = (if requested \<noteq> '''' then Ret requested else Generate)"

text \<open>\<open>_, err = conn.Exec(ctx, grantUserToAdmin(...))\<close> for an external database only.\<close>

definition grantToAdminIfExternal :: "service_adapter \<Rightarrow> conn \<Rightarrow> string \<Rightarrow> err option db" where
  "grantToAdminIfExternal sa c username =
     (if EXTERNAL_POSTGRESQL sa \<noteq> '''' then Exec c (grantUserToAdmin username (saUser sa)) [] else Ret None)"

type_synonym created = "string \<times> gomap list \<times> db_resource list"

text \<open>What follows a successful CREATE USER.\<close>

definition setupUserV1 ::
  "service_adapter \<Rightarrow> conn \<Rightarrow> db_create_request \<Rightarrow> string \<Rightarrow> string \<Rightarrow> string \<Rightarrow> (err + created) db" where
  "setupUserV1 sa c req dbName username password =
     pbind (grantToAdminIfExternal sa c username) (\<lambda>err. case err of
       Some e \<Rightarrow> pseq (sa_dropDatabase sa dbName) (pseq (sa_dropUser sa username) (Ret (Inl e)))
     | None \<Rightarrow>
     pbind (Exec c (grantAllRightsOnDatabase dbName username) []) (\<lambda>err. case err of
       Some e \<Rightarrow> pseq (sa_dropDatabase sa dbName) (pseq (sa_dropUsers sa [(username, '''')]) (Ret (Inl e)))
     | None \<Rightarrow>
     pbind (createMetadata sa dbName username password (case cr_Metadata req of Some m \<Rightarrow> m | None \<Rightarrow> [])) (\<lambda>err.
     case err of
       Some e \<Rightarrow> pseq (sa_dropDatabase sa dbName) (pseq (sa_dropUser sa username) (Ret (Inl e)))
     | None \<Rightarrow> Ret (Inr (username,
         [getConnectionProperties sa dbName username '''' password],
         [resource DbKind dbName, resource UserKind username])))))"

definition createDatabaseV1 :: "service_adapter \<Rightarrow> conn \<Rightarrow> db_create_request \<Rightarrow> string \<Rightarrow> (err + created) db" where
  "createDatabaseV1 sa c req dbName =
     pbind (generatedName (cr_Username req)) (\<lambda>username.
     pbind (generatedPassword (cr_Password req)) (\<lambda>password.
     pbind (Exec c (createUser username password) []) (\<lambda>err.
     if err \<noteq> None then Ret (Inr (username, [], [resource DbKind dbName]))
     else setupUserV1 sa c req dbName username password)))"

record v2_state =
  v2_users :: "(string \<times> string) list"
  v2_connectionProps :: "gomap list"
  v2_resources :: "db_resource list"
  v2_metadata :: "gomap option"
  v2_adminUser :: string
  v2_adminPassword :: string
  v2_username :: string

definition createRoleUser ::
  "service_adapter \<Rightarrow> conn \<Rightarrow> db_create_request \<Rightarrow> string \<Rightarrow> string \<Rightarrow> v2_state \<Rightarrow> (err + v2_state) db" where
  "createRoleUser sa c req dbName role s =
     pbind Generate (\<lambda>g1. pbind Generate (\<lambda>g2.
     let username = (if role = ''admin'' \<and> cr_Username req \<noteq> '''' then cr_Username req else ''dbaas_'' @ g1);
         password = (if role = ''admin'' \<and> cr_Password req \<noteq> '''' then cr_Password req else g2);
         s1 = (if role = ''admin'' then s\<lparr>v2_adminUser := username, v2_adminPassword := password\<rparr> else s)
     in pbind (Exec c (createUser username password) []) (\<lambda>err. case err of
          Some e \<Rightarrow> Panic e
        | None \<Rightarrow>
        pbind (grantToAdminIfExternal sa c username) (\<lambda>err. case err of
          Some e \<Rightarrow> pseq (sa_dropDatabase sa dbName) (pseq (sa_dropUser sa username) (Ret (Inl e)))
        | None \<Rightarrow>
        let users = AList.update username role (v2_users s1) in
        case v2_metadata s1 of
          None \<Rightarrow> Panic ''assignment to entry in nil map''
        | Some m \<Rightarrow> Ret (Inr (s1\<lparr>v2_users := users,
            v2_connectionProps := v2_connectionProps s1 @ [getConnectionProperties sa dbName username role password],
            v2_metadata := Some (AList.update RolesKey (JStrMap users) m),
            v2_resources := v2_resources s1 @ [resource UserKind username],
            v2_username := username\<rparr>))))))"

definition finishV2 :: "service_adapter \<Rightarrow> string \<Rightarrow> v2_state \<Rightarrow> (err + created) db" where
  "finishV2 sa dbName s =
     pseq (GrantAllOnSchemaToUser sa dbName defaultSchema (v2_adminUser s))
     (pbind (grantCreateOnSchema sa dbName defaultSchema (v2_adminUser s)) (\<lambda>err. case err of
       Some e \<Rightarrow> pseq (sa_dropDatabase sa dbName) (pseq (sa_dropUsers sa (v2_users s)) (Ret (Inl e)))
     | None \<Rightarrow>
     pbind (createMetadata sa dbName (v2_adminUser s) (v2_adminPassword s)
         (case v2_metadata s of Some m \<Rightarrow> m | None \<Rightarrow> [])) (\<lambda>err. case err of
       Some e \<Rightarrow> pseq (sa_dropDatabase sa dbName) (pseq (sa_dropUser sa (v2_username s)) (Ret (Inl e)))
     | None \<Rightarrow>
     pbind (GrantUsersForAllSchemas sa dbName (v2_users s)) (\<lambda>err. case err of
       Some e \<Rightarrow> pseq (sa_dropDatabase sa dbName) (pseq (sa_dropUsers sa (v2_users s)) (Ret (Inl e)))
     | None \<Rightarrow> Ret (Inr (v2_adminUser s, v2_connectionProps s, v2_resources s))))))"

definition createDatabaseV2 :: "service_adapter \<Rightarrow> conn \<Rightarrow> db_create_request \<Rightarrow> string \<Rightarrow> (err + created) db" where
  "createDatabaseV2 sa c req dbName =
     ptry (foreach (GetSupportedRoles sa)
       \<lparr>v2_users = [], v2_connectionProps = [], v2_resources = [resource DbKind dbName],
        v2_metadata = cr_Metadata req, v2_adminUser = '''', v2_adminPassword = '''', v2_username = ''''\<rparr>
       (createRoleUser sa c req dbName)) (finishV2 sa dbName)"

definition createChecked ::
  "service_adapter \<Rightarrow> db_create_request \<Rightarrow> string \<Rightarrow> (err + string \<times> described_database) db" where
  "createChecked sa req dbName =
     withConn (GetConnection (ClusterAdapter sa)) Panic (\<lambda>c.
       ptry (getPgSettings sa (cr_Settings req)) (\<lambda>pgSettings.
       pbind (range_map (CreationParameters pgSettings)) (\<lambda>parameters.
       pbind (Exec c (createDatabase dbName parameters) []) (\<lambda>err. case err of
         Some e \<Rightarrow> Panic e
       | None \<Rightarrow>
       ptry (if ApiVersion sa = ''v1'' then createDatabaseV1 sa c req dbName
             else createDatabaseV2 sa c req dbName) (\<lambda>(adminUser, connectionProps, resources).
       pseq (createExtensions sa dbName adminUser (Extensions pgSettings))
       (Ret (Inr (dbName, \<lparr>dd_ConnectionProperties = connectionProps, dd_Resources = resources\<rparr>))))))))"

definition CreateDatabase :: "service_adapter \<Rightarrow> db_create_request \<Rightarrow> (err + string \<times> described_database) db" where
  "CreateDatabase sa req =
     ptry (chooseDbName req) (\<lambda>dbName.
     if \<not> validateDbIdentifierParam dbName DbIdentifiersPattern
     then Ret (Inl (idPatternError ''dbName'' DbIdentifiersPattern))
     else if \<not> validateDbIdentifierParam (cr_Username req) DbIdentifiersPattern
     then Ret (Inl (idPatternError ''userName'' DbIdentifiersPattern))
     else pbind (validateSettings sa (cr_Settings req)) (\<lambda>err. case err of
       Some e \<Rightarrow> Ret (Inl e)
     | None \<Rightarrow> createChecked sa req dbName))"

subsection \<open>CreateUser\<close>

definition chooseUsername :: "string \<Rightarrow> string \<Rightarrow> string db" where
  "chooseUsername username prefix =
     (if username = '''' then
        pbind Generate (\<lambda>g. Ret ((if prefix = '''' then DefaultPrefix else prefix) @ ''_'' @ g))
      else Ret ((if prefix \<noteq> '''' then prefix @ GetDBPrefixDelimiter else prefix)
                @ getUsernameWithoutHost username))"

text \<open>The checks of the request after the name is known: the error returned, if any.\<close>

definition checkUserRequest :: "service_adapter \<Rightarrow> string \<Rightarrow> user_create_request \<Rightarrow> err option" where
  "checkUserRequest sa username req =
     (if \<not> validateDbIdentifierParam username DbIdentifiersPattern
      then Some (idPatternError ''username'' DbIdentifiersPattern)
      else if ur_DbName req \<noteq> '''' \<and> \<not> validateDbIdentifierParam (ur_DbName req) DbIdentifiersPattern
      then Some (idPatternError ''dbName'' DbIdentifiersPattern)
      else if ApiVersion sa = ''v2'' \<and> \<not> (Contains (GetSupportedRoles sa) (ur_Role req) \<or> ur_Role req = ''none'')
      then Some (''unsupported role. Role should be one of the list ['' @ join_with '' '' (GetSupportedRoles sa) @ '']'')
      else if ApiVersion sa = ''v2'' \<and> (ur_Role req = ''none'' \<and> ur_DbName req = '''')
      then Some ''user with empty role can be created for defined database name. Specify dbName parameter in request''
      else None)"

text \<open>Creates the user or changes the password of an existing one; the result is \<open>userCreated\<close>.\<close>

definition ensureUser :: "service_adapter \<Rightarrow> conn \<Rightarrow> string \<Rightarrow> string \<Rightarrow> bool \<Rightarrow> bool db" where
  "ensureUser sa c username password exist =
     (if \<not> exist then
        pbind (Exec c (createUser username password) []) (\<lambda>err. case err of
          Some e \<Rightarrow> Panic e
        | None \<Rightarrow>
        pbind (grantToAdminIfExternal sa c username) (\<lambda>err. case err of
          Some e \<Rightarrow> pseq (sa_dropUser sa username) (Panic e)
        | None \<Rightarrow> Ret True))
      else
        pbind (Exec c (changeUserPassword username password) []) (\<lambda>err. case err of
          Some e \<Rightarrow> Panic e
        | None \<Rightarrow> Ret False))"

definition dropIfCreated :: "service_adapter \<Rightarrow> string \<Rightarrow> bool \<Rightarrow> unit db" where
  "dropIfCreated sa username userCreated = (if userCreated then sa_dropUser sa username else Ret ())"

definition grantUserDb :: "service_adapter \<Rightarrow> conn \<Rightarrow> string \<Rightarrow> user_create_request \<Rightarrow> bool \<Rightarrow> unit db" where
  "grantUserDb sa c username req userCreated =
     pbind (if ApiVersion sa = ''v1'' then Exec c (grantAllRightsOnDatabase (ur_DbName req) username) []
            else pbind (grantUserAndSave sa (ur_DbName req) username (ur_Role req)) (\<lambda>err.
              pseq (if err \<noteq> None then dropIfCreated sa username userCreated else Ret ()) (Ret err))) (\<lambda>err.
     case err of
       Some e \<Rightarrow> pseq (dropIfCreated sa username userCreated) (Panic e)
     | None \<Rightarrow>
       pseq (enableDatabase sa (ur_DbName req))
       (if ApiVersion sa = ''v1'' then
          pbind (reassignGrantsToNewUserForDb sa (ur_DbName req) username) (\<lambda>err. case err of
            Some e \<Rightarrow> pseq (dropIfCreated sa username userCreated) (Panic e)
          | None \<Rightarrow> Ret ())
        else Ret ()))"

definition CreateUser :: "service_adapter \<Rightarrow> string \<Rightarrow> user_create_request \<Rightarrow> (err + created_user) db" where
  "CreateUser sa username0 req =
     pbind (chooseUsername username0 (ur_UsernamePrefix req)) (\<lambda>username.
     case checkUserRequest sa username req of
       Some e \<Rightarrow> Ret (Inl e)
     | None \<Rightarrow>
       pbind (generatedPassword (ur_Password req)) (\<lambda>password.
       withConn (GetConnection (ClusterAdapter sa)) Panic (\<lambda>c.
         ptry (isUserExist c username) (\<lambda>exist.
         pbind (ensureUser sa c username password exist) (\<lambda>userCreated.
         pseq (if ur_DbName req \<noteq> '''' then grantUserDb sa c username req userCreated else Ret ())
         (Ret (Inr \<lparr>cu_ConnectionProperties =
                      getConnectionProperties sa (ur_DbName req) username (ur_Role req) password,
                    cu_Name = ur_DbName req,
                    cu_Resources = (if ur_DbName req \<noteq> '''' then [resource DbKind (ur_DbName req)] else [])
                      @ [resource UserKind username]\<rparr>)))))))"

subsection \<open>CreateRoles\<close>

record additional_role =
  ar_Id :: string
  ar_DbName :: string
  ar_ConnectionProperties :: "gomap list"

record role_success =
  rs_Id :: string
  rs_ConnectionProperties :: "gomap list"
  rs_Resources :: "db_resource list"
  rs_DbName :: string

record role_failure =
  rf_Id :: string
  rf_Message :: string

definition json_string :: "json \<Rightarrow> string db" where
  "json_string j = (case j of JStr s \<Rightarrow> Ret s | _ \<Rightarrow> Panic conversion_panic)"

text \<open>One connection of an additional role: the roles seen so far grow by one.\<close>

definition processConnection ::
  "service_adapter \<Rightarrow> string \<Rightarrow> gomap \<Rightarrow> string list \<Rightarrow> (err + string list) db" where
  "processConnection sa dbName connectionProperties existingRoles =
     pbind (json_string (map_get connectionProperties ''role'')) (\<lambda>roleForCheck.
     pbind (json_string (map_get connectionProperties ''username'')) (\<lambda>username.
     pbind (if EXTERNAL_POSTGRESQL sa \<noteq> '''' then grantRightsToPostgres sa username else Ret None) (\<lambda>err.
     case err of
       Some e \<Rightarrow> Ret (Inl e)
     | None \<Rightarrow>
       if roleForCheck \<noteq> ''admin'' then Ret (Inr (existingRoles @ [roleForCheck]))
       else pbind (grantUserAndSave sa dbName username roleForCheck) (\<lambda>err. case err of
         Some e \<Rightarrow> Ret (Inl e)
       | None \<Rightarrow> Ret (Inr (existingRoles @ [roleForCheck]))))))"

definition createMissingRole ::
  "service_adapter \<Rightarrow> string \<Rightarrow> string list \<Rightarrow> string \<Rightarrow> gomap list \<times> db_resource list
   \<Rightarrow> (err + gomap list \<times> db_resource list) db" where
  "createMissingRole sa dbName existingRoles role acc = (case acc of (newConProps, newResources) \<Rightarrow>
     if \<not> Contains existingRoles role then
       ptry (CreateUser sa '''' \<lparr>ur_UsernamePrefix = '''', ur_DbName = dbName, ur_Role = role, ur_Password = ''''\<rparr>)
         (\<lambda>createdUser. Ret (Inr (newConProps @ [cu_ConnectionProperties createdUser],
                                    newResources @ cu_Resources createdUser)))
     else Ret (Inr (newConProps, newResources)))"

definition processRole :: "service_adapter \<Rightarrow> additional_role \<Rightarrow> (err + role_success) db" where
  "processRole sa role =
     pbind (createMetadata sa (ar_DbName role) (saUser sa) (ca_Password (ClusterAdapter sa)) []) (\<lambda>err. case err of
       Some e \<Rightarrow> Ret (Inl e)
     | None \<Rightarrow>
       ptry (foreach (ar_ConnectionProperties role) [] (processConnection sa (ar_DbName role))) (\<lambda>existingRoles.
       ptry (foreach (GetSupportedRoles sa) ([], []) (createMissingRole sa (ar_DbName role) existingRoles))
         (\<lambda>(newConProps, newResources).
           Ret (Inr \<lparr>rs_Id = ar_Id role, rs_ConnectionProperties = newConProps,
                     rs_Resources = newResources, rs_DbName = ar_DbName role\<rparr>))))"

text \<open>
  The deferred function recovers a panic and reports the role in process; the successes before it
  are kept, because they are a named result.
\<close>

fun CreateRoles ::
  "service_adapter \<Rightarrow> additional_role list \<Rightarrow> role_success list \<Rightarrow> (role_success list \<times> role_failure option) db" where
  "CreateRoles sa [] success = Ret (success, None)"
| "CreateRoles sa (role # roles) success =
     pbind (precover (processRole sa role) (\<lambda>r. Ret (Inl r))) (\<lambda>res. case res of
       Inl message \<Rightarrow> Ret (success, Some \<lparr>rf_Id = ar_Id role, rf_Message = message\<rparr>)
     | Inr s \<Rightarrow> CreateRoles sa roles (success @ [s]))"

end
