(* ===== verification/Dbaas_Initial.thy ===== *)
theory Dbaas_Initial
  imports Dbaas_Provision
begin

section \<open>Init mode: extensions and migration of roles\<close>

text \<open>
  Models \<^verbatim>\<open>services/dbaas-adapter/adapter/initial/\<close> (\<^verbatim>\<open>extensions.go\<close>, \<^verbatim>\<open>migration.go\<close>,
  \<^verbatim>\<open>cm_manager.go\<close>) and the start-up choices of \<^verbatim>\<open>main.go\<close>.  A config map is the JSON object
  of its data, with the extensions file already parsed: \<open>JNull\<close> is the text \<^verbatim>\<open>null\<close>, an object
  is itself and anything else is text that does not parse.

  The migration starts a goroutine per database and waits after every \<^verbatim>\<open>limitPool\<close> of them.  The
  model keeps the batches and runs the members of a batch one after the other in an order of the
  environment's choice; interleavings inside a batch are not modelled.
\<close>

subsection \<open>Start-up\<close>

definition getRoles :: "string list" where
  "getRoles = [''admin'', ''streaming'', ''rw'', ''ro'']"

definition getFeatures :: "string \<Rightarrow> bool \<Rightarrow> string \<Rightarrow> bool \<Rightarrow> (string \<times> bool) list" where
  "getFeatures pgSsl isMultiUsersEnabled apiVersion external =
     (let IsTls = (pgSsl = ''on'') in
      [(FeatureMultiUsers, isMultiUsersEnabled \<and> apiVersion \<noteq> ''v1''),
       (''tls'', IsTls), (''tlsNotStrict'', IsTls \<and> external)])"

fun checkInitMode :: "string list \<Rightarrow> bool" where
  "checkInitMode [] = False"
| "checkInitMode (arg # args) = (if arg = ''init'' then True else checkInitMode args)"

subsection \<open>Extensions\<close>

definition SelectDbUsers :: string where
  "SelectDbUsers = ''SELECT USENAME FROM pg_catalog.pg_user where USENAME <> $1;''"

definition ExtensionConfigNameNew :: string where
  "ExtensionConfigNameNew = ''dbaas-postgres-adapter.extensions-config''"
definition ExtensionConfigNameOld :: string where
  "ExtensionConfigNameOld = ''nc-dbaas-postgres-adapter.extensions-config''"

text \<open>The query has a parameter and the source passes no argument for it.\<close>

definition findUserName :: "conn \<Rightarrow> string db" where
  "findUserName c =
     pbind (QueryRow c SelectDbUsers []) (\<lambda>row. Ret (case scan_string row of Inl _ \<Rightarrow> '''' | Inr u \<Rightarrow> u))"

definition defaultExts :: "service_adapter \<Rightarrow> string list" where
  "defaultExts sa = (case DefaultExt sa of Some xs \<Rightarrow> xs | None \<Rightarrow> [])"

definition createDatabaseExt :: "service_adapter \<Rightarrow> string \<Rightarrow> unit db" where
  "createDatabaseExt sa database =
     withConn (GetConnectionToDb (ClusterAdapter sa) database) (\<lambda>_. Ret ()) (\<lambda>c.
       pbind (if Contains (defaultExts sa) OracleFdw then findUserName c else Ret '''') (\<lambda>username.
         CreateExtFromSlice c username (defaultExts sa)))"

text \<open>Without a client the config map interface is nil and the call on it panics.\<close>

definition getCM :: "string \<Rightarrow> gomap option db" where
  "getCM cmName = Call (CGetCM cmName) (\<lambda>r. case r of
     RErr _ \<Rightarrow> Panic ''nil pointer dereference''
   | RJson (JObj m) \<Rightarrow> Ret (Some m)
   | _ \<Rightarrow> Ret None)"

definition updateCM :: "string \<Rightarrow> gomap \<Rightarrow> unit db" where
  "updateCM cmName cmData = Call (CUpdateCM cmName cmData) (\<lambda>_. Ret ())"

definition updateExtensionsCM :: "unit db" where
  "updateExtensionsCM =
     for_do [ExtensionConfigNameNew, ExtensionConfigNameOld] (\<lambda>name.
       pbind (getCM name) (\<lambda>cm. case cm of
         None \<Rightarrow> Ret ()
       | Some cmData \<Rightarrow> (case map_of cmData ExtensionName of
           Some JNull \<Rightarrow> Panic ''assignment to entry in nil map''
         | parsed \<Rightarrow>
           (let extensionMap = (case parsed of Some (JObj m) \<Rightarrow> m | _ \<Rightarrow> []) in
            updateCM name (AList.update ExtensionName
              (JObj (AList.update UpdateRequiredKey (JBool False) extensionMap)) cmData)))))"

definition UpdateExtensions :: "service_adapter \<Rightarrow> unit db" where
  "UpdateExtensions sa =
     (if \<not> ExtUpdateRequired sa \<or> length (defaultExts sa) = 0 then Ret ()
      else pbind (ValidatePostgresAvailableExtensions sa (defaultExts sa)) (\<lambda>res.
        if res \<noteq> Inr True then Ret ()
        else pbind (sa_GetDatabases sa) (\<lambda>databases.
          pseq (for_do databases (createDatabaseExt sa)) updateExtensionsCM)))"

subsection \<open>Migration of roles\<close>

definition limitPool :: nat where "limitPool = 10"

definition excludedDatabases :: "string list" where
  "excludedDatabases = [''template0'', ''template1'', ''postgres'', ''powa'', ''rdsadmin'',
     ''cloudsqladmin'', ''azure_maintenance'', ''azure_sys'']"

definition isExcludedDatabase :: "string \<Rightarrow> bool" where
  "isExcludedDatabase database = list_ex (\<lambda>excDatname. database = excDatname) excludedDatabases"

definition isMigrationRequiredForDb :: "gomap \<Rightarrow> string + bool" where
  "isMigrationRequiredForDb metadata =
     (case map_of metadata RolesVersionKey of
        Some (JNum v) \<Rightarrow> Inr (v < GetRolesVersion)
      | Some _ \<Rightarrow> Inl conversion_panic
      | None \<Rightarrow> Inr True)"

text \<open>\<open>maps.Equal\<close> on maps with distinct keys.\<close>

definition maps_equal :: "(string \<times> string) list \<Rightarrow> (string \<times> string) list \<Rightarrow> bool" where
  "maps_equal m n \<longleftrightarrow> length m = length n \<and> list_all (\<lambda>(k, v). map_of n k = Some v) m"

definition performAlteringRoles :: "service_adapter \<Rightarrow> string \<Rightarrow> gomap \<Rightarrow> bool db" where
  "performAlteringRoles sa database metadata =
     pbind (or_panic (GetRolesFromMetadata metadata)) (\<lambda>roles.
     pbind (GetValidRolesFromMetadata sa database metadata) (\<lambda>res. case res of
       Inl _ \<Rightarrow> Ret False
     | Inr validRoles \<Rightarrow> pbind (GrantUsersForAllSchemas sa database validRoles) (\<lambda>err.
         case err of Some _ \<Rightarrow> Ret False | None \<Rightarrow> Ret (maps_equal roles validRoles))))"

definition updateRolesVersionInMetadata :: "service_adapter \<Rightarrow> string \<Rightarrow> gomap \<Rightarrow> unit db" where
  "updateRolesVersionInMetadata sa database metadata =
     pseq (UpdateMetadataInternal sa (AList.update RolesVersionKey (JNum GetRolesVersion) metadata) database) (Ret ())"

text \<open>
  \<^verbatim>\<open>cloneMetadata\<close> asserts that the roles are an object; the copies it makes need no counterpart
  here, where values are not shared.
\<close>

definition cloneMetadata :: "gomap \<Rightarrow> string + gomap" where
  "cloneMetadata metadataOrig =
     (case map_get metadataOrig RolesKey of
        JObj roles \<Rightarrow> Inr (AList.update RolesKey (JObj roles) metadataOrig)
      | _ \<Rightarrow> Inl conversion_panic)"

definition processDatabaseForMigration :: "service_adapter \<Rightarrow> string \<Rightarrow> unit db" where
  "processDatabaseForMigration sa database =
     (if isExcludedDatabase database then Ret ()
      else pbind (GetMetadataInternal sa database) (\<lambda>res. case res of
        Inl _ \<Rightarrow> Ret ()
      | Inr metadata0 \<Rightarrow>
        (let originalMetadata = (if map_of metadata0 RolesVersionKey = None
                                 then AList.update RolesVersionKey (JNum 0) metadata0 else metadata0) in
         if map_get originalMetadata RolesKey = JNull then Ret ()
         else pbind (or_panic (cloneMetadata originalMetadata)) (\<lambda>metadata.
           pbind (or_panic (isMigrationRequiredForDb metadata)) (\<lambda>required.
           if required then
             pbind (performAlteringRoles sa database metadata) (\<lambda>migrationPerformed.
               if migrationPerformed then updateRolesVersionInMetadata sa database originalMetadata
               else pseq (UpdateMetadataInternal sa originalMetadata database) (Ret ()))
           else Ret ())))))"

text \<open>The databases between two calls of \<open>wg.Wait()\<close>.\<close>

function batches :: "'a list \<Rightarrow> 'a list list" where
  "batches xs = (if xs = [] then [] else take limitPool xs # batches (drop limitPool xs))"
  by pat_completeness auto
termination
  by (relation "measure length") (auto simp: limitPool_def)

declare batches.simps [simp del]

definition PerformMigration :: "service_adapter \<Rightarrow> unit db" where
  "PerformMigration sa =
     (if \<not> IsMultiUsersEnabled sa then Ret ()
      else pbind (sa_GetDatabases sa) (\<lambda>databases.
        for_do (batches databases) (\<lambda>batch.
          Call CRange (\<lambda>r. for_do (shuffle (as_nat r) batch) (processDatabaseForMigration sa)))))"

end
