(* ===== verification/Dbaas_Drop.thy ===== *)
theory Dbaas_Drop
  imports Dbaas_Metadata
begin

section \<open>Dropping databases and users\<close>

text \<open>
  Models \<^verbatim>\<open>disableDatabase\<close>, \<^verbatim>\<open>rollbackPrepared\<close>, \<^verbatim>\<open>disableUser\<close>, \<^verbatim>\<open>dropResource\<close> and
  \<^verbatim>\<open>DropResources\<close> of \<^verbatim>\<open>basic.go\<close>.
\<close>

definition transactionsExists :: "conn \<Rightarrow> string \<Rightarrow> (err + bool) db" where
  "transactionsExists c dbName =
     pbind (QueryRow c existsRollbackTransactions [VStr dbName]) (\<lambda>row. Ret (scan_bool row))"

definition rollbackPrepared :: "service_adapter \<Rightarrow> conn \<Rightarrow> string \<Rightarrow> err option db" where
  "rollbackPrepared sa c dbName =
     pbind (transactionsExists c dbName) (\<lambda>res. case res of
       Inl e \<Rightarrow> Ret (Some e)
     | Inr prep \<Rightarrow>
       if prep then
         withConn (GetConnectionToDb (ClusterAdapter sa) dbName) (\<lambda>e. Ret (Some e)) (\<lambda>connDb.
           pbind (Query connDb selectPreparedTransactions [VStr dbName]) (\<lambda>rows. case rows of
             Inl e \<Rightarrow> Ret (Some e)
           | Inr rs \<Rightarrow> (case scan_all scan_string rs of
               Inl e \<Rightarrow> Ret (Some e)
             | Inr gids \<Rightarrow> for_err gids (\<lambda>tr. Exec connDb (rollbackPreparedByGid tr) []))))
       else Ret None)"

definition sa_terminateListenConnections :: "conn \<Rightarrow> err option db" where
  "sa_terminateListenConnections c = pseq (Exec c terminateListenConnections []) (Ret None)"

definition disableDatabase :: "service_adapter \<Rightarrow> conn \<Rightarrow> string \<Rightarrow> err option db" where
  "disableDatabase sa c dbName =
     pbind (rollbackPrepared sa c dbName) (\<lambda>err. case err of
       Some e \<Rightarrow> Ret (Some e)
     | None \<Rightarrow>
     pbind (if EXTERNAL_POSTGRESQL sa \<noteq> '''' then Exec c (prohibitConnectionsToDbExt dbName) []
            else Exec c prohibitConnectionsToDb [VStr dbName]) (\<lambda>err. case err of
       Some e \<Rightarrow> Ret (Some e)
     | None \<Rightarrow>
     pseq (if EXTERNAL_POSTGRESQL sa = '''' then sa_terminateListenConnections c else Ret None)
     (pbind (Exec c dropConnectionsToDb [VStr dbName]) (\<lambda>err. case err of
       Some e \<Rightarrow> Ret (Some e)
     | None \<Rightarrow> Ret None))))"

definition disableUser :: "service_adapter \<Rightarrow> string \<Rightarrow> db_resource \<Rightarrow> err option db" where
  "disableUser sa dbName res =
     withConn (GetConnectionToDb (ClusterAdapter sa) dbName) (\<lambda>e. Ret (Some e)) (\<lambda>connDb.
       pbind (rollbackPrepared sa connDb dbName) (\<lambda>err. case err of Some e \<Rightarrow> Ret (Some e) | None \<Rightarrow>
       pbind (Exec connDb (reassignGrants (getUsernameWithoutHost (Name res)) (saUser sa)) []) (\<lambda>err.
       case err of Some e \<Rightarrow> Ret (Some e) | None \<Rightarrow>
       pbind (Exec connDb (dropOwnedObjects (Name res)) []) (\<lambda>err. case err of Some e \<Rightarrow> Ret (Some e) | None \<Rightarrow>
       pbind (Exec connDb dropUserConnectionsToDb [VStr (Name res)]) (\<lambda>err.
       case err of Some e \<Rightarrow> Ret (Some e) | None \<Rightarrow> Ret None)))))"

definition deleted :: "db_resource \<Rightarrow> db_resource" where
  "deleted res = \<lparr>Kind = Kind res, Name = Name res, Status = DeletedStatus, ErrorMessage = ''''\<rparr>"

definition deleteFailed :: "db_resource \<Rightarrow> err \<Rightarrow> db_resource" where
  "deleteFailed res e = \<lparr>Kind = Kind res, Name = Name res, Status = DeleteFailedStatus, ErrorMessage = e\<rparr>"

definition dropDatabaseResource :: "service_adapter \<Rightarrow> db_resource \<Rightarrow> conn \<Rightarrow> db_resource db" where
  "dropDatabaseResource sa res c =
     pbind (Query c getDatabase [VStr (Name res)]) (\<lambda>rows. case rows of
       Inl e \<Rightarrow> Ret (deleteFailed res e)
     | Inr rs \<Rightarrow>
       if rs = [] then Ret (deleted res)
       else pbind (disableDatabase sa c (Name res)) (\<lambda>err. case err of
         Some e \<Rightarrow> Ret (deleteFailed res e)
       | None \<Rightarrow> pbind (Exec c (dropOldDatabase (Name res)) []) (\<lambda>err. case err of
           Some e \<Rightarrow> Ret (deleteFailed res e)
         | None \<Rightarrow> Ret (deleted res))))"

text \<open>
  The rows of the dependent databases are scanned one by one, each before its database is
  processed.
\<close>

definition disableUserInDbs :: "service_adapter \<Rightarrow> db_resource \<Rightarrow> scan list \<Rightarrow> err option db" where
  "disableUserInDbs sa res rows =
     for_err rows (\<lambda>row. case scan_string row of
       Inl e \<Rightarrow> Ret (Some e)
     | Inr dbName \<Rightarrow> disableUser sa dbName res)"

definition dropUserResource :: "service_adapter \<Rightarrow> db_resource \<Rightarrow> conn \<Rightarrow> db_resource db" where
  "dropUserResource sa res c =
     pbind (Query c getUser [VStr (Name res)]) (\<lambda>rows. case rows of
       Inl e \<Rightarrow> Ret (deleteFailed res e)
     | Inr rs \<Rightarrow>
       if rs = [] then Ret (deleted res)
       else pbind (Query c getDependenceDbForRole [VStr (Name res), VStr (Name res)]) (\<lambda>rows. case rows of
         Inl e \<Rightarrow> Ret (deleteFailed res e)
       | Inr dbs \<Rightarrow> pbind (disableUserInDbs sa res dbs) (\<lambda>err. case err of
           Some e \<Rightarrow> Ret (deleteFailed res e)
         | None \<Rightarrow> pbind (Exec c (dropUser (Name res)) []) (\<lambda>err. case err of
             Some e \<Rightarrow> Ret (deleteFailed res e)
           | None \<Rightarrow> Ret (deleted res)))))"

definition dropResource :: "service_adapter \<Rightarrow> db_resource \<Rightarrow> conn \<Rightarrow> db_resource db" where
  "dropResource sa res c =
     withLock
       (if Kind res = DbKind then dropDatabaseResource sa res c
        else if Kind res = UserKind then dropUserResource sa res c
        else Ret (deleted res))"

fun dropResourceByKind :: "service_adapter \<Rightarrow> db_resource list \<Rightarrow> string \<Rightarrow> conn \<Rightarrow> db_resource list db" where
  "dropResourceByKind sa [] kind c = Ret []"
| "dropResourceByKind sa (res # resources) kind c =
     (if Kind res = kind then
        pbind (dropResource sa res c) (\<lambda>dropResult.
        pbind (dropResourceByKind sa resources kind c) (\<lambda>result. Ret (dropResult # result)))
      else dropResourceByKind sa resources kind c)"

definition DropResources :: "service_adapter \<Rightarrow> db_resource list \<Rightarrow> db_resource list db" where
  "DropResources sa resources =
     withConn (GetConnection (ClusterAdapter sa)) Panic (\<lambda>c.
       pbind (dropResourceByKind sa resources UserKind c) (\<lambda>users.
       pbind (dropResourceByKind sa resources DbKind c) (\<lambda>dataBases.
       Ret (users @ dataBases))))"

end
