(* ===== verification/Dbaas_Settings.thy ===== *)
theory Dbaas_Settings
  imports Dbaas_Metadata
begin

section \<open>Updating settings\<close>

text \<open>
  Models \<^verbatim>\<open>updateExtensions\<close>, \<^verbatim>\<open>updateSettings\<close> and \<^verbatim>\<open>getDBInfo\<close> of \<^verbatim>\<open>basic.go\<close> and the HTTP
  handlers of \<^verbatim>\<open>handlers.go\<close>; a handler gives the status code and the body of the response.
\<close>

record setting_update_result =
  sr_Status :: string
  sr_Message :: string

record update_settings_request =
  us_CurrentSettings :: "gomap option"
  us_NewSettings :: "gomap option"

type_synonym settings_result = "(string \<times> setting_update_result) list"

definition listText :: "string list \<Rightarrow> string" where
  "listText xs = ''['' @ join_with '' '' xs @ '']''"

definition getBadRequestSettingsResult :: "string list \<Rightarrow> setting_update_result" where
  "getBadRequestSettingsResult extensionsArray =
     \<lparr>sr_Status = BadRequest,
      sr_Message = ''Update settings Request contains not valid PostgreSQL extensions '' @ listText extensionsArray\<rparr>"

definition sa_deleteExtension :: "conn \<Rightarrow> string \<Rightarrow> err option db" where
  "sa_deleteExtension c extension = Exec c (deleteExtension extension) []"

definition applyExtensions :: "conn \<Rightarrow> string list \<Rightarrow> (err + setting_update_result) db" where
  "applyExtensions c newPgExtensions =
     pbind (for_err newPgExtensions (\<lambda>extension. Exec c (createExtensionIfNotExist extension) [])) (\<lambda>err.
     case err of
       Some e \<Rightarrow> Ret (Inl e)
     | None \<Rightarrow> Ret (Inr \<lparr>sr_Status = Successful, sr_Message = ''Update database extensions successful''\<rparr>))"

definition updateExtensions ::
  "service_adapter \<Rightarrow> conn \<Rightarrow> string list \<Rightarrow> string list \<Rightarrow> (err + setting_update_result) db" where
  "updateExtensions sa c newPgExtensions currentPgExtensions =
     ptry (ValidatePostgresAvailableExtensions sa newPgExtensions) (\<lambda>isValid.
     if \<not> isValid then Ret (Inr (getBadRequestSettingsResult newPgExtensions))
     else if length currentPgExtensions = 0 \<and> length newPgExtensions = 0
     then Ret (Inr \<lparr>sr_Status = Skipped, sr_Message = ''Nothing to update. Extensions list is empty.''\<rparr>)
     else if length currentPgExtensions > 0 then
       ptry (ValidatePostgresAvailableExtensions sa currentPgExtensions) (\<lambda>isValid.
       if \<not> isValid then Ret (Inr (getBadRequestSettingsResult currentPgExtensions))
       else pbind (for_err currentPgExtensions (\<lambda>extension.
              if \<not> Contains newPgExtensions extension then sa_deleteExtension c extension else Ret None)) (\<lambda>err.
            case err of Some e \<Rightarrow> Ret (Inl e) | None \<Rightarrow> applyExtensions c newPgExtensions))
     else applyExtensions c newPgExtensions)"

definition notSupportedResults :: "string list \<Rightarrow> settings_result \<Rightarrow> settings_result" where
  "notSupportedResults keys results =
     foldl (\<lambda>rs key. AList.update key
       \<lparr>sr_Status = Skipped, sr_Message = ''Setting '' @ key @ '' not supported''\<rparr> rs) results keys"

definition updateSettings :: "service_adapter \<Rightarrow> string \<Rightarrow> update_settings_request \<Rightarrow> (err + settings_result) db" where
  "updateSettings sa dbName request =
     (case us_NewSettings request of
        None \<Rightarrow> Ret (Inr [(''newSettings'', \<lparr>sr_Status = BadRequest, sr_Message = ''newSettings parameter is empty''\<rparr>)])
      | Some new \<Rightarrow>
        withConn (GetConnectionToDb (ClusterAdapter sa) dbName) (\<lambda>e. Ret (Inl e)) (\<lambda>c.
          ptry (getPgSettings sa (case us_CurrentSettings request of Some m \<Rightarrow> m | None \<Rightarrow> [])) (\<lambda>currentSettings.
          ptry (getPgSettings sa new) (\<lambda>newSettings.
          ptry (updateExtensions sa c (Extensions newSettings) (Extensions currentSettings)) (\<lambda>updatedExtensions.
          Ret (Inr (notSupportedResults (NotSupported newSettings) [(PGExtensionsKey, updatedExtensions)])))))))"

definition getDBInfo :: "service_adapter \<Rightarrow> string \<Rightarrow> (err + string) db" where
  "getDBInfo sa dbName = ptry (getCurrentUserForDb sa dbName) (\<lambda>userName. Ret (Inr userName))"

subsection \<open>Handlers\<close>

datatype body = Text string | SettingsJson settings_result | OwnerJson string

definition isStatusExists :: "settings_result \<Rightarrow> string \<Rightarrow> bool" where
  "isStatusExists results status = list_ex (\<lambda>(_, result). sr_Status result = status) results"

definition sendInvalidParameterResponse :: "string \<Rightarrow> string \<Rightarrow> id_pattern \<Rightarrow> nat \<times> body" where
  "sendInvalidParameterResponse paramName paramValue pattern =
     (400, Text (''Invalid '' @ squote paramName @ '' param provided: '' @ paramValue @ ''. ''
       @ squote paramName @ '' param must comply to the pattern '' @ pattern_text pattern))"

text \<open>\<open>request\<close> is what parsing the body gives.\<close>

definition UpdatePostgreSQLSettingsHandler ::
  "service_adapter \<Rightarrow> string \<Rightarrow> err + update_settings_request \<Rightarrow> (nat \<times> body) db" where
  "UpdatePostgreSQLSettingsHandler sa dbName request =
     (if \<not> validateDbIdentifierParam dbName DbIdentifiersPattern
      then Ret (sendInvalidParameterResponse ''dbName'' dbName DbIdentifiersPattern)
      else case request of
        Inl e \<Rightarrow> Ret (500, Text e)
      | Inr updateSettingsRequest \<Rightarrow>
        pbind (updateSettings sa dbName updateSettingsRequest) (\<lambda>res. case res of
          Inl e \<Rightarrow> Ret (500, Text e)
        | Inr updateResult \<Rightarrow>
          Ret (if isStatusExists updateResult Failed then (500, SettingsJson updateResult)
               else if isStatusExists updateResult BadRequest then (400, SettingsJson updateResult)
               else (200, SettingsJson updateResult))))"

definition GetDatabaseOwnerHandler :: "service_adapter \<Rightarrow> string \<Rightarrow> (nat \<times> body) db" where
  "GetDatabaseOwnerHandler sa dbName =
     (if dbName = '''' \<or> \<not> validateDbIdentifierParam dbName DbIdentifiersPattern
      then Ret (sendInvalidParameterResponse ''dbName'' dbName DbIdentifiersPattern)
      else pbind (getDBInfo sa dbName) (\<lambda>res. case res of
        Inl _ \<Rightarrow> Ret (500, Text (''Cannot get info for '' @ dbName))
      | Inr owner \<Rightarrow> Ret (200, OwnerJson owner)))"

end
