(* ===== verification/Dbaas_Resources.thy ===== *)
theory Dbaas_Resources
  imports Dbaas_Initial Dbaas_Drop Dbaas_Settings
begin

section \<open>Connections and locks of the whole adapter\<close>

text \<open>
  Every operation of the adapter, on every path (errors and panics included), closes each connection
  pool it opens and leaves the adapter's mutex as it found it, without locking it twice.  The proofs
  go through the operations bottom up with the rules of the two trace laws: an operation inherits
  the law from the operations it calls.
\<close>

subsection \<open>Rules for the mutex\<close>

lemma well_locked_calls [emits_intros]:
  "emits well_locked (Exec c sql args)" "emits well_locked (Query c sql args)"
  "emits well_locked (QueryRow c sql args)" "emits well_locked (Close c)" "emits well_locked (range_map m)"
  "emits well_locked (or_panic v)" "emits well_locked Generate"
  by (intro well_locked_of_lock_free emits_intros)+

lemma well_locked_withConn [emits_intros]:
  assumes "opens_pool get" and "\<And>e. emits well_locked (onerr e)" and "\<And>c. emits well_locked (body c)"
  shows "emits well_locked (withConn get onerr body)"
  unfolding withConn_def
  by (rule mutex.emits_pbind [OF well_locked_of_lock_free [OF opens_pool_lock_free [OF assms(1)]]])
    (auto intro!: mutex.emits_rules assms emits_intros split: sum.split)

lemma well_locked_service [emits_intros]:
  "emits well_locked (getPostgresAvailableExtensions sa)"
  "emits well_locked (validateSettings sa settings)"
  "emits well_locked (ValidatePostgresAvailableExtensions sa extensions)"
  "emits well_locked (getConnectionLimitFromTemplate1Db sa)"
  "emits well_locked (CreateExtFromSlice c username extensions)"
  "emits well_locked (createExtensions sa dbName username extensions)"
  "emits well_locked (sa_dropDatabase sa dbName)"
  "emits well_locked (sa_dropUser sa username)"
  "emits well_locked (sa_dropUsers sa users)"
  "emits well_locked (enableDatabase sa dbName)"
  "emits well_locked (isUserExist c username)"
  "emits well_locked (getSchemasFromDB sa dbName)"
  "emits well_locked (sa_GetDatabases sa)"
  by (intro well_locked_of_lock_free lock_free_service)+

subsection \<open>Metadata\<close>

lemmas metadata_defs = createMetadata_def getOldFormatMetadata_def GetMetadataInternal_def
  UpdateMetadataInternal_def validateRole_def GetValidRoles_step_def GetValidRolesFromMetadata_def
  saveRolesInMetadata_def getCurrentUserForDb_def GetSchemas_def getPgSettings_step_def getPgSettings_def

lemma no_leak_metadata [emits_intros]:
  "emits no_leak (createMetadata sa dbName username password metadata)"
  "emits no_leak (getOldFormatMetadata sa dbName)"
  "emits no_leak (GetMetadataInternal sa dbName)"
  "emits no_leak (UpdateMetadataInternal sa metadata dbName)"
  "emits no_leak (GetValidRoles_step c entry roles)"
  "emits no_leak (GetValidRolesFromMetadata sa dbName metadata)"
  "emits no_leak (saveRolesInMetadata sa dbName roles)"
  "emits no_leak (getCurrentUserForDb sa dbName)"
  "emits no_leak (GetSchemas sa dbName)"
  "emits no_leak (getPgSettings_step sa kv s)"
  "emits no_leak (getPgSettings sa settings)"
  unfolding metadata_defs
  by (intro pools.emits_rules emits_intros)+

lemma lock_free_metadata [emits_intros]:
  "emits lock_free (createMetadata sa dbName username password metadata)"
  "emits lock_free (getOldFormatMetadata sa dbName)"
  "emits lock_free (GetMetadataInternal sa dbName)"
  "emits lock_free (UpdateMetadataInternal sa metadata dbName)"
  "emits lock_free (GetValidRoles_step c entry roles)"
  "emits lock_free (GetValidRolesFromMetadata sa dbName metadata)"
  "emits lock_free (saveRolesInMetadata sa dbName roles)"
  "emits lock_free (getCurrentUserForDb sa dbName)"
  "emits lock_free (GetSchemas sa dbName)"
  "emits lock_free (getPgSettings_step sa kv s)"
  "emits lock_free (getPgSettings sa settings)"
  unfolding metadata_defs
  by (intro lockfree.emits_rules emits_intros)+

lemma well_locked_metadata [emits_intros]:
  "emits well_locked (createMetadata sa dbName username password metadata)"
  "emits well_locked (GetMetadataInternal sa dbName)"
  "emits well_locked (UpdateMetadataInternal sa metadata dbName)"
  "emits well_locked (GetValidRolesFromMetadata sa dbName metadata)"
  "emits well_locked (saveRolesInMetadata sa dbName roles)"
  "emits well_locked (getCurrentUserForDb sa dbName)"
  "emits well_locked (GetSchemas sa dbName)"
  "emits well_locked (getPgSettings sa settings)"
  by (intro well_locked_of_lock_free lock_free_metadata)+

subsection \<open>Grants\<close>

lemmas grants_defs = grantCreateOnSchema_def GrantAllOnSchemaToUser_def getStringsFromQuery_def
  executeForResourceQueries_def schemaStep_def grantRightsToPostgres_def reassignGrantsToNewUserForDb_def

lemmas grant_all_defs = grantClassified_def GrantUsersAccordingRoles_def GrantUsersForAllSchemas_def grantUserAndSave_def

lemma lock_free_grants [emits_intros]:
  "emits lock_free (grantCreateOnSchema sa dbName schema username)"
  "emits lock_free (GrantAllOnSchemaToUser sa dbName schema username)"
  "emits lock_free (schemaStep sa dbName users adminUsers schema s)"
  "emits lock_free (grantRightsToPostgres sa username)"
  "emits lock_free (reassignGrantsToNewUserForDb sa dbName username)"
  unfolding grants_defs
  by (intro lockfree.emits_rules emits_intros)+

lemma no_leak_grants [emits_intros]:
  "emits no_leak (grantCreateOnSchema sa dbName schema username)"
  "emits no_leak (GrantAllOnSchemaToUser sa dbName schema username)"
  "emits no_leak (schemaStep sa dbName users adminUsers schema s)"
  "emits no_leak (grantRightsToPostgres sa username)"
  "emits no_leak (reassignGrantsToNewUserForDb sa dbName username)"
  unfolding grants_defs
  by (intro pools.emits_rules emits_intros)+

lemma well_locked_grants [emits_intros]:
  "emits well_locked (grantCreateOnSchema sa dbName schema username)"
  "emits well_locked (GrantAllOnSchemaToUser sa dbName schema username)"
  "emits well_locked (schemaStep sa dbName users adminUsers schema s)"
  "emits well_locked (grantRightsToPostgres sa username)"
  "emits well_locked (reassignGrantsToNewUserForDb sa dbName username)"
  by (intro well_locked_of_lock_free lock_free_grants)+

lemma executeQueries_laws [emits_intros]:
  "emits no_leak (executeQueries sa dbName queries)"
  "emits well_locked (executeQueries sa dbName queries)"
  unfolding executeQueries_def
  by (intro pools.emits_rules lockfree.emits_rules emits_intros)+

lemma no_leak_grant_all [emits_intros]:
  "emits no_leak (GrantUsersAccordingRoles sa dbName users schemas)"
  "emits no_leak (GrantUsersForAllSchemas sa dbName users)"
  "emits no_leak (grantUserAndSave sa dbName username role)"
  unfolding grant_all_defs
  by (intro pools.emits_rules emits_intros)+

lemma well_locked_grant_all [emits_intros]:
  "emits well_locked (GrantUsersAccordingRoles sa dbName users schemas)"
  "emits well_locked (GrantUsersForAllSchemas sa dbName users)"
  "emits well_locked (grantUserAndSave sa dbName username role)"
  unfolding grant_all_defs
  by (intro mutex.emits_rules emits_intros)+

subsection \<open>Provisioning\<close>

lemma chooseDbName_laws [emits_intros]:
  "emits no_leak (chooseDbName req)" "emits well_locked (chooseDbName req)"
  by (auto simp: chooseDbName_def emits_def spec_simps well_locked_def
      split: option.split db_resp.split sum.split)

lemmas provision_defs = generatedName_def generatedPassword_def grantToAdminIfExternal_def
  setupUserV1_def createDatabaseV1_def createRoleUser_def finishV2_def createDatabaseV2_def createChecked_def CreateDatabase_def
  chooseUsername_def ensureUser_def dropIfCreated_def grantUserDb_def CreateUser_def

lemma no_leak_provision [emits_intros]:
  "emits no_leak (createDatabaseV1 sa c req dbName)"
  "emits no_leak (createDatabaseV2 sa c req dbName)"
  "emits no_leak (CreateDatabase sa req)"
  "emits no_leak (CreateUser sa username ureq)"
  unfolding provision_defs
  by (intro pools.emits_rules emits_intros)+

lemma well_locked_provision [emits_intros]:
  "emits well_locked (createDatabaseV1 sa c req dbName)"
  "emits well_locked (createDatabaseV2 sa c req dbName)"
  "emits well_locked (CreateDatabase sa req)"
  "emits well_locked (CreateUser sa username ureq)"
  unfolding provision_defs
  by (intro mutex.emits_rules emits_intros)+

lemma json_string_laws [emits_intros]:
  "emits no_leak (json_string j)" "emits well_locked (json_string j)"
  by (simp_all add: json_string_def emits_def spec_simps well_locked_def split: json.split)

lemmas roles_defs = processConnection_def createMissingRole_def processRole_def

lemma processRole_laws [emits_intros]:
  "emits no_leak (processRole sa role)" "emits well_locked (processRole sa role)"
  unfolding roles_defs
  by (intro pools.emits_rules mutex.emits_rules emits_intros)+

lemma CreateRoles_laws:
  "emits no_leak (CreateRoles sa roles success)" "emits well_locked (CreateRoles sa roles success)"
proof -
  show "emits no_leak (CreateRoles sa roles success)"
    by (induction roles arbitrary: success)
      (auto intro!: pools.emits_rules emits_intros split: sum.split)
  show "emits well_locked (CreateRoles sa roles success)"
    by (induction roles arbitrary: success)
      (auto intro!: mutex.emits_rules emits_intros split: sum.split)
qed

subsection \<open>Dropping\<close>

lemmas drop_defs = transactionsExists_def rollbackPrepared_def sa_terminateListenConnections_def
  disableDatabase_def disableUser_def dropDatabaseResource_def disableUserInDbs_def dropUserResource_def

lemma lock_free_drop [emits_intros]:
  "emits lock_free (dropDatabaseResource sa res c)" "emits lock_free (dropUserResource sa res c)"
  unfolding drop_defs
  by (intro lockfree.emits_rules emits_intros)+

lemma no_leak_drop [emits_intros]:
  "emits no_leak (dropDatabaseResource sa res c)" "emits no_leak (dropUserResource sa res c)"
  unfolding drop_defs
  by (intro pools.emits_rules emits_intros)+

lemma dropResource_laws [emits_intros]:
  "emits no_leak (dropResource sa res c)" "emits well_locked (dropResource sa res c)"
  unfolding dropResource_def
  by (intro pools.emits_rules lockfree.emits_rules emits_intros)+

lemma dropResourceByKind_laws [emits_intros]:
  "emits no_leak (dropResourceByKind sa resources kind c)"
  "emits well_locked (dropResourceByKind sa resources kind c)"
proof -
  show "emits no_leak (dropResourceByKind sa resources kind c)"
    by (induction resources) (auto intro!: pools.emits_rules emits_intros)
  show "emits well_locked (dropResourceByKind sa resources kind c)"
    by (induction resources) (auto intro!: mutex.emits_rules emits_intros)
qed

subsection \<open>Settings and init mode\<close>

lemmas settings_defs = sa_deleteExtension_def applyExtensions_def updateExtensions_def
  updateSettings_def getDBInfo_def

lemma settings_laws [emits_intros]:
  "emits no_leak (updateSettings sa dbName request)"
  "emits no_leak (getDBInfo sa dbName)"
  "emits well_locked (updateSettings sa dbName request)"
  "emits well_locked (getDBInfo sa dbName)"
  unfolding settings_defs
  by (intro pools.emits_rules mutex.emits_rules emits_intros)+

lemma cm_laws [emits_intros]:
  "emits no_leak (getCM name)" "emits well_locked (getCM name)"
  "emits no_leak (updateCM name cmData)" "emits well_locked (updateCM name cmData)"
  by (auto simp: getCM_def updateCM_def emits_def spec_simps well_locked_def
      split: db_resp.split json.split)

lemma updateExtensionsCM_laws [emits_intros]:
  "emits no_leak updateExtensionsCM" "emits well_locked updateExtensionsCM"
  unfolding updateExtensionsCM_def
  by (intro pools.emits_rules mutex.emits_rules emits_intros;
      auto intro!: pools.emits_rules mutex.emits_rules emits_intros split: json.split)+

lemmas migration_defs = performAlteringRoles_def updateRolesVersionInMetadata_def
  processDatabaseForMigration_def

lemma migration_laws [emits_intros]:
  "emits no_leak (processDatabaseForMigration sa database)"
  "emits well_locked (processDatabaseForMigration sa database)"
  unfolding migration_defs
  by (intro pools.emits_rules mutex.emits_rules emits_intros)+

lemma range_step_laws [emits_intros]:
  "(\<And>r. emits no_leak (k r)) \<Longrightarrow> emits no_leak (Call CRange k)"
  "(\<And>r. emits well_locked (k' r)) \<Longrightarrow> emits well_locked (Call CRange k')"
  by (rule pools.emits_Call mutex.emits_Call; simp add: well_locked_def)+

lemma init_laws [emits_intros]:
  "emits no_leak (UpdateExtensions sa)" "emits well_locked (UpdateExtensions sa)"
  "emits no_leak (PerformMigration sa)" "emits well_locked (PerformMigration sa)"
  unfolding UpdateExtensions_def PerformMigration_def createDatabaseExt_def findUserName_def
  by (intro pools.emits_rules mutex.emits_rules emits_intros)+

lemma UpdateMetadata_laws [emits_intros]:
  "emits no_leak (UpdateMetadata sa metadata dbName)" "emits well_locked (UpdateMetadata sa metadata dbName)"
  unfolding UpdateMetadata_def
  by (intro pools.emits_rules mutex.emits_rules emits_intros)+

subsection \<open>The claims\<close>

text \<open>
  (C12) No operation of the adapter leaks a connection pool: whatever PostgreSQL answers, and also when
  the operation panics, every pool it opens is closed afterwards.
\<close>

theorem adapter_closes_pools:
  "emits no_leak (CreateDatabase sa req) \<and> emits no_leak (CreateUser sa username ureq)
   \<and> emits no_leak (CreateRoles sa roles []) \<and> emits no_leak (DropResources sa resources)
   \<and> emits no_leak (UpdateMetadata sa metadata dbName) \<and> emits no_leak (updateSettings sa dbName settings)
   \<and> emits no_leak (GetDatabaseOwnerHandler sa dbName) \<and> emits no_leak (UpdateExtensions sa)
   \<and> emits no_leak (PerformMigration sa)"
  unfolding DropResources_def GetDatabaseOwnerHandler_def
  by (intro conjI CreateRoles_laws pools.emits_rules emits_intros)

text \<open>
  (C13) The adapter's mutex is locked and unlocked in turns by every operation, on every path: no
  operation locks it while it holds it, which would block forever, and none ends with it held.
\<close>

theorem adapter_mutex_discipline:
  "emits well_locked (CreateDatabase sa req) \<and> emits well_locked (CreateUser sa username ureq)
   \<and> emits well_locked (CreateRoles sa roles []) \<and> emits well_locked (DropResources sa resources)
   \<and> emits well_locked (UpdateMetadata sa metadata dbName) \<and> emits well_locked (updateSettings sa dbName settings)
   \<and> emits well_locked (GetDatabaseOwnerHandler sa dbName) \<and> emits well_locked (UpdateExtensions sa)
   \<and> emits well_locked (PerformMigration sa)"
  unfolding DropResources_def GetDatabaseOwnerHandler_def
  by (intro conjI CreateRoles_laws mutex.emits_rules emits_intros)

end
