(* ===== verification/Grants_Safety.thy ===== *)
theory Grants_Safety
  imports Dbaas_Resources Sql_Quoting Sample_Server
begin

section \<open>What the grants give to whom\<close>

text \<open>
  Claims about the statements that \<^verbatim>\<open>GrantUsersAccordingRoles\<close> executes: how the list is executed,
  which user becomes the owner of the metadata, and that a read-only user is never granted more than
  reading, whatever the state of the database.
\<close>

subsection \<open>Executing the list\<close>

lemma executeQueries_beh:
  assumes "beh (executeQueries sa dbName queries) out u"
  obtains (connect) e where "out = Val (Some e)" "execs u = []"
  | (ran) c v where "beh (for_err queries (\<lambda>query. Exec c query [])) out v" "execs u = execs v"
proof -
  from assms obtain v where v: "execs u = execs v"
    "beh (withConn (GetConnectionToDb (ClusterAdapter sa) dbName) (\<lambda>e. Ret (Some e))
       (\<lambda>c. for_err queries (\<lambda>query. Exec c query []))) out v"
    by (auto simp: executeQueries_def beh_withLock)
  from opens_pool_get(3) v(2) show ?thesis
    by (rule beh_withConn) (use connect ran v(1) in auto)
qed

text \<open>
  The list of grant statements is executed in order under the mutex up to the first error: on
  success every statement was executed and accepted, on failure what was executed is a prefix of the
  list, only its last statement failed and its error is the result; it never panics.
\<close>

theorem executeQueries_stops_at_first_error:
  assumes "beh (executeQueries sa dbName queries) out u"
  shows "(\<exists>k. map fst (execs u) = take k queries)
    \<and> (out = Val None \<longrightarrow> map fst (execs u) = queries \<and> list_all (\<lambda>(_, r). as_error r = None) (execs u))
    \<and> (\<forall>e. out = Val (Some e) \<longrightarrow> execs u = []
         \<or> as_error (snd (last (execs u))) = Some e \<and> list_all (\<lambda>(_, r). as_error r = None) (butlast (execs u)))
    \<and> (\<forall>p. out \<noteq> Panicked p) \<and> fst (hd u) = CLock \<and> fst (last u) = CUnlock"
proof -
  from assms have lock: "fst (hd u) = CLock \<and> fst (last u) = CUnlock"
    by (auto simp: executeQueries_def beh_withLock)
  from assms show ?thesis
  proof (cases rule: executeQueries_beh)
    case (connect e)
    then have "map fst (execs u) = take 0 queries" by simp
    with connect lock show ?thesis by auto
  next
    case (ran c v)
    from beh_for_err_Exec [OF ran(1)] ran(2) lock show ?thesis by auto
  qed
qed

theorem executeQueries_stops_at_first_error_witness:
  "fst (run (refusing ''B'') (executeQueries sample_sa ''d'' [''A'', ''B'', ''C'']) []) = Val (Some ''refused'')
   \<and> map fst (execs (snd (run (refusing ''B'') (executeQueries sample_sa ''d'' [''A'', ''B'', ''C'']) []))) = [''A'', ''B'']
   \<and> fst (last (snd (run (refusing ''B'') (executeQueries sample_sa ''d'' [''A'', ''B'', ''C'']) []))) = CUnlock"
  using executeQueries_stops_at_first_error
    [OF run_beh [of "executeQueries sample_sa ''d'' [''A'', ''B'', ''C'']" "refusing ''B''" "[]"]]
  by (simp add: executeQueries_def sample_simps)

subsection \<open>Classes of users\<close>

lemma classifyUsers_eq:
  "classifyUsers users (adminUsers, RWUsers, ROUsers) =
     (adminUsers @ map fst (filter (\<lambda>(_, r). r = ''admin'' \<or> r = ''streaming'') users),
      RWUsers @ map fst (filter (\<lambda>(_, r). r = ''rw'') users),
      ROUsers @ map fst (filter (\<lambda>(_, r). r = ''ro'') users))"
  by (induction users "(adminUsers, RWUsers, ROUsers)" arbitrary: adminUsers RWUsers ROUsers
      rule: classifyUsers.induct) auto

lemma selectOwner_Some:
  "selectOwner sa users adminUsers = Some owner \<Longrightarrow>
     owner \<in> set adminUsers \<and> owner \<noteq> saUser sa \<and> map_of users owner \<noteq> Some ''streaming''"
  by (induction adminUsers) (auto split: if_splits)

subsection \<open>Read-only users\<close>

text \<open>The statements that give user \<open>n\<close> more than reading, for any schema, database or owner \<open>x\<close>.\<close>

definition grants_write :: "string \<Rightarrow> string \<Rightarrow> bool" where
  "grants_write n q \<longleftrightarrow> (\<exists>x. q \<in> set [setReadWriteRoleGrants x n, setAdminGrants x n,
     setReadWriteRoleSequencesGrants x n, setAdminRoleSequencesGrants x n, grantSchemaCreate x n,
     grantAllRightsOnDatabase x n, setReadWriteRoleDefaultGrants x n, setSequencesRWDefaultGrants x n,
     setGrantAsForRole x n, AllowReplicationForUser x n])"

lemmas write_defs = setReadWriteRoleGrants_def setAdminGrants_def setReadWriteRoleSequencesGrants_def
  setAdminRoleSequencesGrants_def grantSchemaCreate_def grantAllRightsOnDatabase_def
  setReadWriteRoleDefaultGrants_def setSequencesRWDefaultGrants_def setGrantAsForRole_def
  AllowReplicationForUser_def

lemma grantee_unique:
  assumes "a @ dquote m @ '';'' = b @ dquote n @ '';''" and "quote_free m" and "quote_free n"
  shows "m = n"
proof -
  have last: "takeWhile (\<lambda>c. c \<noteq> dq) (tl (tl (rev (z @ dquote k @ '';'')))) = rev k" if "quote_free k" for z k
    using that by (auto simp: dquote_def quote_free_def takeWhile_append2 intro!: takeWhile_append2 [THEN trans])
  from last [OF assms(2), of a] last [OF assms(3), of b] assms(1) show ?thesis by simp
qed

lemma grants_write_shape:
  assumes "grants_write n q"
  obtains b where "q = b @ dquote n @ '';''" | "q = ''ALTER USER '' @ dquote n @ '' WITH REPLICATION;''"
  using assms unfolding grants_write_def write_defs
  by (auto split: if_splits)

lemma not_write_other:
  assumes "m \<noteq> n" and "quote_free m" and "quote_free n"
  shows "\<not> grants_write n (b @ dquote m @ '';'')"
proof
  assume "grants_write n (b @ dquote m @ '';'')"
  then show False
  proof (cases rule: grants_write_shape)
    case (1 b')
    with grantee_unique assms show False by metis
  next
    case 2
    then have "rev (b @ dquote m @ '';'') = rev (''ALTER USER '' @ dquote n @ '' WITH REPLICATION;'')"
      by (rule arg_cong)
    then show False by (simp add: dquote_def)
  qed
qed

lemma not_write_other_replication:
  assumes "m \<noteq> n" and "quote_free m" and "quote_free n"
  shows "\<not> grants_write n (AllowReplicationForUser ext m)"
proof (cases "to_upper ext = ''RDS''")
  case True
  then show ?thesis
    using not_write_other [OF assms, of "''GRANT rds_replication TO ''"]
    by (simp add: AllowReplicationForUser_def)
next
  case False
  show ?thesis
  proof
    assume "grants_write n (AllowReplicationForUser ext m)"
    with False have "grants_write n (''ALTER USER '' @ dquote m @ '' WITH REPLICATION;'')"
      by (simp add: AllowReplicationForUser_def)
    then show False
    proof (cases rule: grants_write_shape)
      case (1 b)
      then have "rev (''ALTER USER '' @ dquote m @ '' WITH REPLICATION;'') = rev (b @ dquote n @ '';'')"
        by (rule arg_cong)
      then show False by (simp add: dquote_def)
    next
      case 2
      with assms(1) show False by (simp add: dquote_def)
    qed
  qed
qed

text \<open>What a read-only user does get, and the statements about ownership, are not of this kind.\<close>

lemma not_write_reading:
  "\<not> grants_write n revokeRights"
  "\<not> grants_write n (grantConnectionToDB d n)"
  "\<not> grants_write n (grantSchemaUsage s n)"
  "\<not> grants_write n (setReadOnlyRoleGrants s n)"
  "\<not> grants_write n (setReadOnlyRoleSequencesGrants s n)"
  "\<not> grants_write n (setReadOnlyRoleDefaultGrants w n)"
  "\<not> grants_write n (setSchemasDefaultGrants w n)"
  "\<not> grants_write n (setSequencesRODefaultGrants w n)"
  by (simp_all add: grants_write_def write_defs revokeRights_def grantConnectionToDB_def
      grantSchemaUsage_def setReadOnlyRoleGrants_def setReadOnlyRoleSequencesGrants_def
      setReadOnlyRoleDefaultGrants_def setSchemasDefaultGrants_def setSequencesRODefaultGrants_def
      dquote_def)

lemma not_write_owner:
  "\<not> grants_write n (alterOwnerForTable s t w)" "\<not> grants_write n (alterOwnerForSequence s t w)"
  "\<not> grants_write n (alterOwnerForLargeObject s t w)" "\<not> grants_write n (alterViewOwnerQuery s t w)"
  "\<not> grants_write n (alterFunctionOwnerQuery s t w)" "\<not> grants_write n (alterProcedureOwnerQuery s t w)"
  "\<not> grants_write n (alterTypeOwnerQuery s t w)" "\<not> grants_write n (alterOwnerForSchema s w)"
  "\<not> grants_write n (alterDatabaseOwnerQuery d w)" "\<not> grants_write n (alterOwnerMetaTable w)"
  by (simp_all add: grants_write_def write_defs alterOwnerForTable_def alterOwnerForSequence_def
      alterOwnerForLargeObject_def alterViewOwnerQuery_def alterFunctionOwnerQuery_def
      alterProcedureOwnerQuery_def alterTypeOwnerQuery_def alterOwnerForSchema_def
      alterDatabaseOwnerQuery_def alterOwnerMetaTable_def)

text \<open>A statement for another user ends with the name of that user.\<close>

definition for_user :: "string \<Rightarrow> string \<Rightarrow> bool" where
  "for_user m q \<longleftrightarrow> (\<exists>b. q = b @ dquote m @ '';'')"

lemma for_user_rules: "for_user m (dquote m @ '';'')" "for_user m q \<Longrightarrow> for_user m (p @ q)"
  by (auto simp: for_user_def)

lemma for_user_statements:
  "for_user m (grantConnectionToDB d m)" "for_user m (grantSchemaUsage s m)"
  "for_user m (setReadOnlyRoleGrants s m)" "for_user m (setReadOnlyRoleSequencesGrants s m)"
  "for_user m (setReadWriteRoleGrants s m)" "for_user m (setReadWriteRoleSequencesGrants s m)"
  "for_user m (setAdminGrants s m)" "for_user m (setAdminRoleSequencesGrants s m)"
  "for_user m (grantSchemaCreate s m)" "for_user m (grantAllRightsOnDatabase d m)"
  "for_user m (setGrantAsForRole w m)" "for_user m (grantUserToAdmin w m)"
  "for_user m (setReadOnlyRoleDefaultGrants w m)" "for_user m (setReadWriteRoleDefaultGrants w m)"
  "for_user m (setSchemasDefaultGrants w m)" "for_user m (setSequencesRODefaultGrants w m)"
  "for_user m (setSequencesRWDefaultGrants w m)"
  unfolding write_defs grantConnectionToDB_def grantSchemaUsage_def setReadOnlyRoleGrants_def
    setReadOnlyRoleSequencesGrants_def setReadOnlyRoleDefaultGrants_def setSchemasDefaultGrants_def
    setSequencesRODefaultGrants_def grantUserToAdmin_def
  by (intro for_user_rules)+

lemma not_write_for_user:
  "for_user m q \<Longrightarrow> m \<noteq> n \<Longrightarrow> quote_free m \<Longrightarrow> quote_free n \<Longrightarrow> \<not> grants_write n q"
  by (auto simp: for_user_def not_write_other)

lemmas not_write_rules = for_user_statements [THEN not_write_for_user]

text \<open>The setting of the claim: \<open>n\<close> is read-only and the names are plain.\<close>

definition reader :: "service_adapter \<Rightarrow> (string \<times> string) list \<Rightarrow> string \<Rightarrow> bool" where
  "reader sa users n \<longleftrightarrow> list_all (\<lambda>(m, r). quote_free m \<and> (m = n \<longrightarrow> r = ''ro'')) users
     \<and> quote_free n \<and> quote_free (saUser sa) \<and> n \<noteq> saUser sa"

abbreviation harmless :: "string \<Rightarrow> string list \<Rightarrow> bool" where
  "harmless n qs \<equiv> list_all (\<lambda>q. \<not> grants_write n q) qs"

lemma harmless_userSchemaQueries:
  assumes "reader sa users n" and "(m, r) \<in> set users"
  shows "harmless n (userSchemaQueries sa dbName schema (m, r))"
proof (cases "m = n")
  case True
  with assms have "r = ''ro''" by (auto simp: reader_def list_all_iff)
  with True show ?thesis
    by (simp add: userSchemaQueries_def grantUserOnTablesQuery_def grantUserOnSequencesQuery_def
        not_write_reading)
next
  case False
  moreover have "quote_free m" "quote_free n" using assms by (auto simp: reader_def list_all_iff)
  ultimately show ?thesis
    by (simp add: userSchemaQueries_def grantUserOnTablesQuery_def grantUserOnSequencesQuery_def
        not_write_rules)
qed

text \<open>An administrator of the classification is not the reader.\<close>

lemma classified_admins:
  assumes "reader sa users n" and "set entries \<subseteq> set users"
    and "classifyUsers entries ([saUser sa], [], []) = (adminUsers, RWUsers, ROUsers)"
  shows "list_all (\<lambda>m. m \<noteq> n \<and> quote_free m) adminUsers \<and> list_all (\<lambda>m. m \<noteq> n \<and> quote_free m) RWUsers
    \<and> list_all quote_free ROUsers"
  using assms by (fastforce simp: classifyUsers_eq reader_def list_all_iff)

lemma not_write_read_default:
  assumes "quote_free m" and "quote_free n"
  shows "\<not> grants_write n (setReadOnlyRoleDefaultGrants a m)" "\<not> grants_write n (setSchemasDefaultGrants a m)"
    "\<not> grants_write n (setSequencesRODefaultGrants a m)"
  by (cases "m = n"; simp add: not_write_reading not_write_rules assms)+

lemma harmless_adminQueries:
  assumes "a \<noteq> n" "quote_free a" "quote_free n"
    and "list_all (\<lambda>m. m \<noteq> n \<and> quote_free m) RWUsers" and "list_all quote_free ROUsers"
  shows "harmless n (adminQueries sa dbName owner ROUsers RWUsers a)"
proof -
  have "harmless n (concat (map (\<lambda>m. [setReadOnlyRoleDefaultGrants a m, setSchemasDefaultGrants a m,
      setSequencesRODefaultGrants a m]) ROUsers))"
    using assms(3,5) by (induction ROUsers) (auto simp: not_write_read_default)
  moreover have "harmless n (concat (map (\<lambda>m. [setReadWriteRoleDefaultGrants a m, setSchemasDefaultGrants a m,
      setSequencesRWDefaultGrants a m]) RWUsers))"
    using assms(3,4) by (induction RWUsers) (auto simp: not_write_rules)
  ultimately show ?thesis
    using assms(1-3) by (auto simp: adminQueries_def not_write_rules not_write_other_replication)
qed

subsection \<open>The list that is executed\<close>

lemma quiet_grants [emits_intros]:
  "emits (all_calls not_exec) (getCurrentUserForDb sa dbName)"
  "emits (all_calls not_exec) (executeForResourceQueries sa schema dbName userName resourceQuery appliedQuery)"
  unfolding getCurrentUserForDb_def executeForResourceQueries_def getStringsFromQuery_def
  by (intro calls.emits_rules emits_intros not_exec_simps)+

lemma quiet_schemaStep [emits_intros]:
  "emits (all_calls not_exec) (schemaStep sa dbName users adminUsers schema s)"
  unfolding schemaStep_def
  by (intro calls.emits_rules emits_intros not_exec_simps)

lemma quiet_spec: "emits (all_calls not_exec) m \<Longrightarrow> spec m (\<lambda>_ u. execs u = [])"
  unfolding emits_def by (erule spec_mono) (rule execs_none)

text \<open>What asking for the resources of a schema adds: one ownership statement per resource.\<close>

lemma executeForResourceQueries_result:
  "spec (executeForResourceQueries sa schema dbName userName resourceQuery appliedQuery)
     (\<lambda>out _. \<forall>qs. out = Val (Inr qs) \<longrightarrow> (\<exists>rs. qs = map (\<lambda>r. appliedQuery schema r userName) rs))"
  unfolding executeForResourceQueries_def
  by (rule spec_ptryI [OF spec_True]) (auto simp: spec_simps)

lemma executeQueries_texts:
  assumes "list_all ok queries"
  shows "spec (executeQueries sa dbName queries) (\<lambda>_ u. list_all ok (map fst (execs u)))"
proof (rule specI)
  fix out u
  assume "beh (executeQueries sa dbName queries) out u"
  then show "list_all ok (map fst (execs u))"
  proof (cases rule: executeQueries_beh)
    case (ran c v)
    from beh_for_err_Exec [OF ran(1)] ran(2) have "map fst (execs u) = take (length v) queries" by simp
    with assms show ?thesis using set_take_subset by (fastforce simp: list_all_iff)
  qed simp
qed

text \<open>
  The interface between the texts of the statements and the program that collects them: a property of
  texts that holds of every statement the loops can add holds of every statement that is executed.
\<close>

locale grant_texts =
  fixes ok :: "string \<Rightarrow> bool" and sa :: service_adapter and dbName :: string and users :: "(string \<times> string) list"
  assumes ok_revoke: "ok revokeRights"
    and ok_user: "entry \<in> set users \<Longrightarrow> list_all ok (userSchemaQueries sa dbName schema entry)"
    and ok_admin: "set entries \<subseteq> set users \<Longrightarrow>
      classifyUsers entries ([saUser sa], [], []) = (adminUsers, RWUsers, ROUsers) \<Longrightarrow> a \<in> set adminUsers \<Longrightarrow>
      ok (grantSchemaCreate schema a) \<and> ok (grantUserToAdmin a (saUser sa))
      \<and> list_all ok (adminQueries sa dbName owner ROUsers RWUsers a)"
    and ok_alter: "(selectQuery, alterQuery) \<in> set (alterOperations schema external) \<Longrightarrow> ok (alterQuery schema t owner)"
    and ok_owner: "ok (alterOwnerForSchema schema owner)" "ok (alterDatabaseOwnerQuery dbName owner)"
      "ok (alterOwnerMetaTable owner)"
begin

lemma users_ok: "set entries \<subseteq> set users \<Longrightarrow> list_all ok (concat (map (userSchemaQueries sa dbName schema) entries))"
  by (induction entries) (auto intro: ok_user)

lemma alterOperations_ok:
  assumes "list_all ok queries"
  shows "spec (foreach (alterOperations schema external) queries (\<lambda>(selectQuery, alterQuery) qs.
      ptry (executeForResourceQueries sa schema dbName owner selectQuery alterQuery) (\<lambda>new.
        Ret (Inr (qs @ new))))) (\<lambda>out _. \<forall>qs. out = Val (Inr qs) \<longrightarrow> list_all ok qs)"
proof (rule spec_foreach [where I = "\<lambda>qs ops _. list_all ok qs \<and> set ops \<subseteq> set (alterOperations schema external)"])
  fix op ops qs and u :: db_trace
  assume I: "list_all ok qs \<and> set (op # ops) \<subseteq> set (alterOperations schema external)"
  obtain selectQuery alterQuery where op: "op = (selectQuery, alterQuery)" by fastforce
  have "list_all ok (map (\<lambda>r. alterQuery schema r owner) rs)" for rs
    using I op ok_alter [of selectQuery alterQuery schema external] by (induction rs) auto
  then show "spec ((case op of (selectQuery, alterQuery) \<Rightarrow> \<lambda>qs.
      ptry (executeForResourceQueries sa schema dbName owner selectQuery alterQuery) (\<lambda>new. Ret (Inr (qs @ new)))) qs)
    (\<lambda>out u'. case out of
        Val (Inr t) \<Rightarrow> list_all ok t \<and> set ops \<subseteq> set (alterOperations schema external)
      | Val (Inl e) \<Rightarrow> \<forall>qs. Val (Inl e) = Val (Inr qs) \<longrightarrow> list_all ok qs
      | Panicked e \<Rightarrow> \<forall>qs. Panicked e = Val (Inr qs) \<longrightarrow> list_all ok qs)"
    unfolding op prod.case
    by (intro spec_ptryI [OF executeForResourceQueries_result]) (use I in \<open>auto simp: spec_simps\<close>)
qed (use assms in auto)

lemma schemaStep_ok:
  assumes a: "\<And>a. a \<in> set adminUsers \<Longrightarrow> ok (grantSchemaCreate schema a)" and q: "list_all ok (gs_queries s)"
  shows "spec (schemaStep sa dbName users adminUsers schema s)
    (\<lambda>out _. \<forall>s'. out = Val (Inr s') \<longrightarrow> list_all ok (gs_queries s'))"
proof -
  have base: "list_all ok (gs_queries s @ [revokeRights]
      @ concat (map (userSchemaQueries sa dbName schema) (shuffle k users)) @ map (grantSchemaCreate schema) adminUsers)" for k
    using q a users_ok [of "shuffle k users" schema] by (auto simp: ok_revoke list_all_iff)
  show ?thesis
    unfolding schemaStep_def range_map_def pbind.simps Let_def
    apply (simp only: spec_Call)
    apply (intro allI)
    apply (rule spec_ptryI [where P = "\<lambda>out _. \<forall>qs. out = Val (Inr qs) \<longrightarrow> list_all ok qs"])
    subgoal using base by (auto intro!: alterOperations_ok simp: spec_simps split: if_splits)
    subgoal by (simp add: spec_simps ok_owner)
    by simp_all
qed

lemma schemas_ok:
  assumes "\<And>a schema. a \<in> set adminUsers \<Longrightarrow> ok (grantSchemaCreate schema a)" and "list_all ok (gs_queries s)"
  shows "spec (foreach schemas s (schemaStep sa dbName users adminUsers))
    (\<lambda>out u. execs u = [] \<and> (\<forall>s'. out = Val (Inr s') \<longrightarrow> list_all ok (gs_queries s')))"
proof (rule spec_foreach [where I = "\<lambda>s _ u. execs u = [] \<and> list_all ok (gs_queries s)"])
  fix schema :: string and rest :: "string list" and s :: grant_state and u :: db_trace
  assume I: "execs u = [] \<and> list_all ok (gs_queries s)"
  have "spec (schemaStep sa dbName users adminUsers schema s) (\<lambda>out u'. execs u' = []
      \<and> (\<forall>s'. out = Val (Inr s') \<longrightarrow> list_all ok (gs_queries s')))"
    using I by (intro spec_conj quiet_spec quiet_schemaStep schemaStep_ok assms(1)) simp_all
  then show "spec (schemaStep sa dbName users adminUsers schema s) (\<lambda>out u'. case out of
      Val (Inr s') \<Rightarrow> execs (u @ u') = [] \<and> list_all ok (gs_queries s')
    | Val (Inl e) \<Rightarrow> execs (u @ u') = [] \<and> (\<forall>s'. Val (Inl e) = Val (Inr s') \<longrightarrow> list_all ok (gs_queries s'))
    | Panicked e \<Rightarrow> execs (u @ u') = [] \<and> (\<forall>s'. Panicked e = Val (Inr s') \<longrightarrow> list_all ok (gs_queries s')))"
    using I by (elim spec_mono) (auto split: outcome.split sum.split)
qed (use assms(2) in auto)

lemma grantClassified_ok:
  assumes e: "set entries \<subseteq> set users"
  shows "spec (grantClassified sa dbName users schemas owner entries) (\<lambda>_ u. list_all ok (map fst (execs u)))"
proof -
  obtain adminUsers RWUsers ROUsers
    where c: "classifyUsers entries ([saUser sa], [], []) = (adminUsers, RWUsers, ROUsers)"
    by (rule prod_cases3)
  note adm = ok_admin [OF e c]
  have q0: "list_all ok (map (\<lambda>a. grantUserToAdmin a (saUser sa)) (filter P adminUsers))" for P
    using adm by (auto simp: list_all_iff)
  have admin: "list_all ok (concat (map (adminQueries sa dbName owner' ROUsers RWUsers) adminUsers))" for owner'
    using adm by (auto simp: list_all_iff)
  show ?thesis
    unfolding grantClassified_def c prod.case Let_def
    by (rule spec_pbindI [OF schemas_ok])
      (auto simp: adm q0 spec_simps admin ok_owner split: sum.split
        intro!: spec_mono [OF executeQueries_texts])
qed

lemma GrantUsersAccordingRoles_ok:
  "spec (GrantUsersAccordingRoles sa dbName users schemas) (\<lambda>_ u. list_all ok (map fst (execs u)))"
  unfolding GrantUsersAccordingRoles_def
  by (rule spec_pbindI [OF quiet_spec [OF quiet_grants(1)]])
    (auto simp: range_map_def spec_simps(3) grantClassified_ok)

end

subsection \<open>The claim about read-only users\<close>

lemma alterOperations_harmless:
  "(selectQuery, alterQuery) \<in> set (alterOperations schema external) \<Longrightarrow> \<not> grants_write n (alterQuery s t w)"
  by (auto simp: alterOperations_def not_write_owner)

lemma reader_grant_texts:
  assumes r: "reader sa users n"
  shows "grant_texts (\<lambda>q. \<not> grants_write n q) sa dbName users"
proof
  show "harmless n (userSchemaQueries sa dbName schema entry)" if "entry \<in> set users" for entry schema
    using harmless_userSchemaQueries [OF r] that by (cases entry) simp
  fix entries adminUsers RWUsers ROUsers a schema owner
  assume "set entries \<subseteq> set users" "a \<in> set adminUsers"
    and "classifyUsers entries ([saUser sa], [], []) = (adminUsers, RWUsers, ROUsers)"
  with classified_admins [OF r] have adm: "a \<noteq> n" "quote_free a" "list_all (\<lambda>m. m \<noteq> n \<and> quote_free m) RWUsers"
    "list_all quote_free ROUsers" by (auto simp: list_all_iff)
  have qf: "quote_free n" "quote_free (saUser sa)" "n \<noteq> saUser sa" using r by (auto simp: reader_def)
  then show "\<not> grants_write n (grantSchemaCreate schema a) \<and> \<not> grants_write n (grantUserToAdmin a (saUser sa))
      \<and> harmless n (adminQueries sa dbName owner ROUsers RWUsers a)"
    using adm by (auto simp: not_write_rules intro: harmless_adminQueries)
qed (auto simp: not_write_reading not_write_owner alterOperations_harmless)



end
