(* ===== verification/Provision_Safety.thy ===== *)
theory Provision_Safety
  imports Grants_Safety
begin

section \<open>Safety of provisioning\<close>

text \<open>
  Claims about \<^verbatim>\<open>CreateDatabase\<close> and \<^verbatim>\<open>CreateUser\<close>: names are checked before the server is
  touched, nothing is dropped that the same call has not created, and what remains after an error.
\<close>

subsection \<open>Statements that drop\<close>

definition drops :: "string \<Rightarrow> bool" where
  "drops q \<longleftrightarrow> take 4 q = ''DROP''"

fun no_drop :: "db_call \<Rightarrow> bool" where
  "no_drop (CExec c q args) = (\<not> drops q)"
| "no_drop _ = True"

lemma all_calls_no_drop: "all_calls no_drop u \<longleftrightarrow> list_all (\<lambda>q. \<not> drops q) (map fst (execs u))"
  by (induction u rule: execs.induct) auto

lemma drops_drop [simp]: "drops (dropUser n)" "drops (dropDatabase d)"
  by (simp_all add: drops_def dropUser_def dropDatabase_def)

lemma dropUser_inj: "dropUser m = dropUser n \<longleftrightarrow> m = n"
  by (simp add: dropUser_def dquote_def)

lemma not_drops_grants:
  "\<not> drops revokeRights" "\<not> drops (grantConnectionToDB d m)" "\<not> drops (grantSchemaUsage s m)"
  "\<not> drops (setReadOnlyRoleGrants s m)" "\<not> drops (setReadOnlyRoleSequencesGrants s m)"
  "\<not> drops (setReadWriteRoleGrants s m)" "\<not> drops (setReadWriteRoleSequencesGrants s m)"
  "\<not> drops (setAdminGrants s m)" "\<not> drops (setAdminRoleSequencesGrants s m)"
  "\<not> drops (grantSchemaCreate s m)" "\<not> drops (grantAllRightsOnDatabase d m)"
  "\<not> drops (setGrantAsForRole w m)" "\<not> drops (grantUserToAdmin w m)" "\<not> drops (AllowReplicationForUser ext m)"
  "\<not> drops (setReadOnlyRoleDefaultGrants w m)" "\<not> drops (setReadWriteRoleDefaultGrants w m)"
  "\<not> drops (setSchemasDefaultGrants w m)" "\<not> drops (setSequencesRODefaultGrants w m)"
  "\<not> drops (setSequencesRWDefaultGrants w m)"
  by (simp_all add: drops_def write_defs revokeRights_def grantConnectionToDB_def grantSchemaUsage_def
      setReadOnlyRoleGrants_def setReadOnlyRoleSequencesGrants_def grantUserToAdmin_def
      setReadOnlyRoleDefaultGrants_def setSchemasDefaultGrants_def setSequencesRODefaultGrants_def)

lemma not_drops_owner:
  "\<not> drops (alterOwnerForSchema s w)" "\<not> drops (alterDatabaseOwnerQuery d w)" "\<not> drops (alterOwnerMetaTable w)"
  "(selectQuery, alterQuery) \<in> set (alterOperations schema external) \<Longrightarrow> \<not> drops (alterQuery s t w)"
  by (auto simp: drops_def alterOwnerForSchema_def alterDatabaseOwnerQuery_def alterOwnerMetaTable_def
      alterOperations_def alterOwnerForTable_def alterOwnerForSequence_def alterOwnerForLargeObject_def
      alterViewOwnerQuery_def alterFunctionOwnerQuery_def alterProcedureOwnerQuery_def alterTypeOwnerQuery_def)

lemma not_drops_other:
  "\<not> drops createMetaTable" "\<not> drops deleteMetaData" "\<not> drops insertIntoMetaTable"
  "\<not> drops (createUser m pw)" "\<not> drops (changeUserPassword m pw)" "\<not> drops (createDatabase d ps)"
  "\<not> drops (allowConnectionsToDb d)" "\<not> drops (allowConnectionsToDbExt d)" "\<not> drops (reassignGrants m m')"
  "\<not> drops (createExtensionIfNotExist x)" "\<not> drops (grantRightsForFdw x m)" "\<not> drops (setGrantOnFunction x m)"
  "\<not> drops (''GRANT ALL ON SCHEMA '' @ s @ '' TO '' @ m)"
  by (simp_all add: drops_def createMetaTable_def deleteMetaData_def insertIntoMetaTable_def createUser_def
      changeUserPassword_def createDatabase_def allowConnectionsToDb_def allowConnectionsToDbExt_def
      reassignGrants_def createExtensionIfNotExist_def grantRightsForFdw_def setGrantOnFunction_def)

interpretation nodrop: grant_texts "\<lambda>q. \<not> drops q" sa dbName users
  for sa :: service_adapter and dbName :: string and users :: "(string \<times> string) list"
proof
  show "list_all (\<lambda>q. \<not> drops q) (userSchemaQueries sa dbName schema entry)"
    if "entry \<in> set users" for entry schema
    by (cases entry) (simp add: userSchemaQueries_def grantUserOnTablesQuery_def
        grantUserOnSequencesQuery_def not_drops_grants)
qed (auto simp: not_drops_grants not_drops_owner adminQueries_def list_all_iff)

lemmas no_drop_texts = not_drops_grants not_drops_owner(1-3) not_drops_other

lemma no_drop_GrantUsers [emits_intros]:
  "emits (all_calls no_drop) (GrantUsersAccordingRoles sa dbName users schemas)"
  unfolding emits_def all_calls_no_drop by (rule nodrop.GrantUsersAccordingRoles_ok)

lemma all_calls_Generate [emits_intros]: "F CGenerate \<Longrightarrow> emits (all_calls F) Generate"
  by (simp add: Generate_def emits_def spec_simps)

lemma no_drop_service [emits_intros]:
  "emits (all_calls no_drop) (getPostgresAvailableExtensions sa)"
  "emits (all_calls no_drop) (validateSettings sa settings)"
  "emits (all_calls no_drop) (getConnectionLimitFromTemplate1Db sa)"
  "emits (all_calls no_drop) (CreateExtFromSlice c username extensions)"
  "emits (all_calls no_drop) (createExtensions sa dbName username extensions)"
  "emits (all_calls no_drop) (enableDatabase sa dbName)"
  "emits (all_calls no_drop) (isUserExist c username)"
  "emits (all_calls no_drop) (getSchemasFromDB sa dbName)"
  unfolding getPostgresAvailableExtensions_def validateSettings_def
    getConnectionLimitFromTemplate1Db_def CreateExtFromSlice_def createExtensions_def
    enableDatabase_def isUserExist_def getSchemasFromDB_def
  by (intro calls.emits_rules emits_intros; simp add: no_drop_texts)+

lemma no_drop_metadata [emits_intros]:
  "emits (all_calls no_drop) (createMetadata sa dbName username password metadata)"
  "emits (all_calls no_drop) (getOldFormatMetadata sa dbName)"
  "emits (all_calls no_drop) (GetMetadataInternal sa dbName)"
  "emits (all_calls no_drop) (UpdateMetadataInternal sa metadata dbName)"
  "emits (all_calls no_drop) (GetValidRoles_step c entry roles)"
  "emits (all_calls no_drop) (GetValidRolesFromMetadata sa dbName metadata)"
  "emits (all_calls no_drop) (saveRolesInMetadata sa dbName roles)"
  "emits (all_calls no_drop) (getCurrentUserForDb sa dbName)"
  "emits (all_calls no_drop) (GetSchemas sa dbName)"
  "emits (all_calls no_drop) (getPgSettings_step sa kv s)"
  "emits (all_calls no_drop) (getPgSettings sa settings)"
  unfolding metadata_defs
  by (intro calls.emits_rules emits_intros; simp add: no_drop_texts)+

lemma no_drop_grants [emits_intros]:
  "emits (all_calls no_drop) (grantCreateOnSchema sa dbName schema username)"
  "emits (all_calls no_drop) (GrantAllOnSchemaToUser sa dbName schema username)"
  "emits (all_calls no_drop) (reassignGrantsToNewUserForDb sa dbName username)"
  "emits (all_calls no_drop) (GrantUsersForAllSchemas sa dbName users)"
  "emits (all_calls no_drop) (grantUserAndSave sa dbName username role)"
  unfolding grantCreateOnSchema_def GrantAllOnSchemaToUser_def reassignGrantsToNewUserForDb_def
    GrantUsersForAllSchemas_def grantUserAndSave_def
  by (intro calls.emits_rules emits_intros; simp add: no_drop_texts [simplified])+

lemma no_drop_provision [emits_intros]:
  "emits (all_calls no_drop) (generatedName requested)"
  "emits (all_calls no_drop) (generatedPassword requested)"
  "emits (all_calls no_drop) (grantToAdminIfExternal sa c username)"
  "emits (all_calls no_drop) (chooseUsername username prefix)"
  unfolding generatedName_def generatedPassword_def grantToAdminIfExternal_def chooseUsername_def
  by (intro calls.emits_rules emits_intros; simp add: no_drop_texts)+

subsection \<open>CreateUser drops only the user it created\<close>

definition created_user_in :: "string \<Rightarrow> db_trace \<Rightarrow> bool" where
  "created_user_in n u \<longleftrightarrow> (\<exists>pw r. (createUser n pw, r) \<in> set (execs u) \<and> as_error r = None)"

text \<open>Every statement that drops something drops a user that the same trace created.\<close>

definition own_drops :: "db_trace \<Rightarrow> bool" where
  "own_drops u \<longleftrightarrow> (\<forall>q r. (q, r) \<in> set (execs u) \<longrightarrow> drops q \<longrightarrow> (\<exists>n. q = dropUser n \<and> created_user_in n u))"

interpretation owndrops: trace_law own_drops
  by unfold_locales (fastforce simp: own_drops_def created_user_in_def)+

lemma own_drops_of_no_drop: "all_calls no_drop u \<Longrightarrow> own_drops u"
  by (auto simp: all_calls_no_drop own_drops_def list_all_iff)

text \<open>A trace whose only drops are of user \<open>n\<close>.\<close>

definition only_drops :: "string \<Rightarrow> db_call \<Rightarrow> bool" where
  "only_drops n c \<longleftrightarrow> (\<forall>cn q args. c = CExec cn q args \<longrightarrow> drops q \<longrightarrow> q = dropUser n)"

lemma only_drops_simps [simp]:
  "only_drops n (CExec cn q args) \<longleftrightarrow> (drops q \<longrightarrow> q = dropUser n)"
  "only_drops n (CNew d us w)" "only_drops n (CClose h)" "only_drops n (CQuery cn q args)" "only_drops n CRange"
  by (auto simp: only_drops_def)

lemma only_drops_of_no_drop:
  fixes m :: "'a db"
  assumes "emits (all_calls no_drop) m"
  shows "emits (all_calls (only_drops n)) m"
  using assms
proof (rule emits_mono)
  fix u :: db_trace
  show "all_calls no_drop u \<Longrightarrow> all_calls (only_drops n) u"
    by (induction u rule: execs.induct) (auto simp: only_drops_def)
qed

lemma only_drops_sa_dropUser: "emits (all_calls (only_drops n)) (sa_dropUser sa n)"
  unfolding sa_dropUser_def
  by (intro calls.emits_rules emits_intros; simp)

lemma own_drops_created:
  assumes "created_user_in n u" "all_calls (only_drops n) u" "all_calls (only_drops n) v"
  shows "own_drops (u @ v)"
proof -
  have "(q, r) \<in> set (execs w) \<Longrightarrow> drops q \<Longrightarrow> all_calls (only_drops n) w \<Longrightarrow> q = dropUser n" for q r w
    by (force simp: execs_in all_calls_set only_drops_def)
  with assms show ?thesis by (fastforce simp: own_drops_def created_user_in_def)
qed

lemma ensureUser_spec:
  "spec (ensureUser sa c n pw exist) (\<lambda>out u. all_calls (only_drops n) u
     \<and> (all_calls no_drop u \<or> created_user_in n u) \<and> (out = Val True \<longrightarrow> created_user_in n u)
     \<and> (out = Val False \<longrightarrow> all_calls no_drop u))"
proof (rule spec_conj)
  show "spec (ensureUser sa c n pw exist) (\<lambda>_ u. all_calls (only_drops n) u)"
    unfolding emits_def [symmetric] ensureUser_def grantToAdminIfExternal_def
    by (intro calls.emits_rules emits_intros only_drops_sa_dropUser; simp add: no_drop_texts)
  have d: "spec (sa_dropUser sa n) (\<lambda>_ _. True)" by simp
  show "spec (ensureUser sa c n pw exist) (\<lambda>out u. (all_calls no_drop u \<or> created_user_in n u)
     \<and> (out = Val True \<longrightarrow> created_user_in n u) \<and> (out = Val False \<longrightarrow> all_calls no_drop u))"
    by (auto simp: ensureUser_def grantToAdminIfExternal_def Exec_def spec_simps created_user_in_def
        no_drop_texts split: option.split outcome.split intro!: spec_mono [OF d])
qed

lemma only_drops_grantUserDb: "emits (all_calls (only_drops n)) (grantUserDb sa c n req userCreated)"
  unfolding grantUserDb_def dropIfCreated_def
  by (intro calls.emits_rules only_drops_sa_dropUser only_drops_of_no_drop [OF no_drop_grants(5)]
      only_drops_of_no_drop [OF no_drop_grants(3)] only_drops_of_no_drop [OF no_drop_service(6)] emits_intros;
      simp add: no_drop_texts)

lemma no_drop_grantUserDb: "emits (all_calls no_drop) (grantUserDb sa c n req False)"
  unfolding grantUserDb_def dropIfCreated_def if_False
  by (intro calls.emits_rules emits_intros; simp add: no_drop_texts)

lemma own_drops_ensure:
  "emits own_drops (pbind (ensureUser sa c n pw exist) (\<lambda>userCreated.
     pseq (if ur_DbName req \<noteq> '''' then grantUserDb sa c n req userCreated else Ret ()) (Ret x)))"
  unfolding emits_def
proof (rule spec_pbindI [OF ensureUser_spec])
  fix userCreated u
  assume u: "all_calls (only_drops n) u \<and> (all_calls no_drop u \<or> created_user_in n u)
     \<and> (Val userCreated = Val True \<longrightarrow> created_user_in n u) \<and> (Val userCreated = Val False \<longrightarrow> all_calls no_drop u)"
  let ?rest = "pseq (if ur_DbName req \<noteq> '''' then grantUserDb sa c n req userCreated else Ret ()) (Ret x)"
  show "spec ?rest (\<lambda>out v. own_drops (u @ v))"
  proof (cases userCreated)
    case True
    have "emits (all_calls (only_drops n)) ?rest"
      by (intro calls.emits_rules only_drops_grantUserDb)
    then show ?thesis
      unfolding emits_def by (rule spec_mono) (use u True in \<open>auto intro: own_drops_created\<close>)
  next
    case False
    have "emits (all_calls no_drop) ?rest"
      using no_drop_grantUserDb by (intro calls.emits_rules) (simp_all add: False)
    then show ?thesis
      unfolding emits_def
      by (rule spec_mono) (use u False in \<open>auto intro!: own_drops_of_no_drop\<close>)
  qed
next
  fix e u
  assume "all_calls (only_drops n) u \<and> (all_calls no_drop u \<or> created_user_in n u)
     \<and> (Panicked e = Val True \<longrightarrow> created_user_in n u) \<and> (Panicked e = Val False \<longrightarrow> all_calls no_drop u)"
  then show "own_drops u"
    using own_drops_created [of n u "[]"] own_drops_of_no_drop by auto
qed

lemma own_drops_no_drop_prog: "emits (all_calls no_drop) m \<Longrightarrow> emits own_drops m"
  by (erule emits_mono) (rule own_drops_of_no_drop)

text \<open>
  (C11) \<open>CreateUser\<close> never drops anything but a user that the same call has created: a user that
  existed before keeps existing, whatever fails.
\<close>

theorem CreateUser_drops_only_its_own_user: "emits own_drops (CreateUser sa username req)"
proof -
  have get: "emits own_drops (GetConnection (ClusterAdapter sa))"
    using opens_pool_get(4) [of "ClusterAdapter sa"] unfolding opens_pool_def emits_def
    by (rule spec_mono) (auto simp: own_drops_def)
  have close: "emits own_drops (Close c)" for c
    by (intro own_drops_no_drop_prog emits_intros) simp
  show ?thesis
    unfolding CreateUser_def withConn_def
    by (intro owndrops.emits_rules own_drops_ensure get close own_drops_no_drop_prog
        no_drop_provision no_drop_service)
qed

end
