(* ===== verification/Provision_Outcome.thy ===== *)
theory Provision_Outcome
  imports Provision_Safety
begin

section \<open>What creating a database leaves behind\<close>

text \<open>
  Claims about the outcome of \<^verbatim>\<open>CreateDatabase\<close>: the checks come first, an error after the database
  exists is followed by attempts to drop it, a success in API version v2 describes one user per
  supported role, and the paths on which something is left behind or wrongly reported.
\<close>

subsection \<open>Names are checked before the server is touched\<close>

lemma chooseDbName_untouched: "emits (all_calls (\<lambda>c. \<not> touches_db c)) (chooseDbName req)"
  by (auto simp: chooseDbName_def emits_def spec_simps split: option.split db_resp.split sum.split)

lemma chooseDbName_requested:
  "beh (chooseDbName req) (Val (Inr dbName)) u \<Longrightarrow> cr_DbName req \<noteq> '''' \<Longrightarrow> dbName = cr_DbName req"
  by (auto simp: chooseDbName_def)

text \<open>
  \<open>CreateDatabase\<close> reaches the server only with names that pass the identifier check: when a
  connection is opened, a statement executed or a query sent, the name of the database (the requested
  one, if there is one) and the requested user name have been accepted.
\<close>

theorem CreateDatabase_checks_names_first:
  assumes "beh (CreateDatabase sa req) out u" and "(call, r) \<in> set u" and "touches_db call"
  shows "validateDbIdentifierParam (cr_DbName req) DbIdentifiersPattern
    \<and> validateDbIdentifierParam (cr_Username req) DbIdentifiersPattern
    \<and> (\<exists>dbName u1 u2. u = u1 @ u2 \<and> beh (chooseDbName req) (Val (Inr dbName)) u1
         \<and> all_calls (\<lambda>c. \<not> touches_db c) u1 \<and> validateDbIdentifierParam dbName DbIdentifiersPattern)"
proof -
  have untouched: "beh (chooseDbName req) o1 v \<Longrightarrow> all_calls (\<lambda>c. \<not> touches_db c) v" for o1 v
    by (rule emitsD [OF chooseDbName_untouched])
  then have "\<not> beh (chooseDbName req) o1 u" for o1
    using assms(2,3) by (fastforce simp: all_calls_set)
  with assms(1) obtain u1 u2 dbName where c: "beh (chooseDbName req) (Val (Inr dbName)) u1" "u = u1 @ u2"
    and rest: "beh (if \<not> validateDbIdentifierParam dbName DbIdentifiersPattern
       then Ret (Inl (idPatternError ''dbName'' DbIdentifiersPattern))
       else if \<not> validateDbIdentifierParam (cr_Username req) DbIdentifiersPattern
       then Ret (Inl (idPatternError ''userName'' DbIdentifiersPattern))
       else pbind (validateSettings sa (cr_Settings req)) (\<lambda>err. case err of
         Some e \<Rightarrow> Ret (Inl e) | None \<Rightarrow> createChecked sa req dbName)) out u2"
    unfolding CreateDatabase_def beh_ptry by blast
  have "(call, r) \<in> set u2"
    using assms(2,3) c untouched [OF c(1)] by (auto simp: all_calls_set)
  with rest have v: "validateDbIdentifierParam dbName DbIdentifiersPattern"
    "validateDbIdentifierParam (cr_Username req) DbIdentifiersPattern"
    by (auto split: if_splits)
  moreover have "validateDbIdentifierParam (cr_DbName req) DbIdentifiersPattern"
    using chooseDbName_requested [OF c(1)] v(1)
    by (cases "cr_DbName req = ''''") (auto simp: validateDbIdentifierParam_def)
  ultimately show ?thesis using c untouched [OF c(1)] by blast
qed

definition sample_req :: db_create_request where
  "sample_req = \<lparr>cr_Metadata = Some [], cr_DbName = ''db'', cr_NamePrefix = None, cr_Username = ''boss'',
     cr_Password = ''pw'', cr_Settings = []\<rparr>"

text \<open>The first three calls of a run of \<open>CreateDatabase\<close> against a server that accepts everything.\<close>

lemma sample_run_starts:
  "(CNew ''postgres'' ''postgres'' (getConnectionUrl sample_ca ''postgres'' ''secret'' ''postgres''), RConn 0)
     \<in> set (snd (run accepting (CreateDatabase sample_sa sample_req) []))"
  by (simp add: CreateDatabase_def createChecked_def chooseDbName_def sample_req_def sample_simps
      validateDbIdentifierParam_def is_lower_def is_word_def validateSettings_def map_get_def
      getPgSettings_def getConnectionUrl_def ptry_def Let_def)

theorem CreateDatabase_checks_names_first_witness:
  "validateDbIdentifierParam ''db'' DbIdentifiersPattern \<and> validateDbIdentifierParam ''boss'' DbIdentifiersPattern"
  using CreateDatabase_checks_names_first [OF run_beh sample_run_starts]
  by (simp add: sample_req_def)

subsection \<open>Clean-up\<close>

fun connects :: "db_call \<Rightarrow> bool" where
  "connects (CNew _ _ _) = True"
| "connects _ = False"

fun is_pool :: "db_resp \<Rightarrow> bool" where
  "is_pool (RConn _) = True"
| "is_pool _ = False"

definition refused_connection :: "db_call \<times> db_resp \<Rightarrow> bool" where
  "refused_connection cr \<longleftrightarrow> connects (fst cr) \<and> \<not> is_pool (snd cr)"

text \<open>The trace executed exactly the given statement, unless it could not get a connection for it.\<close>

definition attempts :: "string \<Rightarrow> db_trace \<Rightarrow> bool" where
  "attempts sql u \<longleftrightarrow> map fst (execs u) = [sql] \<or> execs u = [] \<and> list_ex refused_connection u"

lemma attempts_withConn:
  assumes "beh (withConn (GetConnection ca) (\<lambda>_. Ret ()) (\<lambda>c. pseq (Exec c sql []) (Ret ()))) out u"
  shows "out = Val () \<and> attempts sql u"
  using opens_pool_get(4) assms
proof (cases rule: beh_withConn)
  case (failed d us w r e u')
  then show ?thesis by (cases r) (auto simp: attempts_def refused_connection_def)
qed (auto simp: attempts_def beh_pbind beh_calls)

lemma sa_dropDatabase_attempts: "beh (sa_dropDatabase sa dbName) out u \<Longrightarrow> out = Val () \<and> attempts (dropDatabase dbName) u"
  unfolding sa_dropDatabase_def by (rule attempts_withConn)

lemma sa_dropUser_attempts: "beh (sa_dropUser sa n) out u \<Longrightarrow> out = Val () \<and> attempts (dropUser n) u"
  unfolding sa_dropUser_def by (rule attempts_withConn)

lemma sa_dropUsers_single:
  "beh (sa_dropUsers sa [(n, x)]) out u \<Longrightarrow> out = Val () \<and> attempts (dropUser n) u"
  by (auto simp: sa_dropUsers_def beh_pbind beh_range_map attempts_def dest!: sa_dropUser_attempts)

text \<open>
  The trace ends with the two statements of a clean-up.  A step \<open>if err != nil { h } ; k\<close> keeps such a
  property when both branches have it.
\<close>

definition cleaned :: "string \<Rightarrow> string \<Rightarrow> db_trace \<Rightarrow> bool" where
  "cleaned dbName n u \<longleftrightarrow> (\<exists>u1 u2 u3. u = u1 @ u2 @ u3 \<and> attempts (dropDatabase dbName) u2 \<and> attempts (dropUser n) u3)"

lemma cleaned_prefix: "cleaned dbName n u \<Longrightarrow> cleaned dbName n (w @ u)"
  unfolding cleaned_def by (metis append_assoc)

lemma spec_err_step:
  assumes h: "\<And>e. spec (h e) Q" and k: "spec k Q"
    and pre: "\<And>out u w. Q out u \<Longrightarrow> Q out (w @ u)" and pan: "\<And>e u. Q (Panicked e) u"
  shows "spec (pbind m (\<lambda>err. case err of Some e \<Rightarrow> h e | None \<Rightarrow> k)) Q"
proof (rule spec_pbindI [OF spec_True])
  fix err u
  have "spec (case err of Some e \<Rightarrow> h e | None \<Rightarrow> k) Q" using h k by (simp split: option.split)
  then show "spec (case err of Some e \<Rightarrow> h e | None \<Rightarrow> k) (\<lambda>out v. Q out (u @ v))"
    by (rule spec_mono) (rule pre)
qed (rule pan)

lemma cleanup_spec:
  assumes "\<And>o1 w. beh d o1 w \<Longrightarrow> o1 = Val () \<and> attempts (dropUser n) w"
  shows "spec (pseq (sa_dropDatabase sa dbName) (pseq d (Ret x))) (\<lambda>_ u. cleaned dbName n u)"
proof (rule spec_pbindI)
  show "spec (sa_dropDatabase sa dbName) (\<lambda>out u. out = Val () \<and> attempts (dropDatabase dbName) u)"
    by (rule specI) (rule sa_dropDatabase_attempts)
  fix y and u :: db_trace
  assume u: "Val y = Val () \<and> attempts (dropDatabase dbName) u"
  have "spec d (\<lambda>out w. out = Val () \<and> attempts (dropUser n) w)"
    by (rule specI) (rule assms)
  then show "spec (pseq d (Ret x)) (\<lambda>out v. cleaned dbName n (u @ v))"
  proof (rule spec_pbindI)
    fix z and w :: db_trace
    assume "Val z = Val () \<and> attempts (dropUser n) w"
    with u have "cleaned dbName n ([] @ u @ w)" unfolding cleaned_def by blast
    then show "spec (Ret x) (\<lambda>out v. cleaned dbName n (u @ w @ v))" by (simp add: spec_Ret)
  qed simp
qed simp

lemma setupUserV1_spec:
  "spec (setupUserV1 sa c req dbName n pw) (\<lambda>out u. (\<exists>e. out = Val (Inl e)) \<longrightarrow> cleaned dbName n u)"
proof -
  let ?Q = "\<lambda>out u. (\<exists>e. out = Val (Inl e)) \<longrightarrow> cleaned dbName n u"
  have "spec (pseq (sa_dropDatabase sa dbName) (pseq (sa_dropUser sa n) (Ret x))) (\<lambda>_ u. cleaned dbName n u)" for x
    by (rule cleanup_spec) (rule sa_dropUser_attempts)
  then have user: "spec (pseq (sa_dropDatabase sa dbName) (pseq (sa_dropUser sa n) (Ret x))) ?Q" for x
    by (rule spec_mono) simp
  have "spec (pseq (sa_dropDatabase sa dbName) (pseq (sa_dropUsers sa [(n, y)]) (Ret x))) (\<lambda>_ u. cleaned dbName n u)" for x y
    by (rule cleanup_spec) (rule sa_dropUsers_single)
  then have users: "spec (pseq (sa_dropDatabase sa dbName) (pseq (sa_dropUsers sa [(n, y)]) (Ret x))) ?Q" for x y
    by (rule spec_mono) simp
  show ?thesis
    unfolding setupUserV1_def
    by (intro spec_err_step user users) (auto simp: spec_Ret cleaned_prefix)
qed


definition v1_sa :: service_adapter where "v1_sa = sample_sa\<lparr>ApiVersion := ''v1''\<rparr>"

definition sample_conn :: conn where
  "sample_conn = \<lparr>conn_id = 7, conn_db = ''postgres'', conn_user = ''postgres''\<rparr>"


subsection \<open>API version v2\<close>

text \<open>The trace ends with an attempt to drop the database, after which nothing but drops is executed.\<close>

definition undone :: "string \<Rightarrow> db_trace \<Rightarrow> bool" where
  "undone dbName u \<longleftrightarrow> (\<exists>u1 u2 u3. u = u1 @ u2 @ u3 \<and> attempts (dropDatabase dbName) u2 \<and> list_all drops (map fst (execs u3)))"

lemma undone_prefix: "undone dbName u \<Longrightarrow> undone dbName (w @ u)"
  unfolding undone_def by (metis append_assoc)

lemma attempts_drops: "attempts q u \<Longrightarrow> drops q \<Longrightarrow> list_all drops (map fst (execs u))"
  by (auto simp: attempts_def)

lemma sa_dropUser_drops: "spec (sa_dropUser sa n) (\<lambda>_ u. list_all drops (map fst (execs u)))"
  by (rule specI) (auto dest!: sa_dropUser_attempts intro!: attempts_drops [of "dropUser n"])

interpretation dropping: trace_law "\<lambda>u. list_all drops (map fst (execs u))"
  by unfold_locales auto

lemma sa_dropUsers_drops: "spec (sa_dropUsers sa users) (\<lambda>_ u. list_all drops (map fst (execs u)))"
proof -
  have "emits (\<lambda>u. list_all drops (map fst (execs u))) (sa_dropUser sa n)" for n
    using sa_dropUser_drops by (simp add: emits_def)
  then have "emits (\<lambda>u. list_all drops (map fst (execs u))) (sa_dropUsers sa users)"
    unfolding sa_dropUsers_def
    by (intro dropping.emits_rules) (auto simp: emits_def range_map_def spec_simps)
  then show ?thesis by (simp add: emits_def)
qed

lemma undo_spec:
  assumes "spec d (\<lambda>_ u. list_all drops (map fst (execs u)))"
  shows "spec (pseq (sa_dropDatabase sa dbName) (pseq d (Ret x))) (\<lambda>_ u. undone dbName u)"
proof (rule spec_pbindI)
  show "spec (sa_dropDatabase sa dbName) (\<lambda>out u. out = Val () \<and> attempts (dropDatabase dbName) u)"
    by (rule specI) (rule sa_dropDatabase_attempts)
  fix y and u :: db_trace
  assume u: "Val y = Val () \<and> attempts (dropDatabase dbName) u"
  have un: "list_all drops (map fst (execs w)) \<Longrightarrow> undone dbName ([] @ u @ w)" for w
    using u unfolding undone_def by blast
  show "spec (pseq d (Ret x)) (\<lambda>out v. undone dbName (u @ v))"
    by (rule spec_pbindI [OF assms]) (use un in \<open>auto simp: spec_Ret\<close>)
qed simp

lemma undo_err:
  "spec (pseq (sa_dropDatabase sa dbName) (pseq (sa_dropUser sa n) (Ret x))) (\<lambda>out u. (\<exists>e. out = Val (Inl e)) \<longrightarrow> undone dbName u)"
  "spec (pseq (sa_dropDatabase sa dbName) (pseq (sa_dropUsers sa us) (Ret x))) (\<lambda>out u. (\<exists>e. out = Val (Inl e)) \<longrightarrow> undone dbName u)"
  by (rule spec_mono [OF undo_spec [OF sa_dropUser_drops]] spec_mono [OF undo_spec [OF sa_dropUsers_drops]]; simp)+

lemma createRoleUser_err:
  "spec (createRoleUser sa c req dbName role s) (\<lambda>out u. (\<exists>e. out = Val (Inl e)) \<longrightarrow> undone dbName u)"
proof -
  let ?Q = "\<lambda>out u. (\<exists>e. out = Val (Inl e)) \<longrightarrow> undone dbName u"
  have grant: "spec (pbind (grantToAdminIfExternal sa c n) (\<lambda>err. case err of
       Some e \<Rightarrow> pseq (sa_dropDatabase sa dbName) (pseq (sa_dropUser sa n) (Ret (Inl e)))
     | None \<Rightarrow> case md of None \<Rightarrow> Panic p | Some m \<Rightarrow> Ret (Inr (f m)))) ?Q" for n md p f
    by (rule spec_err_step)
      (auto intro: undo_err(1) simp: undone_prefix spec_Ret spec_Panic split: option.split)
  have user: "spec (pbind (Exec c (createUser n pw) []) (\<lambda>err. case err of
       Some e \<Rightarrow> Panic e
     | None \<Rightarrow> pbind (grantToAdminIfExternal sa c n) (\<lambda>err. case err of
         Some e \<Rightarrow> pseq (sa_dropDatabase sa dbName) (pseq (sa_dropUser sa n) (Ret (Inl e)))
       | None \<Rightarrow> case md of None \<Rightarrow> Panic p | Some m \<Rightarrow> Ret (Inr (f m))))) ?Q" for n pw md p f
    by (rule spec_err_step [OF _ grant]) (auto simp: undone_prefix spec_Panic)
  show ?thesis
    unfolding createRoleUser_def Let_def
    by (rule spec_pbindI [OF spec_True], rule spec_pbindI [OF spec_True], rule spec_mono [OF user])
      (auto simp: undone_prefix)
qed

lemma finishV2_err:
  "spec (finishV2 sa dbName s) (\<lambda>out u. (\<exists>e. out = Val (Inl e)) \<longrightarrow> undone dbName (v @ u))"
  unfolding finishV2_def
  by (rule spec_pbindI [OF spec_True],
      rule spec_mono [where P = "\<lambda>out u. (\<exists>e. out = Val (Inl e)) \<longrightarrow> undone dbName u"],
      intro spec_err_step undo_err) (auto simp: undone_prefix spec_Ret)

text \<open>
  (C10) When creating a database in API version v2 returns an error, the database is not left behind: an
  attempt to drop it is made, unless no connection could be had, and afterwards nothing but drops of
  users is executed.
\<close>

theorem v2_error_drops_database:
  assumes "beh (createDatabaseV2 sa c req dbName) (Val (Inl e)) u"
  shows "undone dbName u"
proof -
  let ?Q = "\<lambda>out u. (\<exists>e. out = Val (Inl e)) \<longrightarrow> undone dbName u"
  have loop: "spec (foreach roles s (createRoleUser sa c req dbName)) ?Q" for roles s
  proof (rule spec_foreach [where I = "\<lambda>_ _ _. True"])
    fix role s and u :: db_trace
    show "spec (createRoleUser sa c req dbName role s) (\<lambda>out u'. case out of
        Val (Inr t') \<Rightarrow> True
      | Val (Inl e) \<Rightarrow> (\<exists>ea. Val (Inl e) = Val (Inl ea)) \<longrightarrow> undone dbName (u @ u')
      | Panicked e \<Rightarrow> (\<exists>ea. Panicked e = Val (Inl ea)) \<longrightarrow> undone dbName (u @ u'))"
      by (rule spec_mono [OF createRoleUser_err]) (auto simp: undone_prefix split: outcome.split sum.split)
  qed simp_all
  have "spec (createDatabaseV2 sa c req dbName) ?Q"
    unfolding createDatabaseV2_def by (rule spec_ptryI [OF loop]) (auto intro: finishV2_err)
  from specD [OF this assms] show ?thesis by simp
qed

lemma v2_refused_metadata:
  "run (refusing createMetaTable) (createDatabaseV2 sample_sa sample_conn sample_req ''db'') [] = (Val (Inl ''refused''),
     snd (run (refusing createMetaTable) (createDatabaseV2 sample_sa sample_conn sample_req ''db'') []))"
  "execs (snd (run (refusing createMetaTable) (createDatabaseV2 sample_sa sample_conn sample_req ''db'') [])) =
     [(createUser ''boss'' ''pw'', ROk), (createUser ''dbaas_0a1b'' ''0a1b'', ROk),
      (''GRANT ALL ON SCHEMA public TO boss'', ROk), (grantSchemaCreate ''public'' ''boss'', ROk),
      (createMetaTable, RErr ''refused''), (dropDatabase ''db'', ROk), (dropUser ''dbaas_0a1b'', ROk)]"
  by (simp_all add: createDatabaseV2_def finishV2_def createRoleUser_def sample_simps sample_req_def
      GetSupportedRoles_def IsMultiUsersEnabled_def ptry_def grantToAdminIfExternal_def
      GrantAllOnSchemaToUser_def grantCreateOnSchema_def createMetadata_def defaultSchema_def
      sa_dropDatabase_def sa_dropUser_def getUsernameWithoutHost_def Let_def createUser_def
      grantSchemaCreate_def createMetaTable_def dropDatabase_def dropUser_def)

theorem v2_error_drops_database_witness:
  "undone ''db'' (snd (run (refusing createMetaTable) (createDatabaseV2 sample_sa sample_conn sample_req ''db'') []))"
  using v2_error_drops_database [where e = "''refused''"] v2_refused_metadata(1) by (metis run_beh fst_conv)

text \<open>
  A failure to create the metadata in API version v2 leaves users behind: of the users created for
  the roles only the last one is dropped, as this run shows, in which the user with the role admin
  stays.
\<close>

theorem v2_metadata_error_leaves_users:
  "\<exists>u e. beh (createDatabaseV2 sample_sa sample_conn sample_req ''db'') (Val (Inl e)) u
     \<and> created_user_in ''boss'' u \<and> created_user_in ''dbaas_0a1b'' u
     \<and> dropUser ''boss'' \<notin> fst ` set (execs u) \<and> dropUser ''dbaas_0a1b'' \<in> fst ` set (execs u)"
proof (intro exI conjI)
  let ?u = "snd (run (refusing createMetaTable) (createDatabaseV2 sample_sa sample_conn sample_req ''db'') [])"
  show "beh (createDatabaseV2 sample_sa sample_conn sample_req ''db'') (Val (Inl ''refused'')) ?u"
    using v2_refused_metadata(1) by (metis run_beh fst_conv)
  show "dropUser ''boss'' \<notin> fst ` set (execs ?u)" "dropUser ''dbaas_0a1b'' \<in> fst ` set (execs ?u)"
    unfolding v2_refused_metadata(2)
    by (simp_all add: dropUser_def createUser_def grantSchemaCreate_def createMetaTable_def dropDatabase_def dquote_def)
  show "created_user_in ''boss'' ?u" "created_user_in ''dbaas_0a1b'' ?u"
    unfolding created_user_in_def v2_refused_metadata(2) by force+
qed

end
