(* ===== verification/Dbaas_Backup.thy ===== *)
theory Dbaas_Backup
  imports Dbaas_Util
begin

section \<open>Backups\<close>

text \<open>
  Models \<^verbatim>\<open>services/dbaas-adapter/adapter/backup/backup.go\<close> and \<^verbatim>\<open>type.go\<close>: the adapter translates
  backup requests into requests to the backup daemon and the daemon's statuses into those of DBaaS.
  The daemon, the UUID source, the name generators and the default backup service of the core
  package are the environment.  The body of a response is the JSON value it parses to, if it
  parses; the status names of the core package are the parameter \<^verbatim>\<open>dao_statuses\<close>.
\<close>

subsection \<open>Types\<close>

record backup_adapter =
  DaemonAddress :: string
  Keep :: string
  Auth :: bool
  ba_User :: string
  ba_Password :: string

record restore_request =
  rr_BackupId :: string
  rr_Databases :: "string list"
  rr_DatabasesMapping :: "(string \<times> string) list option" \<comment> \<open>\<open>None\<close> is the nil map\<close>
  rr_Force :: bool
  rr_RestoreRoles :: string
  rr_SingleTransaction :: string
  rr_DbaasClone :: bool

datatype request_body = NoBody | BackupBody "string list" string | RestoreBody restore_request

record db_info =
  di_Namespace :: string
  di_Microservice :: string
  di_Name :: string
  di_Prefix :: "string option"

record base_track =
  bt_Status :: string
  bt_TrackId :: string
  bt_Action :: string
  bt_Details :: "string option" \<comment> \<open>the local id of the details\<close>

record restore_track =
  rt_Base :: base_track
  rt_ChangedNameDb :: "(string \<times> string) list option"

record backup_response =
  br_Status :: string
  br_Databases :: "(string \<times> string) list" \<comment> \<open>name and status of each database\<close>

datatype bk_call =
    BSend string string "string option" request_body \<comment> \<open>method, URL, authorization, body\<close>
  | BSleep
  | BNewUUID
  | BRegenerateDbName string int
  | BPrepareDatabaseName string string int
  | BCollectV2 string string "string list"
  | BRestoreV2 string string bool
  | BTrackBackupV2 string string
  | BTrackRestoreV2 string string
  | BEvictBackupV2 string string
  | BEvictRestoreV2 string string

datatype bk_resp =
    BErr err
  | BHttp nat "json option"
  | BStr string
  | BBackup "backup_response option" bool
  | BBool bool

type_synonym 'a bk = "(bk_call, bk_resp, 'a) prog"

fun bk_str :: "bk_resp \<Rightarrow> err + string" where
  "bk_str (BStr s) = Inr s"
| "bk_str (BErr e) = Inl e"
| "bk_str _ = Inl ''unexpected response''"

text \<open>
  \<open>json.Unmarshal\<close> into a struct with string fields: a missing or null field is the empty string, a
  field of another type an error.
\<close>

definition str_field :: "gomap \<Rightarrow> string \<Rightarrow> err + string" where
  "str_field m k = (case map_get m k of JNull \<Rightarrow> Inr '''' | JStr s \<Rightarrow> Inr s | _ \<Rightarrow> Inl ''cannot unmarshal'')"

definition unmarshal_fields :: "json option \<Rightarrow> string list \<Rightarrow> err + string list" where
  "unmarshal_fields body ks =
     (case body of
        Some (JObj m) \<Rightarrow> foldr (\<lambda>k acc. case str_field m k of
            Inl e \<Rightarrow> Inl e
          | Inr s \<Rightarrow> (case acc of Inl e \<Rightarrow> Inl e | Inr ss \<Rightarrow> Inr (s # ss))) ks (Inr [])
      | Some JNull \<Rightarrow> Inr (map (\<lambda>_. '''') ks)
      | _ \<Rightarrow> Inl ''cannot unmarshal'')"

subsection \<open>Base64\<close>

definition b64_char :: "nat \<Rightarrow> char" where
  "b64_char n =
     (if n < 26 then char_of (65 + n) else if n < 52 then char_of (97 + (n - 26))
      else if n < 62 then char_of (48 + (n - 52)) else if n = 62 then CHR ''+'' else CHR ''/'')"

fun base64 :: "string \<Rightarrow> string" where
  "base64 [] = []"
| "base64 [a] =
     (let x = (of_char a :: nat) in [b64_char (x div 4), b64_char ((x mod 4) * 16), CHR ''='', CHR ''=''])"
| "base64 [a, b] =
     (let x = (of_char a :: nat); y = (of_char b :: nat) in
      [b64_char (x div 4), b64_char ((x mod 4) * 16 + y div 16), b64_char ((y mod 16) * 4), CHR ''=''])"
| "base64 (a # b # c # rest) =
     (let x = (of_char a :: nat); y = (of_char b :: nat); z = (of_char c :: nat) in
      [b64_char (x div 4), b64_char ((x mod 4) * 16 + y div 16), b64_char ((y mod 16) * 4 + z div 64),
       b64_char (z mod 64)] @ base64 rest)"

subsection \<open>Statuses\<close>

definition mapStatus :: "string \<Rightarrow> string" where
  "mapStatus daemonStatus =
     (if daemonStatus = ''Planned'' then ''PROCEEDING''
      else if daemonStatus = ''In progress'' then ''PROCEEDING''
      else if daemonStatus = ''Failed'' then ''FAIL''
      else if daemonStatus = ''Successful'' then ''SUCCESS''
      else ''FAIL'')"

record dao_statuses =
  CompletedStatus :: string
  FailedStatus :: string
  InProgressStatus :: string
  NotStartedStatus :: string

definition convertBackupResponse :: "dao_statuses \<Rightarrow> string \<Rightarrow> string" where
  "convertBackupResponse dao status =
     (if status = ''Successful'' then CompletedStatus dao
      else if status \<in> set [''Failed'', ''Canceled'', ''Unknown''] then FailedStatus dao
      else if status = ''In progress'' then InProgressStatus dao
      else if status = ''Planned'' then NotStartedStatus dao
      else status)"

definition convertBackupResponseStatus :: "dao_statuses \<Rightarrow> backup_response option \<Rightarrow> backup_response option" where
  "convertBackupResponseStatus dao response =
     map_option (\<lambda>r. r\<lparr>br_Status := convertBackupResponse dao (br_Status r),
       br_Databases := map (\<lambda>(n, s). (n, convertBackupResponse dao s)) (br_Databases r)\<rparr>) response"

definition newPostgresAdapterBackupActionTrack :: "string \<Rightarrow> string \<Rightarrow> base_track" where
  "newPostgresAdapterBackupActionTrack backupId status =
     \<lparr>bt_Status = mapStatus status, bt_TrackId = backupId, bt_Action = ''BACKUP'',
      bt_Details = (if status = ''Successful'' then Some backupId else None)\<rparr>"

definition newPostgresAdapterRestoreActionTrack :: "string \<Rightarrow> string \<Rightarrow> restore_track" where
  "newPostgresAdapterRestoreActionTrack trackingId status =
     \<lparr>rt_Base = \<lparr>bt_Status = mapStatus status, bt_TrackId = trackingId, bt_Action = ''RESTORE'', bt_Details = None\<rparr>,
      rt_ChangedNameDb = None\<rparr>"

definition newPostgresAdapterRestoreActionTrackWithRequest :: "string \<Rightarrow> restore_request \<Rightarrow> restore_track" where
  "newPostgresAdapterRestoreActionTrackWithRequest trackingId req =
     (let base = \<lparr>bt_Status = ''PROCEEDING'', bt_TrackId = trackingId, bt_Action = ''RESTORE'', bt_Details = None\<rparr> in
      if rr_DatabasesMapping req \<noteq> None then \<lparr>rt_Base = base, rt_ChangedNameDb = rr_DatabasesMapping req\<rparr>
      else \<lparr>rt_Base = base, rt_ChangedNameDb = None\<rparr>)"

subsection \<open>Requests\<close>

definition getUrl :: "backup_adapter \<Rightarrow> string \<Rightarrow> string" where
  "getUrl ba route = DaemonAddress ba @ route"

definition sendRequest :: "backup_adapter \<Rightarrow> string \<Rightarrow> string \<Rightarrow> request_body \<Rightarrow> (err + nat \<times> json option) bk" where
  "sendRequest ba method path body =
     Call (BSend method (getUrl ba path)
        (if Auth ba then Some (base64 (ba_User ba @ '':'' @ ba_Password ba)) else None) body) (\<lambda>r. Ret (case r of
       BHttp status b \<Rightarrow> Inr (status, b)
     | BErr e \<Rightarrow> Inl e
     | _ \<Rightarrow> Inl ''unexpected response''))"

definition bk_or_panic :: "err + 'a \<Rightarrow> 'a bk" where
  "bk_or_panic v = (case v of Inl e \<Rightarrow> Panic e | Inr x \<Rightarrow> Ret x)"

text \<open>
  \<open>getBackupStatus\<close> and \<open>getRestoreStatus\<close>: \<open>None\<close> when the daemon answers 404.  The two string
  fields are the id and the status.
\<close>

definition getStatus :: "backup_adapter \<Rightarrow> string \<Rightarrow> string \<Rightarrow> (string \<times> string) option bk" where
  "getStatus ba path idField =
     pbind (sendRequest ba ''GET'' path NoBody) (\<lambda>res.
     pbind (bk_or_panic res) (\<lambda>(status, body).
     if status = 404 then Ret None
     else pbind (bk_or_panic (unmarshal_fields body [idField, ''status''])) (\<lambda>fields.
       Ret (Some (fields ! 0, fields ! 1)))))"

definition getBackupStatus :: "backup_adapter \<Rightarrow> string \<Rightarrow> (string \<times> string) option bk" where
  "getBackupStatus ba trackId = getStatus ba (''/backup/status/'' @ trackId) ''backupId''"

definition getRestoreStatus :: "backup_adapter \<Rightarrow> string \<Rightarrow> (string \<times> string) option bk" where
  "getRestoreStatus ba trackId = getStatus ba (''/restore/status/'' @ trackId) ''trackingId''"

definition emptyTrack :: base_track where
  "emptyTrack = \<lparr>bt_Status = '''', bt_TrackId = '''', bt_Action = '''', bt_Details = None\<rparr>"

definition TrackBackup :: "backup_adapter \<Rightarrow> string \<Rightarrow> (base_track \<times> bool) bk" where
  "TrackBackup ba trackId =
     pbind (getBackupStatus ba trackId) (\<lambda>res. Ret (case res of
       None \<Rightarrow> (emptyTrack, False)
     | Some (backupId, status) \<Rightarrow> (newPostgresAdapterBackupActionTrack backupId status, True)))"

definition TrackRestore :: "backup_adapter \<Rightarrow> string \<Rightarrow> (restore_track \<times> bool) bk" where
  "TrackRestore ba trackId =
     pbind (getRestoreStatus ba trackId) (\<lambda>res. Ret (case res of
       None \<Rightarrow> (\<lparr>rt_Base = emptyTrack, rt_ChangedNameDb = None\<rparr>, False)
     | Some (trackingId, status) \<Rightarrow> (newPostgresAdapterRestoreActionTrack trackingId status, True)))"

definition CollectBackup :: "backup_adapter \<Rightarrow> string list \<Rightarrow> string \<Rightarrow> bool \<Rightarrow> base_track bk" where
  "CollectBackup ba databases keepFromRequest allowEviction =
     (let keep = (if allowEviction then (if keepFromRequest \<noteq> '''' then keepFromRequest else Keep ba)
                  else ''forever'') in
      pbind (sendRequest ba ''POST'' ''/backup/request'' (BackupBody databases keep)) (\<lambda>res.
      pbind (bk_or_panic res) (\<lambda>(_, body).
      pbind (bk_or_panic (unmarshal_fields body [''backupId''])) (\<lambda>fields.
      pbind (TrackBackup ba (fields ! 0)) (\<lambda>(track, _). Ret track)))))"

definition EvictBackup :: "backup_adapter \<Rightarrow> string \<Rightarrow> (string \<times> bool) bk" where
  "EvictBackup ba backupId =
     pbind (sendRequest ba ''POST'' (''/delete/'' @ backupId) NoBody) (\<lambda>res.
     pbind (bk_or_panic res) (\<lambda>(status, body).
     if status = 404 then Ret ('''', False)
     else pbind (bk_or_panic (unmarshal_fields body [''backupId'', ''status'', ''message''])) (\<lambda>fields.
       Ret (if fields ! 1 \<noteq> '''' then (if fields ! 1 = ''Successful'' then ''SUCCESS'' else ''FAIL'')
            else ''Unknown'', True))))"

subsection \<open>Restore and new names\<close>

text \<open>
  \<open>dbName[:n]\<close> panics when \<open>n\<close> is negative or past the end; the condition compares with the length
  of the UUID without hyphens, the slice with the length of the name itself.
\<close>

definition slice_to :: "string \<Rightarrow> int \<Rightarrow> string bk" where
  "slice_to s n = (if n < 0 \<or> n > int (length s) then Panic ''slice bounds out of range'' else Ret (take (nat n) s))"

definition generateDbNameWithUUID :: "string \<Rightarrow> string bk" where
  "generateDbNameWithUUID dbName =
     Call BNewUUID (\<lambda>r.
       let uuidName = (case bk_str r of Inr s \<Rightarrow> s | Inl _ \<Rightarrow> []);
           newDbName = replace_char CHR ''-'' [] uuidName;
           maxLen = GetPgDBLength
       in pbind (if int (length dbName) > maxLen - int (length newDbName) - 1
                 then slice_to dbName (maxLen - 1 - int (length dbName)) else Ret dbName) (\<lambda>prefixFromDb.
          Ret (to_lower (prefixFromDb @ ''_'' @ uuidName))))"

definition generateNewDBName :: "db_info \<Rightarrow> bool \<Rightarrow> (err + string) bk" where
  "generateNewDBName database oldNameFormat =
     Call BSleep (\<lambda>_.
       if oldNameFormat then pbind (generateDbNameWithUUID (di_Name database)) (\<lambda>n. Ret (Inr n))
       else case di_Prefix database of
         Some prefix \<Rightarrow> Call (BRegenerateDbName prefix GetPgDBLength) (\<lambda>r.
           Ret (Inr (case bk_str r of Inr s \<Rightarrow> s | Inl _ \<Rightarrow> [])))
       | None \<Rightarrow> Call (BPrepareDatabaseName (di_Namespace database) (di_Microservice database) GetPgDBLength)
           (\<lambda>r. Ret (bk_str r)))"

definition getDbNames :: "db_info list \<Rightarrow> string list" where
  "getDbNames dbInfo = map di_Name dbInfo"

definition mapDatabase :: "bool \<Rightarrow> db_info \<Rightarrow> (string \<times> string) list \<Rightarrow> (err + (string \<times> string) list) bk" where
  "mapDatabase oldNameFormat database databaseMapping =
     ptry (generateNewDBName database oldNameFormat) (\<lambda>newDbName.
       Ret (Inr (AList.update (di_Name database) newDbName databaseMapping)))"

definition RestoreBackup ::
  "backup_adapter \<Rightarrow> string \<Rightarrow> db_info list \<Rightarrow> bool \<Rightarrow> bool \<Rightarrow> (err + restore_track) bk" where
  "RestoreBackup ba backupId databases regenerateNames oldNameFormat =
     ptry (if regenerateNames then
             ptry (foreach databases [] (mapDatabase oldNameFormat)) (\<lambda>m. Ret (Inr (Some m)))
           else Ret (Inr None)) (\<lambda>databaseMapping.
     let req = \<lparr>rr_BackupId = backupId, rr_Databases = getDbNames databases,
                rr_DatabasesMapping = databaseMapping, rr_Force = True,
                rr_RestoreRoles = (if regenerateNames then ''false'' else ''true''),
                rr_SingleTransaction = ''true'', rr_DbaasClone = regenerateNames\<rparr> in
     ptry (sendRequest ba ''POST'' ''/restore/request'' (RestoreBody req)) (\<lambda>(_, body).
     ptry (Ret (unmarshal_fields body [''trackingId''])) (\<lambda>fields.
     Ret (Inr (newPostgresAdapterRestoreActionTrackWithRequest (fields ! 0) req)))))"

subsection \<open>API version 2\<close>

text \<open>The V2 operations delegate to the default service and convert the statuses it gives.\<close>

definition v2_call :: "dao_statuses \<Rightarrow> bk_call \<Rightarrow> (backup_response option \<times> bool) bk" where
  "v2_call dao c = Call c (\<lambda>r. Ret (case r of
     BBackup response found \<Rightarrow> ((if found then convertBackupResponseStatus dao response else response), found)
   | _ \<Rightarrow> (None, False)))"

definition CollectBackupV2 :: "dao_statuses \<Rightarrow> string \<Rightarrow> string \<Rightarrow> string list \<Rightarrow> (backup_response option \<times> bool) bk" where
  "CollectBackupV2 dao storageName blobPath databaseNames = v2_call dao (BCollectV2 storageName blobPath databaseNames)"

definition RestoreBackupV2 :: "dao_statuses \<Rightarrow> string \<Rightarrow> string \<Rightarrow> bool \<Rightarrow> (backup_response option \<times> bool) bk" where
  "RestoreBackupV2 dao backupId restoreRequest dryRun = v2_call dao (BRestoreV2 backupId restoreRequest dryRun)"

definition TrackBackupV2 :: "dao_statuses \<Rightarrow> string \<Rightarrow> string \<Rightarrow> (backup_response option \<times> bool) bk" where
  "TrackBackupV2 dao backupId blobPath = v2_call dao (BTrackBackupV2 backupId blobPath)"

definition TrackRestoreV2 :: "dao_statuses \<Rightarrow> string \<Rightarrow> string \<Rightarrow> (backup_response option \<times> bool) bk" where
  "TrackRestoreV2 dao restoreId blobPath = v2_call dao (BTrackRestoreV2 restoreId blobPath)"

definition EvictBackupV2 :: "string \<Rightarrow> string \<Rightarrow> bool bk" where
  "EvictBackupV2 backupId blobPath = Call (BEvictBackupV2 backupId blobPath) (\<lambda>r. Ret (r = BBool True))"

definition EvictRestoreV2 :: "string \<Rightarrow> string \<Rightarrow> bool bk" where
  "EvictRestoreV2 restoreId blobPath = Call (BEvictRestoreV2 restoreId blobPath) (\<lambda>r. Ret (r = BBool True))"

end
