(* ===== verification/Backup_Safety.thy ===== *)
theory Backup_Safety
  imports Dbaas_Backup
begin

section \<open>Backups: credentials, statuses and new names\<close>

text \<open>
  Claims about \<^verbatim>\<open>backup.go\<close>: the basic authorization can be decoded to the credentials, a success is
  reported only for a successful backup, every database of a restore is mapped, and which names the
  generator for restored databases can produce.
\<close>

subsection \<open>Base64\<close>

definition b64_value :: "char \<Rightarrow> nat option" where
  "b64_value c = (let n = of_char c :: nat in
     if 65 \<le> n \<and> n \<le> 90 then Some (n - 65) else if 97 \<le> n \<and> n \<le> 122 then Some (n - 97 + 26)
     else if 48 \<le> n \<and> n \<le> 57 then Some (n - 48 + 52) else if n = 43 then Some 62 else if n = 47 then Some 63 else None)"

text \<open>A decoder after RFC 4648.\<close>

fun base64_decode :: "string \<Rightarrow> string option" where
  "base64_decode [] = Some []"
| "base64_decode (a # b # c # d # rest) =
     (case (b64_value a, b64_value b) of
        (Some w, Some x) \<Rightarrow>
          (case (b64_value c, b64_value d) of
             (Some y, Some z) \<Rightarrow> map_option (\<lambda>s. [char_of (w * 4 + x div 16), char_of (x mod 16 * 16 + y div 4),
                char_of (y mod 4 * 64 + z)] @ s) (base64_decode rest)
           | (Some y, None) \<Rightarrow> if d = CHR ''='' \<and> rest = [] then Some [char_of (w * 4 + x div 16),
                char_of (x mod 16 * 16 + y div 4)] else None
           | (None, _) \<Rightarrow> if c = CHR ''='' \<and> d = CHR ''='' \<and> rest = [] then Some [char_of (w * 4 + x div 16)] else None)
      | _ \<Rightarrow> None)"
| "base64_decode _ = None"

lemma b64_value_char: "n < 64 \<Longrightarrow> b64_value (b64_char n) = Some n"
  by (auto simp: b64_value_def b64_char_def Let_def)

lemma b64_value_pad: "b64_value CHR ''='' = None"
  by (simp add: b64_value_def Let_def)

lemma pack_div_mod: "b < n \<Longrightarrow> (a * n + b) div n = a" "b < n \<Longrightarrow> (a * n + b) mod n = (b :: nat)"
  by simp_all

lemma byte_parts:
  assumes "x < 256" "y < 256" "z < (256 :: nat)"
  shows "x div 4 < 64" "x mod 4 * 16 + y div 16 < 64" "y mod 16 * 4 + z div 64 < 64" "z mod 64 < 64"
    "x mod 4 * 16 < 64" "y mod 16 * 4 < 64"
    "x div 4 * 4 + (x mod 4 * 16 + y div 16) div 16 = x" "x div 4 * 4 + x mod 4 * 16 div 16 = x"
    "(x mod 4 * 16 + y div 16) mod 16 * 16 + (y mod 16 * 4 + z div 64) div 4 = y"
    "(x mod 4 * 16 + y div 16) mod 16 * 16 + y mod 16 * 4 div 4 = y"
    "(y mod 16 * 4 + z div 64) mod 4 * 64 + z mod 64 = z"
proof -
  have b: "x div 4 < 64" "y div 16 < 16" "z div 64 < 4" using assms by (simp_all add: less_mult_imp_div_less)
  moreover have m: "x mod 4 < 4" "y mod 16 < 16" "z mod 64 < 64" by simp_all
  ultimately show "x div 4 < 64" "x mod 4 * 16 + y div 16 < 64" "y mod 16 * 4 + z div 64 < 64" "z mod 64 < 64"
    "x mod 4 * 16 < 64" "y mod 16 * 4 < 64" by linarith+
  show "x div 4 * 4 + (x mod 4 * 16 + y div 16) div 16 = x" "x div 4 * 4 + x mod 4 * 16 div 16 = x"
    "(x mod 4 * 16 + y div 16) mod 16 * 16 + (y mod 16 * 4 + z div 64) div 4 = y"
    "(x mod 4 * 16 + y div 16) mod 16 * 16 + y mod 16 * 4 div 4 = y"
    "(y mod 16 * 4 + z div 64) mod 4 * 64 + z mod 64 = z"
    by (simp_all only: pack_div_mod [OF b(2)] pack_div_mod [OF b(3)] nonzero_mult_div_cancel_right div_mult_mod_eq)
qed

text \<open>
  The basic authorization the adapter sends can be decoded: the base64 encoding of the user and
  the password decodes to exactly these bytes, for all of them.
\<close>

theorem base64_roundtrip: "base64_decode (base64 s) = Some s"
proof (induction s rule: base64.induct)
  case (2 a)
  have "(of_char a :: nat) < 256" by simp
  from byte_parts [OF this this this] show ?case
    by (simp add: Let_def b64_value_char b64_value_pad)
next
  case (3 a b)
  have "(of_char a :: nat) < 256" "(of_char b :: nat) < 256" by simp_all
  from byte_parts [OF this this(2)] show ?case
    by (simp add: Let_def b64_value_char b64_value_pad)
next
  case (4 a b c rest)
  have "(of_char a :: nat) < 256" "(of_char b :: nat) < 256" "(of_char c :: nat) < 256" by simp_all
  from byte_parts [OF this] 4 show ?case
    by (simp add: Let_def b64_value_char)
qed simp

subsection \<open>Statuses\<close>

lemma mapStatus_SUCCESS: "mapStatus s = ''SUCCESS'' \<longleftrightarrow> s = ''Successful''"
  by (simp add: mapStatus_def)

lemma unmarshal_two:
  "unmarshal_fields body [k, k'] = Inr fs \<Longrightarrow>
     (\<exists>m. body = Some (JObj m) \<and> str_field m k = Inr (fs ! 0) \<and> str_field m k' = Inr (fs ! 1))
   \<or> fs = ['''', '''']"
  by (auto simp: unmarshal_fields_def split: option.splits json.splits sum.splits)

lemma getStatus_spec:
  "spec (getStatus ba path idField) (\<lambda>out u. \<forall>i s. out = Val (Some (i, s)) \<longrightarrow> s \<noteq> '''' \<longrightarrow> (\<exists>url auth st m.
     u = [(BSend ''GET'' url auth NoBody, BHttp st (Some (JObj m)))] \<and> st \<noteq> 404
     \<and> str_field m idField = Inr i \<and> str_field m ''status'' = Inr s))"
proof -
  have inner: "spec (pbind (bk_or_panic (case r of BHttp status b \<Rightarrow> Inr (status, b) | BErr e \<Rightarrow> Inl e
        | _ \<Rightarrow> Inl ''unexpected response'')) (\<lambda>(status, body).
     if status = 404 then Ret None
     else pbind (bk_or_panic (unmarshal_fields body [idField, ''status''])) (\<lambda>fields.
       Ret (Some (fields ! 0, fields ! 1))))) (\<lambda>out u. \<forall>i s. out = Val (Some (i, s)) \<longrightarrow> s \<noteq> '''' \<longrightarrow>
         (\<exists>st m. u = [] \<and> r = BHttp st (Some (JObj m)) \<and> st \<noteq> 404 \<and> str_field m idField = Inr i \<and> str_field m ''status'' = Inr s))" for r
  proof (cases r)
    case (BHttp st body)
    then show ?thesis
      by (auto simp: bk_or_panic_def spec_simps split: sum.split dest: unmarshal_two)
  qed (auto simp: bk_or_panic_def spec_simps)
  show ?thesis
    unfolding getStatus_def sendRequest_def pbind.simps spec_Call
    by (intro allI spec_mono [OF inner]) blast
qed

text \<open>
  \<open>TrackBackup\<close> reports a success only when the daemon answered with the status ``Successful'' and
  with the id that the response carries, and then the details name that backup; an unknown backup (404) is
  reported as not found.
\<close>

theorem TrackBackup_success:
  assumes "beh (TrackBackup ba trackId) (Val (track, found)) u" and "bt_Status track = ''SUCCESS''"
  shows "found \<and> bt_Details track = Some (bt_TrackId track) \<and> (\<exists>url auth st m.
    u = [(BSend ''GET'' url auth NoBody, BHttp st (Some (JObj m)))] \<and> st \<noteq> 404
    \<and> str_field m ''status'' = Inr ''Successful'' \<and> str_field m ''backupId'' = Inr (bt_TrackId track))"
proof -
  from assms obtain i s where b: "beh (getStatus ba (''/backup/status/'' @ trackId) ''backupId'') (Val (Some (i, s))) u"
    and t: "track = newPostgresAdapterBackupActionTrack i s" "found"
    by (auto simp: TrackBackup_def getBackupStatus_def beh_pbind emptyTrack_def split_option_ex)
  have s: "s = ''Successful''"
    using assms(2) t by (simp add: newPostgresAdapterBackupActionTrack_def mapStatus_SUCCESS)
  then have "\<exists>url auth st m. u = [(BSend ''GET'' url auth NoBody, BHttp st (Some (JObj m)))] \<and> st \<noteq> 404
    \<and> str_field m ''status'' = Inr ''Successful'' \<and> str_field m ''backupId'' = Inr i"
    using specD [OF getStatus_spec b] by auto
  with s t show ?thesis by (simp add: newPostgresAdapterBackupActionTrack_def)
qed

definition sample_ba :: backup_adapter where
  "sample_ba = \<lparr>DaemonAddress = ''http://daemon'', Keep = ''7d'', Auth = False, ba_User = '''', ba_Password = ''''\<rparr>"

definition done_body :: gomap where
  "done_body = [(''backupId'', JStr ''b1''), (''status'', JStr ''Successful'')]"

theorem TrackBackup_success_witness:
  "\<exists>track. beh (TrackBackup sample_ba ''b1'') (Val (track, True))
       [(BSend ''GET'' ''http://daemon/backup/status/b1'' None NoBody, BHttp 200 (Some (JObj done_body)))]
     \<and> bt_Details track = Some (bt_TrackId track)"
proof -
  let ?t = "newPostgresAdapterBackupActionTrack ''b1'' ''Successful''"
  have "beh (TrackBackup sample_ba ''b1'') (Val (?t, True))
       [(BSend ''GET'' ''http://daemon/backup/status/b1'' None NoBody, BHttp 200 (Some (JObj done_body)))]"
    by (simp add: TrackBackup_def getBackupStatus_def getStatus_def sendRequest_def sample_ba_def getUrl_def
        bk_or_panic_def unmarshal_fields_def done_body_def str_field_def map_get_def)
  moreover from TrackBackup_success [OF this] have "bt_Details ?t = Some (bt_TrackId ?t)"
    by (simp add: newPostgresAdapterBackupActionTrack_def mapStatus_def)
  ultimately show ?thesis by blast
qed

subsection \<open>Restore\<close>

lemma mapDatabases_keys:
  assumes "beh (foreach databases m (mapDatabase oldNameFormat)) (Val (Inr m')) u"
  shows "fst ` set m' = fst ` set m \<union> set (getDbNames databases)"
  using assms
proof (induction databases arbitrary: m u)
  case (Cons d ds)
  then obtain u1 u2 m1 where "beh (mapDatabase oldNameFormat d m) (Val (Inr m1)) u1"
    and u2: "beh (foreach ds m1 (mapDatabase oldNameFormat)) (Val (Inr m')) u2"
    by (auto simp: beh_pbind split_sum_ex)
  then obtain n where "m1 = AList.update (di_Name d) n m"
    by (auto simp: mapDatabase_def beh_ptry)
  then have "fst ` set m1 = insert (di_Name d) (fst ` set m)" using dom_update [of "di_Name d" n m] by simp
  with Cons.IH [OF u2] show ?case by (auto simp: getDbNames_def)
qed (simp add: getDbNames_def)

definition clone_request :: "string \<Rightarrow> db_info list \<Rightarrow> (string \<times> string) list \<Rightarrow> restore_request" where
  "clone_request backupId databases m = \<lparr>rr_BackupId = backupId, rr_Databases = getDbNames databases,
     rr_DatabasesMapping = Some m, rr_Force = True, rr_RestoreRoles = ''false'',
     rr_SingleTransaction = ''true'', rr_DbaasClone = True\<rparr>"

text \<open>
  (C37) A restore under new names maps every database of the request and nothing else: the request to the
  daemon and the answer to the caller carry the same mapping, its keys are the names of the request, the
  roles are not restored, and the answer is in progress.
\<close>

theorem RestoreBackup_maps_all:
  assumes "beh (RestoreBackup ba backupId databases True oldNameFormat) (Val (Inr track)) u"
  shows "\<exists>m url auth req r. rt_ChangedNameDb track = Some m \<and> fst ` set m = set (getDbNames databases)
    \<and> (BSend ''POST'' url auth (RestoreBody req), r) \<in> set u \<and> rr_DatabasesMapping req = Some m
    \<and> rr_Databases req = getDbNames databases \<and> rr_RestoreRoles req = ''false'' \<and> rr_DbaasClone req
    \<and> bt_Status (rt_Base track) = ''PROCEEDING''"
proof -
  from assms obtain u1 u3 m res tid where u: "u = u1 @ u3"
    and m: "beh (foreach databases [] (mapDatabase oldNameFormat)) (Val (Inr m)) u1"
    and "beh (sendRequest ba ''POST'' ''/restore/request'' (RestoreBody (clone_request backupId databases m))) (Val (Inr res)) u3"
    and t: "track = newPostgresAdapterRestoreActionTrackWithRequest tid (clone_request backupId databases m)"
    unfolding RestoreBackup_def Let_def if_P [OF TrueI] clone_request_def
    by (auto simp: beh_ptry)
  then obtain url auth r where "u3 = [(BSend ''POST'' url auth (RestoreBody (clone_request backupId databases m)), r)]"
    unfolding sendRequest_def beh_Call_iff beh.simps by blast
  then have "(BSend ''POST'' url auth (RestoreBody (clone_request backupId databases m)), r) \<in> set u"
    using u by simp
  moreover have "fst ` set m = set (getDbNames databases)" using mapDatabases_keys [OF m] by simp
  moreover have "rt_ChangedNameDb track = Some m" "bt_Status (rt_Base track) = ''PROCEEDING''"
    unfolding t by (simp_all add: newPostgresAdapterRestoreActionTrackWithRequest_def Let_def clone_request_def)
  moreover have "rr_DatabasesMapping (clone_request backupId databases m) = Some m"
    "rr_Databases (clone_request backupId databases m) = getDbNames databases"
    "rr_RestoreRoles (clone_request backupId databases m) = ''false''" "rr_DbaasClone (clone_request backupId databases m)"
    by (simp_all add: clone_request_def)
  ultimately show ?thesis by blast
qed

subsection \<open>Names of restored databases\<close>


text \<open>
  (C38) The generator of names for restored databases, for a UUID of 36 characters with four hyphens: the
  name is a database name that PostgreSQL keeps (at most 63 characters) exactly when the old name has
  at most 26 or between 36 and 62 characters; a name in between gives one that is too long, and an old name
  of 63 characters makes the slice panic.
\<close>

theorem restored_name_length:
  assumes "length uuid = 36" and "length (replace_char CHR ''-'' [] uuid) = 32"
    and "beh (generateDbNameWithUUID dbName) out [(BNewUUID, BStr uuid)]"
  shows "(if 62 < length dbName then out = Panicked ''slice bounds out of range''
     else \<exists>n. out = Val n \<and> length n = (if length dbName \<le> 30 then length dbName else 62 - length dbName) + 37
       \<and> (length n \<le> nat MaxPgDBLength \<longleftrightarrow> length dbName \<le> 26 \<or> 36 \<le> length dbName))"
  using assms
  by (auto simp: generateDbNameWithUUID_def slice_to_def Let_def GetPgDBLength_def MaxPgDBLength_def
      split: if_splits)

theorem restored_name_length_witness:
  "\<exists>n. fst (run (\<lambda>_ _. BStr ''123e4567-e89b-12d3-a456-426614174000'')
      (generateDbNameWithUUID (replicate 30 CHR ''d'')) []) = Val n \<and> length n = 67 \<and> \<not> length n \<le> nat MaxPgDBLength"
proof -
  let ?uuid = "''123e4567-e89b-12d3-a456-426614174000''" and ?db = "replicate 30 CHR ''d''"
  have u: "length ?uuid = 36" "length (replace_char CHR ''-'' [] ?uuid) = 32" by (simp_all add: replace_char_def)
  have "beh (generateDbNameWithUUID ?db) (fst (run (\<lambda>_ _. BStr ?uuid) (generateDbNameWithUUID ?db) [])) [(BNewUUID, BStr ?uuid)]"
    using run_beh [of "generateDbNameWithUUID ?db" "\<lambda>_ _. BStr ?uuid" "[]"]
    by (simp add: generateDbNameWithUUID_def Let_def slice_to_def)
  from restored_name_length [OF u this] show ?thesis by auto
qed

theorem RestoreBackup_maps_all_witness:
  "\<exists>m track. fst (run (\<lambda>_ c. case c of BSend _ _ _ _ \<Rightarrow> BHttp 200 (Some (JObj [(''trackingId'', JStr ''t1'')])) | _ \<Rightarrow> BStr ''new'')
      (RestoreBackup sample_ba ''b1'' [\<lparr>di_Namespace = ''ns'', di_Microservice = ''ms'', di_Name = ''db'', di_Prefix = None\<rparr>] True False) [])
     = Val (Inr track) \<and> rt_ChangedNameDb track = Some m \<and> fst ` set m = {''db''}"
proof -
  let ?E = "\<lambda>_ c. case c of BSend _ _ _ _ \<Rightarrow> BHttp 200 (Some (JObj [(''trackingId'', JStr ''t1'')])) | _ \<Rightarrow> BStr ''new''"
  let ?p = "RestoreBackup sample_ba ''b1'' [\<lparr>di_Namespace = ''ns'', di_Microservice = ''ms'', di_Name = ''db'', di_Prefix = None\<rparr>] True False"
  obtain track where t: "fst (run ?E ?p []) = Val (Inr track)"
    by (simp add: RestoreBackup_def mapDatabase_def generateNewDBName_def sendRequest_def ptry_def Let_def
        unmarshal_fields_def str_field_def map_get_def)
  then have "beh ?p (Val (Inr track)) (snd (run ?E ?p []))" using run_beh by metis
  from RestoreBackup_maps_all [OF this] obtain m where "rt_ChangedNameDb track = Some m"
    "fst ` set m = set (getDbNames [\<lparr>di_Namespace = ''ns'', di_Microservice = ''ms'', di_Name = ''db'', di_Prefix = None\<rparr>])"
    by blast
  with t show ?thesis by (simp add: getDbNames_def)
qed

end
