(* ===== verification/Operator_Kube.thy ===== *)
theory Operator_Kube
  imports Dbaas_Util
begin

section \<open>The operator's helpers for Kubernetes and Patroni\<close>

text \<open>
  Models the parts of \<^verbatim>\<open>operator/pkg/helper\<close> (\<^verbatim>\<open>helper.go\<close>, \<^verbatim>\<open>patroni_core_helper.go\<close>,
  \<^verbatim>\<open>resource_management.go\<close>) that the disaster recovery manager and the slot scheduler call.  The
  Kubernetes API, the REST API of Patroni, PostgreSQL and the clock are the environment.  Custom
  resources are records with the fields these callers read; a nil pointer is \<open>None\<close> and following
  it is a Go panic.

  \<open>wait.PollUntilContextTimeout\<close> tries its condition at once and then after each tick of the
  interval until the deadline: \<^verbatim>\<open>poll n\<close> allows \<open>n\<close> ticks, the quotient of timeout and interval,
  and the environment may let the deadline pass earlier.
\<close>

subsection \<open>Resources\<close>

record health_check =
  RetriesLimit :: int
  FailureRetriesLimit :: int
  RetriesWaitTimeout :: int

record site_manager =
  ActiveClusterHost :: string
  ActiveClusterPort :: int
  StandbyClusterHealthCheck :: "health_check option"

record sm_status =
  sm_Mode :: string
  sm_Status :: string

record condition =
  ct_Type :: string
  ct_Status :: bool
  ct_Reason :: string
  ct_Message :: string

record external_database =
  ext_Type :: string
  ext_ConnectionName :: string
  ext_RestoreConfig :: "(string \<times> (string \<times> string) list) list"

text \<open>The parts of the services that are installed, and for the exporters whether custom queries are watched.\<close>

record services_spec =
  sv_ExternalDataBase :: "external_database option"
  sv_Pooler :: bool
  sv_BackupDaemon :: bool
  sv_MetricCollector :: bool
  sv_PowaUI :: bool
  sv_PostgresExporter :: "(bool \<times> bool) option"
  sv_QueryExporter :: "bool \<times> bool"
  sv_ReplicationController :: bool
  sv_PgBackRestExporter :: bool
  sv_IntegrationTests :: bool

record patroni_services =
  ps_Name :: string
  ps_SiteManager :: "site_manager option"
  ps_SiteManagerStatus :: sm_status
  ps_Conditions :: "condition list"
  ps_ResourceVersion :: string
  ps_SpecHash :: string
  ps_RunTestsTime :: string
  ps_Spec :: services_spec

text \<open>A storage of volumes.\<close>

record storage =
  st_Type :: string
  st_Size :: string
  st_Annotations :: "(string \<times> string) list option"
  st_Selectors :: "string list"
  st_Volumes :: "string list"

record patroni_spec =
  Replicas :: int
  ClusterName :: string
  StandbyCluster :: "(string \<times> int) option"
  DcsType :: string
  DcsHosts :: "string list"
  DockerImage :: string
  PatroniStorage :: "storage option"
  IgnoreSlots :: bool
  PostgreSQLParams :: "string list"
  PatroniParams :: "string list"
  PgHba :: "string list"
  UseSlots :: bool
  CreateEndpoint :: bool
  Scope :: string
  Tags :: "(string \<times> string) list option"
  PowaInstall :: bool
  PgWalStorage :: "storage option"
  PgWalStorageAutoManage :: bool
  ForceCollationVersionUpgrade :: bool
  ConfigMapAnnotations :: "(string \<times> string) list"

record pgbackrest_spec =
  br_DRBucket :: string
  br_RepoType :: string
  br_Rwx :: "storage option"
  br_BackupFromStandby :: bool

record ldap_spec =
  ld_Enabled :: bool
  ld_Server :: string
  ld_Port :: int
  ld_BaseDN :: string
  ld_BindDN :: string
  ld_BindPasswd :: string
  ld_SearchAttr :: string

record upgrade_spec =
  up_Enabled :: bool
  up_InitDbParams :: string
  up_DockerUpgradeImage :: string

text \<open>\<open>pc_SpecHash\<close> is what \<^verbatim>\<open>util.HashJson\<close> gives for the spec.\<close>

record patroni_core =
  pc_Name :: string
  pc_UID :: string
  pc_Patroni :: "patroni_spec option"
  pc_Conditions :: "condition list"
  pc_ResourceVersion :: string
  pc_SpecHash :: string
  pc_RunTestsTime :: string
  pc_IntegrationTests :: bool
  pc_PgBackRest :: "pgbackrest_spec option"
  pc_Upgrade :: "upgrade_spec option"
  pc_Ldap :: "ldap_spec option"
  pc_TlsEnabled :: "bool option"

record member =
  mb_Role :: string
  mb_State :: string

record service_port =
  sp_Name :: string
  sp_Port :: int
  sp_TargetPort :: int

record k8s_service =
  svc_Name :: string
  svc_Ports :: "service_port list"
  svc_ExternalName :: string
  svc_Selector :: "(string \<times> string) list option"
  svc_Headless :: bool
  svc_ResourceVersion :: string

record stateful_set =
  ss_Name :: string
  ss_Replicas :: int

record slot =
  slot_Name :: string
  slot_Type :: string
  slot_Database :: string
  slot_Plugin :: string

text \<open>Instances of Cloud SQL, with the labels and the network settings of their \<open>Settings\<close>.\<close>

record sql_settings =
  set_UserLabels :: "(string \<times> string) list"
  set_Tier :: string
  set_Ipv4Enabled :: "bool option"

record sql_instance =
  si_Name :: string
  si_Region :: string
  si_InstanceType :: string
  si_State :: string
  si_ConnectionName :: string
  si_DatabaseVersion :: string
  si_MasterInstanceName :: string
  si_Settings :: "sql_settings option"

datatype sql_call =
    SqlList
  | SqlPromote string
  | SqlPatch string string \<comment> \<open>instance and availability type\<close>
  | SqlInsert sql_instance
  | SqlDelete string
  | SqlOperation string

datatype sql_resp =
    SqlInstances "sql_instance list"
  | SqlOp string string bool \<comment> \<open>name, status and whether an error is attached\<close>
  | SqlApiErr nat err \<comment> \<open>a \<open>googleapi.Error\<close> with its code\<close>

text \<open>
  Pods, config maps, deployments and stateful sets with the fields the operator reads.  A container of a
  pod that has not terminated has no exit code.
\<close>

record pod =
  pod_Name :: string
  pod_Phase :: string
  pod_Containers :: "string list"
  pod_ExitCodes :: "(string \<times> int option) list"

record config_map =
  cm_Name :: string
  cm_Data :: "(string \<times> string) list"
  cm_Annotations :: "(string \<times> string) list option"
  cm_Labels :: "(string \<times> string) list option"
  cm_ResourceVersion :: string
  cm_Owners :: "string list" \<comment> \<open>kind, name and UID of each owner\<close>

record workload =
  wl_Name :: string
  wl_Labels :: "(string \<times> string) list option"
  wl_Generation :: int
  wl_Revision :: string
  wl_SpecHash :: string
  wl_Annotations :: "(string \<times> string) list"
  wl_TemplateLabels :: "(string \<times> string) list"
  wl_TemplateAnnotations :: "(string \<times> string) list"
  wl_InitContainers :: "string list"
  wl_Images :: "string list"
  wl_Replicas :: "int option"
  wl_ObservedGeneration :: int
  wl_StatusConditions :: "(string \<times> string) list" \<comment> \<open>type and reason\<close>
  wl_StatusReplicas :: int
  wl_UpdatedReplicas :: int
  wl_AvailableReplicas :: int

text \<open>A row of \<^verbatim>\<open>pg_replication_slots\<close> with its lag in bytes.\<close>

record replication_slot =
  rs_Name :: string
  rs_SlotType :: string
  rs_Database :: string
  rs_Active :: bool
  rs_Lag :: int

text \<open>
  Claims for volumes.  A quantity is a number of bytes; a claim without a request map has no requests, one with
  the map may have none for storage.
\<close>

record pvc =
  pvc_Name :: string
  pvc_Annotations :: "(string \<times> string) list option"
  pvc_Owners :: "string list"
  pvc_Requests :: "int option option"
  pvc_Capacity :: "int option"
  pvc_Conditions :: "string list" \<comment> \<open>the types of the conditions\<close>

record daemon_set =
  ds_Name :: string
  ds_Envs :: "(string \<times> string) list list" \<comment> \<open>the environment of each container\<close>

datatype obj_call =
    GetPod string
  | ListPods "(string \<times> string) list" bool \<comment> \<open>labels, and whether only running pods\<close>
  | CreatePodCall string
  | DeletePodCall string
  | ExecPod string string string string \<comment> \<open>pod, container, command and shell\<close>
  | PgDbConnect string string
  | PgDbQuery string string string \<comment> \<open>host, database and query\<close>
  | PgDbExec string string string \<comment> \<open>host, database and statement\<close>
  | PostSwitchover string string \<comment> \<open>URL of Patroni and the leader\<close>
  | GetPatroniConfig string
  | GetCM string
  | CreateCM config_map
  | UpdateCM config_map
  | DeleteCM string
  | ListWorkloads string \<comment> \<open>Deployment or StatefulSet\<close>
  | GetWorkload string string
  | CreateWorkload string workload
  | UpdateWorkload string workload
  | DeleteWorkload string string
  | GetPvc string
  | CreatePvc pvc
  | UpdatePvc pvc
  | GetDaemonSet string
  | PutDaemonSet daemon_set
  | GetSecretCall string
  | CreateSecretCall string
  | GetEndpointSlice string
  | CreateEndpointSlice string "(string \<times> string) list" \<comment> \<open>name and labels\<close>
  | ReadFile string
  | WriteFile string sm_status
  | UpdateCoreStatus patroni_core
  | Now
  | Step string \<comment> \<open>a part of the operator that is left to the environment\<close>

text \<open>The entries of \<^verbatim>\<open>pg_hba\<close> in Patroni's configuration; an entry that is not a string is \<open>None\<close>.\<close>

datatype hba_section = NoPostgresql | NoHba | Hba "string option list"

datatype obj_resp =
    OPod pod
  | OPods "pod list"
  | OCM config_map
  | OWorkload workload
  | OWorkloads "workload list"
  | OPvc pvc
  | ODaemonSet daemon_set
  | OSecret "(string \<times> string) list"
  | OStatus sm_status
  | OText string
  | OConfig nat hba_section \<comment> \<open>HTTP status and the body\<close>
  | OHttp nat
  | OBool bool
  | OSlotRows "(err + replication_slot) list" \<comment> \<open>a row that cannot be scanned is an error\<close>

text \<open>
  The bodies of the patches that are sent to Patroni: the standby cluster, PostgreSQL's parameters with the entries of
  \<^verbatim>\<open>pg_hba\<close>, the parameters of Patroni itself, the archiving with its recovery part, and the pause.
\<close>

record standby_config =
  sc_Host :: string
  sc_Port :: int
  sc_Slot :: string
  sc_Methods :: "string list"
  sc_RestoreCommand :: "string option"

datatype patch =
    ClearStandbyPatch
  | IgnoreSlotsPatch "slot list"
  | StandbyPatch standby_config
  | PostgreSQLPatch "(string \<times> string) list" "string list"
  | PatroniPatch "(string \<times> string) list"
  | ArchivingPatch "(string \<times> string) list" "(string \<times> string) list"
  | SslOffPatch
  | HbaPatch "string list"
  | PausePatch string

datatype k_call =
    KGetServices
  | KGetCore
  | KUpdateCore patroni_core
  | KUpdateStatus patroni_services
  | KGetService string
  | KUpdateService k8s_service
  | KCreateService k8s_service
  | KListStatefulSets
  | KUpdateStatefulSet stateful_set
  | KGetCluster string \<comment> \<open>GET of Patroni's cluster status\<close>
  | KPatch string patch
  | KRestartPending string
  | KPgClient string
  | KPgConnect string
  | KPgQuery string string
  | KPgExec string string
  | KSleep int
  | KTick
  | KSql sql_call
  | KObj obj_call

datatype k_resp =
    KErr err
  | KNotFound err
  | KOk
  | KServicesCR patroni_services
  | KCoreCR patroni_core
  | KService k8s_service
  | KStatefulSets "stateful_set list"
  | KCluster nat "member list option" \<comment> \<open>HTTP status and the decoded body\<close>
  | KRows "scan_row list"
  | KSqlResp sql_resp
  | KObjResp obj_resp
  and scan_row = KScanErr err | KText "string option list" \<comment> \<open>\<open>None\<close> is NULL\<close>

type_synonym 'a kube = "(k_call, k_resp, 'a) prog"
type_synonym k_trace = "(k_call \<times> k_resp) list"

definition nil_deref :: string where "nil_deref = ''nil pointer dereference''"

fun k_error :: "k_resp \<Rightarrow> err option" where
  "k_error (KErr e) = Some e"
| "k_error (KNotFound e) = Some e"
| "k_error _ = None"

definition k_do :: "k_call \<Rightarrow> err option kube" where
  "k_do c = Call c (\<lambda>r. Ret (k_error r))"

definition deref :: "'a option \<Rightarrow> 'a kube" where
  "deref p = (case p of None \<Rightarrow> Panic nil_deref | Some x \<Rightarrow> Ret x)"

fun poll :: "nat \<Rightarrow> (err + bool) kube \<Rightarrow> err option kube" where
  "poll n condition = pbind condition (\<lambda>res. case res of
     Inl e \<Rightarrow> Ret (Some e)
   | Inr True \<Rightarrow> Ret None
   | Inr False \<Rightarrow> Call KTick (\<lambda>r. case n of
       0 \<Rightarrow> Ret (Some ''context deadline exceeded'')
     | Suc m \<Rightarrow> if k_error r \<noteq> None then Ret (Some ''context deadline exceeded'') else poll m condition))"

declare poll.simps [simp del]

subsection \<open>Pods of a label\<close>

text \<open>Errors of the single deletions are only logged.\<close>

definition DeletePodsByLabel :: "(string \<times> string) list \<Rightarrow> err option kube" where
  "DeletePodsByLabel selectors = Call (KObj (ListPods selectors False)) (\<lambda>r. case r of
     KObjResp (OPods pods) \<Rightarrow>
       pseq (for_do pods (\<lambda>p. pseq (k_do (KObj (DeletePodCall (pod_Name p)))) (Ret ()))) (Ret None)
   | KErr e \<Rightarrow> Ret (Some e) | KNotFound e \<Rightarrow> Ret (Some e) | _ \<Rightarrow> Ret None)"

subsection \<open>Reading and writing the custom resources\<close>

definition empty_spec :: services_spec where
  "empty_spec = \<lparr>sv_ExternalDataBase = None, sv_Pooler = False, sv_BackupDaemon = False, sv_MetricCollector = False,
     sv_PowaUI = False, sv_PostgresExporter = None, sv_QueryExporter = (False, False), sv_ReplicationController = False,
     sv_PgBackRestExporter = False, sv_IntegrationTests = False\<rparr>"

definition empty_services :: patroni_services where
  "empty_services = \<lparr>ps_Name = '''', ps_SiteManager = None,
     ps_SiteManagerStatus = \<lparr>sm_Mode = '''', sm_Status = ''''\<rparr>, ps_Conditions = [],
     ps_ResourceVersion = '''', ps_SpecHash = '''', ps_RunTestsTime = '''', ps_Spec = empty_spec\<rparr>"

definition empty_core :: patroni_core where
  "empty_core = \<lparr>pc_Name = '''', pc_UID = '''', pc_Patroni = None, pc_Conditions = [],
     pc_ResourceVersion = '''', pc_SpecHash = '''', pc_RunTestsTime = '''', pc_IntegrationTests = False,
     pc_PgBackRest = None, pc_Upgrade = None, pc_Ldap = None, pc_TlsEnabled = None\<rparr>"

definition empty_patroni :: patroni_spec where [simp]:
  "empty_patroni = \<lparr>Replicas = 0, ClusterName = '''', StandbyCluster = None, DcsType = '''', DcsHosts = [], DockerImage = '''',
     PatroniStorage = None, IgnoreSlots = False, PostgreSQLParams = [], PatroniParams = [], PgHba = [], UseSlots = False,
     CreateEndpoint = False, Scope = '''', Tags = None, PowaInstall = False, PgWalStorage = None,
     PgWalStorageAutoManage = False, ForceCollationVersionUpgrade = False, ConfigMapAnnotations = []\<rparr>"

definition GetPostgresServiceCR :: "(err + patroni_services) kube" where
  "GetPostgresServiceCR = Call KGetServices (\<lambda>r. Ret (case r of
     KServicesCR cr \<Rightarrow> Inr cr
   | KNotFound _ \<Rightarrow> Inr empty_services
   | KErr e \<Rightarrow> Inl e
   | _ \<Rightarrow> Inl ''unexpected response''))"

definition GetPatroniCoreCR :: "(err + patroni_core) kube" where
  "GetPatroniCoreCR = Call KGetCore (\<lambda>r. Ret (case r of
     KCoreCR cr \<Rightarrow> Inr cr
   | KNotFound _ \<Rightarrow> Inr empty_core
   | KErr e \<Rightarrow> Inl e
   | _ \<Rightarrow> Inl ''unexpected response''))"

definition UpdatePatroniCore :: "patroni_core \<Rightarrow> err option kube" where
  "UpdatePatroniCore service = k_do (KUpdateCore service)"

definition GetService :: "string \<Rightarrow> k8s_service option kube" where
  "GetService name = Call (KGetService name) (\<lambda>r. Ret (case r of KService s \<Rightarrow> Some s | _ \<Rightarrow> None))"

definition UpdateService :: "k8s_service \<Rightarrow> err option kube" where
  "UpdateService service = k_do (KUpdateService service)"

definition CreateServiceIfNotExists :: "k8s_service \<Rightarrow> err option kube" where
  "CreateServiceIfNotExists service = Call (KGetService (svc_Name service)) (\<lambda>r. case r of
     KNotFound _ \<Rightarrow> k_do (KCreateService service)
   | KErr e \<Rightarrow> Ret (Some e)
   | _ \<Rightarrow> Ret None)"

definition UpdateSiteManagerStatus :: "string \<Rightarrow> string \<Rightarrow> err option kube" where
  "UpdateSiteManagerStatus mode status =
     poll 60 (pbind GetPostgresServiceCR (\<lambda>res. case res of
       Inl _ \<Rightarrow> Ret (Inr False)
     | Inr cr \<Rightarrow>
         pbind (k_do (KUpdateStatus (cr\<lparr>ps_SiteManagerStatus := \<lparr>sm_Mode = mode, sm_Status = status\<rparr>\<rparr>))) (\<lambda>err.
         Ret (case err of Some e \<Rightarrow> Inl e | None \<Rightarrow> Inr True))))"

definition GetCurrentSiteManagerStatus :: "sm_status option kube" where
  "GetCurrentSiteManagerStatus = pbind GetPostgresServiceCR (\<lambda>res. Ret (case res of
     Inl _ \<Rightarrow> None | Inr cr \<Rightarrow> Some (ps_SiteManagerStatus cr)))"

definition GetCurrentCRStatus :: "string kube" where
  "GetCurrentCRStatus = pbind GetPostgresServiceCR (\<lambda>res. Ret (case res of
     Inl _ \<Rightarrow> ''''
   | Inr cr \<Rightarrow> (case ps_Conditions cr of [] \<Rightarrow> '''' | t # _ \<Rightarrow> to_lower (ct_Type t))))"

text \<open>The condition both \<open>WaitUntilReconcileIsDone\<close> methods poll, on the status conditions of their CR.\<close>

definition reconcile_state :: "condition list \<Rightarrow> (err + bool) kube" where
  "reconcile_state conditions = (case conditions of
     [] \<Rightarrow> Panic ''index out of range''
   | t # _ \<Rightarrow> Ret (if to_lower (ct_Type t) = ''in progress'' then Inr False
       else if to_lower (ct_Type t) = ''failed'' then Inl ''reconcile status failed'' else Inr True))"

definition WaitUntilReconcileIsDone :: "err option kube" where
  "WaitUntilReconcileIsDone = Call (KSleep 10) (\<lambda>_.
     poll 120 (ptry GetPostgresServiceCR (\<lambda>cr. reconcile_state (ps_Conditions cr))))"

definition core_WaitUntilReconcileIsDone :: "err option kube" where
  "core_WaitUntilReconcileIsDone = Call (KSleep 10) (\<lambda>_.
     poll 120 (ptry GetPatroniCoreCR (\<lambda>cr. reconcile_state (pc_Conditions cr))))"

text \<open>The regular expression that selects the stateful sets is the plain text \<^verbatim>\<open>pg-<cluster>-node\<close>.\<close>

definition UpdatePatroniReplicas :: "int \<Rightarrow> string \<Rightarrow> err option kube" where
  "UpdatePatroniReplicas replicas clusterName = Call KListStatefulSets (\<lambda>r. case r of
     KStatefulSets items \<Rightarrow>
       for_err (map (\<lambda>stSet. stSet\<lparr>ss_Replicas := replicas\<rparr>)
           (filter (\<lambda>stSet. contains_sub (''pg-'' @ clusterName @ ''-node'') (ss_Name stSet)) items))
         (\<lambda>stSet. k_do (KUpdateStatefulSet stSet))
   | KErr e \<Rightarrow> Ret (Some e)
   | KNotFound e \<Rightarrow> Ret (Some e)
   | _ \<Rightarrow> Ret None)"

subsection \<open>Patroni\<close>

text \<open>
  A PATCH that gets any HTTP response counts as done; the restarts that follow it are one call.
\<close>

definition UpdatePatroniConfig :: "patch \<Rightarrow> string \<Rightarrow> err option kube" where
  "UpdatePatroniConfig values patroniUrl =
     pbind (poll 60 (pbind (k_do (KPatch patroniUrl values)) (\<lambda>err.
       Ret (Inr (err = None))))) (\<lambda>retryError. case retryError of
       Some e \<Rightarrow> Ret (Some e)
     | None \<Rightarrow> k_do (KRestartPending patroniUrl))"

definition ClearStandbyClusterConfigurationConfigMap :: "string \<Rightarrow> err option kube" where
  "ClearStandbyClusterConfigurationConfigMap patroniUrl = UpdatePatroniConfig ClearStandbyPatch patroniUrl"

definition GetPatroniClusterConfig :: "string \<Rightarrow> (err + member list) kube" where
  "GetPatroniClusterConfig patroniUrl = Call (KGetCluster patroniUrl) (\<lambda>r. Ret (case r of
     KCluster status body \<Rightarrow>
       if status = 200 then (case body of Some members \<Rightarrow> Inr members | None \<Rightarrow> Inl ''invalid body'')
       else Inr []
   | KErr e \<Rightarrow> Inl e
   | _ \<Rightarrow> Inl ''unexpected response''))"

definition patroniRunningState :: "string list" where
  "patroniRunningState = [''running'', ''streaming'', ''in archive recovery'']"

fun arePatroniMembersRunning :: "member list \<Rightarrow> bool" where
  "arePatroniMembersRunning [] = True"
| "arePatroniMembersRunning (m # members) =
     (if \<not> Contains patroniRunningState (mb_State m) then False else arePatroniMembersRunning members)"

fun isLeaderExist :: "member list \<Rightarrow> bool" where
  "isLeaderExist [] = False"
| "isLeaderExist (m # members) =
     (if mb_Role m = ''leader'' then True
      else if mb_Role m = ''standby_leader'' \<and> mb_State m = ''streaming'' then True
      else isLeaderExist members)"

definition ifExpectedCountOfMembers :: "int \<Rightarrow> member list \<Rightarrow> bool" where
  "ifExpectedCountOfMembers expected members \<longleftrightarrow> int (length members) = expected"

definition replicationQuery :: string where
  "replicationQuery = ''select pid from pg_stat_replication where not exists (select active_pid from pg_replication_slots rep_slots where pid = rep_slots.active_pid and plugin is not null) and usename=''
     @ squote ''replicator'' @ '' and state='' @ squote ''streaming''"

definition isExpectedReplicationCount :: "string \<Rightarrow> int \<Rightarrow> bool kube" where
  "isExpectedReplicationCount pgHost expected =
     pbind (k_do (KPgClient pgHost)) (\<lambda>err. if err \<noteq> None then Ret False else
     pbind (k_do (KPgConnect pgHost)) (\<lambda>err. if err \<noteq> None then Ret False else
     Call (KPgQuery pgHost replicationQuery) (\<lambda>r. Ret (case r of
       KRows rows \<Rightarrow> list_all (\<lambda>row. case row of KScanErr _ \<Rightarrow> False | KText _ \<Rightarrow> True) rows \<and> expected \<le> int (length rows)
     | _ \<Rightarrow> False))))"

definition IsPatroniClusterHealthy :: "member list \<Rightarrow> bool kube" where
  "IsPatroniClusterHealthy config = pbind GetPatroniCoreCR (\<lambda>res. case res of
     Inl _ \<Rightarrow> Ret False
   | Inr cr \<Rightarrow> pbind (deref (pc_Patroni cr)) (\<lambda>spec.
       Ret (arePatroniMembersRunning config \<and> isLeaderExist config
         \<and> ifExpectedCountOfMembers (Replicas spec) config)))"

text \<open>The error is dropped here: without the CR the pointer that is followed is nil.\<close>

definition IsPatroniClusterDegraded :: "member list \<Rightarrow> string \<Rightarrow> bool kube" where
  "IsPatroniClusterDegraded config pgHost = pbind GetPatroniCoreCR (\<lambda>res. case res of
     Inl _ \<Rightarrow> Panic nil_deref
   | Inr cr \<Rightarrow> pbind (deref (pc_Patroni cr)) (\<lambda>spec.
       pbind (isExpectedReplicationCount pgHost (Replicas spec - 1)) (\<lambda>expectedReplication.
       Ret (\<not> expectedReplication \<or> \<not> ifExpectedCountOfMembers (Replicas spec) config))))"

definition IsHealthy :: "string \<Rightarrow> string \<Rightarrow> bool kube" where
  "IsHealthy patroniUrl pgHost = pbind (GetPatroniClusterConfig patroniUrl) (\<lambda>res. case res of
     Inl _ \<Rightarrow> Ret False
   | Inr config \<Rightarrow> pbind (IsPatroniClusterHealthy config) (\<lambda>isHealthy.
       pbind (IsPatroniClusterDegraded config pgHost) (\<lambda>isDegraded.
       Ret (isHealthy \<and> \<not> isDegraded))))"

definition IsHealthyWithTimeout :: "nat \<Rightarrow> string \<Rightarrow> string \<Rightarrow> bool kube" where
  "IsHealthyWithTimeout ticks patroniUrl pgHost =
     pbind (poll ticks (pbind (IsHealthy patroniUrl pgHost) (\<lambda>h. Ret (Inr h)))) (\<lambda>err. Ret (err = None))"

definition TerminateConnectionsQuery :: string where
  "TerminateConnectionsQuery = ''SELECT pg_terminate_backend(pid) FROM pg_stat_activity WHERE datname != '' @ squote ''postgres''
     @ '' or datname is NULL and usename != '' @ squote ''replicator'' @ '' or usename is NULL AND pid <> pg_backend_pid()''"

definition TerminateActiveConnections :: "string \<Rightarrow> err option kube" where
  "TerminateActiveConnections pgHost =
     pbind (k_do (KPgClient pgHost)) (\<lambda>err. if err \<noteq> None then Ret None else
     pbind (k_do (KPgConnect pgHost)) (\<lambda>err. case err of Some e \<Rightarrow> Ret (Some e) | None \<Rightarrow>
     k_do (KPgExec pgHost TerminateConnectionsQuery)))"

end
