(* ===== verification/Disaster_Recovery.thy ===== *)
theory Disaster_Recovery
  imports Operator_Kube
begin

section \<open>Disaster recovery of a Patroni cluster\<close>

text \<open>
  Models \<^verbatim>\<open>operator/pkg/disasterrecovery/patroni.go\<close> and the parts of \<^verbatim>\<open>server.go\<close> that do not
  depend on Cloud SQL: the site manager's requests to become active, standby or disabled, the
  health endpoint, the start-up check and the operator's own service.  A handler gives the responses
  it writes, as pairs of status code and body, and the request it hands to \<^verbatim>\<open>processRequest\<close>, which
  the source starts as a goroutine; two requests processed at the same time are not modelled.

  The loop of \<^verbatim>\<open>waitForClusterHealthy\<close> has no bound of its own when a limit is negative, so its
  model takes fuel; \<^verbatim>\<open>wait_fuel\<close> is enough whenever both limits are not negative, and running out of
  it is the outcome \<^verbatim>\<open>diverges\<close>.
\<close>

record patroni_dr_manager =
  PatroniUrl :: string
  PgHost :: string
  dr_ClusterName :: string
  dr_namespace :: string

datatype http_body = Message string | StatusBody "sm_status option" | HealthBody string

definition diverges :: string where "diverges = ''diverges''"

subsection \<open>Waiting for a healthy cluster\<close>

fun wait_loop :: "nat \<Rightarrow> patroni_dr_manager \<Rightarrow> health_check \<Rightarrow> int \<Rightarrow> int \<Rightarrow> bool kube" where
  "wait_loop 0 m limits retries failureRetries = Panic diverges"
| "wait_loop (Suc fuel) m limits retries failureRetries =
     (if retries = RetriesLimit limits then Ret True
      else if failureRetries = FailureRetriesLimit limits then Ret False
      else Call (KSleep (RetriesWaitTimeout limits)) (\<lambda>_.
        pbind (IsHealthy (PatroniUrl m) (PgHost m)) (\<lambda>healthy.
        if healthy then wait_loop fuel m limits (retries + 1) failureRetries
        else wait_loop fuel m limits 0 (failureRetries + 1))))"

definition wait_fuel :: "health_check \<Rightarrow> nat" where
  "wait_fuel limits = Suc (nat (RetriesLimit limits)) * Suc (nat (FailureRetriesLimit limits))"

definition waitForClusterHealthy :: "patroni_dr_manager \<Rightarrow> (err + bool) kube" where
  "waitForClusterHealthy m =
     ptry GetPostgresServiceCR (\<lambda>postgresService.
       pbind (deref (ps_SiteManager postgresService)) (\<lambda>siteManager.
       pbind (deref (StandbyClusterHealthCheck siteManager)) (\<lambda>limits.
       pbind (wait_loop (wait_fuel limits) m limits 0 0) (\<lambda>healthy. Ret (Inr healthy)))))"

subsection \<open>Changing the mode\<close>

definition setStandbyConfig :: "patroni_core \<Rightarrow> string \<times> int \<Rightarrow> patroni_core kube" where
  "setStandbyConfig cr standbyConfig =
     pbind (deref (pc_Patroni cr)) (\<lambda>spec.
       Ret (cr\<lparr>pc_Patroni := Some (spec\<lparr>StandbyCluster := Some standbyConfig\<rparr>)\<rparr>))"

text \<open>The poll of both functions below: the update fails or is done, it is never retried.\<close>

definition updateCoreAndWait :: "patroni_core \<Rightarrow> err option kube" where
  "updateCoreAndWait coreCr =
     pbind (poll 180 (pbind (UpdatePatroniCore coreCr) (\<lambda>err.
       Ret (case err of Some e \<Rightarrow> Inl e | None \<Rightarrow> Inr True)))) (\<lambda>err. case err of
       Some e \<Rightarrow> Ret (Some e)
     | None \<Rightarrow> core_WaitUntilReconcileIsDone)"

definition addStandbyClusterConfigInCR :: "patroni_dr_manager \<Rightarrow> err option kube" where
  "addStandbyClusterConfigInCR m =
     pbind GetPostgresServiceCR (\<lambda>res. case res of Inl e \<Rightarrow> Ret (Some e) | Inr cr \<Rightarrow>
     pbind GetPatroniCoreCR (\<lambda>res. case res of Inl e \<Rightarrow> Ret (Some e) | Inr coreCr \<Rightarrow>
     pbind (deref (ps_SiteManager cr)) (\<lambda>siteManager.
     pbind (setStandbyConfig coreCr (ActiveClusterHost siteManager, ActiveClusterPort siteManager))
       updateCoreAndWait)))"

definition clearStandbyClusterConfigInCR :: "patroni_dr_manager \<Rightarrow> err option kube" where
  "clearStandbyClusterConfigInCR m =
     pbind GetPatroniCoreCR (\<lambda>res. case res of
       Inl e \<Rightarrow> Ret (Some e)
     | Inr cr \<Rightarrow> pbind (setStandbyConfig cr ('''', 0)) updateCoreAndWait)"

definition setDisablePatroniCluster :: "string \<Rightarrow> err option kube" where
  "setDisablePatroniCluster clusterName = UpdatePatroniReplicas 0 clusterName"

definition setActivePatroniCluster :: "patroni_dr_manager \<Rightarrow> string \<Rightarrow> err option kube" where
  "setActivePatroniCluster m clusterName =
     pbind (clearStandbyClusterConfigInCR m) (\<lambda>err. case err of Some e \<Rightarrow> Ret (Some e) | None \<Rightarrow>
     pbind (ClearStandbyClusterConfigurationConfigMap (PatroniUrl m)) (\<lambda>err. case err of Some e \<Rightarrow> Ret (Some e) | None \<Rightarrow>
     pbind (UpdatePatroniReplicas 1 clusterName) (\<lambda>err. case err of Some e \<Rightarrow> Ret (Some e) | None \<Rightarrow>
     pbind (waitForClusterHealthy m) (\<lambda>res. case res of
       Inl e \<Rightarrow> Ret (Some e)
     | Inr healthy \<Rightarrow> if \<not> healthy then Ret None else Ret None))))"

definition processStandByMode :: "patroni_dr_manager \<Rightarrow> bool \<Rightarrow> (err + bool) kube" where
  "processStandByMode m healthy =
     pbind (if healthy then TerminateActiveConnections (PgHost m) else Ret None) (\<lambda>err. case err of
       Some e \<Rightarrow> Ret (Inl e) | None \<Rightarrow>
     pbind (addStandbyClusterConfigInCR m) (\<lambda>err. case err of Some e \<Rightarrow> Ret (Inl e) | None \<Rightarrow>
     pbind WaitUntilReconcileIsDone (\<lambda>err. case err of Some e \<Rightarrow> Ret (Inl e) | None \<Rightarrow>
     pbind (waitForClusterHealthy m) (\<lambda>res. case res of
       Inl e \<Rightarrow> Ret (Inl e)
     | Inr healthy' \<Rightarrow> if \<not> healthy' then Ret (Inr False) else Ret (Inr True)))))"

definition externalName :: "patroni_dr_manager \<Rightarrow> string" where
  "externalName m = ''pg-'' @ dr_ClusterName m @ ''-external''"

definition redirectExternal :: "patroni_dr_manager \<Rightarrow> string \<Rightarrow> unit kube" where
  "redirectExternal m target =
     pbind (GetService (externalName m)) (\<lambda>svc.
     pbind (deref svc) (\<lambda>extService.
     pseq (UpdateService (extService\<lparr>svc_ExternalName := target\<rparr>)) (Ret ())))"

definition updateExternalService :: "patroni_dr_manager \<Rightarrow> string \<Rightarrow> unit kube" where
  "updateExternalService m mode =
     (if mode = ''standby'' then
        pbind GetPostgresServiceCR (\<lambda>res. case res of
          Inl _ \<Rightarrow> Ret ()
        | Inr cr \<Rightarrow> pbind (deref (ps_SiteManager cr)) (\<lambda>siteManager.
            redirectExternal m (ActiveClusterHost siteManager)))
      else if mode = ''active'' then
        redirectExternal m (''pg-'' @ dr_ClusterName m @ ''.'' @ dr_namespace m @ ''.svc.cluster.local'')
      else Ret ())"

definition revertExternalService :: "patroni_dr_manager \<Rightarrow> string \<Rightarrow> unit kube" where
  "revertExternalService m mode =
     pseq (if mode = ''standby'' then updateExternalService m ''active'' else Ret ())
     (if mode = ''active'' then updateExternalService m ''standby'' else Ret ())"

text \<open>The \<open>switch\<close> of \<^verbatim>\<open>changeMode\<close>.\<close>

definition applyMode :: "patroni_dr_manager \<Rightarrow> string \<Rightarrow> err option kube" where
  "applyMode m mode =
     (if mode = ''standby'' then
        pbind (IsHealthyWithTimeout 60 (PatroniUrl m) (PgHost m)) (\<lambda>healthy.
          poll 180 (processStandByMode m healthy))
      else if mode = ''active'' then setActivePatroniCluster m (dr_ClusterName m)
      else if mode = ''disabled'' then setDisablePatroniCluster (dr_ClusterName m)
      else pseq (revertExternalService m mode) (Ret None))"

definition changeMode :: "patroni_dr_manager \<Rightarrow> string \<Rightarrow> err option kube" where
  "changeMode m mode =
     pseq (updateExternalService m mode)
     (pbind WaitUntilReconcileIsDone (\<lambda>err. case err of Some e \<Rightarrow> Ret (Some e) | None \<Rightarrow>
      pbind (applyMode m mode) (\<lambda>err. case err of Some e \<Rightarrow> Ret (Some e) | None \<Rightarrow>
      pbind GetCurrentSiteManagerStatus (\<lambda>current.
      pbind (deref current) (\<lambda>status.
      if sm_Mode status = mode \<and> sm_Status status \<noteq> ''done''
      then UpdateSiteManagerStatus mode ''done''
      else Ret None)))))"

definition processRequest :: "patroni_dr_manager \<Rightarrow> string \<Rightarrow> unit kube" where
  "processRequest m mode =
     pbind (changeMode m mode) (\<lambda>err. case err of
       Some _ \<Rightarrow> pseq (UpdateSiteManagerStatus mode ''failed'') (Ret ())
     | None \<Rightarrow> Ret ())"

subsection \<open>The endpoints\<close>

definition sm_getStatus :: "(nat \<times> http_body) kube" where
  "sm_getStatus = pbind GetCurrentSiteManagerStatus (\<lambda>status. Ret (200, StatusBody status))"

text \<open>\<open>body\<close> is what decoding the request's body gives.\<close>

definition processSiteManagerRequest ::
  "string \<Rightarrow> err + sm_status \<Rightarrow> ((nat \<times> http_body) list \<times> string option) kube" where
  "processSiteManagerRequest method body =
     (if method = ''GET'' then pbind sm_getStatus (\<lambda>resp. Ret ([resp], None))
      else if method = ''POST'' then
        (case body of
           Inl e \<Rightarrow> Ret ([(500, Message e)], None)
         | Inr statusRequest \<Rightarrow>
             pbind (UpdateSiteManagerStatus (sm_Mode statusRequest) ''running'') (\<lambda>err.
             pbind sm_getStatus (\<lambda>resp.
             Ret ((case err of Some e \<Rightarrow> [(500, Message e)] | None \<Rightarrow> []) @ [resp],
                  Some (sm_Mode statusRequest)))))
      else Ret ([(200, Message ''Only GET and POST methods are supported.'')], None))"

definition processHealthRequest :: "patroni_dr_manager \<Rightarrow> (nat \<times> http_body) kube" where
  "processHealthRequest m =
     pbind (GetPatroniClusterConfig (PatroniUrl m)) (\<lambda>res. case res of
       Inl _ \<Rightarrow> Ret (200, HealthBody ''down'')
     | Inr config \<Rightarrow>
         pbind (IsPatroniClusterHealthy config) (\<lambda>isHealthy.
         pbind (IsPatroniClusterDegraded config (PgHost m)) (\<lambda>isDegraded.
         pbind GetCurrentCRStatus (\<lambda>current.
         let status0 = (if isHealthy \<and> \<not> isDegraded then ''up'' else ''down'');
             status1 = (if isDegraded then ''degraded'' else status0);
             status2 = (if current \<noteq> ''successful'' then ''degraded'' else status1)
         in Ret (200, HealthBody status2)))))"

subsection \<open>Start-up\<close>

definition operatorName :: string where "operatorName = ''postgres-operator''"

definition getOperatorService :: "string \<Rightarrow> k8s_service" where
  "getOperatorService name =
     \<lparr>svc_Name = name,
      svc_Ports = [\<lparr>sp_Name = ''metrics'', sp_Port = 8383, sp_TargetPort = 8383\<rparr>,
                   \<lparr>sp_Name = ''site-manager'', sp_Port = 8080, sp_TargetPort = 8080\<rparr>,
                   \<lparr>sp_Name = ''web-tls'', sp_Port = 8443, sp_TargetPort = 8443\<rparr>],
      svc_ExternalName = '''', svc_Selector = Some [(''name'', name)], svc_Headless = False, svc_ResourceVersion = ''''\<rparr>"

definition ensureOperatorService :: "err option kube" where
  "ensureOperatorService = Call (KGetService operatorName) (\<lambda>r. case r of
     KService oServ \<Rightarrow>
       if list_ex (\<lambda>port. sp_Name port = ''site-manager'' \<or> sp_Port port = 8080) (svc_Ports oServ) then Ret None
       else k_do (KUpdateService (oServ\<lparr>svc_Ports := svc_Ports oServ
              @ [\<lparr>sp_Name = ''site-manager'', sp_Port = 8080, sp_TargetPort = 8080\<rparr>]\<rparr>))
   | KNotFound _ \<Rightarrow> CreateServiceIfNotExists (getOperatorService operatorName)
   | KErr e \<Rightarrow> Ret (Some e)
   | _ \<Rightarrow> Ret (Some ''unexpected response''))"

text \<open>A switch-over that was running when the operator restarted is marked as failed.\<close>

definition failInterrupted :: "patroni_services \<Rightarrow> unit kube" where
  "failInterrupted cr =
     (if sm_Status (ps_SiteManagerStatus cr) = ''running''
      then pseq (UpdateSiteManagerStatus (sm_Mode (ps_SiteManagerStatus cr)) ''failed'') (Ret ())
      else Ret ())"

end
