(* ===== verification/Recovery_Health.thy ===== *)
theory Recovery_Health
  imports Disaster_Recovery
begin

section \<open>When a Patroni cluster counts as healthy\<close>

text \<open>
  Claims about the checks the disaster recovery manager relies on: what an answer ``healthy'' means in
  terms of the responses of Kubernetes, Patroni and PostgreSQL, and that waiting for a healthy cluster
  ends and demands a row of successful checks.
\<close>

subsection \<open>One check\<close>

lemma arePatroniMembersRunning_iff:
  "arePatroniMembersRunning ms \<longleftrightarrow> (\<forall>mb \<in> set ms. mb_State mb \<in> set patroniRunningState)"
  by (induction ms) auto

lemma isLeaderExist_iff: "isLeaderExist ms \<longleftrightarrow>
    (\<exists>mb \<in> set ms. mb_Role mb = ''leader'' \<or> mb_Role mb = ''standby_leader'' \<and> mb_State mb = ''streaming'')"
  by (induction ms) auto

lemma k_error_None: "k_error r = None \<longleftrightarrow> (\<forall>e. r \<noteq> KErr e \<and> r \<noteq> KNotFound e)"
  by (cases r) auto

text \<open>
  The responses of a successful check: Patroni lists as many members as the custom resource wants,
  all of them in a running state and one of them leading, and the leader has the wanted number of
  streaming replicas.
\<close>

definition healthy_check :: "string \<Rightarrow> string \<Rightarrow> k_trace \<Rightarrow> bool" where
  "healthy_check url host u \<longleftrightarrow> (\<exists>ms cr cr' spec spec' r1 r2 rows.
     u = [(KGetCluster url, KCluster 200 (Some ms)), (KGetCore, KCoreCR cr), (KGetCore, KCoreCR cr'),
          (KPgClient host, r1), (KPgConnect host, r2), (KPgQuery host replicationQuery, KRows rows)]
     \<and> pc_Patroni cr = Some spec \<and> pc_Patroni cr' = Some spec'
     \<and> int (length ms) = Replicas spec \<and> int (length ms) = Replicas spec'
     \<and> (\<forall>mb \<in> set ms. mb_State mb \<in> set patroniRunningState)
     \<and> (\<exists>mb \<in> set ms. mb_Role mb = ''leader'' \<or> mb_Role mb = ''standby_leader'' \<and> mb_State mb = ''streaming'')
     \<and> k_error r1 = None \<and> k_error r2 = None
     \<and> (\<forall>row \<in> set rows. \<exists>t. row = KText t) \<and> Replicas spec' - 1 \<le> int (length rows))"

lemma beh_GetPatroniClusterConfig:
  "beh (GetPatroniClusterConfig url) (Val (Inr ms)) u \<longleftrightarrow>
     u = [(KGetCluster url, KCluster 200 (Some ms))]
   \<or> ms = [] \<and> (\<exists>st body. st \<noteq> 200 \<and> u = [(KGetCluster url, KCluster st body)])" (is "?L \<longleftrightarrow> ?R")
proof
  assume ?L
  then obtain r where u: "u = [(KGetCluster url, r)]"
    by (auto simp: GetPatroniClusterConfig_def beh_Call_iff)
  with \<open>?L\<close> show ?R
    by (cases r) (auto simp: GetPatroniClusterConfig_def split: option.splits if_splits)
next
  assume ?R
  then show ?L by (auto simp: GetPatroniClusterConfig_def)
qed

lemma case_KRows: "(case r of KRows rows \<Rightarrow> P rows | _ \<Rightarrow> False) \<longleftrightarrow> (\<exists>rows. r = KRows rows \<and> P rows)"
  by (cases r) auto

lemma case_KText: "(case row of KScanErr _ \<Rightarrow> False | KText _ \<Rightarrow> True) \<longleftrightarrow> (\<exists>t. row = KText t)"
  by (cases row) auto

lemma beh_isExpectedReplicationCount:
  "beh (isExpectedReplicationCount host n) (Val True) u \<longleftrightarrow>
     (\<exists>r1 r2 rows. u = [(KPgClient host, r1), (KPgConnect host, r2), (KPgQuery host replicationQuery, KRows rows)]
        \<and> k_error r1 = None \<and> k_error r2 = None \<and> (\<forall>row \<in> set rows. \<exists>t. row = KText t) \<and> n \<le> int (length rows))"
    (is "?L \<longleftrightarrow> ?R")
proof
  assume ?L
  then show ?R
    by (auto simp: isExpectedReplicationCount_def k_do_def beh_Call_iff list_all_iff case_KRows case_KText
        split: if_splits)
next
  assume ?R
  then show ?L by (auto simp: isExpectedReplicationCount_def k_do_def list_all_iff case_KText)
qed

lemma beh_GetPatroniCoreCR:
  "beh (pbind GetPatroniCoreCR (\<lambda>res. case res of Inl e \<Rightarrow> h e | Inr cr \<Rightarrow> pbind (deref (pc_Patroni cr)) f)) (Val x) u \<longleftrightarrow>
     (\<exists>cr spec v. u = (KGetCore, KCoreCR cr) # v \<and> pc_Patroni cr = Some spec \<and> beh (f spec) (Val x) v)"
    (is "?L \<longleftrightarrow> ?R") if "\<And>e v. \<not> beh (h e) (Val x) v"
proof
  assume ?L
  then obtain r v where u: "u = (KGetCore, r) # v" and v: "beh (case (case r of KServicesCR cr \<Rightarrow> Inl ''unexpected response''
      | KCoreCR cr \<Rightarrow> Inr cr | KNotFound _ \<Rightarrow> Inr empty_core | KErr e \<Rightarrow> Inl e | _ \<Rightarrow> Inl ''unexpected response'')
      of Inl e \<Rightarrow> h e | Inr cr \<Rightarrow> pbind (deref (pc_Patroni cr)) f) (Val x) v"
    by (auto simp: GetPatroniCoreCR_def beh_Call_iff)
  with that show ?R
    by (cases r) (auto simp: deref_def empty_core_def split: option.splits)
next
  assume ?R
  then show ?L by (auto simp: GetPatroniCoreCR_def deref_def)
qed

lemma beh_IsPatroniClusterHealthy:
  "beh (IsPatroniClusterHealthy ms) (Val True) u \<longleftrightarrow>
     (\<exists>cr spec. u = [(KGetCore, KCoreCR cr)] \<and> pc_Patroni cr = Some spec \<and> int (length ms) = Replicas spec
        \<and> arePatroniMembersRunning ms \<and> isLeaderExist ms)"
  unfolding IsPatroniClusterHealthy_def
  by (subst beh_GetPatroniCoreCR) (auto simp: ifExpectedCountOfMembers_def)

lemma beh_IsPatroniClusterDegraded:
  "beh (IsPatroniClusterDegraded ms host) (Val False) u \<longleftrightarrow>
     (\<exists>cr spec v. u = (KGetCore, KCoreCR cr) # v \<and> pc_Patroni cr = Some spec \<and> int (length ms) = Replicas spec
        \<and> beh (isExpectedReplicationCount host (Replicas spec - 1)) (Val True) v)"
  unfolding IsPatroniClusterDegraded_def
  by (subst beh_GetPatroniCoreCR) (auto simp: ifExpectedCountOfMembers_def beh_pbind)

lemmas healthy_parts = beh_GetPatroniClusterConfig beh_IsPatroniClusterHealthy beh_IsPatroniClusterDegraded
  beh_isExpectedReplicationCount arePatroniMembersRunning_iff isLeaderExist_iff

lemma IsHealthy_iff:
  "beh (IsHealthy url host) (Val True) u \<longleftrightarrow> healthy_check url host u"
proof -
  have *: "beh (pbind (IsPatroniClusterHealthy ms) (\<lambda>h. pbind (IsPatroniClusterDegraded ms host)
        (\<lambda>d. Ret (h \<and> \<not> d)))) (Val True) v \<longleftrightarrow> (\<exists>u2 u3. v = u2 @ u3
      \<and> beh (IsPatroniClusterHealthy ms) (Val True) u2 \<and> beh (IsPatroniClusterDegraded ms host) (Val False) u3)" for ms v
    by (auto simp: beh_pbind) metis+
  have "beh (IsHealthy url host) (Val True) u \<longleftrightarrow> (\<exists>u1 v res. u = u1 @ v
      \<and> beh (GetPatroniClusterConfig url) (Val res) u1
      \<and> beh (case res of Inl _ \<Rightarrow> Ret False | Inr ms \<Rightarrow> pbind (IsPatroniClusterHealthy ms)
           (\<lambda>h. pbind (IsPatroniClusterDegraded ms host) (\<lambda>d. Ret (h \<and> \<not> d)))) (Val True) v)"
    unfolding IsHealthy_def beh_pbind [of "GetPatroniClusterConfig url"] by blast
  also have "\<dots> \<longleftrightarrow> (\<exists>ms u1 u2 u3. u = u1 @ u2 @ u3
      \<and> beh (GetPatroniClusterConfig url) (Val (Inr ms)) u1
      \<and> beh (IsPatroniClusterHealthy ms) (Val True) u2
      \<and> beh (IsPatroniClusterDegraded ms host) (Val False) u3)"
    by (simp add: split_sum_ex *) blast
  also have "\<dots> \<longleftrightarrow> healthy_check url host u" (is "?L \<longleftrightarrow> _")
  proof
    assume ?L
    then show "healthy_check url host u"
      unfolding healthy_parts healthy_check_def by auto
  next
    assume "healthy_check url host u"
    then obtain ms cr cr' spec spec' r1 r2 rows where
      u: "u = [(KGetCluster url, KCluster 200 (Some ms)), (KGetCore, KCoreCR cr), (KGetCore, KCoreCR cr'),
           (KPgClient host, r1), (KPgConnect host, r2), (KPgQuery host replicationQuery, KRows rows)]"
      and h: "pc_Patroni cr = Some spec" "int (length ms) = Replicas spec"
        "arePatroniMembersRunning ms" "isLeaderExist ms"
      and d: "pc_Patroni cr' = Some spec'" "int (length ms) = Replicas spec'" "k_error r1 = None" "k_error r2 = None"
        "\<forall>row \<in> set rows. \<exists>t. row = KText t" "Replicas spec' - 1 \<le> int (length rows)"
      unfolding healthy_check_def arePatroniMembersRunning_iff isLeaderExist_iff by blast
    have "beh (GetPatroniClusterConfig url) (Val (Inr ms)) [(KGetCluster url, KCluster 200 (Some ms))]"
      by (simp add: beh_GetPatroniClusterConfig)
    moreover have "beh (IsPatroniClusterHealthy ms) (Val True) [(KGetCore, KCoreCR cr)]"
      by (simp add: beh_IsPatroniClusterHealthy h)
    moreover have "beh (IsPatroniClusterDegraded ms host) (Val False) [(KGetCore, KCoreCR cr'),
           (KPgClient host, r1), (KPgConnect host, r2), (KPgQuery host replicationQuery, KRows rows)]"
      using d by (simp add: beh_IsPatroniClusterDegraded beh_isExpectedReplicationCount)
    moreover have "u = [(KGetCluster url, KCluster 200 (Some ms))] @ [(KGetCore, KCoreCR cr)] @ [(KGetCore, KCoreCR cr'),
           (KPgClient host, r1), (KPgConnect host, r2), (KPgQuery host replicationQuery, KRows rows)]"
      by (simp add: u)
    ultimately show ?L by blast
  qed
  finally show ?thesis .
qed

text \<open>
  (C19) \<open>IsHealthy\<close> answers true on exactly the responses described by \<open>healthy_check\<close>: a cluster is never
  reported healthy without a leader, with a member that is not running, with a wrong number of
  members, or with fewer streaming replicas than the custom resource asks for.
\<close>

theorem IsHealthy_exactly:
  "beh (IsHealthy url host) (Val True) u \<longleftrightarrow> healthy_check url host u"
  by (rule IsHealthy_iff)

subsection \<open>Waiting\<close>

text \<open>A check either answers or follows a nil pointer.\<close>

lemma IsHealthy_defined: "spec (IsHealthy url host) (\<lambda>out _. out \<noteq> Panicked diverges)"
  by (auto simp: IsHealthy_def GetPatroniClusterConfig_def IsPatroniClusterHealthy_def IsPatroniClusterDegraded_def
      isExpectedReplicationCount_def GetPatroniCoreCR_def k_do_def deref_def nil_deref_def diverges_def spec_simps
      split: sum.split option.split)

text \<open>
  A wait that ends: every round either adds to the row of successful checks or costs one of the allowed
  failures.
\<close>

definition wait_measure :: "health_check \<Rightarrow> int \<Rightarrow> int \<Rightarrow> nat" where
  "wait_measure limits retries failureRetries =
     Suc (nat (RetriesLimit limits)) * nat (FailureRetriesLimit limits - failureRetries)
     + Suc (nat (RetriesLimit limits - retries))"

lemma wait_measure_failure:
  assumes "0 \<le> retries" "retries < RetriesLimit limits" "failureRetries < FailureRetriesLimit limits"
  shows "wait_measure limits 0 (failureRetries + 1) < wait_measure limits retries failureRetries"
proof -
  have "nat (FailureRetriesLimit limits - failureRetries) = Suc (nat (FailureRetriesLimit limits - (failureRetries + 1)))"
    using assms by auto
  moreover have "0 < nat (RetriesLimit limits - retries)" using assms by simp
  ultimately show ?thesis by (simp add: wait_measure_def)
qed

lemma wait_measure_success:
  assumes "0 \<le> retries" "retries < RetriesLimit limits"
  shows "wait_measure limits (retries + 1) failureRetries < wait_measure limits retries failureRetries"
  using assms by (simp add: wait_measure_def)

lemma wait_loop_fuel:
  assumes "0 \<le> retries" "retries \<le> RetriesLimit limits" "0 \<le> failureRetries" "failureRetries \<le> FailureRetriesLimit limits"
    and "wait_measure limits retries failureRetries \<le> fuel" and "fuel \<le> fuel'"
  shows "wait_loop fuel' m limits retries failureRetries = wait_loop fuel m limits retries failureRetries"
    and "spec (wait_loop fuel m limits retries failureRetries) (\<lambda>out _. out \<noteq> Panicked diverges)"
proof -
  have "wait_loop fuel' m limits retries failureRetries = wait_loop fuel m limits retries failureRetries
    \<and> spec (wait_loop fuel m limits retries failureRetries) (\<lambda>out _. out \<noteq> Panicked diverges)"
    using assms
  proof (induction fuel arbitrary: fuel' retries failureRetries)
    case 0
    then show ?case by (simp add: wait_measure_def)
  next
    case (Suc fuel)
    then obtain k where k: "fuel' = Suc k" "fuel \<le> k" by (cases fuel') auto
    show ?case
    proof (cases "retries = RetriesLimit limits \<or> failureRetries = FailureRetriesLimit limits")
      case False
      with Suc.prems have lt: "retries < RetriesLimit limits" "failureRetries < FailureRetriesLimit limits" by auto
      have "wait_measure limits (retries + 1) failureRetries \<le> fuel" "wait_measure limits 0 (failureRetries + 1) \<le> fuel"
        using wait_measure_success [OF Suc.prems(1) lt(1), of failureRetries] wait_measure_failure [OF Suc.prems(1) lt] Suc.prems(5)
        by linarith+
      then have
        "wait_loop k m limits (retries + 1) failureRetries = wait_loop fuel m limits (retries + 1) failureRetries
         \<and> spec (wait_loop fuel m limits (retries + 1) failureRetries) (\<lambda>out _. out \<noteq> Panicked diverges)"
        "wait_loop k m limits 0 (failureRetries + 1) = wait_loop fuel m limits 0 (failureRetries + 1)
         \<and> spec (wait_loop fuel m limits 0 (failureRetries + 1)) (\<lambda>out _. out \<noteq> Panicked diverges)"
        using Suc.prems lt k by (intro Suc.IH; simp)+
      with k False show ?thesis
        by (auto simp: spec_Call intro!: spec_pbindI [OF IsHealthy_defined] cong: if_cong)
    qed (use k in \<open>auto simp: spec_Ret\<close>)
  qed
  then show "wait_loop fuel' m limits retries failureRetries = wait_loop fuel m limits retries failureRetries"
    "spec (wait_loop fuel m limits retries failureRetries) (\<lambda>out _. out \<noteq> Panicked diverges)" by blast+
qed

text \<open>
  (C17) Waiting for a healthy cluster ends.  When the limits of the custom resource are not negative the
  fuel of the model is enough: more of it changes nothing, and the loop never runs out of it, whatever
  the checks answer.
\<close>

theorem waiting_terminates:
  assumes "0 \<le> RetriesLimit limits" and "0 \<le> FailureRetriesLimit limits"
  shows "wait_loop (wait_fuel limits + k) m limits 0 0 = wait_loop (wait_fuel limits) m limits 0 0
    \<and> \<not> beh (wait_loop (wait_fuel limits) m limits 0 0) (Panicked diverges) u"
proof -
  have "wait_measure limits 0 0 \<le> wait_fuel limits"
    by (simp add: wait_measure_def wait_fuel_def)
  then show ?thesis
    using wait_loop_fuel [of 0 limits 0 "wait_fuel limits" "wait_fuel limits + k" m] assms
    by (auto simp: spec_def)
qed

theorem waiting_terminates_witness:
  "\<forall>m u. \<not> beh (wait_loop 12 m \<lparr>RetriesLimit = 3, FailureRetriesLimit = 2, RetriesWaitTimeout = 5\<rparr> 0 0) (Panicked diverges) u"
proof (intro allI)
  fix m u
  show "\<not> beh (wait_loop 12 m \<lparr>RetriesLimit = 3, FailureRetriesLimit = 2, RetriesWaitTimeout = 5\<rparr> 0 0) (Panicked diverges) u"
    using waiting_terminates [of "\<lparr>RetriesLimit = 3, FailureRetriesLimit = 2, RetriesWaitTimeout = 5\<rparr>" 0 m u]
    by (simp add: wait_fuel_def)
qed

text \<open>A row of \<open>n\<close> successful checks, each after a pause.\<close>

fun healthy_rounds :: "patroni_dr_manager \<Rightarrow> int \<Rightarrow> nat \<Rightarrow> k_trace \<Rightarrow> bool" where
  "healthy_rounds m pause 0 u \<longleftrightarrow> u = []"
| "healthy_rounds m pause (Suc n) u \<longleftrightarrow>
     (\<exists>r v w. u = (KSleep pause, r) # v @ w \<and> healthy_check (PatroniUrl m) (PgHost m) v \<and> healthy_rounds m pause n w)"

lemma wait_loop_True:
  assumes "beh (wait_loop fuel m limits retries failureRetries) (Val True) u"
    and "0 \<le> retries" "retries \<le> RetriesLimit limits"
  shows "healthy_rounds m (RetriesWaitTimeout limits) (nat (RetriesLimit limits - retries)) u
    \<or> (\<exists>u1 u2. u = u1 @ u2 \<and> healthy_rounds m (RetriesWaitTimeout limits) (nat (RetriesLimit limits)) u2)"
  using assms
proof (induction fuel arbitrary: retries failureRetries u)
  case (Suc fuel)
  show ?case
  proof (cases "retries = RetriesLimit limits")
    case False
    with Suc.prems obtain r v w healthy where u: "u = (KSleep (RetriesWaitTimeout limits), r) # v @ w"
      and v: "beh (IsHealthy (PatroniUrl m) (PgHost m)) (Val healthy) v"
      and w: "beh (if healthy then wait_loop fuel m limits (retries + 1) failureRetries
               else wait_loop fuel m limits 0 (failureRetries + 1)) (Val True) w"
      by (auto simp: beh_Call_iff beh_pbind split: if_splits)
    have lt: "retries < RetriesLimit limits" using False Suc.prems by simp
    show ?thesis
    proof (cases healthy)
      case True
      then have check: "healthy_check (PatroniUrl m) (PgHost m) v" using v IsHealthy_iff by simp
      have n: "nat (RetriesLimit limits - retries) = Suc (nat (RetriesLimit limits - (retries + 1)))"
        using lt by simp
      from Suc.IH [of "retries + 1" failureRetries w] w True Suc.prems lt
      consider "healthy_rounds m (RetriesWaitTimeout limits) (nat (RetriesLimit limits - (retries + 1))) w"
        | u1 u2 where "w = u1 @ u2" "healthy_rounds m (RetriesWaitTimeout limits) (nat (RetriesLimit limits)) u2"
        by auto
      then show ?thesis
      proof cases
        case 1
        with check u show ?thesis unfolding n by auto
      next
        case 2
        with u have "u = ((KSleep (RetriesWaitTimeout limits), r) # v @ u1) @ u2
            \<and> healthy_rounds m (RetriesWaitTimeout limits) (nat (RetriesLimit limits)) u2" by simp
        then show ?thesis by blast
      qed
    next
      case False
      with Suc.IH [of 0 "failureRetries + 1" w] w Suc.prems
      have "healthy_rounds m (RetriesWaitTimeout limits) (nat (RetriesLimit limits)) w \<or> (\<exists>u1 u2. w = u1 @ u2
          \<and> healthy_rounds m (RetriesWaitTimeout limits) (nat (RetriesLimit limits)) u2)" by simp
      then obtain u1 u2 where "w = u1 @ u2" "healthy_rounds m (RetriesWaitTimeout limits) (nat (RetriesLimit limits)) u2"
        by (metis append_Nil)
      with u have "u = ((KSleep (RetriesWaitTimeout limits), r) # v @ u1) @ u2
          \<and> healthy_rounds m (RetriesWaitTimeout limits) (nat (RetriesLimit limits)) u2" by simp
      then show ?thesis by blast
    qed
  qed (use Suc.prems in auto)
qed simp

lemma wait_loop_True_limit:
  "beh (wait_loop fuel m limits retries failureRetries) (Val True) u \<Longrightarrow> 0 \<le> retries \<Longrightarrow> 0 \<le> RetriesLimit limits"
proof (induction fuel arbitrary: retries failureRetries u)
  case (Suc fuel)
  then show ?case
    using Suc.IH [of "retries + 1"] Suc.IH [of 0]
    by (fastforce simp: beh_Call_iff beh_pbind split: if_splits)
qed simp

lemma GetPostgresServiceCR_Inr:
  "beh GetPostgresServiceCR (Val (Inr cr)) u \<Longrightarrow>
     u = [(KGetServices, KServicesCR cr)] \<or> cr = empty_services \<and> (\<exists>e. u = [(KGetServices, KNotFound e)])"
proof -
  assume b: "beh GetPostgresServiceCR (Val (Inr cr)) u"
  then obtain r where "u = [(KGetServices, r)]" by (auto simp: GetPostgresServiceCR_def beh_Call_iff)
  with b show "?thesis" by (cases r) (simp_all add: GetPostgresServiceCR_def)
qed

lemma deref_returns: "beh (deref p) (Val x) u \<longleftrightarrow> p = Some x \<and> u = []"
  by (auto simp: deref_def split: option.split)

definition waited_healthy :: "patroni_dr_manager \<Rightarrow> k_trace \<Rightarrow> bool" where
  "waited_healthy m u \<longleftrightarrow> (\<exists>cr sm limits u1 u2. u = (KGetServices, KServicesCR cr) # u1 @ u2
     \<and> ps_SiteManager cr = Some sm \<and> StandbyClusterHealthCheck sm = Some limits
     \<and> healthy_rounds m (RetriesWaitTimeout limits) (nat (RetriesLimit limits)) u2)"

lemma waitForClusterHealthy_True:
  assumes "beh (waitForClusterHealthy m) (Val (Inr True)) u"
  shows "waited_healthy m u"
proof -
  from assms obtain cr sm limits u0 w where cr: "beh GetPostgresServiceCR (Val (Inr cr)) u0" and u: "u = u0 @ w"
    and sm: "ps_SiteManager cr = Some sm" "StandbyClusterHealthCheck sm = Some limits"
    and w: "beh (wait_loop (wait_fuel limits) m limits 0 0) (Val True) w"
    by (auto simp: waitForClusterHealthy_def beh_ptry beh_pbind deref_returns)
  have u0: "u0 = [(KGetServices, KServicesCR cr)]"
    using GetPostgresServiceCR_Inr [OF cr] sm by (auto simp: empty_services_def)
  obtain u1 u2 where "w = u1 @ u2" "healthy_rounds m (RetriesWaitTimeout limits) (nat (RetriesLimit limits)) u2"
    using wait_loop_True [OF w] wait_loop_True_limit [OF w] by (metis append_Nil diff_zero order_refl)
  with u u0 sm show ?thesis unfolding waited_healthy_def by auto
qed

text \<open>
  (C18) A wait that reports a healthy cluster ends with a row of successful checks, as many as the custom
  resource asks for: one success after a failure is not enough, and with a negative limit the wait never
  reports success.
\<close>

theorem waiting_needs_a_row_of_successes:
  assumes "beh (wait_loop fuel m limits 0 0) (Val True) u"
  shows "0 \<le> RetriesLimit limits \<and> (\<exists>u1 u2. u = u1 @ u2
    \<and> healthy_rounds m (RetriesWaitTimeout limits) (nat (RetriesLimit limits)) u2)"
  using wait_loop_True [OF assms] wait_loop_True_limit [OF assms] by (metis append_Nil diff_zero order_refl)

definition calm_limits :: health_check where
  "calm_limits = \<lparr>RetriesLimit = 2, FailureRetriesLimit = 3, RetriesWaitTimeout = 5\<rparr>"

definition sample_manager :: patroni_dr_manager where
  "sample_manager = \<lparr>PatroniUrl = ''patroni'', PgHost = ''pg'', dr_ClusterName = ''c'', dr_namespace = ''ns''\<rparr>"

definition sample_core :: patroni_core where
  "sample_core = \<lparr>pc_Name = ''core'', pc_UID = ''u'', pc_Patroni =
     Some (empty_patroni\<lparr>Replicas := 2, ClusterName := ''c'', DcsType := ''kubernetes'', DockerImage := ''pg''\<rparr>), pc_Conditions = [\<lparr>ct_Type = ''Successful'', ct_Status = True, ct_Reason = '''', ct_Message = ''''\<rparr>],
     pc_ResourceVersion = ''1'', pc_SpecHash = ''h'', pc_RunTestsTime = '''', pc_IntegrationTests = False,
     pc_PgBackRest = None, pc_Upgrade = None, pc_Ldap = None, pc_TlsEnabled = None\<rparr>"

definition sample_services :: patroni_services where
  "sample_services = \<lparr>ps_Name = ''services'', ps_SiteManager = Some \<lparr>ActiveClusterHost = ''other'',
     ActiveClusterPort = 5432, StandbyClusterHealthCheck = Some calm_limits\<rparr>,
     ps_SiteManagerStatus = \<lparr>sm_Mode = ''standby'', sm_Status = ''running''\<rparr>, ps_Conditions =
       [\<lparr>ct_Type = ''Successful'', ct_Status = True, ct_Reason = '''', ct_Message = ''''\<rparr>],
     ps_ResourceVersion = ''1'', ps_SpecHash = ''0'', ps_RunTestsTime = '''', ps_Spec = empty_spec\<rparr>"

text \<open>A cluster of two members that is up whenever it is asked.\<close>

fun steady :: "k_trace \<Rightarrow> k_call \<Rightarrow> k_resp" where
  "steady t (KGetCluster _) = KCluster 200 (Some [\<lparr>mb_Role = ''leader'', mb_State = ''running''\<rparr>,
     \<lparr>mb_Role = ''replica'', mb_State = ''streaming''\<rparr>])"
| "steady t KGetCore = KCoreCR sample_core"
| "steady t KGetServices = KServicesCR sample_services"
| "steady t (KPgQuery _ _) = KRows [KText [Some ''42'']]"
| "steady t (KGetService n) = KService \<lparr>svc_Name = n, svc_Ports = [], svc_ExternalName = '''', svc_Selector = None,
     svc_Headless = False, svc_ResourceVersion = ''1''\<rparr>"
| "steady t KListStatefulSets = KStatefulSets [\<lparr>ss_Name = ''pg-c-node1'', ss_Replicas = 0\<rparr>]"
| "steady t _ = KOk"

lemmas steady_simps = sample_core_def sample_services_def calm_limits_def sample_manager_def
  IsHealthy_def GetPatroniClusterConfig_def IsPatroniClusterHealthy_def IsPatroniClusterDegraded_def
  isExpectedReplicationCount_def GetPatroniCoreCR_def GetPostgresServiceCR_def k_do_def deref_def
  patroniRunningState_def ifExpectedCountOfMembers_def

lemma steady_wait: "fst (run steady (wait_loop 12 sample_manager calm_limits 0 0) []) = Val True"
  by (simp add: steady_simps numeral_eq_Suc)

theorem waiting_needs_a_row_of_successes_witness:
  "\<exists>u1 u2. snd (run steady (wait_loop 12 sample_manager calm_limits 0 0) []) = u1 @ u2
     \<and> healthy_rounds sample_manager 5 2 u2"
proof -
  have "beh (wait_loop 12 sample_manager calm_limits 0 0) (Val True)
      (snd (run steady (wait_loop 12 sample_manager calm_limits 0 0) []))"
    using steady_wait by (metis run_beh)
  from waiting_needs_a_row_of_successes [OF this] show ?thesis
    by (simp add: calm_limits_def)
qed

end
