(* ===== verification/Kube_Calls.thy ===== *)
theory Kube_Calls
  imports Operator_Kube
begin

section \<open>Rules for the operator's programs\<close>

text \<open>What the calls of the Kubernetes helpers, polls and reads of resources do, for all programs of the operator.\<close>

subsection \<open>Calls of the operator's programs\<close>

lemma kube_calls_base [emits_intros]:
  "F c \<Longrightarrow> emits (all_calls F) (k_do c)"
  "emits (all_calls F) (deref p)"
  by (auto simp: k_do_def deref_def emits_def spec_simps split: option.split)

lemma kube_calls_poll [emits_intros]:
  assumes "emits (all_calls F) c" and "F KTick"
  shows "emits (all_calls F) (poll n c)"
proof (induction n)
  case 0
  show ?case
    by (subst poll.simps)
      (use assms in \<open>auto intro!: calls.emits_rules calls.emits_Call split: sum.split bool.split\<close>)
next
  case (Suc n)
  then show ?case
    by (subst poll.simps)
      (use assms in \<open>auto intro!: calls.emits_rules calls.emits_Call split: sum.split bool.split\<close>)
qed

lemma poll_unfold:
  "poll 0 c = pbind c (\<lambda>res. case res of Inl e \<Rightarrow> Ret (Some e) | Inr True \<Rightarrow> Ret None
     | Inr False \<Rightarrow> Call KTick (\<lambda>r. Ret (Some ''context deadline exceeded'')))"
  "poll (Suc n) c = pbind c (\<lambda>res. case res of Inl e \<Rightarrow> Ret (Some e) | Inr True \<Rightarrow> Ret None
     | Inr False \<Rightarrow> Call KTick (\<lambda>r.
       if k_error r \<noteq> None then Ret (Some ''context deadline exceeded'') else poll n c))"
  by (subst poll.simps, simp)+

lemma poll_None:
  assumes "beh (poll n c) (Val None) u"
  shows "\<exists>u1 u2. u = u1 @ u2 \<and> beh c (Val (Inr True)) u2"
  using assms
proof (induction n arbitrary: u)
  case 0
  then obtain u1 u2 res where u: "u = u1 @ u2" and c: "beh c (Val res) u1"
    and rest: "beh (case res of Inl e \<Rightarrow> Ret (Some e) | Inr True \<Rightarrow> Ret None | Inr False \<Rightarrow> Call KTick (\<lambda>r.
       Ret (Some ''context deadline exceeded''))) (Val None) u2"
    unfolding poll_unfold by (auto simp: beh_pbind)
  from rest have "res = Inr True \<and> u2 = []"
    by (cases res) (auto simp: beh_Call_iff split: bool.splits)
  with u c show ?case by (auto intro: exI [of _ "[]"])
next
  case (Suc n)
  from Suc.prems obtain u1 u2 res where u: "u = u1 @ u2" and c: "beh c (Val res) u1"
    and rest: "beh (case res of Inl e \<Rightarrow> Ret (Some e) | Inr True \<Rightarrow> Ret None | Inr False \<Rightarrow> Call KTick (\<lambda>r.
       if k_error r \<noteq> None then Ret (Some ''context deadline exceeded'') else poll n c)) (Val None) u2"
    unfolding poll_unfold beh_pbind by blast
  show ?case
  proof (cases res)
    case (Inr b)
    show ?thesis
    proof (cases b)
      case True
      with u c rest Inr show ?thesis by (auto intro: exI [of _ "[]"])
    next
      case False
      with rest Inr obtain r v where v: "u2 = (KTick, r) # v" and "beh (poll n c) (Val None) v"
        by (auto simp: beh_Call_iff split: if_splits)
      from Suc.IH [OF this(2)] obtain v1 v2 where "v = v1 @ v2" "beh c (Val (Inr True)) v2" by blast
      with u v have "u = (u1 @ (KTick, r) # v1) @ v2 \<and> beh c (Val (Inr True)) v2" by simp
      then show ?thesis by blast
    qed
  qed (use rest in simp)
qed

lemma kube_calls_reads:
  "F KGetServices \<Longrightarrow> emits (all_calls F) GetPostgresServiceCR"
  "F KGetCore \<Longrightarrow> emits (all_calls F) GetPatroniCoreCR"
  "F (KGetService n) \<Longrightarrow> emits (all_calls F) (GetService n)"
  "F (KGetCluster url) \<Longrightarrow> emits (all_calls F) (GetPatroniClusterConfig url)"
  by (auto simp: GetPostgresServiceCR_def GetPatroniCoreCR_def GetService_def GetPatroniClusterConfig_def
      emits_def spec_simps)

lemmas kube_rules = calls.emits_rules calls.emits_Call kube_calls_base kube_calls_poll kube_calls_reads

fun scales :: "k_call \<Rightarrow> bool" where
  "scales (KUpdateStatefulSet _) = True"
| "scales _ = False"

lemma k_do_done: "beh (k_do c) (Val None) u \<Longrightarrow> \<exists>r. (c, r) \<in> set u \<and> k_error r = None"
  by (auto simp: k_do_def beh_Call_iff)

end
