(* ===== verification/Recovery_Modes.thy ===== *)
theory Recovery_Modes
  imports Recovery_Health Kube_Calls
begin

section \<open>Changing the mode of a cluster\<close>

text \<open>
  Claims about \<^verbatim>\<open>changeMode\<close> and \<^verbatim>\<open>processRequest\<close> of \<^verbatim>\<open>disasterrecovery/patroni.go\<close>: in which order the
  resources are changed, and what a status that the site manager reads promises about the cluster.
\<close>

text \<open>Programs that do not write the status of the site manager.\<close>

definition no_status :: "k_call \<Rightarrow> bool" where
  "no_status c \<longleftrightarrow> (\<forall>cr. c \<noteq> KUpdateStatus cr)"

lemma no_status_simps [simp]:
  "\<not> no_status (KUpdateStatus cr)" "no_status KGetServices" "no_status KGetCore" "no_status (KUpdateCore c)"
  "no_status (KGetService n)" "no_status (KUpdateService s)" "no_status (KCreateService s)" "no_status KListStatefulSets"
  "no_status (KUpdateStatefulSet ss)" "no_status (KGetCluster url)" "no_status (KPatch url p)"
  "no_status (KRestartPending url)" "no_status (KPgClient h)" "no_status (KPgConnect h)" "no_status (KPgQuery h q)"
  "no_status (KPgExec h q)" "no_status (KSleep k)" "no_status KTick"
  by (simp_all add: no_status_def)



lemma IsHealthy_no_status: "emits (all_calls no_status) (IsHealthy url host)"
  unfolding IsHealthy_def IsPatroniClusterHealthy_def IsPatroniClusterDegraded_def isExpectedReplicationCount_def
  by (auto intro!: kube_rules)

lemma wait_loop_no_status: "emits (all_calls no_status) (wait_loop fuel m limits retries failureRetries)"
  by (induction fuel arbitrary: retries failureRetries) (auto intro!: kube_rules IsHealthy_no_status)

lemma waitForClusterHealthy_no_status: "emits (all_calls no_status) (waitForClusterHealthy m)"
  unfolding waitForClusterHealthy_def by (auto intro!: kube_rules wait_loop_no_status)

lemma reconcile_no_status:
  "emits (all_calls no_status) WaitUntilReconcileIsDone" "emits (all_calls no_status) core_WaitUntilReconcileIsDone"
  unfolding WaitUntilReconcileIsDone_def core_WaitUntilReconcileIsDone_def reconcile_state_def
  by (auto intro!: kube_rules split: list.split)

lemma updateExternalService_no_status: "emits (all_calls no_status) (updateExternalService m mode)"
  unfolding updateExternalService_def redirectExternal_def UpdateService_def
  by (auto intro!: kube_rules)

lemma updateCoreAndWait_no_status: "emits (all_calls no_status) (updateCoreAndWait cr)"
  unfolding updateCoreAndWait_def UpdatePatroniCore_def
  by (auto intro!: kube_rules reconcile_no_status)

lemma UpdatePatroniReplicas_no_status: "emits (all_calls no_status) (UpdatePatroniReplicas n cl)"
  unfolding UpdatePatroniReplicas_def
  by (auto intro!: kube_rules split: k_resp.split)

lemma processStandByMode_no_status: "emits (all_calls no_status) (processStandByMode m healthy)"
proof -
  have "emits (all_calls no_status) (TerminateActiveConnections host)" for host
    unfolding TerminateActiveConnections_def by (auto intro!: kube_rules)
  moreover have "emits (all_calls no_status) (addStandbyClusterConfigInCR m)"
    unfolding addStandbyClusterConfigInCR_def setStandbyConfig_def
    by (auto intro!: kube_rules updateCoreAndWait_no_status)
  ultimately show ?thesis
    unfolding processStandByMode_def
    by (intro kube_rules reconcile_no_status waitForClusterHealthy_no_status) auto
qed

lemma setActivePatroniCluster_no_status: "emits (all_calls no_status) (setActivePatroniCluster m cl)"
proof -
  have "emits (all_calls no_status) (clearStandbyClusterConfigInCR m)"
    unfolding clearStandbyClusterConfigInCR_def setStandbyConfig_def
    by (auto intro!: kube_rules updateCoreAndWait_no_status)
  moreover have "emits (all_calls no_status) (ClearStandbyClusterConfigurationConfigMap url)" for url
    unfolding ClearStandbyClusterConfigurationConfigMap_def UpdatePatroniConfig_def
    by (auto intro!: kube_rules)
  ultimately show ?thesis
    unfolding setActivePatroniCluster_def
    by (intro kube_rules UpdatePatroniReplicas_no_status waitForClusterHealthy_no_status) auto
qed

lemma IsHealthyWithTimeout_no_status: "emits (all_calls no_status) (IsHealthyWithTimeout n url host)"
  unfolding IsHealthyWithTimeout_def by (auto intro!: kube_rules IsHealthy_no_status)

lemma applyMode_no_status: "emits (all_calls no_status) (applyMode m mode)"
  unfolding applyMode_def setDisablePatroniCluster_def revertExternalService_def
  by (intro kube_rules IsHealthyWithTimeout_no_status processStandByMode_no_status setActivePatroniCluster_no_status
      updateExternalService_no_status UpdatePatroniReplicas_no_status) auto

subsection \<open>What the status promises\<close>

lemma UpdateSiteManagerStatus_writes:
  assumes "beh (UpdateSiteManagerStatus mode st) out u" and "(KUpdateStatus cr, r) \<in> set u"
  shows "ps_SiteManagerStatus cr = \<lparr>sm_Mode = mode, sm_Status = st\<rparr>"
proof -
  define F where "F c \<longleftrightarrow> (\<forall>cr. c = KUpdateStatus cr \<longrightarrow> ps_SiteManagerStatus cr = \<lparr>sm_Mode = mode, sm_Status = st\<rparr>)" for c
  have "emits (all_calls F) (UpdateSiteManagerStatus mode st)"
    unfolding UpdateSiteManagerStatus_def by (auto intro!: kube_rules simp: F_def)
  from emitsD [OF this assms(1)] assms(2) show ?thesis by (auto simp: all_calls_set F_def)
qed

lemma processStandByMode_True:
  assumes "beh (processStandByMode m healthy) (Val (Inr True)) u"
  shows "\<exists>u1 u2. u = u1 @ u2 \<and> waited_healthy m u2"
proof -
  from assms obtain u1 u2 u3 v where u: "u = u1 @ u2 @ u3 @ v"
    and "beh (pbind (waitForClusterHealthy m) (\<lambda>res. case res of
       Inl e \<Rightarrow> Ret (Inl e)
     | Inr healthy' \<Rightarrow> if \<not> healthy' then Ret (Inr False) else Ret (Inr True))) (Val (Inr True)) v"
    unfolding processStandByMode_def beh_err_steps by auto
  then obtain v1 v2 res where "beh (waitForClusterHealthy m) (Val res) v1" "v = v1 @ v2"
    "beh (case res of Inl e \<Rightarrow> Ret (Inl e)
       | Inr healthy' \<Rightarrow> if \<not> healthy' then Ret (Inr False) else Ret (Inr True)) (Val (Inr True)) v2"
    unfolding beh_pbind by blast
  then have "beh (waitForClusterHealthy m) (Val (Inr True)) v"
    by (cases res) (simp_all split: if_splits)
  then show ?thesis using u waitForClusterHealthy_True by (metis append.assoc)
qed

lemma applyMode_standby:
  assumes "beh (applyMode m ''standby'') (Val None) u"
  shows "\<exists>u1 u2. u = u1 @ u2 \<and> waited_healthy m u2"
proof -
  from assms obtain u0 v healthy where u: "u = u0 @ v" and "beh (poll 180 (processStandByMode m healthy)) (Val None) v"
    by (auto simp: applyMode_def beh_pbind)
  then obtain v1 v2 where "v = v1 @ v2" "waited_healthy m v2"
    by (metis poll_None processStandByMode_True append.assoc)
  with u have "u = (u0 @ v1) @ v2 \<and> waited_healthy m v2" by simp
  then show ?thesis by blast
qed

lemma changeMode_status:
  assumes "beh (changeMode m mode) out u" and w: "(KUpdateStatus cr, r) \<in> set u"
  shows "\<exists>u1 u2 u3. u = u1 @ u2 @ u3 \<and> beh (applyMode m mode) (Val None) u2
    \<and> all_calls no_status (u1 @ u2) \<and> ps_SiteManagerStatus cr = \<lparr>sm_Mode = mode, sm_Status = ''done''\<rparr>"
proof -
  note no = no_status_simps(1)
  let ?report = "\<lambda>status. if sm_Mode status = mode \<and> sm_Status status \<noteq> ''done''
      then UpdateSiteManagerStatus mode ''done'' else Ret None"
  obtain u1 v where u: "u = u1 @ v" "all_calls no_status u1"
    and v: "beh (pbind WaitUntilReconcileIsDone (\<lambda>err. case err of Some e \<Rightarrow> Ret (Some e) | None \<Rightarrow>
      pbind (applyMode m mode) (\<lambda>err. case err of Some e \<Rightarrow> Ret (Some e) | None \<Rightarrow>
      pbind GetCurrentSiteManagerStatus (\<lambda>current. pbind (deref current) ?report)))) out v" "(KUpdateStatus cr, r) \<in> set v"
    by (rule beh_skip [OF assms(1) [unfolded changeMode_def] w updateExternalService_no_status no])
  obtain u2 v2 where v2: "v = u2 @ v2" "all_calls no_status u2"
    and v2': "beh (pbind (applyMode m mode) (\<lambda>err. case err of Some e \<Rightarrow> Ret (Some e) | None \<Rightarrow>
      pbind GetCurrentSiteManagerStatus (\<lambda>current. pbind (deref current) ?report))) out v2" "(KUpdateStatus cr, r) \<in> set v2"
    by (rule beh_skip_err [OF v reconcile_no_status(1) no])
  obtain u3 v3 where v3: "v2 = u3 @ v3" "beh (applyMode m mode) (Val None) u3" "all_calls no_status u3"
    and v3': "beh (pbind GetCurrentSiteManagerStatus (\<lambda>current. pbind (deref current) ?report)) out v3"
      "(KUpdateStatus cr, r) \<in> set v3"
    by (rule beh_skip_err [OF v2' applyMode_no_status no])
  have "emits (all_calls no_status) GetCurrentSiteManagerStatus"
    unfolding GetCurrentSiteManagerStatus_def by (intro kube_rules) auto
  from v3' this no obtain v4 and current :: "sm_status option" where
    v4: "beh (pbind (deref current) ?report) out v4" "(KUpdateStatus cr, r) \<in> set v4"
    by (rule beh_skip)
  obtain v5 and status :: sm_status where "beh (?report status) out v5" "(KUpdateStatus cr, r) \<in> set v5"
    by (rule beh_skip [where F = no_status, OF v4 kube_calls_base(2) no])
  then have "ps_SiteManagerStatus cr = \<lparr>sm_Mode = mode, sm_Status = ''done''\<rparr>"
    using UpdateSiteManagerStatus_writes by (auto split: if_splits)
  moreover have "u = (u1 @ u2) @ u3 @ v3 \<and> all_calls no_status ((u1 @ u2) @ u3)"
    using u v2 v3 by simp
  ultimately show ?thesis using v3(2) by blast
qed

text \<open>
  (C1) The status ``done'' for the mode standby is a promise: \<open>processRequest\<close> writes it only after a wait
  that ended with the row of successful health checks the custom resource asks for, and on the way
  there nothing else was written to the status.
\<close>

theorem standby_done_only_when_healthy:
  assumes "beh (processRequest m ''standby'') out u" and "(KUpdateStatus cr, r) \<in> set u"
    and "sm_Status (ps_SiteManagerStatus cr) = ''done''"
  shows "\<exists>u1 u2 u3. u = u1 @ u2 @ u3 \<and> waited_healthy m u2 \<and> all_calls no_status (u1 @ u2)
    \<and> ps_SiteManagerStatus cr = \<lparr>sm_Mode = ''standby'', sm_Status = ''done''\<rparr>"
proof -
  have "\<exists>o1 v w. u = v @ w \<and> beh (changeMode m ''standby'') o1 v \<and> (KUpdateStatus cr, r) \<in> set v"
  proof -
    from assms(1) consider v w err where "u = v @ w" "beh (changeMode m ''standby'') (Val err) v"
        "beh (case err of Some _ \<Rightarrow> pseq (UpdateSiteManagerStatus ''standby'' ''failed'') (Ret ()) | None \<Rightarrow> Ret ()) out w"
      | e where "beh (changeMode m ''standby'') (Panicked e) u"
      unfolding processRequest_def beh_pbind by blast
    then show ?thesis
    proof cases
      case 1
      have "(KUpdateStatus cr, r) \<notin> set w"
        using 1(3) assms(3) by (auto simp: beh_pbind dest: UpdateSiteManagerStatus_writes split: option.splits)
      with 1 assms(2) show ?thesis by auto
    qed (use assms(2) in \<open>metis append_Nil2\<close>)
  qed
  then obtain o1 v w where v: "u = v @ w" "beh (changeMode m ''standby'') o1 v" "(KUpdateStatus cr, r) \<in> set v" by blast
  from changeMode_status [OF v(2,3)] obtain u1 u2 u3 where
    c: "v = u1 @ u2 @ u3" "beh (applyMode m ''standby'') (Val None) u2" "all_calls no_status (u1 @ u2)"
      "ps_SiteManagerStatus cr = \<lparr>sm_Mode = ''standby'', sm_Status = ''done''\<rparr>" by blast
  from applyMode_standby [OF c(2)] obtain w1 w2 where "u2 = w1 @ w2" "waited_healthy m w2" by blast
  with v c have "u = (u1 @ w1) @ w2 @ u3 @ w \<and> waited_healthy m w2 \<and> all_calls no_status ((u1 @ w1) @ w2)"
    by simp
  with c(4) show ?thesis by blast
qed

text \<open>Evaluation of polls that succeed at once.\<close>

lemma run_poll:
  assumes "fst (run E c t) = Val (Inr True)"
  shows "run E (pbind (poll n c) f) t = apsnd (append (snd (run E c t))) (run E (f None) (t @ snd (run E c t)))"
    and "run E (poll n c) t = (Val None, snd (run E c t))"
proof -
  have p: "run E (poll n c) t = (Val None, snd (run E c t))"
    by (subst poll.simps) (simp add: run_pbind_Val [OF assms])
  then show "run E (poll n c) t = (Val None, snd (run E c t))" .
  show "run E (pbind (poll n c) f) t = apsnd (append (snd (run E c t))) (run E (f None) (t @ snd (run E c t)))"
    using p by (simp add: run_pbind_Val)
qed

lemma steady_standby:
  "fst (run steady (processRequest sample_manager ''standby'') []) = Val ()"
  "(KUpdateStatus (sample_services\<lparr>ps_SiteManagerStatus := \<lparr>sm_Mode = ''standby'', sm_Status = ''done''\<rparr>\<rparr>), KOk)
     \<in> set (snd (run steady (processRequest sample_manager ''standby'') []))"
  by (simp_all add: processRequest_def changeMode_def applyMode_def updateExternalService_def redirectExternal_def
      GetService_def UpdateService_def WaitUntilReconcileIsDone_def core_WaitUntilReconcileIsDone_def reconcile_state_def
      run_poll IsHealthyWithTimeout_def processStandByMode_def TerminateActiveConnections_def addStandbyClusterConfigInCR_def
      setStandbyConfig_def updateCoreAndWait_def UpdatePatroniCore_def waitForClusterHealthy_def wait_fuel_def
      GetCurrentSiteManagerStatus_def UpdateSiteManagerStatus_def steady_simps ptry_def numeral_eq_Suc to_lower_def)

theorem standby_done_only_when_healthy_witness:
  "\<exists>u1 u2 u3. snd (run steady (processRequest sample_manager ''standby'') []) = u1 @ u2 @ u3 \<and> waited_healthy sample_manager u2"
  using standby_done_only_when_healthy [OF run_beh steady_standby(2)] by auto

text \<open>A cluster whose Patroni does not answer.\<close>

fun silent_patroni :: "string \<Rightarrow> k_trace \<Rightarrow> k_call \<Rightarrow> k_resp" where
  "silent_patroni mode t (KGetCluster _) = KErr ''connection refused''"
| "silent_patroni mode t KGetServices =
     KServicesCR (sample_services\<lparr>ps_SiteManagerStatus := \<lparr>sm_Mode = mode, sm_Status = ''running''\<rparr>\<rparr>)"
| "silent_patroni mode t c = steady t c"

definition reported_done :: "string \<Rightarrow> k_trace \<Rightarrow> bool" where
  "reported_done mode u \<longleftrightarrow> (\<exists>cr. (KUpdateStatus cr, KOk) \<in> set u
     \<and> ps_SiteManagerStatus cr = \<lparr>sm_Mode = mode, sm_Status = ''done''\<rparr>)"

lemmas mode_defs = processRequest_def changeMode_def applyMode_def updateExternalService_def redirectExternal_def
  GetService_def UpdateService_def WaitUntilReconcileIsDone_def core_WaitUntilReconcileIsDone_def reconcile_state_def
  setActivePatroniCluster_def clearStandbyClusterConfigInCR_def setStandbyConfig_def updateCoreAndWait_def
  UpdatePatroniCore_def ClearStandbyClusterConfigurationConfigMap_def UpdatePatroniConfig_def UpdatePatroniReplicas_def
  waitForClusterHealthy_def wait_fuel_def GetCurrentSiteManagerStatus_def UpdateSiteManagerStatus_def
  revertExternalService_def

lemma silent_active:
  "fst (run (silent_patroni ''active'') (processRequest sample_manager ''active'') []) = Val ()"
  "list_ex (\<lambda>(c, r). c = KUpdateStatus (sample_services\<lparr>ps_SiteManagerStatus := \<lparr>sm_Mode = ''active'', sm_Status = ''done''\<rparr>\<rparr>)
      \<and> r = KOk) (snd (run (silent_patroni ''active'') (processRequest sample_manager ''active'') []))"
  "{r. \<exists>url. (KGetCluster url, r) \<in> set (snd (run (silent_patroni ''active'') (processRequest sample_manager ''active'') []))}
     = {KErr ''connection refused''}"
  by (auto simp: mode_defs run_poll steady_simps ptry_def numeral_eq_Suc to_lower_def)

lemma silent_unknown:
  "fst (run (silent_patroni ''offline'') (processRequest sample_manager ''offline'') []) = Val ()"
  "list_ex (\<lambda>(c, r). c = KUpdateStatus (sample_services\<lparr>ps_SiteManagerStatus := \<lparr>sm_Mode = ''offline'', sm_Status = ''done''\<rparr>\<rparr>)
      \<and> r = KOk) (snd (run (silent_patroni ''offline'') (processRequest sample_manager ''offline'') []))"
  by (simp_all add: mode_defs run_poll steady_simps ptry_def numeral_eq_Suc to_lower_def)

lemma reported_doneI:
  "list_ex (\<lambda>(c, r). c = KUpdateStatus (cr\<lparr>ps_SiteManagerStatus := \<lparr>sm_Mode = mode, sm_Status = ''done''\<rparr>\<rparr>) \<and> r = KOk) u
   \<Longrightarrow> reported_done mode u"
  unfolding list_ex_iff reported_done_def by fastforce

text \<open>
  The same promise is not kept for the mode active: there is a run in which Patroni answers no health
  check and the status ``done'' for the mode active is written all the same, because
  \<open>setActivePatroniCluster\<close> returns a nil error when the wait ends without success.
\<close>

theorem active_done_while_unhealthy:
  "\<exists>u. beh (processRequest sample_manager ''active'') (Val ()) u \<and> reported_done ''active'' u
     \<and> {r. \<exists>url. (KGetCluster url, r) \<in> set u} = {KErr ''connection refused''}"
proof (intro exI conjI)
  let ?u = "snd (run (silent_patroni ''active'') (processRequest sample_manager ''active'') [])"
  show "beh (processRequest sample_manager ''active'') (Val ()) ?u"
    using silent_active(1) run_beh by metis
  show "reported_done ''active'' ?u" using silent_active(2) by (rule reported_doneI)
  show "{r. \<exists>url. (KGetCluster url, r) \<in> set ?u} = {KErr ''connection refused''}" by (rule silent_active(3))
qed

text \<open>
  A mode the operator does not know is reported as done as well: the default branch of the
  \<open>switch\<close> logs an error and goes on.
\<close>

theorem unknown_mode_is_reported_done:
  "\<exists>u. beh (processRequest sample_manager ''offline'') (Val ()) u \<and> reported_done ''offline'' u"
proof (intro exI conjI)
  let ?u = "snd (run (silent_patroni ''offline'') (processRequest sample_manager ''offline'') [])"
  show "beh (processRequest sample_manager ''offline'') (Val ()) ?u"
    using silent_unknown(1) run_beh by metis
  show "reported_done ''offline'' ?u" using silent_unknown(2) by (rule reported_doneI)
qed

subsection \<open>The order of a switch-over\<close>

lemma updateCoreAndWait_no_scale: "emits (all_calls (\<lambda>c. \<not> scales c)) (updateCoreAndWait cr)"
  unfolding updateCoreAndWait_def UpdatePatroniCore_def core_WaitUntilReconcileIsDone_def reconcile_state_def
  by (auto intro!: kube_rules split: list.split)

lemma ClearStandby_no_scale: "emits (all_calls (\<lambda>c. \<not> scales c)) (ClearStandbyClusterConfigurationConfigMap url)"
  unfolding ClearStandbyClusterConfigurationConfigMap_def UpdatePatroniConfig_def by (auto intro!: kube_rules)

lemma clearCR_no_scale: "emits (all_calls (\<lambda>c. \<not> scales c)) (clearStandbyClusterConfigInCR m)"
  unfolding clearStandbyClusterConfigInCR_def setStandbyConfig_def
  by (auto intro!: kube_rules updateCoreAndWait_no_scale)

lemma poll_write_done:
  assumes "beh (poll n (pbind (k_do c) (\<lambda>err. Ret (f err)))) (Val None) u" and "\<And>e. f (Some e) \<noteq> Inr True"
  shows "\<exists>r. (c, r) \<in> set u \<and> k_error r = None"
proof -
  from poll_None [OF assms(1)] obtain u1 u2 where u: "u = u1 @ u2"
    and "beh (pbind (k_do c) (\<lambda>err. Ret (f err))) (Val (Inr True)) u2" by blast
  then obtain err where "beh (k_do c) (Val err) u2" "f err = Inr True"
    by (auto simp: beh_pbind)
  with assms(2) have "beh (k_do c) (Val None) u2" by (cases err) auto
  from k_do_done [OF this] u show ?thesis by auto
qed

definition standby_cleared :: "patroni_core \<Rightarrow> bool" where
  "standby_cleared cr \<longleftrightarrow> (\<exists>spec. pc_Patroni cr = Some spec \<and> StandbyCluster spec = Some ('''', 0))"

lemma clearCR_done:
  assumes "beh (clearStandbyClusterConfigInCR m) (Val None) u"
  shows "\<exists>cr r. (KUpdateCore cr, r) \<in> set u \<and> k_error r = None \<and> standby_cleared cr"
proof -
  from assms obtain u1 u2 cr spec where u: "u = u1 @ u2" and
    "beh (updateCoreAndWait (cr\<lparr>pc_Patroni := Some (spec\<lparr>StandbyCluster := Some ('''', 0)\<rparr>)\<rparr>)) (Val None) u2"
    by (auto simp: clearStandbyClusterConfigInCR_def setStandbyConfig_def beh_pbind deref_returns split_sum_ex)
  then obtain u3 u4 where "u2 = u3 @ u4" and "beh (poll 180 (pbind (k_do (KUpdateCore
       (cr\<lparr>pc_Patroni := Some (spec\<lparr>StandbyCluster := Some ('''', 0)\<rparr>)\<rparr>)))
       (\<lambda>err. Ret (case err of Some e \<Rightarrow> Inl e | None \<Rightarrow> Inr True)))) (Val None) u3"
    unfolding updateCoreAndWait_def UpdatePatroniCore_def beh_err_steps by blast
  from poll_write_done [OF this(2)] this(1) u show ?thesis
    by (force simp: standby_cleared_def)
qed

lemma ClearStandby_done:
  assumes "beh (ClearStandbyClusterConfigurationConfigMap url) (Val None) u"
  shows "\<exists>r. (KPatch url ClearStandbyPatch, r) \<in> set u \<and> k_error r = None"
proof -
  from assms obtain u1 u2 where "u = u1 @ u2" and
    "beh (poll 60 (pbind (k_do (KPatch url ClearStandbyPatch)) (\<lambda>err. Ret (Inr (err = None))))) (Val None) u1"
    unfolding ClearStandbyClusterConfigurationConfigMap_def UpdatePatroniConfig_def beh_err_steps by blast
  from poll_write_done [OF this(2)] this(1) show ?thesis by auto
qed



end
