(* ===== verification/Slot_Scheduler.thy ===== *)
theory Slot_Scheduler
  imports Operator_Kube
begin

section \<open>The scheduler of ignored replication slots\<close>

text \<open>
  Models \<^verbatim>\<open>operator/pkg/scheduler/slots.go\<close> and the settings of \<^verbatim>\<open>scheduler.go\<close>.  A cron job reads
  the logical replication slots whose name has a configured prefix and tells Patroni to ignore them.
  The package variable \<^verbatim>\<open>ignoredSlots\<close> is the state: every run of the job takes it and gives it back,
  with the job's error.
\<close>

definition cronExpr :: string where "cronExpr = ''*/1 * * * *''"

definition getCronExpr :: "(string \<Rightarrow> string option) \<Rightarrow> string" where
  "getCronExpr lookupEnv = GetEnv lookupEnv ''CRON_EXPR'' cronExpr"

definition slotsQuery :: string where
  "slotsQuery = ''select slot_name, plugin, slot_type, database from pg_replication_slots;''"

definition text_or_empty :: "string option \<Rightarrow> string" where
  "text_or_empty t = (case t of None \<Rightarrow> '''' | Some s \<Rightarrow> s)"

text \<open>The loop over the rows: a row that cannot be scanned ends it, a foreign name is skipped.\<close>

fun slots_of_rows :: "string \<Rightarrow> scan_row list \<Rightarrow> err + slot list" where
  "slots_of_rows prefix [] = Inr []"
| "slots_of_rows prefix (KText [name, plugin, slotType, database] # rows) =
     (case slots_of_rows prefix rows of
        Inl e \<Rightarrow> Inl e
      | Inr slots \<Rightarrow> Inr (if has_prefix (text_or_empty name) prefix
          then \<lparr>slot_Name = text_or_empty name, slot_Type = text_or_empty slotType,
                slot_Database = text_or_empty database, slot_Plugin = text_or_empty plugin\<rparr> # slots
          else slots))"
| "slots_of_rows prefix (KScanErr e # rows) = Inl e"
| "slots_of_rows prefix (_ # rows) = Inl ''cannot scan''"

text \<open>A missing client is a nil pointer that \<open>GetConnection\<close> follows.\<close>

definition getReplicationSlots :: "string \<Rightarrow> string \<Rightarrow> (err + slot list) kube" where
  "getReplicationSlots prefix pgHost =
     pbind (k_do (KPgClient pgHost)) (\<lambda>err. if err \<noteq> None then Panic nil_deref else
     pbind (k_do (KPgConnect pgHost)) (\<lambda>err. case err of Some e \<Rightarrow> Ret (Inl e) | None \<Rightarrow>
     Call (KPgQuery pgHost slotsQuery) (\<lambda>r. Ret (case r of
       KRows rows \<Rightarrow> slots_of_rows prefix rows
     | KErr e \<Rightarrow> Inl e
     | _ \<Rightarrow> Inl ''unexpected response''))))"

definition updateIgnoreSlotsInConfig :: "slot list \<Rightarrow> string \<Rightarrow> err option kube" where
  "updateIgnoreSlotsInConfig slots patroniUrl =
     (if length slots = 0 then Ret None
      else UpdatePatroniConfig (IgnoreSlotsPatch slots) patroniUrl)"

definition getNewSlotsForIgnore :: "slot list \<Rightarrow> slot list \<Rightarrow> slot list" where
  "getNewSlotsForIgnore ignoredSlots slots =
     filter (\<lambda>slot. \<not> list_ex (\<lambda>ignoredSlot. slot_Name ignoredSlot = slot_Name slot) ignoredSlots) slots"

definition updateIgnoredReplicationSlots ::
  "string \<Rightarrow> string \<Rightarrow> string \<Rightarrow> slot list \<Rightarrow> (err option \<times> slot list) kube" where
  "updateIgnoredReplicationSlots prefix pgHost patroniUrl ignoredSlots =
     pbind (getReplicationSlots prefix pgHost) (\<lambda>res. case res of
       Inl e \<Rightarrow> Ret (Some e, ignoredSlots)
     | Inr slots \<Rightarrow>
       if length slots < length ignoredSlots then
         pbind (updateIgnoreSlotsInConfig slots patroniUrl) (\<lambda>err. case err of
           Some e \<Rightarrow> Ret (Some e, ignoredSlots)
         | None \<Rightarrow> Ret (None, slots))
       else
         (let difSlots = getNewSlotsForIgnore ignoredSlots slots in
          if length difSlots > 0 then
            (let resultSlots = ignoredSlots @ difSlots in
             pbind (updateIgnoreSlotsInConfig resultSlots patroniUrl) (\<lambda>err. case err of
               Some e \<Rightarrow> Ret (Some e, ignoredSlots)
             | None \<Rightarrow> Ret (None, resultSlots)))
          else Ret (None, ignoredSlots)))"

text \<open>The cron job run \<open>n\<close> times, each run on the state the previous one left.\<close>

fun cron_runs :: "nat \<Rightarrow> string \<Rightarrow> string \<Rightarrow> string \<Rightarrow> slot list \<Rightarrow> slot list kube" where
  "cron_runs 0 prefix pgHost patroniUrl ignoredSlots = Ret ignoredSlots"
| "cron_runs (Suc n) prefix pgHost patroniUrl ignoredSlots =
     pbind (updateIgnoredReplicationSlots prefix pgHost patroniUrl ignoredSlots) (\<lambda>(_, ignored').
       cron_runs n prefix pgHost patroniUrl ignored')"

end
