(* ===== verification/Slot_Safety.thy ===== *)
theory Slot_Safety
  imports Slot_Scheduler Recovery_Modes
begin

section \<open>Which replication slots Patroni ignores\<close>

text \<open>
  Claims about the cron job of \<^verbatim>\<open>scheduler/slots.go\<close>: its list of ignored slots as a set of names, the
  invariant of that list over any number of runs, and the runs after which Patroni and the list differ.
\<close>

definition names :: "slot list \<Rightarrow> string set" where
  "names slots = slot_Name ` set slots"

text \<open>The abstract job: a set of names that is replaced when it shrinks and grows otherwise.\<close>

definition ignore_set :: "nat \<Rightarrow> string set \<Rightarrow> nat \<Rightarrow> string set \<Rightarrow> string set" where
  "ignore_set old_count old new_count new = (if new_count < old_count then new else old \<union> new)"

lemma names_new: "names ig \<union> names (getNewSlotsForIgnore ig slots) = names ig \<union> names slots"
  unfolding names_def getNewSlotsForIgnore_def list_ex_iff
  by (auto simp: image_iff) metis

text \<open>One run takes apart: the query, and on success the update of Patroni and of the list.\<close>

lemma slots_update_patch:
  assumes "beh (updateIgnoreSlotsInConfig slots url) (Val None) u" and "slots \<noteq> []"
  shows "\<exists>r. (KPatch url (IgnoreSlotsPatch slots), r) \<in> set u \<and> k_error r = None"
proof -
  from assms obtain u1 u2 where "u = u1 @ u2" and
    "beh (poll 60 (pbind (k_do (KPatch url (IgnoreSlotsPatch slots))) (\<lambda>err. Ret (Inr (err = None))))) (Val None) u1"
    unfolding updateIgnoreSlotsInConfig_def UpdatePatroniConfig_def
    by (auto simp: beh_err_steps)
  from poll_write_done [OF this(2)] this(1) show ?thesis by auto
qed

definition slots_read :: "string \<Rightarrow> string \<Rightarrow> slot list \<Rightarrow> k_trace \<Rightarrow> bool" where
  "slots_read prefix host slots u \<longleftrightarrow>
     (\<exists>rows. (KPgQuery host slotsQuery, KRows rows) \<in> set u \<and> slots_of_rows prefix rows = Inr slots)"

lemma getReplicationSlots_read:
  assumes "beh (getReplicationSlots prefix host) (Val (Inr slots)) u"
  shows "slots_read prefix host slots u"
proof -
  from assms obtain r u1 where u: "u = u1 @ [(KPgQuery host slotsQuery, r)]"
    and r: "(case r of KRows rows \<Rightarrow> slots_of_rows prefix rows | KErr e \<Rightarrow> Inl e
       | _ \<Rightarrow> Inl ''unexpected response'') = Inr slots"
    unfolding getReplicationSlots_def k_do_def by (auto simp: beh_Call_iff split: if_splits option.splits)
  then show ?thesis by (cases r) (auto simp: slots_read_def)
qed

lemma slots_step_cases:
  assumes "beh (updateIgnoredReplicationSlots prefix host url ig) (Val (err, ig')) u"
  obtains (failed) e where "err = Some e" "ig' = ig"
  | (shrunk) slots u1 u2 where "err = None" "u = u1 @ u2" "slots_read prefix host slots u1" "ig' = slots"
      "length slots < length ig" "beh (updateIgnoreSlotsInConfig slots url) (Val None) u2"
  | (grown) slots u1 u2 where "err = None" "u = u1 @ u2" "slots_read prefix host slots u1"
      "ig' = ig @ getNewSlotsForIgnore ig slots" "length ig \<le> length slots" "getNewSlotsForIgnore ig slots \<noteq> []"
      "beh (updateIgnoreSlotsInConfig ig' url) (Val None) u2"
  | (unchanged) slots where "err = None" "slots_read prefix host slots u" "ig' = ig" "length ig \<le> length slots"
      "getNewSlotsForIgnore ig slots = []"
proof -
  from assms obtain u1 u2 res where u: "u = u1 @ u2" and res: "beh (getReplicationSlots prefix host) (Val res) u1"
    and rest: "beh (case res of
       Inl e \<Rightarrow> Ret (Some e, ig)
     | Inr slots \<Rightarrow>
       if length slots < length ig then
         pbind (updateIgnoreSlotsInConfig slots url) (\<lambda>err. case err of
           Some e \<Rightarrow> Ret (Some e, ig) | None \<Rightarrow> Ret (None, slots))
       else (let difSlots = getNewSlotsForIgnore ig slots in
          if length difSlots > 0 then
            (let resultSlots = ig @ difSlots in
             pbind (updateIgnoreSlotsInConfig resultSlots url) (\<lambda>err. case err of
               Some e \<Rightarrow> Ret (Some e, ig) | None \<Rightarrow> Ret (None, resultSlots)))
          else Ret (None, ig))) (Val (err, ig')) u2"
    unfolding updateIgnoredReplicationSlots_def beh_pbind by blast
  show ?thesis
  proof (cases res)
    case (Inl e)
    with rest failed show ?thesis by simp
  next
    case (Inr slots)
    with res have read: "slots_read prefix host slots u1" by (simp add: getReplicationSlots_read)
    have step: "beh (pbind p (\<lambda>err. case err of Some e \<Rightarrow> Ret (Some e, ig) | None \<Rightarrow> Ret (None, new))) (Val (err, ig')) u2
        \<Longrightarrow> (\<exists>e. err = Some e \<and> ig' = ig) \<or> err = None \<and> ig' = new \<and> beh p (Val None) u2" for p :: "err option kube" and new
      by (auto simp: beh_pbind split_option_ex)
    show ?thesis
      using rest Inr u read failed shrunk grown unchanged
      by (auto simp: Let_def not_less dest!: step split: if_splits)
  qed
qed

text \<open>
  (C35) The list of ignored slots refines a set of names: a run that succeeds replaces the set by the
  names of the slots that were read when there are fewer of them, and otherwise adds them; every slot
  with the prefix that the database has is then covered.  A run that fails keeps the list.
\<close>

theorem slots_refine_set:
  assumes "beh (updateIgnoredReplicationSlots prefix host url ig) (Val (err, ig')) u"
  shows "(if err = None then \<exists>slots. slots_read prefix host slots u
            \<and> names ig' = ignore_set (length ig) (names ig) (length slots) (names slots) \<and> names slots \<subseteq> names ig'
          else ig' = ig)"
  using assms
proof (cases rule: slots_step_cases)
  case (shrunk slots u1 u2)
  then have "slots_read prefix host slots u" by (auto simp: slots_read_def)
  then have "\<exists>slots. slots_read prefix host slots u
      \<and> names ig' = ignore_set (length ig) (names ig) (length slots) (names slots) \<and> names slots \<subseteq> names ig'"
    by (rule exI [of _ slots, OF conjI]) (use shrunk in \<open>simp add: ignore_set_def\<close>)
  with shrunk(1) show ?thesis by simp
next
  case (grown slots u1 u2)
  then have "slots_read prefix host slots u" by (auto simp: slots_read_def)
  moreover have "names ig' = names ig \<union> names slots"
    using grown names_new [of ig slots] by (auto simp: names_def)
  ultimately have "\<exists>slots. slots_read prefix host slots u
      \<and> names ig' = ignore_set (length ig) (names ig) (length slots) (names slots) \<and> names slots \<subseteq> names ig'"
    by (intro exI [of _ slots]) (use grown(5) in \<open>simp add: ignore_set_def\<close>)
  with grown(1) show ?thesis by simp
next
  case (unchanged slots)
  have "names ig \<union> names slots = names ig"
    using names_new [of ig slots] by (simp add: unchanged(5) names_def [of "[]"])
  then have "names slots \<subseteq> names ig" by blast
  then have "\<exists>slots. slots_read prefix host slots u
      \<and> names ig' = ignore_set (length ig) (names ig) (length slots) (names slots) \<and> names slots \<subseteq> names ig'"
    by (intro exI [of _ slots]) (use unchanged in \<open>auto simp: ignore_set_def\<close>)
  with unchanged(1) show ?thesis by simp
qed simp

definition sample_rows :: "scan_row list" where
  "sample_rows = [KText [Some ''app_1'', Some ''pgoutput'', Some ''logical'', Some ''db''],
     KText [Some ''other'', None, Some ''physical'', None]]"

fun slot_server :: "scan_row list \<Rightarrow> k_trace \<Rightarrow> k_call \<Rightarrow> k_resp" where
  "slot_server rows t (KPgQuery _ _) = KRows rows"
| "slot_server rows t _ = KOk"

lemmas slot_defs = updateIgnoredReplicationSlots_def getReplicationSlots_def updateIgnoreSlotsInConfig_def
  UpdatePatroniConfig_def getNewSlotsForIgnore_def k_do_def text_or_empty_def has_prefix_def run_poll Let_def

lemma sample_slots_run:
  "fst (run (slot_server sample_rows) (updateIgnoredReplicationSlots ''app'' ''pg'' ''patroni'' []) []) = Val (None,
     [\<lparr>slot_Name = ''app_1'', slot_Type = ''logical'', slot_Database = ''db'', slot_Plugin = ''pgoutput''\<rparr>])"
  by (simp add: slot_defs sample_rows_def)

theorem slots_refine_set_witness:
  "\<exists>slots. slots_read ''app'' ''pg'' slots (snd (run (slot_server sample_rows)
       (updateIgnoredReplicationSlots ''app'' ''pg'' ''patroni'' []) [])) \<and> names slots \<subseteq> {''app_1''}"
proof -
  have "beh (updateIgnoredReplicationSlots ''app'' ''pg'' ''patroni'' []) (Val (None,
     [\<lparr>slot_Name = ''app_1'', slot_Type = ''logical'', slot_Database = ''db'', slot_Plugin = ''pgoutput''\<rparr>]))
     (snd (run (slot_server sample_rows) (updateIgnoredReplicationSlots ''app'' ''pg'' ''patroni'' []) []))"
    using sample_slots_run run_beh by metis
  from slots_refine_set [OF this] show ?thesis by (auto simp: names_def)
qed

subsection \<open>The list over many runs\<close>

definition slots_ok :: "string \<Rightarrow> slot list \<Rightarrow> bool" where
  "slots_ok prefix slots \<longleftrightarrow> list_all (\<lambda>s. has_prefix (slot_Name s) prefix) slots \<and> distinct (map slot_Name slots)"

text \<open>The name of a slot is unique in a PostgreSQL cluster, so the rows of one query have distinct names.\<close>

fun row_name :: "scan_row \<Rightarrow> string" where
  "row_name (KText (name # _)) = text_or_empty name"
| "row_name _ = ''''"

definition rows_distinct :: "k_trace \<Rightarrow> bool" where
  "rows_distinct u \<longleftrightarrow> list_all (\<lambda>(c, r). case r of KRows rows \<Rightarrow> distinct (map row_name rows) | _ \<Rightarrow> True) u"

lemma slots_of_rows_ok:
  "slots_of_rows prefix rows = Inr slots \<Longrightarrow> distinct (map row_name rows) \<Longrightarrow>
     slots_ok prefix slots \<and> names slots \<subseteq> row_name ` set rows"
proof (induction prefix rows arbitrary: slots rule: slots_of_rows.induct)
  case (2 prefix name plugin slotType database rows)
  then obtain s where s: "slots_of_rows prefix rows = Inr s" by (cases "slots_of_rows prefix rows") auto
  with "2.IH" "2.prems"(2) have ok: "slots_ok prefix s" and sub: "names s \<subseteq> row_name ` set rows" by auto
  then have "text_or_empty name \<notin> slot_Name ` set s" using "2.prems"(2) by (auto simp: names_def)
  with "2.prems"(1) s ok have "slots_ok prefix slots" "names slots \<subseteq> insert (text_or_empty name) (names s)"
    by (auto simp: slots_ok_def names_def split: if_splits)
  with sub show ?case by auto
qed (auto simp: slots_ok_def names_def)

lemma slots_read_ok: "slots_read prefix host slots u \<Longrightarrow> rows_distinct u \<Longrightarrow> slots_ok prefix slots"
  by (auto simp: slots_read_def rows_distinct_def list_all_iff dest!: slots_of_rows_ok)

lemma getNew_ok: "slots_ok prefix ig \<Longrightarrow> slots_ok prefix slots \<Longrightarrow> slots_ok prefix (ig @ getNewSlotsForIgnore ig slots)"
  by (auto simp: slots_ok_def getNewSlotsForIgnore_def list_all_iff list_ex_iff distinct_map_filter)

lemma slots_step_ok:
  assumes "beh (updateIgnoredReplicationSlots prefix host url ig) (Val (err, ig')) u" "slots_ok prefix ig" "rows_distinct u"
  shows "slots_ok prefix ig'"
  using assms(1)
proof (cases rule: slots_step_cases)
  case (shrunk slots u1 u2)
  then show ?thesis using assms(3) slots_read_ok [of prefix host slots u1] by (simp add: rows_distinct_def)
next
  case (grown slots u1 u2)
  then show ?thesis
    using assms(2,3) slots_read_ok [of prefix host slots u1] by (simp add: rows_distinct_def getNew_ok)
qed (use assms(2) in simp_all)

text \<open>
  (C36) The list is an invariant of the job: after any number of runs, whatever failed in between, it
  holds only slots whose names have the configured prefix, each name once.
\<close>

theorem cron_runs_keep_slots_ok:
  assumes "beh (cron_runs n prefix host url ig) (Val ig') u" and "slots_ok prefix ig" and "rows_distinct u"
  shows "slots_ok prefix ig'"
  using assms
proof (induction n arbitrary: ig u)
  case (Suc n)
  then obtain u1 u2 err ig1 where u: "u = u1 @ u2"
    and "beh (updateIgnoredReplicationSlots prefix host url ig) (Val (err, ig1)) u1"
    and "beh (cron_runs n prefix host url ig1) (Val ig') u2"
    by (auto simp: beh_pbind)
  moreover from u Suc.prems have "rows_distinct u1" "rows_distinct u2" by (auto simp: rows_distinct_def)
  ultimately show ?case using Suc.IH slots_step_ok Suc.prems(2) by blast
qed simp

theorem cron_runs_keep_slots_ok_witness:
  "slots_ok ''app'' [\<lparr>slot_Name = ''app_1'', slot_Type = ''logical'', slot_Database = ''db'', slot_Plugin = ''pgoutput''\<rparr>]"
proof (rule cron_runs_keep_slots_ok)
  let ?p = "cron_runs 2 ''app'' ''pg'' ''patroni'' []"
  have "fst (run (slot_server sample_rows) ?p []) = Val
     [\<lparr>slot_Name = ''app_1'', slot_Type = ''logical'', slot_Database = ''db'', slot_Plugin = ''pgoutput''\<rparr>]"
    by (simp add: slot_defs sample_rows_def numeral_eq_Suc)
  then show "beh ?p (Val
     [\<lparr>slot_Name = ''app_1'', slot_Type = ''logical'', slot_Database = ''db'', slot_Plugin = ''pgoutput''\<rparr>])
     (snd (run (slot_server sample_rows) ?p []))" using run_beh by metis
  show "rows_distinct (snd (run (slot_server sample_rows) ?p []))"
    by (simp add: slot_defs sample_rows_def numeral_eq_Suc rows_distinct_def)
  show "slots_ok ''app'' []" by (simp add: slots_ok_def)
qed

text \<open>
  Where the list and Patroni part: when the last slot with the prefix disappears the list becomes
  empty and Patroni is not told, so it goes on ignoring the old slot; and a slot that is replaced by
  another one stays in the list.
\<close>

theorem slots_left_in_patroni:
  "(\<exists>u. beh (updateIgnoredReplicationSlots ''app'' ''pg'' ''patroni''
        [\<lparr>slot_Name = ''app_1'', slot_Type = ''logical'', slot_Database = ''db'', slot_Plugin = ''pgoutput''\<rparr>])
      (Val (None, [])) u \<and> {p. \<exists>url r. (KPatch url p, r) \<in> set u} = {})
   \<and> (\<exists>u ig. beh (updateIgnoredReplicationSlots ''app'' ''pg'' ''patroni''
        [\<lparr>slot_Name = ''app_0'', slot_Type = ''logical'', slot_Database = ''db'', slot_Plugin = ''pgoutput''\<rparr>])
      (Val (None, ig)) u \<and> names ig = {''app_0'', ''app_1''} \<and> slots_read ''app'' ''pg'' (tl ig) u)"
proof
  let ?p = "updateIgnoredReplicationSlots ''app'' ''pg'' ''patroni''
        [\<lparr>slot_Name = ''app_1'', slot_Type = ''logical'', slot_Database = ''db'', slot_Plugin = ''pgoutput''\<rparr>]"
  have "fst (run (slot_server []) ?p []) = Val (None, [])"
    "{p. \<exists>url r. (KPatch url p, r) \<in> set (snd (run (slot_server []) ?p []))} = {}"
    by (simp_all add: slot_defs)
  moreover have "beh ?p (fst (run (slot_server []) ?p [])) (snd (run (slot_server []) ?p []))" by (rule run_beh)
  ultimately show "\<exists>u. beh ?p (Val (None, [])) u \<and> {p. \<exists>url r. (KPatch url p, r) \<in> set u} = {}"
    by (intro exI [of _ "snd (run (slot_server []) ?p [])"]) simp
  let ?q = "updateIgnoredReplicationSlots ''app'' ''pg'' ''patroni''
        [\<lparr>slot_Name = ''app_0'', slot_Type = ''logical'', slot_Database = ''db'', slot_Plugin = ''pgoutput''\<rparr>]"
  let ?s1 = "\<lparr>slot_Name = ''app_1'', slot_Type = ''logical'', slot_Database = ''db'', slot_Plugin = ''pgoutput''\<rparr>"
  let ?ig = "[\<lparr>slot_Name = ''app_0'', slot_Type = ''logical'', slot_Database = ''db'', slot_Plugin = ''pgoutput''\<rparr>, ?s1]"
  have "fst (run (slot_server sample_rows) ?q []) = Val (None, ?ig)"
    by (simp add: slot_defs sample_rows_def)
  then have "beh ?q (Val (None, ?ig)) (snd (run (slot_server sample_rows) ?q []))" using run_beh by metis
  moreover have "slots_read ''app'' ''pg'' (tl ?ig) (snd (run (slot_server sample_rows) ?q []))"
    by (simp add: slots_read_def slot_defs sample_rows_def slotsQuery_def)
  moreover have "names ?ig = {''app_0'', ''app_1''}" by (auto simp: names_def)
  ultimately show "\<exists>u ig. beh ?q (Val (None, ig)) u \<and> names ig = {''app_0'', ''app_1''}
      \<and> slots_read ''app'' ''pg'' (tl ig) u" by blast
qed

end
