(* ===== verification/Drop_Safety.thy ===== *)
theory Drop_Safety
  imports Dbaas_Drop Sample_Server "HOL-Library.Sublist"
begin

section \<open>Safety of dropping\<close>

text \<open>
  Claims about \<^verbatim>\<open>DropResources\<close>: what the response lists, the statements that have succeeded before a
  database or a user is dropped, and that a resource counts as deleted only when its drop succeeded or it
  did not exist.
\<close>

subsection \<open>Statements that ran to the first error\<close>

definition all_ok :: "(string \<times> db_resp) list \<Rightarrow> bool" where
  "all_ok es \<longleftrightarrow> list_all (\<lambda>(q, r). q = terminateListenConnections \<or> as_error r = None) es"

lemma all_ok_simps [simp]:
  "all_ok []" "all_ok ((q, r) # es) \<longleftrightarrow> (q = terminateListenConnections \<or> as_error r = None) \<and> all_ok es"
  "all_ok (es @ es') \<longleftrightarrow> all_ok es \<and> all_ok es'"
  by (auto simp: all_ok_def)

text \<open>A sequence of statements that is left at the first error.\<close>

definition ran :: "err option outcome \<Rightarrow> (string \<times> db_resp) list \<Rightarrow> bool" where
  "ran out es \<longleftrightarrow> out = Val None \<and> all_ok es \<or> (\<exists>e. out = Val (Some e) \<and> all_ok (butlast es))"

definition rolls_back :: "err option outcome \<Rightarrow> (string \<times> db_resp) list \<Rightarrow> bool" where
  "rolls_back out es \<longleftrightarrow> ran out es \<and> set (map fst es) \<subseteq> range rollbackPreparedByGid"

lemma rolls_back_none [simp]: "rolls_back (Val err) []"
  by (cases err) (auto simp: rolls_back_def ran_def)

lemma rollback_loop: "spec (for_err gids (\<lambda>tr. Exec c (rollbackPreparedByGid tr) [])) (\<lambda>out u. rolls_back out (execs u))"
proof (rule specI)
  fix out u
  assume "beh (for_err gids (\<lambda>tr. Exec c (rollbackPreparedByGid tr) [])) out u"
  note * = beh_for_err_Exec [OF this]
  then have "set (map fst (execs u)) \<subseteq> range rollbackPreparedByGid" by auto
  moreover have "ran out (execs u)" using * by (auto simp: ran_def all_ok_def list_all_iff)
  ultimately show "rolls_back out (execs u)" by (simp add: rolls_back_def)
qed

lemma rollbackPrepared_execs: "spec (rollbackPrepared sa c dbName) (\<lambda>out u. rolls_back out (execs u))"
  unfolding rollbackPrepared_def transactionsExists_def
  by (auto intro!: spec_Query spec_withConn opens_pool_get rollback_loop simp: spec_Ret split: sum.split)

subsection \<open>A database\<close>

text \<open>What closes a database to its users, in order.\<close>

definition closing :: "service_adapter \<Rightarrow> string \<Rightarrow> string list" where
  "closing sa dbName =
     [if EXTERNAL_POSTGRESQL sa \<noteq> '''' then prohibitConnectionsToDbExt dbName else prohibitConnectionsToDb]
     @ (if EXTERNAL_POSTGRESQL sa = '''' then [terminateListenConnections] else []) @ [dropConnectionsToDb]"

text \<open>
  The executed statements are rollbacks of prepared transactions followed by the first ones of the given
  list, all of them when nothing failed.
\<close>

definition ran_list :: "string list \<Rightarrow> err option outcome \<Rightarrow> (string \<times> db_resp) list \<Rightarrow> bool" where
  "ran_list qs out es \<longleftrightarrow> ran out es \<and> (\<exists>rb done. map fst es = rb @ done \<and> set rb \<subseteq> range rollbackPreparedByGid
     \<and> prefix done qs \<and> (out = Val None) = (done = qs \<and> all_ok es))"

lemma closing_execs:
  "spec (pbind (if EXTERNAL_POSTGRESQL sa \<noteq> '''' then Exec c (prohibitConnectionsToDbExt dbName) []
            else Exec c prohibitConnectionsToDb [VStr dbName]) (\<lambda>err. case err of
       Some e \<Rightarrow> Ret (Some e)
     | None \<Rightarrow>
     pseq (if EXTERNAL_POSTGRESQL sa = '''' then sa_terminateListenConnections c else Ret None)
     (pbind (Exec c dropConnectionsToDb [VStr dbName]) (\<lambda>err. case err of
       Some e \<Rightarrow> Ret (Some e)
     | None \<Rightarrow> Ret None)))) (\<lambda>out u. ran out (execs u) \<and> prefix (map fst (execs u)) (closing sa dbName)
        \<and> (out = Val None) = (map fst (execs u) = closing sa dbName \<and> all_ok (execs u)))"
  by (auto simp: sa_terminateListenConnections_def closing_def Exec_def spec_Call spec_Ret ran_def
      prohibitConnectionsToDb_def prohibitConnectionsToDbExt_def dropConnectionsToDb_def terminateListenConnections_def
      split: option.split)

lemma all_ok_butlast: "all_ok es \<Longrightarrow> all_ok (butlast es)"
  by (cases es rule: rev_cases) simp_all

lemma ran_append: "all_ok es \<Longrightarrow> ran out es' \<Longrightarrow> ran out (es @ es')"
  by (auto simp: ran_def butlast_append all_ok_butlast)

lemma ran_listI:
  assumes "ran out es" and "map fst es = rb @ done" and "set rb \<subseteq> range rollbackPreparedByGid" and "prefix done qs"
    and "(out = Val None) = (done = qs \<and> all_ok es)"
  shows "ran_list qs out es"
  using assms unfolding ran_list_def by blast

lemma disableDatabase_execs: "spec (disableDatabase sa c dbName) (\<lambda>out u. ran_list (closing sa dbName) out (execs u))"
  unfolding disableDatabase_def
proof (rule spec_pbindI [OF rollbackPrepared_execs])
  fix err and u :: db_trace
  assume rb: "rolls_back (Val err) (execs u)"
  let ?close = "pbind (if EXTERNAL_POSTGRESQL sa \<noteq> '''' then Exec c (prohibitConnectionsToDbExt dbName) []
            else Exec c prohibitConnectionsToDb [VStr dbName]) (\<lambda>err. case err of
       Some e \<Rightarrow> Ret (Some e)
     | None \<Rightarrow>
     pseq (if EXTERNAL_POSTGRESQL sa = '''' then sa_terminateListenConnections c else Ret None)
     (pbind (Exec c dropConnectionsToDb [VStr dbName]) (\<lambda>err. case err of
       Some e \<Rightarrow> Ret (Some e)
     | None \<Rightarrow> Ret None)))"
  show "spec (case err of Some e \<Rightarrow> Ret (Some e) | None \<Rightarrow> ?close) (\<lambda>out v. ran_list (closing sa dbName) out (execs (u @ v)))"
  proof (cases err)
    case None
    with rb have ok: "all_ok (execs u)" "set (map fst (execs u)) \<subseteq> range rollbackPreparedByGid"
      by (auto simp: rolls_back_def ran_def)
    have "spec ?close (\<lambda>out v. ran_list (closing sa dbName) out (execs (u @ v)))"
    proof (rule spec_mono [OF closing_execs])
      fix out and v :: db_trace
      assume v: "ran out (execs v) \<and> prefix (map fst (execs v)) (closing sa dbName)
        \<and> (out = Val None) = (map fst (execs v) = closing sa dbName \<and> all_ok (execs v))"
      then show "ran_list (closing sa dbName) out (execs (u @ v))"
        by (intro ran_listI [of _ _ "map fst (execs u)" "map fst (execs v)"]) (use ok in \<open>auto simp: ran_append\<close>)
    qed
    with None show ?thesis by simp
  next
    case (Some e)
    have "ran_list (closing sa dbName) (Val (Some e)) (execs u)"
      by (rule ran_listI [of _ _ "map fst (execs u)" "[]"]) (use Some rb in \<open>auto simp: rolls_back_def closing_def\<close>)
    with Some show ?thesis by (simp add: spec_Ret)
  qed
qed (simp add: rolls_back_def ran_def)

definition db_dropping :: "service_adapter \<Rightarrow> string \<Rightarrow> string list" where
  "db_dropping sa dbName = closing sa dbName @ [dropOldDatabase dbName]"

text \<open>The statements of a drop: all but the last succeeded, and all of them when the drop is reported.\<close>

definition dropped_after :: "string list \<Rightarrow> db_resource \<Rightarrow> db_resource outcome \<Rightarrow> (string \<times> db_resp) list \<Rightarrow> bool" where
  "dropped_after qs res out es \<longleftrightarrow> all_ok (butlast es) \<and> (\<exists>rb done. map fst es = rb @ done
     \<and> set rb \<subseteq> range rollbackPreparedByGid \<and> prefix done qs
     \<and> (if done = qs \<and> all_ok es then out = Val (deleted res) else (\<exists>e. out = Val (deleteFailed res e))))"

lemma dropped_afterI:
  assumes "all_ok (butlast es)" and "map fst es = rb @ done" and "set rb \<subseteq> range rollbackPreparedByGid" and "prefix done qs"
    and "if done = qs \<and> all_ok es then out = Val (deleted res) else (\<exists>e. out = Val (deleteFailed res e))"
  shows "dropped_after qs res out es"
  using assms unfolding dropped_after_def by blast

lemma existing_database_execs:
  "spec (pbind (disableDatabase sa c dbName) (\<lambda>err. case err of
         Some e \<Rightarrow> Ret (deleteFailed res e)
       | None \<Rightarrow> pbind (Exec c (dropOldDatabase dbName) []) (\<lambda>err. case err of
           Some e \<Rightarrow> Ret (deleteFailed res e)
         | None \<Rightarrow> Ret (deleted res)))) (\<lambda>out u. dropped_after (db_dropping sa dbName) res out (execs u))"
proof (rule spec_pbindI [OF disableDatabase_execs])
  fix err and u :: db_trace
  assume r: "ran_list (closing sa dbName) (Val err) (execs u)"
  then obtain rb dn where m: "map fst (execs u) = rb @ dn" "set rb \<subseteq> range rollbackPreparedByGid" "prefix dn (closing sa dbName)"
    and n: "(err = None) = (dn = closing sa dbName \<and> all_ok (execs u))" "ran (Val err) (execs u)"
    by (auto simp: ran_list_def)
  show "spec (case err of Some e \<Rightarrow> Ret (deleteFailed res e)
       | None \<Rightarrow> pbind (Exec c (dropOldDatabase dbName) []) (\<lambda>err. case err of
           Some e \<Rightarrow> Ret (deleteFailed res e) | None \<Rightarrow> Ret (deleted res)))
     (\<lambda>out v. dropped_after (db_dropping sa dbName) res out (execs (u @ v)))"
  proof (cases err)
    case None
    have neq: "dropOldDatabase dbName \<noteq> terminateListenConnections"
      by (simp add: dropOldDatabase_def terminateListenConnections_def)
    have "dropped_after (db_dropping sa dbName) res (Val (case as_error r of
        Some e \<Rightarrow> deleteFailed res e | None \<Rightarrow> deleted res)) (execs u @ [(dropOldDatabase dbName, r)])" for r
      by (rule dropped_afterI [of _ rb "db_dropping sa dbName"])
        (use None n m neq in \<open>auto simp: db_dropping_def split: option.split\<close>)
    then show ?thesis
      using None by (auto simp: Exec_def spec_Call spec_Ret split: option.split) (metis option.simps(4,5))+
  next
    case (Some e)
    have "dn \<noteq> db_dropping sa dbName" "prefix dn (db_dropping sa dbName)"
      using m(3) by (auto simp: db_dropping_def prefix_def)
    then have "dropped_after (db_dropping sa dbName) res (Val (deleteFailed res e)) (execs u)"
      by (intro dropped_afterI [of _ rb dn]) (use Some n m in \<open>auto simp: ran_def\<close>)
    with Some show ?thesis by (simp add: spec_Ret)
  qed
qed (simp add: ran_list_def ran_def)


text \<open>A database that exists on a server that accepts every statement.\<close>

fun one_database :: "db_trace \<Rightarrow> db_call \<Rightarrow> db_resp" where
  "one_database t (CNew d u w) = RConn (length t)"
| "one_database t (CQuery c q args) =
     RRows (if q = getDatabase then [Row [VStr ''db'']] else if q = existsRollbackTransactions then [Row [VBool False]]
       else if q = getUser then [Row [VStr ''bob'']] else if q = getDependenceDbForRole then [Row [VStr ''db'']] else [])"
| "one_database t _ = ROk"

definition db_res :: db_resource where
  "db_res = \<lparr>Kind = DbKind, Name = ''db'', Status = '''', ErrorMessage = ''''\<rparr>"

definition any_conn :: conn where
  "any_conn = \<lparr>conn_id = 3, conn_db = ''postgres'', conn_user = ''postgres''\<rparr>"

lemmas drop_run_defs = dropResource_def dropDatabaseResource_def withLock_def disableDatabase_def rollbackPrepared_def
  transactionsExists_def sa_terminateListenConnections_def any_conn_def Exec_def Query_def QueryRow_def


subsection \<open>A user\<close>

text \<open>The user's objects in a database have been reassigned and its rights dropped.\<close>

definition executed :: "string \<Rightarrow> string \<Rightarrow> db_trace \<Rightarrow> bool" where
  "executed dbName q u \<longleftrightarrow> (\<exists>c args r. (CExec c q args, r) \<in> set u \<and> conn_db c = dbName \<and> as_error r = None)"

definition released :: "service_adapter \<Rightarrow> db_resource \<Rightarrow> string \<Rightarrow> db_trace \<Rightarrow> bool" where
  "released sa res dbName u \<longleftrightarrow>
     (let d = (if dbName = '''' then ca_Database (ClusterAdapter sa) else dbName) in
      executed d (reassignGrants (getUsernameWithoutHost (Name res)) (saUser sa)) u
    \<and> executed d (dropOwnedObjects (Name res)) u \<and> executed d dropUserConnectionsToDb u)"

lemma executed_append: "executed d q (u @ v) \<longleftrightarrow> executed d q u \<or> executed d q v"
  unfolding executed_def set_append by blast

lemma released_mono: "released sa res d u \<Longrightarrow> set u \<subseteq> set v \<Longrightarrow> released sa res d v"
  unfolding released_def executed_def Let_def by blast

lemma executedI: "beh (Exec c q args) (Val None) u \<Longrightarrow> executed (conn_db c) q u"
  by (auto simp: beh_calls executed_def)

lemma GetConnectionToDb_conn:
  assumes "beh (GetConnectionToDb ca d) (Val (Inr c)) u"
  shows "conn_db c = (if d = '''' then ca_Database ca else d)"
proof -
  have "spec (GetConnectionToDb ca d) (\<lambda>out _. \<forall>c. out = Val (Inr c) \<longrightarrow> conn_db c = (if d = '''' then ca_Database ca else d))"
    by (auto simp: GetConnectionToDb_def GetConnectionToDbWithUser_def getConnectionToDbWithUser_def spec_simps
        split: sum.split)
  from specD [OF this assms] show ?thesis by simp
qed

lemma disableUser_released:
  assumes "beh (disableUser sa dbName res) (Val None) u"
  shows "released sa res dbName u"
  using opens_pool_get(3) assms [unfolded disableUser_def]
proof (cases rule: beh_withConn)
  case (opened d us w c u' r)
  from opened(3) obtain u1 u2 u3 u4 where u': "u' = u1 @ u2 @ u3 @ u4"
    and "beh (Exec c (reassignGrants (getUsernameWithoutHost (Name res)) (saUser sa)) []) (Val None) u2"
    and "beh (Exec c (dropOwnedObjects (Name res)) []) (Val None) u3"
    and "beh (Exec c dropUserConnectionsToDb [VStr (Name res)]) (Val None) u4"
    by (auto simp: beh_err_steps)
  then have "executed (conn_db c) (reassignGrants (getUsernameWithoutHost (Name res)) (saUser sa)) u'"
    "executed (conn_db c) (dropOwnedObjects (Name res)) u'" "executed (conn_db c) dropUserConnectionsToDb u'"
    unfolding u' executed_append using executedI by blast+
  then have "released sa res dbName u'"
    using GetConnectionToDb_conn [OF opened(2)] by (simp add: released_def Let_def)
  then show ?thesis by (rule released_mono) (auto simp: opened(1))
qed simp

lemma disableUserInDbs_released:
  assumes "beh (disableUserInDbs sa res rows) (Val None) u"
  shows "\<forall>row \<in> set rows. \<exists>d. scan_string row = Inr d \<and> released sa res d u"
  using assms unfolding disableUserInDbs_def
proof (induction rows arbitrary: u)
  case (Cons row rows)
  then obtain u1 u2 where u: "u = u1 @ u2"
    and u1: "beh (case scan_string row of Inl e \<Rightarrow> Ret (Some e) | Inr dbName \<Rightarrow> disableUser sa dbName res) (Val None) u1"
    and u2: "beh (for_err rows (\<lambda>row. case scan_string row of
       Inl e \<Rightarrow> Ret (Some e) | Inr dbName \<Rightarrow> disableUser sa dbName res)) (Val None) u2"
    by (auto simp: beh_err_steps)
  obtain d where d: "scan_string row = Inr d" "released sa res d u"
    using u1 disableUser_released released_mono u by (cases "scan_string row") fastforce+
  have "\<exists>d. scan_string row' = Inr d \<and> released sa res d u" if "row' \<in> set rows" for row'
    using Cons.IH [OF u2] that released_mono u by fastforce
  with d show ?case by auto
qed simp

lemma deleted_neq: "deleted res \<noteq> deleteFailed res e"
  by (simp add: deleted_def deleteFailed_def DeletedStatus_def DeleteFailedStatus_def)

text \<open>
  (C32) A user is reported as deleted only when there was no such user, or when \<open>DROP USER\<close> succeeded as
  the last statement and before it, in every database that the server names as dependent on the user, the
  user's objects were reassigned to the administrator, its rights dropped and its connections
  terminated, all of it successfully.
\<close>

theorem user_dropped_when_released:
  assumes "beh (dropResource sa res c) (Val (deleted res)) u" and "Kind res = UserKind"
  shows "(CQuery c getUser [VStr (Name res)], RRows []) \<in> set u \<and> execs u = []
    \<or> (\<exists>u1 rows r1 r2. u = u1 @ [(CExec c (dropUser (Name res)) [], r1), (CUnlock, r2)] \<and> as_error r1 = None
        \<and> (CQuery c getDependenceDbForRole [VStr (Name res), VStr (Name res)], RRows rows) \<in> set u1
        \<and> (\<forall>row \<in> set rows. \<exists>d. scan_string row = Inr d \<and> released sa res d u1))"
proof -
  have neq: "UserKind \<noteq> DbKind" by (simp add: UserKind_def DbKind_def)
  let ?drop = "\<lambda>dbs. pbind (disableUserInDbs sa res dbs) (\<lambda>err. case err of
           Some e \<Rightarrow> Ret (deleteFailed res e)
         | None \<Rightarrow> pbind (Exec c (dropUser (Name res)) []) (\<lambda>err. case err of
             Some e \<Rightarrow> Ret (deleteFailed res e)
           | None \<Rightarrow> Ret (deleted res)))"
  from assms obtain r r1 r2 v where u: "u = (CLock, r1) # (CQuery c getUser [VStr (Name res)], r) # v @ [(CUnlock, r2)]"
    and v: "beh (case as_rows r of Inl e \<Rightarrow> Ret (deleteFailed res e)
     | Inr rs \<Rightarrow>
       if rs = [] then Ret (deleted res)
       else pbind (Query c getDependenceDbForRole [VStr (Name res), VStr (Name res)]) (\<lambda>rows. case rows of
         Inl e \<Rightarrow> Ret (deleteFailed res e) | Inr dbs \<Rightarrow> ?drop dbs)) (Val (deleted res)) v"
    by (auto simp: dropResource_def dropUserResource_def beh_withLock beh_pbind beh_calls neq)
  then obtain rs where rs: "r = RRows rs" by (cases r) (auto simp: deleted_neq)
  show ?thesis
  proof (cases "rs = []")
    case False
    with v rs obtain r3 w where w: "v = (CQuery c getDependenceDbForRole [VStr (Name res), VStr (Name res)], r3) # w"
      "beh (case as_rows r3 of Inl e \<Rightarrow> Ret (deleteFailed res e) | Inr dbs \<Rightarrow> ?drop dbs) (Val (deleted res)) w"
      by (auto simp: beh_pbind beh_calls)
    then obtain dbs where dbs: "r3 = RRows dbs" by (cases r3) (auto simp: deleted_neq)
    with w obtain w1 r4 where w1: "w = w1 @ [(CExec c (dropUser (Name res)) [], r4)]" "as_error r4 = None"
      "beh (disableUserInDbs sa res dbs) (Val None) w1"
      by (auto simp: beh_pbind beh_calls deleted_neq split_option_ex split: option.splits)
    let ?u1 = "(CLock, r1) # (CQuery c getUser [VStr (Name res)], r) #
      (CQuery c getDependenceDbForRole [VStr (Name res), VStr (Name res)], r3) # w1"
    have "\<forall>row \<in> set dbs. \<exists>d. scan_string row = Inr d \<and> released sa res d ?u1"
      using disableUserInDbs_released [OF w1(3)] released_mono [of sa res _ w1 ?u1] by fastforce
    moreover have "u = ?u1 @ [(CExec c (dropUser (Name res)) [], r4), (CUnlock, r2)]" using u w w1 by simp
    ultimately show ?thesis using w1(2) dbs by auto
  qed (use u v rs in simp)
qed

definition user_res :: db_resource where
  "user_res = \<lparr>Kind = UserKind, Name = ''bob'', Status = '''', ErrorMessage = ''''\<rparr>"

lemma bob_run:
  "fst (run one_database (dropResource sample_sa user_res any_conn) []) = Val (deleted user_res)"
  "execs (snd (run one_database (dropResource sample_sa user_res any_conn) [])) \<noteq> []"
  by (simp_all add: drop_run_defs user_res_def sample_simps dropUserResource_def disableUserInDbs_def disableUser_def
      UserKind_def DbKind_def existsRollbackTransactions_def getDatabase_def getUser_def getDependenceDbForRole_def)

theorem user_dropped_when_released_witness:
  "\<exists>u1 rows. (CQuery any_conn getDependenceDbForRole [VStr ''bob'', VStr ''bob''], RRows rows) \<in> set u1
     \<and> list_all (\<lambda>row. \<exists>d. scan_string row = Inr d \<and> released sample_sa user_res d u1) rows
     \<and> prefix u1 (snd (run one_database (dropResource sample_sa user_res any_conn) []))"
proof -
  have "beh (dropResource sample_sa user_res any_conn) (Val (deleted user_res))
      (snd (run one_database (dropResource sample_sa user_res any_conn) []))" using run_beh bob_run(1) by metis
  from user_dropped_when_released [OF this] bob_run(2) show ?thesis
    by (auto simp: user_res_def list_all_iff) (metis prefixI)
qed

subsection \<open>The response\<close>

lemma disableUserInDbs_val: "spec (disableUserInDbs sa res rows) (\<lambda>out _. \<exists>err. out = Val err)"
proof -
  have du: "spec (disableUser sa d res) (\<lambda>out u. \<exists>err. out = Val err)" for d
    unfolding disableUser_def
    by (rule spec_withConn [OF opens_pool_get(3), where Q = "\<lambda>out _. \<exists>err. out = Val err"])
      (auto simp: spec_Ret spec_Exec Exec_def spec_Call intro!: spec_pbindI [OF rollbackPrepared_execs]
        split: option.split dest: rolls_back_def [THEN iffD1] simp: ran_def)
  show ?thesis
    unfolding disableUserInDbs_def
    by (induction rows) (auto simp: spec_Ret intro!: spec_pbindI [where P = "\<lambda>out _. \<exists>err. out = Val err"] du split: sum.split option.split)
qed

abbreviation reported :: "db_resource \<Rightarrow> db_resource outcome \<Rightarrow> bool" where
  "reported res out \<equiv> out = Val (deleted res) \<or> (\<exists>e. out = Val (deleteFailed res e))"

lemma dropResource_reports: "spec (dropResource sa res c) (\<lambda>out _. reported res out)"
proof -
  have db: "spec (dropDatabaseResource sa res c) (\<lambda>out u. reported res out)"
    unfolding dropDatabaseResource_def
    by (rule spec_Query [where Q = "\<lambda>out _. reported res out"])
      (auto simp: spec_Ret dropped_after_def split: sum.split if_splits intro!: spec_mono [OF existing_database_execs])
  have drop: "spec (pbind (disableUserInDbs sa res dbs) (\<lambda>err. case err of
           Some e \<Rightarrow> Ret (deleteFailed res e)
         | None \<Rightarrow> pbind (Exec c (dropUser (Name res)) []) (\<lambda>err. case err of
             Some e \<Rightarrow> Ret (deleteFailed res e)
           | None \<Rightarrow> Ret (deleted res)))) (\<lambda>out u. reported res out)" for dbs
    by (rule spec_pbindI [OF disableUserInDbs_val])
      (auto simp: spec_Ret Exec_def spec_Call split: option.split)
  have user: "spec (dropUserResource sa res c) (\<lambda>out u. reported res out)"
    unfolding dropUserResource_def
    by (rule spec_Query [where Q = "\<lambda>out _. reported res out"])
      (auto simp: spec_Ret drop split: sum.split intro!: spec_Query [where Q = "\<lambda>out _. reported res out"])
  show ?thesis
    unfolding dropResource_def
    by (rule spec_withLock [where Q = "\<lambda>out _. reported res out"]) (use db user in \<open>simp add: spec_Ret\<close>)
qed

lemma dropResourceByKind_reports:
  "spec (dropResourceByKind sa resources kind c) (\<lambda>out _. \<exists>result. out = Val result \<and>
     list_all2 (\<lambda>res x. x = deleted res \<or> (\<exists>e. x = deleteFailed res e)) (filter (\<lambda>r. Kind r = kind) resources) result)"
proof (induction resources)
  case (Cons res resources)
  have "spec (pbind (dropResource sa res c) (\<lambda>dropResult. pbind (dropResourceByKind sa resources kind c)
      (\<lambda>result. Ret (dropResult # result)))) (\<lambda>out _. \<exists>result. out = Val result \<and>
     list_all2 (\<lambda>res x. x = deleted res \<or> (\<exists>e. x = deleteFailed res e)) (res # filter (\<lambda>r. Kind r = kind) resources) result)"
    by (rule spec_pbindI [OF dropResource_reports], rule spec_pbindI [OF Cons.IH]) (auto simp: spec_Ret)
  with Cons.IH show ?case by simp
qed (simp add: spec_Ret)

text \<open>
  (C33) The response of \<open>DropResources\<close> lists exactly the users and then the databases of the request, in the
  order of the request, each with its own kind and name and one of the two final statuses; an error
  message appears only with a failure.  Resources of any other kind are left out.
\<close>

theorem DropResources_reports:
  assumes "beh (DropResources sa resources) (Val result) u"
  shows "list_all2 (\<lambda>res x. x = deleted res \<or> (\<exists>e. x = deleteFailed res e))
    (filter (\<lambda>r. Kind r = UserKind) resources @ filter (\<lambda>r. Kind r = DbKind) resources) result"
proof -
  have "spec (DropResources sa resources) (\<lambda>out u. \<forall>result. out = Val result \<longrightarrow>
      list_all2 (\<lambda>res x. x = deleted res \<or> (\<exists>e. x = deleteFailed res e))
        (filter (\<lambda>r. Kind r = UserKind) resources @ filter (\<lambda>r. Kind r = DbKind) resources) result)"
    unfolding DropResources_def
    by (rule spec_withConn [OF opens_pool_get(4)])
      (auto simp: spec_Panic spec_Ret intro!: spec_pbindI [OF dropResourceByKind_reports] list_all2_appendI)
  from specD [OF this assms] show ?thesis by simp
qed

theorem DropResources_reports_witness:
  "\<exists>result. fst (run one_database (DropResources sample_sa [db_res, db_res\<lparr>Kind := ''schema''\<rparr>]) []) = Val result
     \<and> length result = 1"
proof -
  let ?p = "DropResources sample_sa [db_res, db_res\<lparr>Kind := ''schema''\<rparr>]"
  obtain result where r: "fst (run one_database ?p []) = Val result"
    by (simp add: DropResources_def drop_run_defs db_res_def sample_simps existsRollbackTransactions_def getDatabase_def
        UserKind_def DbKind_def)
  then have "beh ?p (Val result) (snd (run one_database ?p []))" using run_beh by metis
  from DropResources_reports [OF this] have "length result = 1"
    by (auto simp: db_res_def UserKind_def DbKind_def dest: list_all2_lengthD)
  with r show ?thesis by blast
qed

end
