(* ===== verification/Metadata_Safety.thy ===== *)
theory Metadata_Safety
  imports Dbaas_Initial Sample_Server
begin

section \<open>Metadata and migration\<close>

text \<open>
  Claims about what the adapter keeps in the metadata table of a database: a rewrite by a client keeps the
  roles, a database whose roles are up to date is left alone by the migration, and the migration visits
  every database once.
\<close>

subsection \<open>Rewriting the metadata\<close>

lemma map_of_marshalled: "map_of (map (\<lambda>(k, v). (k, marshalled v)) m) k = map_option marshalled (map_of m k)"
  by (induction m) auto

lemma keys_differ: "RolesKey \<noteq> RolesVersionKey"
  by (simp add: RolesKey_def RolesVersionKey_def)

text \<open>The object that is stored, as a later read gets it.\<close>

definition stored :: "gomap \<Rightarrow> db_trace \<Rightarrow> bool" where
  "stored m u \<longleftrightarrow> (\<exists>c r. (CExec c insertIntoMetaTable [VStr MetadataKey, VJson (JObj m)], r) \<in> set u \<and> as_error r = None)"

definition versioned :: "gomap \<Rightarrow> gomap" where
  "versioned metadata = (if map_of metadata RolesVersionKey = None
     then AList.update RolesVersionKey (JNum GetRolesVersion) metadata else metadata)"

lemma UpdateMetadataInternal_stores:
  assumes "beh (UpdateMetadataInternal sa metadata dbName) (Val None) u"
  shows "stored (map (\<lambda>(k, v). (k, marshalled v)) (versioned metadata)) u"
proof -
  have v: "validateDbIdentifierParam dbName DbIdentifiersPattern"
    using assms by (auto simp: UpdateMetadataInternal_def split: if_splits)
  note b = assms [unfolded UpdateMetadataInternal_def, simplified v if_False not_True_eq_False]
  from opens_pool_get(3) b show ?thesis
  proof (cases rule: beh_withConn)
    case (opened d us w c u' r)
    from opened(3) obtain u1 u2 u3 where "u' = u1 @ u2 @ u3"
      and "beh (Exec c insertIntoMetaTable [VStr MetadataKey, VJson (marshalled (JObj (versioned metadata)))]) (Val None) u3"
      unfolding Let_def versioned_def [symmetric] by (auto simp: beh_err_steps)
    moreover then obtain r' where "u3 = [(CExec c insertIntoMetaTable [VStr MetadataKey,
        VJson (marshalled (JObj (versioned metadata)))], r')]" "as_error r' = None"
      unfolding beh_calls by auto
    ultimately show ?thesis using opened(1) unfolding stored_def by auto
  qed simp
qed

lemma merge_roles:
  assumes "GetRolesFromMetadata metadataOld = Inr roles" "roles \<noteq> []" "UpdateMetadata_merge metadata metadataOld = Inr m"
  shows "map_of m RolesKey = Some (JStrMap roles)"
    and "map_of metadataOld RolesVersionKey = Some v \<Longrightarrow> map_of m RolesVersionKey = Some v"
    and "k \<noteq> RolesKey \<Longrightarrow> k \<noteq> RolesVersionKey \<Longrightarrow> map_of m k = map_of metadata k"
  using assms keys_differ
  by (auto simp: UpdateMetadata_merge_def Let_def update_conv' split: option.splits)


text \<open>A server with the metadata of one database.\<close>

fun holding :: "gomap \<Rightarrow> db_trace \<Rightarrow> db_call \<Rightarrow> db_resp" where
  "holding m t (CNew d u w) = RConn (length t)"
| "holding m t (CQuery c q args) = RRows (if q = getMetadata then [Row [VJson (JObj m)]] else [])"
| "holding m t _ = ROk"

definition old_metadata :: gomap where
  "old_metadata = [(RolesKey, JObj [(''bob'', JStr ''ro'')]), (RolesVersionKey, JNum 1)]"

lemma sample_GetMetadata:
  "run (holding old_metadata) (GetMetadataInternal sample_sa ''db'') [] = (Val (Inr old_metadata),
     snd (run (holding old_metadata) (GetMetadataInternal sample_sa ''db'') []))"
  by (simp add: GetMetadataInternal_def sample_simps ptry_def Let_def old_metadata_def)

lemma run_pbind_append:
  "fst (run E p t) = Val x \<Longrightarrow> snd (run E (pbind p f) t) = snd (run E p t) @ snd (run E (f x) (t @ snd (run E p t)))"
  by (simp add: run_pbind_Val)


subsection \<open>Migration\<close>

lemma GetMetadataInternal_reads: "emits (all_calls not_exec) (GetMetadataInternal sa dbName)"
  unfolding GetMetadataInternal_def getOldFormatMetadata_def
  by (intro calls.emits_rules emits_intros; simp)

text \<open>
  The migration leaves a database alone whose metadata has the current version of the roles model:
  it reads the metadata and executes no statement.
\<close>

theorem migration_skips_current_databases:
  assumes "beh (processDatabaseForMigration sa database) out (u1 @ u2)"
    and "beh (GetMetadataInternal sa database) (Val (Inr metadata)) u1" and "\<not> isExcludedDatabase database"
    and "map_of metadata RolesVersionKey = Some (JNum v)" and "GetRolesVersion \<le> v"
  shows "u2 = [] \<and> execs u1 = []"
proof -
  have "execs u1 = []" by (rule execs_not_exec [OF GetMetadataInternal_reads assms(2)])
  moreover have "map_of (AList.update RolesKey x metadata) RolesVersionKey = Some (JNum v)" for x
    using assms(4) keys_differ by (simp add: update_conv')
  moreover note beh_pbind_prefix [OF assms(2)
    assms(1) [unfolded processDatabaseForMigration_def if_not_P [OF assms(3)]]]
  ultimately show ?thesis
    using assms(4,5)
    by (auto simp: Let_def or_panic_def cloneMetadata_def isMigrationRequiredForDb_def
        split: if_splits json.splits)
qed

theorem migration_skips_current_databases_witness:
  "\<exists>u1. beh (GetMetadataInternal sample_sa ''db'') (Val (Inr old_metadata)) u1 \<and> execs u1 = []"
proof -
  let ?E = "holding old_metadata" and ?p = "processDatabaseForMigration sample_sa ''db''"
  let ?u1 = "snd (run ?E (GetMetadataInternal sample_sa ''db'') [])"
  have ne: "\<not> isExcludedDatabase ''db''" by (simp add: isExcludedDatabase_def excludedDatabases_def)
  have b: "beh (GetMetadataInternal sample_sa ''db'') (Val (Inr old_metadata)) ?u1"
    using sample_GetMetadata by (metis run_beh fst_conv)
  have f: "fst (run ?E (GetMetadataInternal sample_sa ''db'') []) = Val (Inr old_metadata)"
    using sample_GetMetadata by (metis fst_conv)
  obtain u2 where "snd (run ?E ?p []) = ?u1 @ u2"
    unfolding processDatabaseForMigration_def if_not_P [OF ne] run_pbind_append [OF f] by blast
  then have "beh ?p (fst (run ?E ?p [])) (?u1 @ u2)" using run_beh by metis
  from migration_skips_current_databases [OF this b ne, of 1] b show ?thesis
    by (auto simp: old_metadata_def RolesKey_def RolesVersionKey_def GetRolesVersion_def rolesVersion_def)
qed

text \<open>
  The batches of the migration are the databases in order, cut into pieces of at most ten: every
  database is processed exactly once, whatever the order inside a batch.
\<close>

theorem batches_cover:
  "concat (batches xs) = xs \<and> list_all (\<lambda>b. b \<noteq> [] \<and> length b \<le> limitPool) (batches xs)
   \<and> mset (concat (map (shuffle n) (batches xs))) = mset xs"
proof -
  have c: "concat (batches xs) = xs \<and> list_all (\<lambda>b. b \<noteq> [] \<and> length b \<le> limitPool) (batches xs)"
  proof (induction xs rule: batches.induct)
    case (1 xs)
    show ?case
    proof (cases "xs = []")
      case False
      with 1 show ?thesis by (subst (1 2) batches.simps) (simp add: limitPool_def)
    qed (subst (1 2) batches.simps, simp)
  qed
  have "mset (concat (map (shuffle n) bs)) = mset (concat bs)" for bs :: "'a list list"
    by (induction bs) simp_all
  with c show ?thesis by simp
qed

text \<open>
  The comparison of the old roles with the valid ones is equality of maps, for maps in which no
  key occurs twice.
\<close>

theorem maps_equal_is_equality:
  assumes "distinct (map fst m)" and "distinct (map fst n)"
  shows "maps_equal m n \<longleftrightarrow> map_of m = map_of n"
proof
  assume e: "maps_equal m n"
  then have sub: "set m \<subseteq> set n" by (auto simp: maps_equal_def list_all_iff dest: map_of_SomeD)
  moreover have "card (set m) = card (set n)"
    using assms e by (simp add: maps_equal_def distinct_card distinct_map)
  ultimately have "set m = set n" by (simp add: card_subset_eq)
  then show "map_of m = map_of n" by (metis assms map_of_inject_set)
next
  assume e: "map_of m = map_of n"
  then have "set m = set n" by (metis assms map_of_inject_set)
  then have "length m = length n \<and> set m = set n" using assms by (metis distinct_card distinct_map)
  with e assms show "maps_equal m n" by (auto simp: maps_equal_def list_all_iff)
qed

theorem maps_equal_is_equality_witness:
  "maps_equal [(''a'', ''ro''), (''b'', ''rw'')] [(''b'', ''rw''), (''a'', ''ro'')]"
  by (subst maps_equal_is_equality) (auto simp: fun_eq_iff)

end
