(* ===== verification/Cloud_Sql.thy ===== *)
theory Cloud_Sql
  imports Disaster_Recovery
begin

section \<open>Disaster recovery of Cloud SQL\<close>

text \<open>
  Models \<^verbatim>\<open>operator/pkg/disasterrecovery/cloud_sql.go\<close>.  The Cloud SQL Admin API is the environment; of its
  client the model uses what its documentation says: exactly one of the result and the error of a call is
  nil, and an error carries the HTTP code.  \<^verbatim>\<open>retry.Do\<close> of \<^verbatim>\<open>retry-go\<close> calls its function until it succeeds, at
  most the number of times given as parameter \<open>attempts\<close>.
\<close>

record cloud_sql_manager =
  cs_region :: string
  cs_namespace :: string

definition ReadReplicaType :: string where "ReadReplicaType = ''READ_REPLICA_INSTANCE''"
definition CloudSqlType :: string where "CloudSqlType = ''CLOUD_SQL_INSTANCE''"
definition CloudSqlProxyHost :: string where "CloudSqlProxyHost = ''pg-cloudsql-proxy''"
definition CloudSQLProxySelectors :: "(string \<times> string) list" where
  "CloudSQLProxySelectors = [(''app'', ''cloudsql-proxy'')]"
definition ReplCheckQuery :: string where
  "ReplCheckQuery = ''select pg_wal_lsn_diff(sent_lsn, flush_lsn) as lag from pg_stat_replication where usename = ''
     @ squote ''cloudsqlreplica'' @ '';''"
definition preConfigureFile :: string where "preConfigureFile = ''/tmp/.pre-configure-status.json''"

subsection \<open>Helpers of the operator\<close>

definition GetCloudSQLProxyDaemonSet :: "string \<Rightarrow> (err + daemon_set) kube" where
  "GetCloudSQLProxyDaemonSet dsName = Call (KObj (GetDaemonSet dsName)) (\<lambda>r. Ret (case r of
     KObjResp (ODaemonSet ds) \<Rightarrow> Inr ds
   | KErr e \<Rightarrow> Inl e | KNotFound e \<Rightarrow> Inl e | _ \<Rightarrow> Inl ''unexpected response''))"

definition UpdateDaemonSet :: "daemon_set \<Rightarrow> err option kube" where
  "UpdateDaemonSet ds = k_do (KObj (PutDaemonSet ds))"

text \<open>A client whose adapter could not be created holds a nil pointer.\<close>

definition TerminateActiveConnectionsForHost :: "string \<Rightarrow> err option kube" where
  "TerminateActiveConnectionsForHost pgHost =
     pbind (k_do (KPgClient pgHost)) (\<lambda>err. if err \<noteq> None then Panic nil_deref else
     pbind (k_do (KPgConnect pgHost)) (\<lambda>err. case err of Some e \<Rightarrow> Ret (Some e) | None \<Rightarrow>
     k_do (KPgExec pgHost TerminateConnectionsQuery)))"

subsection \<open>Finding instances\<close>

definition listInstances :: "(err + sql_instance list) kube" where
  "listInstances = Call (KSql SqlList) (\<lambda>r. Ret (case r of
     KSqlResp (SqlInstances is) \<Rightarrow> Inr is
   | KSqlResp (SqlApiErr _ e) \<Rightarrow> Inl e
   | KErr e \<Rightarrow> Inl e | KNotFound e \<Rightarrow> Inl e | _ \<Rightarrow> Inl ''unexpected response''))"

text \<open>The loop of the three functions below: \<open>wanted\<close> is their check before the label is compared.\<close>

fun findInstance :: "(sql_instance \<Rightarrow> bool) \<Rightarrow> string \<Rightarrow> sql_instance list \<Rightarrow> sql_instance option kube" where
  "findInstance wanted ns [] = Ret None"
| "findInstance wanted ns (i # is) =
     pbind (deref (si_Settings i)) (\<lambda>settings.
     if \<not> wanted i then findInstance wanted ns is
     else case map_of (set_UserLabels settings) ''namespace'' of
        None \<Rightarrow> findInstance wanted ns is
      | Some nsValue \<Rightarrow> if nsValue = ns then Ret (Some i) else findInstance wanted ns is)"

definition selectInstance :: "(sql_instance \<Rightarrow> bool) \<Rightarrow> string \<Rightarrow> (err + sql_instance option) kube" where
  "selectInstance wanted ns = ptry listInstances (\<lambda>is. pbind (findInstance wanted ns is) (\<lambda>i. Ret (Inr i)))"

definition getInstanceInCurrentRegion :: "cloud_sql_manager \<Rightarrow> (err + sql_instance option) kube" where
  "getInstanceInCurrentRegion m = selectInstance (\<lambda>i. si_Region i = cs_region m) (cs_namespace m)"

definition getPrimaryNotInCurrentRegion :: "cloud_sql_manager \<Rightarrow> (err + sql_instance option) kube" where
  "getPrimaryNotInCurrentRegion m = selectInstance (\<lambda>i. si_Region i \<noteq> cs_region m) (cs_namespace m)"

definition getInstanceInCurrentRegionByType :: "cloud_sql_manager \<Rightarrow> string \<Rightarrow> (err + sql_instance option) kube" where
  "getInstanceInCurrentRegionByType m instanceType =
     selectInstance (\<lambda>i. si_Region i = cs_region m \<and> instanceType = si_InstanceType i) (cs_namespace m)"

definition getReplicaInCurrentRegion :: "cloud_sql_manager \<Rightarrow> (err + sql_instance option) kube" where
  "getReplicaInCurrentRegion m = getInstanceInCurrentRegionByType m ReadReplicaType"

definition getActiveInstanceInCurrentRegion :: "cloud_sql_manager \<Rightarrow> (err + sql_instance option) kube" where
  "getActiveInstanceInCurrentRegion m = getInstanceInCurrentRegionByType m CloudSqlType"

subsection \<open>Operations on instances\<close>

definition operationDone :: "string \<Rightarrow> (err + bool) kube" where
  "operationDone opName = Call (KSql (SqlOperation opName)) (\<lambda>r. Ret (case r of
     KSqlResp (SqlOp _ status failed) \<Rightarrow>
       if status \<noteq> ''DONE'' then
         (if failed then Inl (''operation '' @ opName @ '' failed due to error during operation'') else Inr False)
       else Inr True
   | KSqlResp (SqlApiErr _ e) \<Rightarrow> Inl e
   | KErr e \<Rightarrow> Inl e | KNotFound e \<Rightarrow> Inl e | _ \<Rightarrow> Inl ''unexpected response''))"

definition waitForOperationComplete :: "string \<Rightarrow> err option kube" where
  "waitForOperationComplete opName = poll 180 (operationDone opName)"

text \<open>
  The polls around a changing call: a conflict is retried, anything else ends the poll, an error too.  The
  result is the operation, or nil when the call gave an error.
\<close>

definition answered :: "k_resp \<Rightarrow> string option option" where
  "answered r = (case r of
     KSqlResp (SqlOp name _ _) \<Rightarrow> Some (Some name)
   | KSqlResp (SqlApiErr code _) \<Rightarrow> if code = 409 then None else Some None
   | _ \<Rightarrow> Some None)"

fun pollCall :: "nat \<Rightarrow> sql_call \<Rightarrow> (err + string option) kube" where
  "pollCall 0 c = Call (KSql c) (\<lambda>r. case answered r of
     Some op \<Rightarrow> Ret (Inr op)
   | None \<Rightarrow> Call KTick (\<lambda>_. Ret (Inl ''context deadline exceeded'')))"
| "pollCall (Suc n) c = Call (KSql c) (\<lambda>r. case answered r of
     Some op \<Rightarrow> Ret (Inr op)
   | None \<Rightarrow> Call KTick (\<lambda>t.
       if k_error t \<noteq> None then Ret (Inl ''context deadline exceeded'') else pollCall n c))"

definition callAndWait :: "nat \<Rightarrow> sql_call \<Rightarrow> err option kube" where
  "callAndWait n c = pbind (pollCall n c) (\<lambda>res. case res of
     Inl e \<Rightarrow> Ret (Some e)
   | Inr op \<Rightarrow> pbind (deref op) waitForOperationComplete)"

definition promoteReplica :: "string \<Rightarrow> err option kube" where
  "promoteReplica name = callAndWait 180 (SqlPromote name)"

definition patchInstance :: "string \<Rightarrow> string \<Rightarrow> err option kube" where
  "patchInstance name availability = callAndWait 60 (SqlPatch name availability)"

definition enableHaForInstance :: "string \<Rightarrow> err option kube" where
  "enableHaForInstance name = patchInstance name ''REGIONAL''"

definition createReadReplicaForPrimary :: "cloud_sql_manager \<Rightarrow> sql_instance option \<Rightarrow> err option kube" where
  "createReadReplicaForPrimary m primaryInstance = Call (KObj Now) (\<lambda>t.
     let now = (case t of KObjResp (OText s) \<Rightarrow> s | _ \<Rightarrow> '''') in
     pbind (deref primaryInstance) (\<lambda>primary.
     pbind (deref (si_Settings primary)) (\<lambda>settings.
     pbind (deref (set_Ipv4Enabled settings)) (\<lambda>_.
     callAndWait 60 (SqlInsert
       \<lparr>si_Name = cs_namespace m @ ''-'' @ cs_region m @ ''-'' @ now, si_Region = cs_region m,
        si_InstanceType = ''READ_REPLICA_INSTANCE'', si_State = '''', si_ConnectionName = '''',
        si_DatabaseVersion = si_DatabaseVersion primary, si_MasterInstanceName = si_Name primary,
        si_Settings = Some \<lparr>set_UserLabels = [(''namespace'', cs_namespace m)], set_Tier = set_Tier settings,
          set_Ipv4Enabled = Some False\<rparr>\<rparr>)))))"

text \<open>Nobody waits for the deletion; the name of the operation is read for the log.\<close>

definition dropInstance :: "string \<Rightarrow> err option kube" where
  "dropInstance name = pbind (pollCall 60 (SqlDelete name)) (\<lambda>res. case res of
     Inl e \<Rightarrow> Ret (Some e)
   | Inr op \<Rightarrow> pbind (deref op) (\<lambda>_. Ret None))"

subsection \<open>Changing the mode\<close>

definition reconfigureCloudSqlProxy :: "string \<Rightarrow> err option kube" where
  "reconfigureCloudSqlProxy connectionName =
     pbind (GetCloudSQLProxyDaemonSet ''cloudsql-proxy'') (\<lambda>res. case res of
       Inl e \<Rightarrow> Ret (Some e)
     | Inr ds \<Rightarrow> (case ds_Envs ds of
         [] \<Rightarrow> Panic ''index out of range''
       | envs # others \<Rightarrow>
         pbind (UpdateDaemonSet (ds\<lparr>ds_Envs := map (\<lambda>(n, v). (n,
             if n = ''INSTANCES'' then connectionName @ ''=tcp:0.0.0.0:5432'' else v)) envs # others\<rparr>)) (\<lambda>err. case err of
           Some e \<Rightarrow> Ret (Some e)
         | None \<Rightarrow> DeletePodsByLabel CloudSQLProxySelectors)))"

definition cs_standby :: "cloud_sql_manager \<Rightarrow> err option kube" where
  "cs_standby m =
     pbind (getPrimaryNotInCurrentRegion m) (\<lambda>res. case res of Inl e \<Rightarrow> Ret (Some e) | Inr primary \<Rightarrow>
     pbind (getReplicaInCurrentRegion m) (\<lambda>res.
     pbind (case res of Inr (Some _) \<Rightarrow> Ret None | _ \<Rightarrow> createReadReplicaForPrimary m primary) (\<lambda>err. case err of
       Some e \<Rightarrow> Ret (Some e) | None \<Rightarrow>
     pbind (getActiveInstanceInCurrentRegion m) (\<lambda>res. case res of
       Inl e \<Rightarrow> Ret (Some e)
     | Inr None \<Rightarrow> Ret None
     | Inr (Some i) \<Rightarrow> dropInstance (si_Name i)))))"

definition cs_active :: "cloud_sql_manager \<Rightarrow> err option kube" where
  "cs_active m =
     pbind (getReplicaInCurrentRegion m) (\<lambda>res. case res of
       Inl e \<Rightarrow> Ret (Some e)
     | Inr None \<Rightarrow>
         pbind (getInstanceInCurrentRegion m) (\<lambda>res. case res of
           Inl e \<Rightarrow> Ret (Some e)
         | Inr i \<Rightarrow> pbind (deref i) (\<lambda>i. reconfigureCloudSqlProxy (si_ConnectionName i)))
     | Inr (Some i) \<Rightarrow>
         pbind (promoteReplica (si_Name i)) (\<lambda>err. case err of Some e \<Rightarrow> Ret (Some e) | None \<Rightarrow>
         pbind (enableHaForInstance (si_Name i)) (\<lambda>err. case err of Some e \<Rightarrow> Ret (Some e) | None \<Rightarrow>
         pbind (TerminateActiveConnectionsForHost CloudSqlProxyHost) (\<lambda>err. case err of Some e \<Rightarrow> Ret (Some e) | None \<Rightarrow>
         reconfigureCloudSqlProxy (si_ConnectionName i)))))"

definition cs_changeMode :: "cloud_sql_manager \<Rightarrow> string \<Rightarrow> err option kube" where
  "cs_changeMode m mode =
     (if mode = ''standby'' then cs_standby m
      else if mode = ''active'' then cs_active m
      else Ret (Some (''unsupported mode: '' @ mode)))"

fun retry_Do :: "nat \<Rightarrow> err option kube \<Rightarrow> err option kube" where
  "retry_Do 0 f = f"
| "retry_Do (Suc n) f = pbind f (\<lambda>err. case err of None \<Rightarrow> Ret None | Some _ \<Rightarrow> retry_Do n f)"

definition cs_processRequest :: "nat \<Rightarrow> cloud_sql_manager \<Rightarrow> string \<Rightarrow> unit kube" where
  "cs_processRequest attempts m mode =
     pbind (retry_Do (attempts - 1) (cs_changeMode m mode)) (\<lambda>err.
     pseq (case err of
         Some _ \<Rightarrow> pseq (UpdateSiteManagerStatus mode ''failed'') (Ret ())
       | None \<Rightarrow> Ret ())
     (pseq (UpdateSiteManagerStatus mode ''done'') (Ret ())))"

subsection \<open>Pre-configuration\<close>

definition setStatusForPreConfigure :: "string \<Rightarrow> string \<Rightarrow> err option kube" where
  "setStatusForPreConfigure mode status = k_do (KObj (WriteFile preConfigureFile \<lparr>sm_Mode = mode, sm_Status = status\<rparr>))"

definition getPreConfigureStatus :: "(sm_status \<times> err option) kube" where
  "getPreConfigureStatus = Call (KObj (ReadFile preConfigureFile)) (\<lambda>r. Ret (case r of
     KObjResp (OStatus s) \<Rightarrow> (s, None)
   | KErr e \<Rightarrow> (\<lparr>sm_Mode = '''', sm_Status = ''''\<rparr>, Some e)
   | _ \<Rightarrow> (\<lparr>sm_Mode = '''', sm_Status = ''''\<rparr>, Some ''unexpected response'')))"

definition cs_setStatus :: "cloud_sql_manager \<Rightarrow> err option kube" where
  "cs_setStatus m =
     pbind (getActiveInstanceInCurrentRegion m) (\<lambda>res. case res of
       Inl e \<Rightarrow> Ret (Some e)
     | Inr active \<Rightarrow>
       pbind (if active \<noteq> None then Ret (Inr ''active'')
              else pbind (getReplicaInCurrentRegion m) (\<lambda>res. Ret (case res of
                Inl e \<Rightarrow> Inl e
              | Inr (Some _) \<Rightarrow> Inr ''standby''
              | Inr None \<Rightarrow> Inr ''''))) (\<lambda>mode. case mode of
         Inl e \<Rightarrow> Ret (Some e)
       | Inr mode \<Rightarrow>
         pbind (UpdateSiteManagerStatus mode ''done'') (\<lambda>err. case err of
           Some e \<Rightarrow> Ret (Some e)
         | None \<Rightarrow> setStatusForPreConfigure mode ''done'')))"

text \<open>The last lag that was scanned, 0 when there is no replica.\<close>

fun scanLags :: "scan_row list \<Rightarrow> int \<Rightarrow> err + int" where
  "scanLags [] lag = Inr lag"
| "scanLags (KText [Some s] # rows) lag = (if snd (atoi s) then scanLags rows (fst (atoi s)) else Inl ''cannot scan'')"
| "scanLags (KScanErr e # rows) lag = Inl e"
| "scanLags (_ # rows) lag = Inl ''cannot scan''"

definition waitTillStandbyIsSynced :: "err option kube" where
  "waitTillStandbyIsSynced =
     pbind (k_do (KPgClient CloudSqlProxyHost)) (\<lambda>client.
     poll 180 (if client \<noteq> None then Panic nil_deref else
       pbind (k_do (KPgConnect CloudSqlProxyHost)) (\<lambda>err. case err of
         Some e \<Rightarrow> Ret (Inl e)
       | None \<Rightarrow> Call (KPgQuery CloudSqlProxyHost ReplCheckQuery) (\<lambda>r. Ret (case r of
           KRows rows \<Rightarrow> (case scanLags rows 0 of Inl e \<Rightarrow> Inl e | Inr lag \<Rightarrow> Inr (lag = 0))
         | KErr e \<Rightarrow> Inl e
         | _ \<Rightarrow> Inl ''unexpected response'')))))"

definition preConfigure :: "cloud_sql_manager \<Rightarrow> string \<Rightarrow> bool \<Rightarrow> err option kube" where
  "preConfigure m mode noWait =
     (if mode = ''active'' then Call (KSleep 30) (\<lambda>_. Ret None)
      else if mode = ''standby'' then
        pseq (if \<not> noWait then waitTillStandbyIsSynced else Ret None)
        (pbind (getPrimaryNotInCurrentRegion m) (\<lambda>res. case res of
           Inl e \<Rightarrow> Ret (Some e)
         | Inr i \<Rightarrow> pbind (deref i) (\<lambda>i.
           pbind (TerminateActiveConnectionsForHost CloudSqlProxyHost) (\<lambda>err. case err of
             Some e \<Rightarrow> Ret (Some e)
           | None \<Rightarrow> reconfigureCloudSqlProxy (si_ConnectionName i)))))
      else Ret (Some (''unsupported mode: '' @ mode)))"

definition doPreConfigure :: "cloud_sql_manager \<Rightarrow> string \<Rightarrow> bool \<Rightarrow> unit kube" where
  "doPreConfigure m mode noWait =
     pbind (preConfigure m mode noWait) (\<lambda>err.
     pseq (setStatusForPreConfigure mode (if err \<noteq> None then ''failed'' else ''done'')) (Ret ()))"

subsection \<open>The endpoints\<close>

text \<open>
  \<open>body\<close> is what decoding the request gives: the status and the flag no-wait.  The second component is the
  request that is handed to the goroutine.
\<close>

definition cs_processSiteManagerRequest ::
  "string \<Rightarrow> err + sm_status \<Rightarrow> ((nat \<times> http_body) list \<times> string option) kube" where
  "cs_processSiteManagerRequest method body =
     (if method = ''GET'' then pbind sm_getStatus (\<lambda>resp. Ret ([resp], None))
      else if method = ''POST'' then
        (let mode = (case body of Inl _ \<Rightarrow> '''' | Inr s \<Rightarrow> sm_Mode s) in
         pbind GetCurrentSiteManagerStatus (\<lambda>current.
         pbind (deref current) (\<lambda>currentStatus.
         if sm_Status currentStatus \<noteq> ''running'' \<and> mode = sm_Mode currentStatus \<and> sm_Status currentStatus = ''done''
         then Ret ([(200, StatusBody current)], None)
         else let first = (if sm_Status currentStatus = ''running'' then [(200, StatusBody current)] else []) in
           (case body of
              Inl e \<Rightarrow> Ret (first @ [(500, Message e)], None)
            | Inr _ \<Rightarrow>
              pbind (UpdateSiteManagerStatus mode ''running'') (\<lambda>err.
              pbind sm_getStatus (\<lambda>resp.
              Ret (first @ (case err of Some e \<Rightarrow> [(500, Message e)] | None \<Rightarrow> []) @ [resp], Some mode)))))))
      else Ret ([(200, Message ''Only GET and POST methods are supported.'')], None))"

definition cs_processHealthRequest :: "cloud_sql_manager \<Rightarrow> (nat \<times> http_body) kube" where
  "cs_processHealthRequest m =
     pbind (getInstanceInCurrentRegion m) (\<lambda>res. case res of
       Inl _ \<Rightarrow> Ret (500, HealthBody ''down'')
     | Inr i \<Rightarrow> pbind (deref i) (\<lambda>i.
         Ret (if si_State i = ''RUNNABLE'' then (200, HealthBody ''up'') else (500, HealthBody ''down''))))"

definition failedRead :: "sm_status \<times> err option \<Rightarrow> (nat \<times> http_body) list" where
  "failedRead res = (if snd res \<noteq> None then [(500, StatusBody (Some (fst res)))] else [])"

definition processPreConfigureRequest ::
  "string \<Rightarrow> err + sm_status \<Rightarrow> ((nat \<times> http_body) list \<times> string option) kube" where
  "processPreConfigureRequest method body =
     (if method = ''GET'' then
        pbind getPreConfigureStatus (\<lambda>res. Ret (failedRead res @ [(200, StatusBody (Some (fst res)))], None))
      else if method = ''POST'' then
        (case body of
           Inl e \<Rightarrow> Ret ([(500, Message e)], None)
         | Inr statusRequest \<Rightarrow>
           pbind getPreConfigureStatus (\<lambda>res. let status = fst res in
           if sm_Status status \<noteq> ''running'' \<and> sm_Mode statusRequest = sm_Mode status \<and> sm_Status status = ''done''
           then Ret (failedRead res @ [(200, StatusBody (Some status))], None)
           else
             pbind (setStatusForPreConfigure (sm_Mode statusRequest) ''running'') (\<lambda>err.
             pbind getPreConfigureStatus (\<lambda>res'.
             Ret (failedRead res @ (if sm_Status status = ''running'' then [(200, StatusBody (Some status))] else [])
               @ (case err of Some e \<Rightarrow> [(500, Message e)] | None \<Rightarrow> [])
               @ failedRead res' @ [(200, StatusBody (Some (fst res')))], Some (sm_Mode statusRequest))))))
      else Ret ([], None))"

end
