(* ===== verification/Cloud_Safety.thy ===== *)
theory Cloud_Safety
  imports Cloud_Sql Recovery_Modes
begin

section \<open>Safety of the Cloud SQL manager\<close>

text \<open>
  Claims about \<^verbatim>\<open>cloud_sql.go\<close>: which instance is deleted and what was known before, and how errors of the API
  end in the reported status.
\<close>

subsection \<open>What the searches find\<close>

definition labelled :: "string \<Rightarrow> sql_instance \<Rightarrow> bool" where
  "labelled ns i \<longleftrightarrow> (case si_Settings i of None \<Rightarrow> False | Some s \<Rightarrow> map_of (set_UserLabels s) ''namespace'' = Some ns)"

lemma beh_deref: "beh (deref p) out u \<longleftrightarrow> u = [] \<and> out = (case p of None \<Rightarrow> Panicked nil_deref | Some x \<Rightarrow> Val x)"
  by (auto simp: deref_def split: option.split)

lemma findInstance_beh:
  "beh (findInstance wanted ns is) out u \<Longrightarrow> u = [] \<and> (case out of
     Val (Some i) \<Rightarrow> i \<in> set is \<and> wanted i \<and> labelled ns i
   | Val None \<Rightarrow> \<not> (\<exists>i \<in> set is. wanted i \<and> labelled ns i)
   | Panicked e \<Rightarrow> e = nil_deref)"
proof (induction "is" arbitrary: u)
  case (Cons i "is")
  show ?case
  proof (cases "si_Settings i")
    case None
    with Cons.prems show ?thesis by (auto simp: deref_def)
  next
    case (Some s)
    show ?thesis
    proof (cases "wanted i \<and> labelled ns i")
      case True
      with Cons.prems Some show ?thesis by (auto simp: deref_def labelled_def)
    next
      case False
      with Cons.prems Some have "beh (findInstance wanted ns is) out u"
        by (auto simp: deref_def labelled_def split: if_splits option.splits)
      from Cons.IH [OF this] False show ?thesis by (auto split: outcome.splits option.splits)
    qed
  qed
qed simp

text \<open>Some answer of the server listed an instance of this namespace with the given property.\<close>

definition listed :: "(sql_instance \<Rightarrow> bool) \<Rightarrow> string \<Rightarrow> sql_instance \<Rightarrow> k_trace \<Rightarrow> bool" where
  "listed wanted ns i u \<longleftrightarrow> (\<exists>is. (KSql SqlList, KSqlResp (SqlInstances is)) \<in> set u \<and> i \<in> set is \<and> wanted i \<and> labelled ns i)"

lemma selectInstance_found:
  assumes "beh (selectInstance wanted ns) (Val (Inr (Some i))) u"
  shows "listed wanted ns i u"
proof -
  from assms obtain r v where u: "u = (KSql SqlList, r) # v" and v: "beh (case (case r of
       KSqlResp (SqlInstances is) \<Rightarrow> Inr is | KSqlResp (SqlApiErr _ e) \<Rightarrow> Inl e
     | KErr e \<Rightarrow> Inl e | KNotFound e \<Rightarrow> Inl e | _ \<Rightarrow> Inl ''unexpected response'') of
       Inl e \<Rightarrow> Ret (Inl e) | Inr is \<Rightarrow> pbind (findInstance wanted ns is) (\<lambda>i. Ret (Inr i))) (Val (Inr (Some i))) v"
    unfolding selectInstance_def listInstances_def ptry_def by (auto simp: beh_Call_iff)
  then obtain "is" where r: "r = KSqlResp (SqlInstances is)"
    by (cases r) (auto split: sql_resp.splits)
  with v have "beh (findInstance wanted ns is) (Val (Some i)) v" by (auto simp: beh_pbind)
  from findInstance_beh [OF this] u r show ?thesis by (auto simp: listed_def)
qed

lemma listed_mono: "listed wanted ns i u \<Longrightarrow> set u \<subseteq> set v \<Longrightarrow> listed wanted ns i v"
  by (auto simp: listed_def)

subsection \<open>Operations that completed\<close>

text \<open>The server accepted the call and reported its operation as done.\<close>

definition completed :: "sql_call \<Rightarrow> k_trace \<Rightarrow> bool" where
  "completed c u \<longleftrightarrow> (\<exists>op st f nm f'. (KSql c, KSqlResp (SqlOp op st f)) \<in> set u
     \<and> (KSql (SqlOperation op), KSqlResp (SqlOp nm ''DONE'' f')) \<in> set u)"

lemma answered_op: "answered r = Some (Some op) \<longleftrightarrow> (\<exists>st f. r = KSqlResp (SqlOp op st f))"
  by (auto simp: answered_def split: k_resp.split sql_resp.split)

lemma pollCall_op:
  assumes "beh (pollCall n c) (Val (Inr (Some op))) u"
  shows "\<exists>st f. (KSql c, KSqlResp (SqlOp op st f)) \<in> set u"
  using assms
proof (induction n arbitrary: u)
  case 0
  then obtain r v where u: "u = (KSql c, r) # v" and "beh (case answered r of Some op \<Rightarrow> Ret (Inr op)
     | None \<Rightarrow> Call KTick (\<lambda>_. Ret (Inl ''context deadline exceeded''))) (Val (Inr (Some op))) v"
    by (auto simp: beh_Call_iff)
  then have "answered r = Some (Some op)" by (cases "answered r") (auto simp: beh_Call_iff)
  with u show ?case by (auto simp: answered_op)
next
  case (Suc n)
  then obtain r v where u: "u = (KSql c, r) # v" and v: "beh (case answered r of Some op \<Rightarrow> Ret (Inr op)
     | None \<Rightarrow> Call KTick (\<lambda>t.
         if k_error t \<noteq> None then Ret (Inl ''context deadline exceeded'') else pollCall n c)) (Val (Inr (Some op))) v"
    by (auto simp: beh_Call_iff)
  show ?case
  proof (cases "answered r")
    case None
    with v obtain t w where "v = (KTick, t) # w" "beh (pollCall n c) (Val (Inr (Some op))) w"
      by (auto simp: beh_Call_iff split: if_splits)
    with Suc.IH [of w] u show ?thesis by auto
  next
    case (Some op')
    with u v show ?thesis by (auto simp: answered_op)
  qed
qed

lemma operationDone_spec:
  "spec (operationDone op) (\<lambda>out u. out = Val (Inr True) \<longrightarrow>
     (\<exists>nm f. u = [(KSql (SqlOperation op), KSqlResp (SqlOp nm ''DONE'' f))]))"
  by (auto simp: operationDone_def spec_simps split: k_resp.split sql_resp.split)

lemma callAndWait_completed:
  assumes "beh (callAndWait n c) (Val None) u"
  shows "completed c u"
proof -
  from assms obtain u1 u2 res where u: "u = u1 @ u2" and res: "beh (pollCall n c) (Val res) u1"
    and rest: "beh (case res of Inl e \<Rightarrow> Ret (Some e) | Inr op \<Rightarrow> pbind (deref op) waitForOperationComplete) (Val None) u2"
    unfolding callAndWait_def beh_pbind by blast
  from rest obtain op where op: "res = Inr (Some op)" and wait: "beh (waitForOperationComplete op) (Val None) u2"
    by (cases res) (auto simp: beh_pbind beh_deref split: option.splits)
  from poll_None [OF wait [unfolded waitForOperationComplete_def]] obtain v1 v2 where
    v: "u2 = v1 @ v2" and "beh (operationDone op) (Val (Inr True)) v2" by blast
  with specD [OF operationDone_spec] obtain nm f where
    "v2 = [(KSql (SqlOperation op), KSqlResp (SqlOp nm ''DONE'' f))]" by blast
  with pollCall_op [OF res [unfolded op]] u v show ?thesis
    by (auto simp: completed_def)
qed

subsection \<open>Who deletes\<close>

definition no_delete :: "k_call \<Rightarrow> bool" where
  "no_delete c \<longleftrightarrow> (\<forall>n. c \<noteq> KSql (SqlDelete n))"

lemma no_delete_simps [simp]:
  "\<not> no_delete (KSql (SqlDelete n))" "no_delete KTick" "no_delete (KObj oc)" "no_delete (KSql SqlList)"
  "no_delete (KSql (SqlOperation n))" "no_delete (KSql (SqlInsert i))" "no_delete (KSql (SqlPromote n))"
  "no_delete (KSql (SqlPatch n a))" "no_delete (KPgClient h)" "no_delete (KPgConnect h)" "no_delete (KPgExec h q)"
  by (simp_all add: no_delete_def)

lemma cloud_calls [emits_intros]:
  "F (KSql SqlList) \<Longrightarrow> emits (all_calls F) (selectInstance wanted ns)"
  "F (KSql c) \<Longrightarrow> F KTick \<Longrightarrow> emits (all_calls F) (pollCall n c)"
  "F (KSql c) \<Longrightarrow> F KTick \<Longrightarrow> (\<And>op. F (KSql (SqlOperation op))) \<Longrightarrow> emits (all_calls F) (callAndWait n c)"
proof -
  have find: "emits (all_calls F) (findInstance wanted ns is)" for "is"
    by (induction "is") (auto intro!: kube_rules)
  show "F (KSql SqlList) \<Longrightarrow> emits (all_calls F) (selectInstance wanted ns)"
    unfolding selectInstance_def listInstances_def by (auto intro!: kube_rules find)
  show poll: "F (KSql c) \<Longrightarrow> F KTick \<Longrightarrow> emits (all_calls F) (pollCall n c)" for n
    by (induction n) (auto intro!: kube_rules)
  show "F (KSql c) \<Longrightarrow> F KTick \<Longrightarrow> (\<And>op. F (KSql (SqlOperation op))) \<Longrightarrow> emits (all_calls F) (callAndWait n c)"
    unfolding callAndWait_def waitForOperationComplete_def operationDone_def
    by (intro kube_rules poll) auto
qed

lemmas find_defs = getPrimaryNotInCurrentRegion_def getReplicaInCurrentRegion_def getActiveInstanceInCurrentRegion_def
  getInstanceInCurrentRegionByType_def getInstanceInCurrentRegion_def

lemma create_no_delete: "emits (all_calls no_delete) (createReadReplicaForPrimary m p)"
  unfolding createReadReplicaForPrimary_def Let_def by (intro kube_rules cloud_calls) auto

lemma reconfigure_no_delete: "emits (all_calls no_delete) (reconfigureCloudSqlProxy cn)"
  unfolding reconfigureCloudSqlProxy_def GetCloudSQLProxyDaemonSet_def UpdateDaemonSet_def DeletePodsByLabel_def
  by (auto intro!: kube_rules split: list.split k_resp.split obj_resp.split)

lemma active_no_delete: "emits (all_calls no_delete) (cs_active m)"
  unfolding cs_active_def find_defs promoteReplica_def enableHaForInstance_def patchInstance_def
    TerminateActiveConnectionsForHost_def
  by (auto intro!: kube_rules cloud_calls reconfigure_no_delete split: option.split)

lemma drop_only:
  assumes "beh (dropInstance name) out u" and "(KSql (SqlDelete n), r) \<in> set u"
  shows "n = name"
proof -
  have "emits (all_calls (\<lambda>c. c = KSql (SqlDelete name) \<or> c = KTick)) (dropInstance name)"
    unfolding dropInstance_def by (auto intro!: kube_rules cloud_calls)
  from emitsD [OF this assms(1)] assms(2) show ?thesis by (auto simp: all_calls_set)
qed

lemma found_in_region:
  assumes "beh (getInstanceInCurrentRegionByType m t) (Val (Inr (Some i))) u"
  shows "listed (\<lambda>i. si_Region i = cs_region m \<and> si_InstanceType i = t) (cs_namespace m) i u"
  using selectInstance_found [OF assms [unfolded getInstanceInCurrentRegionByType_def]] by (auto simp: listed_def)

lemma create_completed:
  assumes "beh (createReadReplicaForPrimary m p) (Val None) u"
  shows "\<exists>i. si_Region i = cs_region m \<and> si_InstanceType i = ReadReplicaType \<and> labelled (cs_namespace m) i \<and> completed (SqlInsert i) u"
proof -
  from assms obtain i t v where i: "si_Region i = cs_region m" "si_InstanceType i = ReadReplicaType" "labelled (cs_namespace m) i"
    and u: "u = (KObj Now, t) # v" and v: "beh (callAndWait 60 (SqlInsert i)) (Val None) v"
    unfolding createReadReplicaForPrimary_def Let_def
    by (force simp: beh_Call_iff beh_pbind beh_deref ReadReplicaType_def labelled_def split: option.splits)
  from callAndWait_completed [OF v] u have "completed (SqlInsert i) u" by (auto simp: completed_def)
  with i show ?thesis by blast
qed

lemma completed_mono: "completed c u \<Longrightarrow> set u \<subseteq> set v \<Longrightarrow> completed c v"
  unfolding completed_def by blast

lemma get_no_delete:
  "emits (all_calls no_delete) (getPrimaryNotInCurrentRegion m)"
  "emits (all_calls no_delete) (getReplicaInCurrentRegion m)"
  "emits (all_calls no_delete) (getActiveInstanceInCurrentRegion m)"
  unfolding find_defs by (intro cloud_calls, simp)+

text \<open>The way to a deletion: the three searches and the creation of the replica.\<close>

lemma standby_delete:
  assumes "beh (cs_standby m) out u" and "(KSql (SqlDelete n), r) \<in> set u"
  obtains a b c d w primary res i where "u = (a @ b @ c @ d) @ w" "all_calls no_delete (a @ b @ c @ d)"
    "(KSql (SqlDelete n), r) \<in> set w" "beh (getReplicaInCurrentRegion m) (Val res) b"
    "beh (case res of Inr (Some _) \<Rightarrow> Ret None | _ \<Rightarrow> createReadReplicaForPrimary m primary) (Val None) c"
    "beh (getActiveInstanceInCurrentRegion m) (Val (Inr (Some i))) d" "n = si_Name i"
proof -
  define drop where "drop res = (case res of Inl e \<Rightarrow> Ret (Some e) | Inr None \<Rightarrow> Ret None
    | Inr (Some i) \<Rightarrow> dropInstance (si_Name i))" for res :: "err + sql_instance option"
  define create where "create primary res = (case res of Inr (Some _) \<Rightarrow> Ret None
    | _ \<Rightarrow> createReadReplicaForPrimary m primary)" for primary and res :: "err + sql_instance option"
  define next_step where "next_step err = (case err of Some e \<Rightarrow> Ret (Some e)
    | None \<Rightarrow> pbind (getActiveInstanceInCurrentRegion m) drop)" for err
  define replica where "replica res = (case res of Inl e \<Rightarrow> Ret (Some e)
    | Inr primary \<Rightarrow> pbind (getReplicaInCurrentRegion m) (\<lambda>res. pbind (create primary res) next_step))" for res
  have "cs_standby m = pbind (getPrimaryNotInCurrentRegion m) replica"
    unfolding cs_standby_def replica_def create_def next_step_def drop_def ..
  with assms(1) have "beh (pbind (getPrimaryNotInCurrentRegion m) replica) out u" by simp
  from beh_skip [OF this assms(2) get_no_delete(1) no_delete_simps(1)] obtain a v res0 where u: "u = a @ v" "all_calls no_delete a"
    and v: "beh (replica res0) out v" "(KSql (SqlDelete n), r) \<in> set v" by blast
  then obtain primary where "beh (pbind (getReplicaInCurrentRegion m) (\<lambda>res. pbind (create primary res) next_step)) out v"
    by (cases res0) (auto simp: replica_def)
  from beh_skip [OF this v(2) get_no_delete(2) no_delete_simps(1)] obtain b w res where b: "v = b @ w" "all_calls no_delete b"
    "beh (getReplicaInCurrentRegion m) (Val res) b"
    and w: "beh (pbind (create primary res) next_step) out w" "(KSql (SqlDelete n), r) \<in> set w" by blast
  have "emits (all_calls no_delete) (create primary res)"
    unfolding create_def by (auto intro!: kube_rules create_no_delete split: sum.split option.split)
  from beh_skip [OF w this no_delete_simps(1)] obtain c x err where c: "w = c @ x" "all_calls no_delete c" "beh (create primary res) (Val err) c"
    and x: "beh (next_step err) out x" "(KSql (SqlDelete n), r) \<in> set x" by blast
  then have err: "err = None" and "beh (pbind (getActiveInstanceInCurrentRegion m) drop) out x"
    by (cases err; auto simp: next_step_def)+
  from beh_skip [OF this(2) x(2) get_no_delete(3) no_delete_simps(1)] obtain d y res3 where d: "x = d @ y" "all_calls no_delete d"
    "beh (getActiveInstanceInCurrentRegion m) (Val res3) d"
    and y: "beh (drop res3) out y" "(KSql (SqlDelete n), r) \<in> set y" by blast
  from y obtain i where i: "res3 = Inr (Some i)" "beh (dropInstance (si_Name i)) out y"
    by (auto simp: drop_def split: sum.splits option.splits)
  show ?thesis
    by (rule that [of a b c d y]) (use u b c d y i err drop_only [OF i(2) y(2)] in \<open>simp_all add: create_def\<close>)
qed


subsection \<open>A sample project\<close>

definition sample_instance :: "string \<Rightarrow> string \<Rightarrow> sql_instance" where
  "sample_instance name region = \<lparr>si_Name = name, si_Region = region, si_InstanceType = CloudSqlType, si_State = ''RUNNABLE'',
     si_ConnectionName = ''p:'' @ name, si_DatabaseVersion = ''POSTGRES_14'', si_MasterInstanceName = '''',
     si_Settings = Some \<lparr>set_UserLabels = [(''namespace'', ''ns'')], set_Tier = ''t'', set_Ipv4Enabled = Some True\<rparr>\<rparr>"

definition sample_cloud :: cloud_sql_manager where
  "sample_cloud = \<lparr>cs_region = ''west'', cs_namespace = ''ns''\<rparr>"

text \<open>
  A project with an instance in both regions.  Every operation is reported as done at once; with \<open>failed\<close> it
  carries an error.
\<close>

fun project :: "bool \<Rightarrow> (k_call, k_resp) environment" where
  "project failed t (KSql SqlList) = KSqlResp (SqlInstances [sample_instance ''e'' ''east'', sample_instance ''w'' ''west''])"
| "project failed t (KSql (SqlOperation op)) = KSqlResp (SqlOp op ''DONE'' failed)"
| "project failed t (KSql (SqlPromote n)) = KSqlResp (SqlApiErr 304 ''not modified'')"
| "project failed t (KSql _) = KSqlResp (SqlOp ''op'' ''PENDING'' False)"
| "project failed t KGetServices = KServicesCR sample_services"
| "project failed t (KObj Now) = KObjResp (OText ''1700000000'')"
| "project failed t _ = KOk"

lemma run_project_standby:
  "run (project failed) (cs_changeMode sample_cloud ''standby'') t = (Val None,
     [(KSql SqlList, project failed [] (KSql SqlList)), (KSql SqlList, project failed [] (KSql SqlList)),
      (KObj Now, KObjResp (OText ''1700000000'')),
      (KSql (SqlInsert ((sample_instance ''ns-west-1700000000'' ''west'')\<lparr>si_InstanceType := ReadReplicaType, si_State := '''',
         si_ConnectionName := '''', si_MasterInstanceName := ''e'', si_Settings := Some \<lparr>set_UserLabels = [(''namespace'', ''ns'')],
         set_Tier = ''t'', set_Ipv4Enabled = Some False\<rparr>\<rparr>)), KSqlResp (SqlOp ''op'' ''PENDING'' False)),
      (KSql (SqlOperation ''op''), KSqlResp (SqlOp ''op'' ''DONE'' failed)),
      (KSql SqlList, project failed [] (KSql SqlList)), (KSql (SqlDelete ''w''), KSqlResp (SqlOp ''op'' ''PENDING'' False))])"
proof -
  have [simp]: "pollCall 60 c = Call (KSql c) (\<lambda>r. case answered r of Some op \<Rightarrow> Ret (Inr op)
     | None \<Rightarrow> Call KTick (\<lambda>t. if k_error t \<noteq> None then Ret (Inl ''context deadline exceeded'') else pollCall 59 c))" for c
    using pollCall.simps(2) [of 59 c] by simp
  have [simp]: "poll 180 c = pbind c (\<lambda>res. case res of Inl e \<Rightarrow> Ret (Some e) | Inr True \<Rightarrow> Ret None
     | Inr False \<Rightarrow> Call KTick (\<lambda>r.
       if k_error r \<noteq> None then Ret (Some ''context deadline exceeded'') else poll 179 c))" for c
    using poll_unfold(2) [of 179 c] by simp
  show ?thesis
    by (simp add: cs_changeMode_def cs_standby_def find_defs selectInstance_def listInstances_def sample_cloud_def
        sample_instance_def CloudSqlType_def ReadReplicaType_def deref_def createReadReplicaForPrimary_def Let_def
        callAndWait_def waitForOperationComplete_def operationDone_def dropInstance_def answered_def)
qed


text \<open>
  Errors of the Cloud SQL API that the manager takes for success.  An operation that ended with an error
  has the status DONE, which counts as complete: when the creation of the read replica failed in this way, the
  active instance of this region is deleted and the change of the mode succeeds.  A promotion that is answered with
  Not Modified, which the code means to accept, follows a nil pointer: the goroutine panics.
\<close>

theorem cloud_errors_taken_for_success:
  "fst (run (project True) (cs_changeMode sample_cloud ''standby'') []) = Val None
   \<and> (KSql (SqlOperation ''op''), KSqlResp (SqlOp ''op'' ''DONE'' True)) \<in> set (snd (run (project True) (cs_changeMode sample_cloud ''standby'') []))
   \<and> (KSql (SqlDelete ''w''), KSqlResp (SqlOp ''op'' ''PENDING'' False)) \<in> set (snd (run (project True) (cs_changeMode sample_cloud ''standby'') []))
   \<and> run (project False) (promoteReplica ''w'') [] = (Panicked nil_deref, [(KSql (SqlPromote ''w''), KSqlResp (SqlApiErr 304 ''not modified''))])"
proof -
  have "pollCall 180 c = Call (KSql c) (\<lambda>r. case answered r of Some op \<Rightarrow> Ret (Inr op)
     | None \<Rightarrow> Call KTick (\<lambda>t. if k_error t \<noteq> None then Ret (Inl ''context deadline exceeded'') else pollCall 179 c))" for c
    using pollCall.simps(2) [of 179 c] by simp
  then show ?thesis
    by (simp add: run_project_standby promoteReplica_def callAndWait_def answered_def deref_def)
qed



end
