(* ===== verification/Wait_Util.thy ===== *)
theory Wait_Util
  imports Operator_Kube
begin

section \<open>Waiting for Kubernetes\<close>

text \<open>
  Models \<^verbatim>\<open>operator/pkg/util/wait_util.go\<close>: whether a deployment or stateful set has rolled out, and the polls
  for pods.  The timeout of the environment variable \<^verbatim>\<open>WAIT_TIMEOUT\<close> is the parameter \<open>ticks\<close>, its number of
  polls at an interval of one second (\<^verbatim>\<open>getWaitTimeout\<close>).
\<close>

definition depl :: string where "depl = ''Deployment''"
definition stset :: string where "stset = ''StatefulSet''"

definition empty_workload :: workload where
  "empty_workload = \<lparr>wl_Name = '''', wl_Labels = None, wl_Generation = 0, wl_Revision = '''', wl_SpecHash = '''',
     wl_Annotations = [], wl_TemplateLabels = [], wl_TemplateAnnotations = [], wl_InitContainers = [], wl_Images = [], wl_Replicas = None,
     wl_ObservedGeneration = 0, wl_StatusConditions = [], wl_StatusReplicas = 0, wl_UpdatedReplicas = 0,
     wl_AvailableReplicas = 0\<rparr>"

definition empty_pod :: pod where
  "empty_pod = \<lparr>pod_Name = '''', pod_Phase = '''', pod_Containers = [], pod_ExitCodes = []\<rparr>"

definition getWaitTimeout :: "string option \<Rightarrow> nat" where
  "getWaitTimeout WAIT_TIMEOUT = nat (60 * fst (atoi (case WAIT_TIMEOUT of None \<Rightarrow> ''10'' | Some s \<Rightarrow> s)))"

subsection \<open>Rollouts\<close>

definition GetDeploymentCondition :: "(string \<times> string) list \<Rightarrow> string \<Rightarrow> string option" where
  "GetDeploymentCondition conditions condType = map_of conditions condType"

definition GetRevision :: "workload \<Rightarrow> err + int" where
  "GetRevision w = (case map_of (wl_Annotations w) ''deployment.kubernetes.io/revision'' of
     None \<Rightarrow> Inl (''deployment doesn'' @ [sq] @ ''t have a revision yet'')
   | Some s \<Rightarrow> if s = '''' then Inl (''deployment doesn'' @ [sq] @ ''t have a revision yet'')
       else if snd (atoi s) then Inr (fst (atoi s)) else Inl ''invalid syntax'')"

definition GetRevisionStatefulSet :: "workload \<Rightarrow> err + string" where
  "GetRevisionStatefulSet w =
     (if wl_Revision w \<noteq> '''' then Inr (wl_Revision w) else Inl (''StatefulSet doesn'' @ [sq] @ ''t have a revision yet''))"

text \<open>What both status functions do after the check of the revision.\<close>

definition rolloutStatus :: "workload \<Rightarrow> int \<Rightarrow> bool \<times> err option" where
  "rolloutStatus w oldGeneration =
     (if wl_Generation w \<le> oldGeneration then (False, None)
      else if wl_Generation w \<le> wl_ObservedGeneration w then
        (if GetDeploymentCondition (wl_StatusConditions w) ''Progressing'' = Some ''ProgressDeadlineExceeded''
         then (False, Some ''exceeded its progress deadline'')
         else if (case wl_Replicas w of None \<Rightarrow> False | Some n \<Rightarrow> wl_UpdatedReplicas w < n) then (False, None)
         else if wl_StatusReplicas w > wl_UpdatedReplicas w then (False, None)
         else if wl_AvailableReplicas w < wl_UpdatedReplicas w then (False, None)
         else (True, None))
      else (False, None))"

definition getWorkload :: "string \<Rightarrow> string \<Rightarrow> (err + workload) kube" where
  "getWorkload kind name = Call (KObj (GetWorkload kind name)) (\<lambda>r. Ret (case r of
     KObjResp (OWorkload w) \<Rightarrow> Inr w | KErr e \<Rightarrow> Inl e | KNotFound e \<Rightarrow> Inl e | _ \<Rightarrow> Inl ''unexpected response''))"

definition deploymentStatus :: "string \<Rightarrow> int \<Rightarrow> int \<Rightarrow> (bool \<times> err option) kube" where
  "deploymentStatus name revision oldGeneration = pbind (getWorkload depl name) (\<lambda>res. Ret (case res of
     Inl e \<Rightarrow> (False, Some e)
   | Inr w \<Rightarrow> if revision > 0 \<and> isl (GetRevision w) then (False, Some ''cannot get the revision'')
       else rolloutStatus w oldGeneration))"

definition statefulSetStatus :: "string \<Rightarrow> string \<Rightarrow> int \<Rightarrow> (bool \<times> err option) kube" where
  "statefulSetStatus name revision oldGeneration = pbind (getWorkload stset name) (\<lambda>res. Ret (case res of
     Inl e \<Rightarrow> (False, Some e)
   | Inr w \<Rightarrow> if revision \<noteq> '''' \<and> isl (GetRevisionStatefulSet w) then (False, Some ''cannot get the revision'')
       else rolloutStatus w oldGeneration))"

text \<open>The error of the status is only logged, so a deployment that exceeded its deadline is polled on.\<close>

definition WaitForStabilityDepl :: "nat \<Rightarrow> string \<Rightarrow> int \<Rightarrow> int \<Rightarrow> err option kube" where
  "WaitForStabilityDepl ticks name revision oldGeneration =
     poll ticks (pbind (getWorkload depl name) (\<lambda>res. case res of
       Inl _ \<Rightarrow> Ret (Inr False)
     | Inr _ \<Rightarrow> pbind (deploymentStatus name revision oldGeneration) (\<lambda>s. Ret (Inr (fst s)))))"

definition WaitForStabilityStatefulSet :: "nat \<Rightarrow> string \<Rightarrow> string \<Rightarrow> int \<Rightarrow> err option kube" where
  "WaitForStabilityStatefulSet ticks name revision oldGeneration =
     poll ticks (pbind (getWorkload stset name) (\<lambda>res. case res of
       Inl _ \<Rightarrow> Ret (Inr False)
     | Inr _ \<Rightarrow> pbind (statefulSetStatus name revision oldGeneration) (\<lambda>s. Ret (Inr (fst s)))))"

subsection \<open>Pods\<close>

definition getPod :: "string \<Rightarrow> (k_resp + pod) kube" where
  "getPod name = Call (KObj (GetPod name)) (\<lambda>r. Ret (case r of
     KObjResp (OPod p) \<Rightarrow> Inr p | KNotFound e \<Rightarrow> Inl (KNotFound e) | KErr e \<Rightarrow> Inl (KErr e)
   | _ \<Rightarrow> Inl (KErr ''unexpected response'')))"

text \<open>A pod that is still there gives no error and is asked for again.\<close>

definition checkDeletePod :: "string \<Rightarrow> (err + bool) kube" where
  "checkDeletePod name = pbind (getPod name) (\<lambda>res. Ret (case res of
     Inl (KNotFound _) \<Rightarrow> Inr True
   | Inl r \<Rightarrow> (case k_error r of None \<Rightarrow> Inr False | Some e \<Rightarrow> Inl e)
   | Inr _ \<Rightarrow> Inr False))"

definition WaitDeletePod :: "string \<Rightarrow> err option kube" where
  "WaitDeletePod name = poll 150 (checkDeletePod name)"

definition checkPodsByLabel :: "(string \<times> string) list \<Rightarrow> int \<Rightarrow> (err + bool) kube" where
  "checkPodsByLabel labelSelectors numberOfPods = Call (KObj (ListPods labelSelectors True)) (\<lambda>r. Ret (case r of
     KObjResp (OPods pods) \<Rightarrow> Inr (int (length pods) = numberOfPods)
   | KNotFound _ \<Rightarrow> Inr False
   | KErr e \<Rightarrow> Inl e
   | _ \<Rightarrow> Inl ''unexpected response''))"

definition WaitForLeader :: "nat \<Rightarrow> (string \<times> string) list \<Rightarrow> err option kube" where
  "WaitForLeader ticks patroniMasterSelector = poll ticks (checkPodsByLabel patroniMasterSelector 1)"

definition waitForReplicasWithTimeout :: "nat \<Rightarrow> (string \<times> string) list \<Rightarrow> int \<Rightarrow> err option kube" where
  "waitForReplicasWithTimeout ticks patroniReplicasSelector numberOfReplicas =
     poll ticks (checkPodsByLabel patroniReplicasSelector numberOfReplicas)"

definition WaitForReplicas :: "nat \<Rightarrow> (string \<times> string) list \<Rightarrow> int \<Rightarrow> err option kube" where
  "WaitForReplicas ticks patroniReplicasSelector numberOfReplicas =
     waitForReplicasWithTimeout ticks patroniReplicasSelector numberOfReplicas"

definition backupDaemonLabels :: "(string \<times> string) list" where
  "backupDaemonLabels = [(''app'', ''postgres-backup-daemon'')]"

definition metricCollectorLabels :: "(string \<times> string) list" where
  "metricCollectorLabels = [(''app'', ''monitoring-collector'')]"

definition WaitForBackupDaemon :: "nat \<Rightarrow> err option kube" where
  "WaitForBackupDaemon ticks = poll ticks (checkPodsByLabel backupDaemonLabels 1)"

definition WaitForMetricCollector :: "nat \<Rightarrow> err option kube" where
  "WaitForMetricCollector ticks = poll ticks (checkPodsByLabel metricCollectorLabels 1)"

text \<open>\<open>timeout\<close> is the number of polls the caller asks for.\<close>

definition WaitForPatroniWithReplicaTimeout ::
  "nat \<Rightarrow> patroni_core \<Rightarrow> (string \<times> string) list \<Rightarrow> (string \<times> string) list \<Rightarrow> nat \<Rightarrow> err option kube" where
  "WaitForPatroniWithReplicaTimeout ticks cr patroniMasterSelector patroniReplicasSelector timeout =
     pbind (deref (pc_Patroni cr)) (\<lambda>spec.
     if DcsType spec = ''kubernetes'' then
       pbind (WaitForLeader ticks patroniMasterSelector) (\<lambda>err. case err of
         Some e \<Rightarrow> Ret (Some e)
       | None \<Rightarrow> waitForReplicasWithTimeout (if timeout < ticks then ticks else timeout) patroniReplicasSelector (Replicas spec - 1))
     else Ret None)"

definition WaitForPatroni ::
  "nat \<Rightarrow> patroni_core \<Rightarrow> (string \<times> string) list \<Rightarrow> (string \<times> string) list \<Rightarrow> err option kube" where
  "WaitForPatroni ticks cr patroniMasterSelector patroniReplicasSelector =
     WaitForPatroniWithReplicaTimeout ticks cr patroniMasterSelector patroniReplicasSelector 0"

text \<open>The phase and the error of the call.\<close>

definition GetPodPhase :: "string \<Rightarrow> (string \<times> err option) kube" where
  "GetPodPhase name = pbind (getPod name) (\<lambda>res. Ret (case res of
     Inr p \<Rightarrow> (pod_Phase p, None)
   | Inl (KNotFound _) \<Rightarrow> (''NotFound'', None)
   | Inl r \<Rightarrow> (''Error'', k_error r)))"

text \<open>A container without \<open>Terminated\<close> is a nil pointer.\<close>

fun exitCodes :: "(string \<times> int option) list \<Rightarrow> (string \<times> int) list \<Rightarrow> (string \<times> int) list kube" where
  "exitCodes [] codes = Ret codes"
| "exitCodes ((name, terminated) # statuses) codes =
     pbind (deref terminated) (\<lambda>code. exitCodes statuses (AList.update name code codes))"

definition GetPodExitCodes :: "string \<Rightarrow> (err + (string \<times> int) list) kube" where
  "GetPodExitCodes name = pbind (getPod name) (\<lambda>res. case res of
     Inr p \<Rightarrow> pbind (exitCodes (pod_ExitCodes p) []) (\<lambda>codes. Ret (Inr codes))
   | Inl (KNotFound _) \<Rightarrow> Ret (Inr [])
   | Inl r \<Rightarrow> Ret (case k_error r of None \<Rightarrow> Inr [] | Some e \<Rightarrow> Inl e))"

text \<open>Wait for one of the given phases; the second call gives the result.\<close>

definition waitForPhase :: "string list \<Rightarrow> string \<Rightarrow> (string \<times> err option) kube" where
  "waitForPhase phases name =
     pbind (poll 1440 (pbind (GetPodPhase name) (\<lambda>(state, err).
       Ret (if state \<in> set phases then Inr True else case err of Some e \<Rightarrow> Inl e | None \<Rightarrow> Inr False)))) (\<lambda>pollErr.
     case pollErr of
       Some e \<Rightarrow> Ret (''TimeOut'', Some e)
     | None \<Rightarrow> pbind (GetPodPhase name) (\<lambda>(state, _). Ret (state, None)))"

definition WaitForCompletePod :: "string \<Rightarrow> (string \<times> err option) kube" where
  "WaitForCompletePod name = waitForPhase [''Succeeded'', ''Failed''] name"

definition WaitForRunningPod :: "string \<Rightarrow> (string \<times> err option) kube" where
  "WaitForRunningPod name = waitForPhase [''Running''] name"

end
