(* ===== verification/Volume_Claims.thy ===== *)
theory Volume_Claims
  imports Wait_Util "HOL-Library.Char_ord" "HOL-Library.List_Lexorder"
begin

section \<open>Claims for volumes\<close>

text \<open>
  Models the part of \<^verbatim>\<open>operator/pkg/helper/resource_management.go\<close> for persistent volume claims: creation, growth,
  custom annotations and the waits for the new capacity.  Quantities are numbers of bytes; \<open>ParseQuantity\<close> of
  apimachinery is a parameter.  A Go map is an association list of its pairs, read with \<open>map_of\<close>; a function
  that changes the claim it got returns the changed claim.
\<close>

definition customAnnotationsKey :: string where
  "customAnnotationsKey = ''deployment.netcracker.com/custom-annotations''"

definition pvcChangedByJobFromAnnotation :: string where
  "pvcChangedByJobFromAnnotation = ''pvc-changed-by-job-from''"

text \<open>Reading a Go map of strings: a missing key and a nil map give the empty string.\<close>

definition pairs :: "(string \<times> string) list option \<Rightarrow> (string \<times> string) list" where
  "pairs m = (case m of None \<Rightarrow> [] | Some as \<Rightarrow> as)"

definition map_text :: "(string \<times> string) list \<Rightarrow> string \<Rightarrow> string" where
  "map_text m k = (case map_of m k of None \<Rightarrow> '''' | Some v \<Rightarrow> v)"

definition drop_empty :: "(string \<times> string) list option \<Rightarrow> (string \<times> string) list option" where
  "drop_empty m = (if pairs m = [] then None else m)"

subsection \<open>Sizes\<close>

definition pvcStorageSize :: "pvc \<Rightarrow> int \<times> bool" where
  "pvcStorageSize p = (case pvc_Requests p of
     None \<Rightarrow> (0, False)
   | Some requests \<Rightarrow> (case requests of None \<Rightarrow> (0, False) | Some qty \<Rightarrow> (qty, True)))"

text \<open>The result is the changed claim and whether the annotation was removed, or an error.\<close>

definition checkPvcChangedByJobAnnotation ::
  "(string \<Rightarrow> err + int) \<Rightarrow> pvc \<Rightarrow> pvc \<Rightarrow> err + (pvc \<times> bool)" where
  "checkPvcChangedByJobAnnotation ParseQuantity foundPvc desiredPvc =
     (case map_of (pairs (pvc_Annotations foundPvc)) pvcChangedByJobFromAnnotation of
        None \<Rightarrow> Inr (foundPvc, False)
      | Some previousSize \<Rightarrow> (case ParseQuantity previousSize of
          Inl e \<Rightarrow> Inl (''failed to parse previous size: '' @ e)
        | Inr previousQty \<Rightarrow>
            let (desiredQty, desiredOk) = pvcStorageSize desiredPvc; (foundQty, foundOk) = pvcStorageSize foundPvc in
            if desiredOk \<and> foundOk \<and> previousQty = desiredQty \<and> foundQty \<noteq> desiredQty
            then Inl (''PVC '' @ pvc_Name foundPvc @ '' was resized by shrink job'')
            else Inr (foundPvc\<lparr>pvc_Annotations := drop_empty
                   (map_option (AList.delete pvcChangedByJobFromAnnotation) (pvc_Annotations foundPvc))\<rparr>, True)))"

subsection \<open>Custom annotations\<close>

definition getCustomAnnotationKeys :: "(string \<times> string) list \<Rightarrow> string list" where
  "getCustomAnnotationKeys annotations = sort (filter (\<lambda>k. k \<noteq> customAnnotationsKey) (remdups (map fst annotations)))"

definition preparePvcCustomAnnotations :: "pvc \<Rightarrow> pvc" where
  "preparePvcCustomAnnotations p =
     (let customAnnotationKeys = getCustomAnnotationKeys (pairs (pvc_Annotations p)) in
      if customAnnotationKeys = [] then p
      else p\<lparr>pvc_Annotations := Some
        (AList.update customAnnotationsKey (join_with '','' customAnnotationKeys) (pairs (pvc_Annotations p)))\<rparr>)"

definition previousCustomAnnotations :: "(string \<times> string) list \<Rightarrow> string list" where
  "previousCustomAnnotations found = (case map_of found customAnnotationsKey of
     None \<Rightarrow> []
   | Some value \<Rightarrow> filter (\<lambda>k. k \<noteq> '''') (map trim_space (split_on CHR '','' value)))"

text \<open>The three loops and the last step on the annotations of the found claim, each with the flag \<open>changed\<close>.\<close>

fun removeUndesired :: "(string \<times> string) list \<Rightarrow> string list \<Rightarrow> (string \<times> string) list \<times> bool \<Rightarrow> (string \<times> string) list \<times> bool" where
  "removeUndesired desired [] s = s"
| "removeUndesired desired (key # keys) (found, changed) =
     (if map_of desired key = None then removeUndesired desired keys (AList.delete key found, True)
      else removeUndesired desired keys (found, changed))"

fun setDesired :: "(string \<times> string) list \<Rightarrow> (string \<times> string) list \<times> bool \<Rightarrow> (string \<times> string) list \<times> bool" where
  "setDesired [] s = s"
| "setDesired ((key, value) # desired) (found, changed) =
     (if key = customAnnotationsKey then setDesired desired (found, changed)
      else if map_text found key \<noteq> value then setDesired desired (AList.update key value found, True)
      else setDesired desired (found, changed))"

definition setTracking :: "string list \<Rightarrow> (string \<times> string) list \<times> bool \<Rightarrow> (string \<times> string) list \<times> bool" where
  "setTracking customAnnotationKeys s = (case s of (found, changed) \<Rightarrow>
     if customAnnotationKeys \<noteq> [] then
       (let value = join_with '','' customAnnotationKeys in
        if map_text found customAnnotationsKey \<noteq> value then (AList.update customAnnotationsKey value found, True)
        else (found, changed))
     else if map_of found customAnnotationsKey \<noteq> None then (AList.delete customAnnotationsKey found, True)
     else (found, changed))"

definition reconcileAnnotations :: "(string \<times> string) list \<Rightarrow> (string \<times> string) list \<Rightarrow> (string \<times> string) list \<times> bool" where
  "reconcileAnnotations found desired =
     setTracking (getCustomAnnotationKeys desired)
       (setDesired desired (removeUndesired desired (previousCustomAnnotations found) (found, False)))"

text \<open>Without desired annotations a nil map stays nil: nothing is written to it then.\<close>

definition reconcilePvcCustomAnnotations :: "pvc \<Rightarrow> pvc \<Rightarrow> pvc \<times> bool" where
  "reconcilePvcCustomAnnotations foundPvc desiredPvc =
     (let (annotations, changed) = reconcileAnnotations (pairs (pvc_Annotations foundPvc)) (pairs (pvc_Annotations desiredPvc)) in
      (foundPvc\<lparr>pvc_Annotations := drop_empty (Some annotations)\<rparr>, changed))"

subsection \<open>Creation and growth\<close>

definition getPvc :: "string \<Rightarrow> (k_resp + pvc) kube" where
  "getPvc name = Call (KObj (GetPvc name)) (\<lambda>r. Ret (case r of
     KObjResp (OPvc p) \<Rightarrow> Inr p | KNotFound e \<Rightarrow> Inl (KNotFound e) | KErr e \<Rightarrow> Inl (KErr e)
   | _ \<Rightarrow> Inl (KErr ''unexpected response'')))"

definition empty_pvc :: pvc where
  "empty_pvc = \<lparr>pvc_Name = '''', pvc_Annotations = None, pvc_Owners = [], pvc_Requests = None, pvc_Capacity = None,
     pvc_Conditions = []\<rparr>"

text \<open>An error other than \<open>NotFound\<close> is taken for a claim that exists, with no contents.\<close>

definition CreatePvcIfNotExists :: "pvc \<Rightarrow> err option kube" where
  "CreatePvcIfNotExists p = pbind (getPvc (pvc_Name p)) (\<lambda>res.
     case res of
       Inl (KNotFound _) \<Rightarrow> k_do (KObj (CreatePvc p))
     | _ \<Rightarrow>
         let foundPvc = (case res of Inr q \<Rightarrow> q | Inl _ \<Rightarrow> empty_pvc);
             cleared = foundPvc\<lparr>pvc_Owners := []\<rparr> in
         k_do (KObj (UpdatePvc (case pvc_Annotations p of
           None \<Rightarrow> cleared
         | Some as \<Rightarrow> cleared\<lparr>pvc_Annotations := Some (fold (\<lambda>(k, v). AList.update k v) as (pairs (pvc_Annotations foundPvc)))\<rparr>))))"

definition zero_qty :: "int option \<Rightarrow> int" where
  "zero_qty q = (case q of None \<Rightarrow> 0 | Some n \<Rightarrow> n)"

definition requested :: "pvc \<Rightarrow> int" where
  "requested p = fst (pvcStorageSize p)"

text \<open>The last steps of \<open>CreateOrResizePvc\<close>: owners, annotations and the update when something changed.\<close>

definition finishResize :: "pvc \<Rightarrow> pvc \<Rightarrow> bool \<Rightarrow> bool \<Rightarrow> (err + bool) kube" where
  "finishResize foundPvc p resizeInProgress changed =
     (let (reconciled, annotationsChanged) = reconcilePvcCustomAnnotations (foundPvc\<lparr>pvc_Owners := []\<rparr>) p in
      if \<not> (changed \<or> pvc_Owners foundPvc \<noteq> [] \<or> annotationsChanged) then Ret (Inr resizeInProgress)
      else pbind (k_do (KObj (UpdatePvc reconciled))) (\<lambda>err.
        Ret (case err of Some e \<Rightarrow> Inl e | None \<Rightarrow> Inr resizeInProgress)))"

definition resizeFound :: "(string \<Rightarrow> err + int) \<Rightarrow> pvc \<Rightarrow> pvc \<Rightarrow> (err + bool) kube" where
  "resizeFound ParseQuantity found p =
     (case checkPvcChangedByJobAnnotation ParseQuantity found p of
        Inl e \<Rightarrow> Ret (Inl e)
      | Inr (foundPvc, annotationChanged) \<Rightarrow>
          let currentSize = requested foundPvc; desiredSize = requested p in
          if desiredSize > currentSize then
            pbind (deref (pvc_Requests foundPvc)) (\<lambda>_.
              finishResize (foundPvc\<lparr>pvc_Requests := Some (Some desiredSize)\<rparr>) p True True)
          else if desiredSize = currentSize then
            (let capacity = zero_qty (pvc_Capacity foundPvc) in
             finishResize foundPvc p (capacity \<noteq> 0 \<and> capacity < desiredSize) annotationChanged)
          else Ret (Inl (''PVC '' @ pvc_Name p @ '' shrinking is not supported'')))"

definition CreateOrResizePvc :: "(string \<Rightarrow> err + int) \<Rightarrow> pvc \<Rightarrow> (err + bool) kube" where
  "CreateOrResizePvc ParseQuantity claim =
     (let p = preparePvcCustomAnnotations claim in
      pbind (getPvc (pvc_Name p)) (\<lambda>res. case res of
        Inl (KNotFound _) \<Rightarrow> pbind (k_do (KObj (CreatePvc p))) (\<lambda>err.
          Ret (case err of Some e \<Rightarrow> Inl e | None \<Rightarrow> Inr False))
      | Inl r \<Rightarrow> Ret (Inl (case k_error r of Some e \<Rightarrow> e | None \<Rightarrow> ''unexpected response''))
      | Inr found \<Rightarrow> resizeFound ParseQuantity found p))"

subsection \<open>Waiting for the size\<close>

definition resizing_conditions :: "string list" where
  "resizing_conditions = [''Resizing'', ''FileSystemResizePending'']"

text \<open>
  The flag \<open>restartRequired\<close> the poll sets is what its last round found, so the condition of the poll is asked in
  two parts: the claim, and the flag for the claim that ended it.
\<close>

fun WaitForPvcResizeState :: "nat \<Rightarrow> string \<Rightarrow> int \<Rightarrow> (bool \<times> err option) kube" where
  "WaitForPvcResizeState ticks pvcName desiredSize = pbind (getPvc pvcName) (\<lambda>res. case res of
     Inl r \<Rightarrow> Ret (False, k_error r)
   | Inr currentPvc \<Rightarrow>
       if zero_qty (pvc_Capacity currentPvc) \<ge> desiredSize then Ret (False, None)
       else if list_ex (\<lambda>c. c \<in> set resizing_conditions) (pvc_Conditions currentPvc) then Ret (True, None)
       else Call KTick (\<lambda>t. case ticks of
         0 \<Rightarrow> Ret (False, Some ''context deadline exceeded'')
       | Suc n \<Rightarrow> if k_error t \<noteq> None then Ret (False, Some ''context deadline exceeded'')
           else WaitForPvcResizeState n pvcName desiredSize))"

declare WaitForPvcResizeState.simps [simp del]

definition pvcCapacityReached :: "string \<Rightarrow> int \<Rightarrow> (err + bool) kube" where
  "pvcCapacityReached pvcName desiredSize = pbind (getPvc pvcName) (\<lambda>res. Ret (Inr (case res of
     Inl _ \<Rightarrow> False | Inr p \<Rightarrow> desiredSize \<le> zero_qty (pvc_Capacity p))))"

text \<open>The deadline is no error here.\<close>

definition WaitForPvcCapacity :: "nat \<Rightarrow> string \<Rightarrow> int \<Rightarrow> (err + bool) kube" where
  "WaitForPvcCapacity ticks pvcName desiredSize =
     pbind (poll ticks (pvcCapacityReached pvcName desiredSize)) (\<lambda>err. Ret (case err of
       None \<Rightarrow> Inr True
     | Some e \<Rightarrow> if e = ''context deadline exceeded'' then Inr False else Inl e))"

end
