(* ===== verification/Volume_Safety.thy ===== *)
theory Volume_Safety
  imports Volume_Claims
begin

section \<open>Safety of volume claims\<close>

text \<open>
  What \<^verbatim>\<open>CreateOrResizePvc\<close> may do to a claim that exists: it grows and never shrinks, and its annotations become
  the desired ones while those of others stay.
\<close>

subsection \<open>Annotations\<close>

lemma previous_None: "map_of found customAnnotationsKey = None \<Longrightarrow> previousCustomAnnotations found = []"
  by (simp add: previousCustomAnnotations_def)

lemma removeUndesired_map_of:
  "map_of (fst (removeUndesired desired ks (found, c))) k =
     (if k \<in> set ks \<and> map_of desired k = None then None else map_of found k)"
  by (induction ks arbitrary: found c) (auto simp: AList.delete_conv' split: if_splits)

lemma removeUndesired_changed: "removeUndesired desired ks s = (f, False) \<Longrightarrow> s = (f, False)"
  by (induction desired ks s rule: removeUndesired.induct) (auto split: if_splits)

lemma removeUndesired_kept:
  "\<forall>k \<in> set ks. map_of desired k \<noteq> None \<Longrightarrow> removeUndesired desired ks s = s"
  by (induction desired ks s rule: removeUndesired.induct) auto

lemma map_text_update: "map_text (AList.update k v m) k' = (if k' = k then v else map_text m k')"
  by (simp add: map_text_def update_conv')

lemma setDesired_text:
  assumes "distinct (map fst desired)"
  shows "map_text (fst (setDesired desired (found, c))) k =
     (if k = customAnnotationsKey then map_text found k
      else case map_of desired k of Some v \<Rightarrow> v | None \<Rightarrow> map_text found k)"
  using assms
proof (induction desired arbitrary: found c k)
  case (Cons kv desired)
  obtain key v where kv: "kv = (key, v)" by (cases kv)
  from Cons.prems kv have free: "map_of desired key = None" by (simp add: map_of_eq_None_iff)
  from Cons.prems have "distinct (map fst desired)" by simp
  note IH = Cons.IH [OF this]
  show ?case using free by (auto simp: kv IH map_text_update split: option.split)
qed simp

lemma setDesired_tracking: "map_of (fst (setDesired desired (found, c))) customAnnotationsKey = map_of found customAnnotationsKey"
proof (induction desired arbitrary: found c)
  case (Cons kv desired)
  then show ?case by (cases kv) (simp add: update_conv')
qed simp

lemma setDesired_changed: "setDesired desired s = (f, False) \<Longrightarrow> s = (f, False)"
  by (induction desired s rule: setDesired.induct) (auto split: if_splits)

lemma setDesired_same:
  assumes "distinct (map fst desired)"
    and "\<And>k v. map_of desired k = Some v \<Longrightarrow> k \<noteq> customAnnotationsKey \<Longrightarrow> map_text found k = v"
  shows "setDesired desired (found, c) = (found, c)"
  using assms
proof (induction desired)
  case (Cons kv desired)
  obtain key v where kv: "kv = (key, v)" by (cases kv)
  have "map_text found k = w" if "map_of desired k = Some w" "k \<noteq> customAnnotationsKey" for k w
  proof -
    from that Cons.prems(1) kv have "k \<noteq> key" by (auto simp: map_of_eq_Some_iff image_iff)
    with that show ?thesis using Cons.prems(2) [of k w] by (simp add: kv)
  qed
  with Cons have "setDesired desired (found, c) = (found, c)" by simp
  with Cons.prems(2) [of key v] show ?case by (auto simp: kv)
qed simp

text \<open>What the annotation \<open>k\<close> reads as when the desired ones are in place.\<close>

definition desired_text :: "(string \<times> string) list \<Rightarrow> (string \<times> string) list \<Rightarrow> string \<Rightarrow> string" where
  "desired_text found desired k =
     (if k = customAnnotationsKey then join_with '','' (getCustomAnnotationKeys desired)
      else case map_of desired k of
        Some v \<Rightarrow> v
      | None \<Rightarrow> if k \<in> set (previousCustomAnnotations found) then '''' else map_text found k)"

lemma setTracking_text:
  "map_text (fst (setTracking ks (found, c))) k =
     (if k = customAnnotationsKey then join_with '','' ks else map_text found k)"
  by (auto simp: setTracking_def map_text_update Let_def) (auto simp: map_text_def AList.delete_conv')

lemma setTracking_changed: "setTracking ks s = (f, False) \<Longrightarrow> s = (f, False)"
  by (cases s) (auto simp: setTracking_def Let_def split: if_splits)

lemma reconcile_text:
  assumes "distinct (map fst desired)"
  shows "map_text (fst (reconcileAnnotations found desired)) k = desired_text found desired k"
proof -
  define removed where "removed = removeUndesired desired (previousCustomAnnotations found) (found, False)"
  have removed: "map_text (fst removed) k =
      (if k \<in> set (previousCustomAnnotations found) \<and> map_of desired k = None then '''' else map_text found k)"
    by (simp add: removed_def map_text_def removeUndesired_map_of)
  obtain f1 c1 where f1: "removed = (f1, c1)" by (cases removed)
  obtain f2 c2 where f2: "setDesired desired (f1, c1) = (f2, c2)" by (cases "setDesired desired (f1, c1)")
  have "map_text (fst (reconcileAnnotations found desired)) k =
      (if k = customAnnotationsKey then join_with '','' (getCustomAnnotationKeys desired) else map_text f2 k)"
    by (simp add: reconcileAnnotations_def f1 [unfolded removed_def] f2 setTracking_text)
  moreover from setDesired_text [OF assms, of f1 c1 k] f2
  have "map_text f2 k = (if k = customAnnotationsKey then map_text f1 k
      else case map_of desired k of Some v \<Rightarrow> v | None \<Rightarrow> map_text f1 k)" by simp
  ultimately show ?thesis using removed by (auto simp: f1 desired_text_def split: option.split)
qed

lemma reconcile_unchanged: "reconcileAnnotations found desired = (annotations, False) \<Longrightarrow> annotations = found"
  by (auto simp: reconcileAnnotations_def dest!: setTracking_changed setDesired_changed removeUndesired_changed)

text \<open>Names that the list of custom annotations can hold: no comma, no space at an end, not empty.\<close>

definition listable :: "string \<Rightarrow> bool" where
  "listable k \<longleftrightarrow> CHR '','' \<notin> set k \<and> trim_space k = k \<and> k \<noteq> ''''"

lemma previous_of_list:
  assumes "map_text found customAnnotationsKey = join_with '','' ks" and "ks \<noteq> []" and "\<forall>k \<in> set ks. listable k"
  shows "set (previousCustomAnnotations found) = set ks"
proof -
  from assms(2,3) have "split_on CHR '','' (join_with '','' ks) = ks" by (intro split_join) (auto simp: listable_def)
  moreover have "map trim_space ks = ks" using assms(3) by (intro map_idI) (simp add: listable_def)
  moreover have "join_with '','' ks \<noteq> ''''"
    using assms(2,3) by (cases ks rule: remdups_adj.cases) (auto simp: listable_def)
  ultimately show ?thesis using assms by (auto simp: previousCustomAnnotations_def map_text_def listable_def split: option.splits)
qed

lemma set_customKeys: "set (getCustomAnnotationKeys desired) = fst ` set desired - {customAnnotationsKey}"
  by (auto simp: getCustomAnnotationKeys_def)


lemma sample_reconciled:
  "reconcileAnnotations [(''a'', ''0''), (''x'', ''1''), (customAnnotationsKey, ''a'')] [(''b'', ''2'')] =
     ([(''x'', ''1''), (customAnnotationsKey, ''b''), (''b'', ''2'')], True)"
  by (simp add: reconcileAnnotations_def previousCustomAnnotations_def getCustomAnnotationKeys_def setTracking_def
      map_text_def customAnnotationsKey_def trim_space_def is_space_def Let_def)


text \<open>
  Reconciling the annotations of a claim a second time changes nothing: the operator does not update a claim
  again and again, provided the names of the desired annotations can be listed.
\<close>

theorem pvc_annotations_idempotent:
  assumes "distinct (map fst desired)" and "\<forall>k \<in> fst ` set desired. k \<noteq> customAnnotationsKey \<longrightarrow> listable k"
    and "reconcileAnnotations found desired = (annotations, changed)"
  shows "reconcileAnnotations annotations desired = (annotations, False)"
proof -
  have reads: "map_text annotations k = desired_text found desired k" for k
    using reconcile_text [OF assms(1), of found] assms(3) by simp
  define ks where "ks = getCustomAnnotationKeys desired"
  have tracking: "map_text annotations customAnnotationsKey = join_with '','' ks"
    by (simp add: reads desired_text_def ks_def)
  have absent: "map_of annotations customAnnotationsKey = None" if "ks = []"
    using that assms(3) unfolding reconcileAnnotations_def ks_def
    by (auto simp: setTracking_def AList.delete_conv' split: prod.splits if_splits)
  have "set (previousCustomAnnotations annotations) \<subseteq> fst ` set desired"
  proof (cases "ks = []")
    case True
    then show ?thesis by (simp add: previous_None absent)
  next
    case False
    have "set ks = fst ` set desired - {customAnnotationsKey}" by (simp add: ks_def set_customKeys)
    with previous_of_list [OF tracking False] assms(2) show ?thesis by auto
  qed
  then have removed: "removeUndesired desired (previousCustomAnnotations annotations) (annotations, False) = (annotations, False)"
    by (intro removeUndesired_kept) (auto simp: map_of_eq_None_iff)
  have set_again: "setDesired desired (annotations, False) = (annotations, False)"
    by (rule setDesired_same [OF assms(1)]) (simp add: reads desired_text_def)
  have "setTracking ks (annotations, False) = (annotations, False)"
    using tracking absent by (auto simp: setTracking_def)
  then show ?thesis unfolding reconcileAnnotations_def removed set_again ks_def .
qed

theorem pvc_annotations_idempotent_witness:
  "reconcileAnnotations [(''x'', ''1''), (customAnnotationsKey, ''b''), (''b'', ''2'')] [(''b'', ''2'')] =
     ([(''x'', ''1''), (customAnnotationsKey, ''b''), (''b'', ''2'')], False)"
  by (rule pvc_annotations_idempotent [OF _ _ sample_reconciled])
    (simp_all add: listable_def trim_space_def is_space_def)

subsection \<open>Growth\<close>

lemma requested_simps [simp]:
  "requested (p\<lparr>pvc_Annotations := a\<rparr>) = requested p" "requested (p\<lparr>pvc_Owners := os\<rparr>) = requested p"
  "requested (p\<lparr>pvc_Requests := Some (Some n)\<rparr>) = n"
  by (simp_all add: requested_def pvcStorageSize_def)

lemma prepare_simps [simp]:
  "requested (preparePvcCustomAnnotations p) = requested p" "pvc_Name (preparePvcCustomAnnotations p) = pvc_Name p"
  by (simp_all add: preparePvcCustomAnnotations_def Let_def)

lemma check_requested:
  "checkPvcChangedByJobAnnotation PQ found p = Inr (found', c) \<Longrightarrow>
     requested found' = requested found \<and> pvc_Requests found' = pvc_Requests found"
  by (auto simp: checkPvcChangedByJobAnnotation_def Let_def split: option.splits sum.splits if_splits prod.splits)

text \<open>The call is an update of the claim that asks for the given size and names no owner.\<close>

definition asks :: "int \<Rightarrow> k_call \<Rightarrow> bool" where
  "asks wanted c \<longleftrightarrow> (\<exists>q. c = KObj (UpdatePvc q) \<and> requested q = wanted \<and> pvc_Owners q = [])"

lemma finishResize_spec:
  assumes "requested foundPvc = wanted"
  shows "spec (finishResize foundPvc p rp ch) (\<lambda>_ u. all_calls (asks wanted) u)"
  using assms by (auto simp: finishResize_def reconcilePvcCustomAnnotations_def k_do_def asks_def spec_simps Let_def
    split: prod.split option.split)

lemma resizeFound_spec:
  "spec (resizeFound PQ found p) (\<lambda>out u.
     if requested p < requested found then (\<exists>e. out = Val (Inl e)) \<and> u = []
     else all_calls (asks (requested p)) u)"
proof (cases "checkPvcChangedByJobAnnotation PQ found p")
  case (Inl e)
  then show ?thesis by (simp add: resizeFound_def spec_simps)
next
  case (Inr fc)
  obtain found' c where fc: "fc = (found', c)" by (cases fc)
  note same = check_requested [OF Inr [unfolded fc]]
  show ?thesis
  proof (cases "requested p" "requested found" rule: linorder_cases)
    case less
    with Inr fc same show ?thesis by (simp add: resizeFound_def spec_simps)
  next
    case equal
    with Inr fc same finishResize_spec [of found' "requested p" p] show ?thesis
      by (simp add: resizeFound_def Let_def)
  next
    case greater
    with Inr fc same finishResize_spec [of "found'\<lparr>pvc_Requests := Some (Some (requested p))\<rparr>" "requested p" p]
    show ?thesis by (auto simp: resizeFound_def Let_def deref_def spec_simps split: option.split)
  qed
qed

text \<open>
  (C21) \<^verbatim>\<open>CreateOrResizePvc\<close> never shrinks a claim: an update is sent only after the server gave a claim that asks
  for no more than the desired size, and it asks for exactly the desired size and has no owner; for a larger
  claim the result is an error.
\<close>

theorem pvc_never_shrinks:
  assumes "beh (CreateOrResizePvc PQ p) out u"
  shows "((KObj (UpdatePvc q), r) \<in> set u \<longrightarrow> requested q = requested p \<and> pvc_Owners q = []
        \<and> (\<exists>found. (KObj (GetPvc (pvc_Name p)), KObjResp (OPvc found)) \<in> set u \<and> requested found \<le> requested p))
    \<and> ((KObj (GetPvc (pvc_Name p)), KObjResp (OPvc found)) \<in> set u \<and> requested p < requested found \<longrightarrow>
        (\<exists>e. out = Val (Inl e)))"
proof -
  let ?p = "preparePvcCustomAnnotations p"
  have "spec (CreateOrResizePvc PQ p) (\<lambda>out u.
      (\<exists>found v. u = (KObj (GetPvc (pvc_Name p)), KObjResp (OPvc found)) # v \<and>
         (if requested p < requested found then (\<exists>e. out = Val (Inl e)) \<and> v = [] else all_calls (asks (requested p)) v))
    \<or> (\<exists>c. u = [c] \<and> fst c = KObj (GetPvc (pvc_Name p)) \<and> (\<forall>found. snd c \<noteq> KObjResp (OPvc found)))
    \<or> (\<exists>c r. u = [c, (KObj (CreatePvc ?p), r)] \<and> fst c = KObj (GetPvc (pvc_Name p)) \<and> (\<forall>found. snd c \<noteq> KObjResp (OPvc found))))"
    by (auto simp: CreateOrResizePvc_def getPvc_def k_do_def spec_simps Let_def
        split: k_resp.split obj_resp.split intro!: spec_mono [OF resizeFound_spec [of PQ _ ?p, unfolded prepare_simps]])
  note shape = specD [OF this assms]
  show ?thesis using shape by (auto simp: asks_def split: if_splits dest: all_calls_mem)
qed

definition small_claim :: pvc where
  "small_claim = \<lparr>pvc_Name = ''data'', pvc_Annotations = None, pvc_Owners = [''op''], pvc_Requests = Some (Some 5),
     pvc_Capacity = Some 5, pvc_Conditions = []\<rparr>"

fun claim_server :: "k_trace \<Rightarrow> k_call \<Rightarrow> k_resp" where
  "claim_server _ (KObj (GetPvc _)) = KObjResp (OPvc small_claim)"
| "claim_server _ _ = KOk"

lemma claim_grows:
  "beh (CreateOrResizePvc (\<lambda>_. Inl '''') (small_claim\<lparr>pvc_Requests := Some (Some 8)\<rparr>)) (Val (Inr True))
     [(KObj (GetPvc ''data''), KObjResp (OPvc small_claim)),
      (KObj (UpdatePvc (small_claim\<lparr>pvc_Owners := [], pvc_Requests := Some (Some 8)\<rparr>)), KOk)]"
  unfolding beh_iff_run
  by (rule exI [of _ claim_server])
    (simp add: CreateOrResizePvc_def preparePvcCustomAnnotations_def getCustomAnnotationKeys_def pairs_def small_claim_def
      getPvc_def resizeFound_def checkPvcChangedByJobAnnotation_def requested_def pvcStorageSize_def Let_def deref_def
      finishResize_def reconcilePvcCustomAnnotations_def reconcileAnnotations_def previousCustomAnnotations_def
      setTracking_def drop_empty_def k_do_def)

theorem pvc_never_shrinks_witness:
  "requested (small_claim\<lparr>pvc_Owners := [], pvc_Requests := Some (Some 8)\<rparr>) = 8 \<and> requested small_claim \<le> 8"
  using pvc_never_shrinks [OF claim_grows, of "small_claim\<lparr>pvc_Owners := [], pvc_Requests := Some (Some 8)\<rparr>" KOk small_claim]
  by (simp add: small_claim_def requested_def pvcStorageSize_def)

end
