(* ===== verification/Resource_Manager.thy ===== *)
theory Resource_Manager
  imports Wait_Util
begin

section \<open>Creating and updating Kubernetes objects\<close>

text \<open>
  Models the part of \<^verbatim>\<open>operator/pkg/helper/resource_management.go\<close> for config maps, pods, deployments and stateful
  sets, and from \<^verbatim>\<open>patroni_core_helper.go\<close> the commands in pods and the versions kept in the config map
  \<^verbatim>\<open>deployment-info\<close>.  An object is found by its name; the error of a conflict is recognised by its text, as
  apimachinery writes it.
\<close>

text \<open>
  The manager with the name, UID and kind of its owner, the value of \<^verbatim>\<open>OPERATOR_NAME\<close> and the cluster name of the
  custom resource its helper holds.
\<close>

record resource_manager =
  rm_Name :: string
  rm_UID :: string
  rm_Kind :: string
  rm_Operator :: string
  rm_Cluster :: "string option"

definition GetOwnerReferences :: "resource_manager \<Rightarrow> string list" where
  "GetOwnerReferences rm = [rm_Kind rm, rm_Name rm, rm_UID rm]"

definition IsConflict :: "err \<Rightarrow> bool" where
  "IsConflict e = has_prefix e ''Operation cannot be fulfilled on ''"

text \<open>\<open>retry.RetryOnConflict\<close> with the default of five steps.\<close>

fun RetryOnConflict :: "nat \<Rightarrow> err option kube \<Rightarrow> err option kube" where
  "RetryOnConflict 0 body = body"
| "RetryOnConflict (Suc n) body = pbind body (\<lambda>err. case err of
     None \<Rightarrow> Ret None
   | Some e \<Rightarrow> if IsConflict e then Call KTick (\<lambda>_. RetryOnConflict n body) else Ret (Some e))"

declare RetryOnConflict.simps [simp del]

subsection \<open>Labels\<close>

definition listWorkloads :: "string \<Rightarrow> (err + workload list) kube" where
  "listWorkloads kind = Call (KObj (ListWorkloads kind)) (\<lambda>r. Ret (case r of
     KObjResp (OWorkloads ws) \<Rightarrow> Inr ws | KErr e \<Rightarrow> Inl e | KNotFound e \<Rightarrow> Inl e | _ \<Rightarrow> Inl ''unexpected response''))"

text \<open>The patterns the callers give are plain text.\<close>

definition namedLike :: "string \<Rightarrow> workload list \<Rightarrow> workload list" where
  "namedLike pattern ws = filter (\<lambda>w. contains_sub pattern (wl_Name w)) ws"

definition GetDeploymentsByNameRegExp :: "string \<Rightarrow> (err + workload list) kube" where
  "GetDeploymentsByNameRegExp pattern = ptry (listWorkloads depl) (\<lambda>ws. Ret (Inr (namedLike pattern ws)))"

definition GetStatefulsetByNameRegExp :: "string \<Rightarrow> (err + workload list) kube" where
  "GetStatefulsetByNameRegExp pattern = ptry (listWorkloads stset) (\<lambda>ws. Ret (Inr (namedLike pattern ws)))"

definition getOperatorLabels :: "resource_manager \<Rightarrow> (err + (string \<times> string) list) kube" where
  "getOperatorLabels rm =
     (let deploymentName = to_lower (rm_Operator rm);
          name = (if deploymentName = ''patroni-services'' then ''postgres-operator'' else deploymentName) in
      ptry (GetDeploymentsByNameRegExp name) (\<lambda>found. Ret (Inr (case found of [] \<Rightarrow> [] | d # _ \<Rightarrow> wl_TemplateLabels d))))"

definition operatorLabel :: "string \<Rightarrow> resource_manager \<Rightarrow> string kube" where
  "operatorLabel key rm = pbind (getOperatorLabels rm) (\<lambda>res. Ret (case res of
     Inl _ \<Rightarrow> ''''
   | Inr labels \<Rightarrow> (case map_of labels key of None \<Rightarrow> '''' | Some v \<Rightarrow> v)))"

definition GetChartVersion :: "resource_manager \<Rightarrow> string kube" where
  "GetChartVersion rm = operatorLabel ''app.kubernetes.io/version'' rm"

definition GetDeploymentSessionId :: "resource_manager \<Rightarrow> string kube" where
  "GetDeploymentSessionId rm = operatorLabel ''deployment.netcracker.com/sessionId'' rm"

definition pythonServices :: "string list" where "pythonServices = [''postgres-backup-daemon'']"
definition chartDeployedServices :: "string list" where
  "chartDeployedServices = [''postgres-exporter'', ''dbaas-postgres-adapter'']"

definition commonLabels :: "resource_manager \<Rightarrow> string \<Rightarrow> (string \<times> string) list kube" where
  "commonLabels rm name =
     pbind (GetChartVersion rm) (\<lambda>chartVersion.
     pbind (GetDeploymentSessionId rm) (\<lambda>sessionId.
     let operatorName = to_lower (rm_Operator rm);
         services = (operatorName = ''patroni-services'');
         labels = [(''name'', name), (''app.kubernetes.io/instance'', name), (''app.kubernetes.io/name'', name),
           (''app.kubernetes.io/component'', ''backend''),
           (''app.kubernetes.io/part-of'', if services then ''postgres-services'' else ''postgres''),
           (''app.kubernetes.io/managed-by'', ''operator''),
           (''app.kubernetes.io/managed-by-operator'', if services then ''postgres-operator'' else operatorName),
           (''app.kubernetes.io/technology'', if name \<in> set pythonServices then ''python'' else ''go'')] in
     Ret (labels @ (if chartVersion \<noteq> '''' then [(''app.kubernetes.io/version'', chartVersion)] else [])
       @ (if sessionId \<noteq> '''' then [(''deployment.netcracker.com/sessionId'', sessionId)] else []))))"

definition overlay :: "('k \<times> 'v) list \<Rightarrow> ('k \<times> 'v) list \<Rightarrow> ('k \<times> 'v) list" where
  "overlay base added = fold (\<lambda>(k, v). AList.update k v) added base"

definition getLabels :: "resource_manager \<Rightarrow> string \<Rightarrow> (string \<times> string) list option \<Rightarrow> (string \<times> string) list option kube" where
  "getLabels rm name labels = pbind (commonLabels rm name) (\<lambda>common.
     Ret (Some (overlay (case labels of None \<Rightarrow> [] | Some ls \<Rightarrow> ls) common)))"

definition isDeployedByChart :: "workload \<Rightarrow> bool" where
  "isDeployedByChart deployment = (wl_Name deployment \<in> set chartDeployedServices)"

definition getLabelsForDeployment :: "resource_manager \<Rightarrow> workload \<Rightarrow> (string \<times> string) list option kube" where
  "getLabelsForDeployment rm deployment =
     (if isDeployedByChart deployment then Ret (wl_Labels deployment) else getLabels rm (wl_Name deployment) (wl_Labels deployment))"

subsection \<open>Config maps\<close>

definition getCM :: "string \<Rightarrow> (k_resp + config_map) kube" where
  "getCM name = Call (KObj (GetCM name)) (\<lambda>r. Ret (case r of
     KObjResp (OCM cm) \<Rightarrow> Inr cm | KNotFound e \<Rightarrow> Inl (KNotFound e) | KErr e \<Rightarrow> Inl (KErr e)
   | _ \<Rightarrow> Inl (KErr ''unexpected response'')))"

definition errorText :: "k_resp \<Rightarrow> err" where
  "errorText r = (case k_error r of Some e \<Rightarrow> e | None \<Rightarrow> ''unexpected response'')"

definition GetConfigMap :: "string \<Rightarrow> (err + config_map) kube" where
  "GetConfigMap name = pbind (getCM name) (\<lambda>res. Ret (case res of Inl r \<Rightarrow> Inl (errorText r) | Inr cm \<Rightarrow> Inr cm))"

definition createCM :: "resource_manager \<Rightarrow> config_map \<Rightarrow> err option kube" where
  "createCM rm cm = pbind (getLabels rm (cm_Name cm) (cm_Labels cm)) (\<lambda>labels.
     k_do (KObj (CreateCM (cm\<lparr>cm_Labels := labels\<rparr>))))"

text \<open>
  The result is whether an existing map was updated, or the error.  An error of the first call other than
  \<open>NotFound\<close> leaves the found map empty and leads to an update.
\<close>

definition createOrUpdateConfigMap :: "resource_manager \<Rightarrow> config_map \<Rightarrow> bool \<Rightarrow> (err + bool) kube" where
  "createOrUpdateConfigMap rm cm preserveLabels = pbind (getCM (cm_Name cm)) (\<lambda>res.
     let owned = cm\<lparr>cm_Owners := GetOwnerReferences rm\<rparr> in
     if (case res of Inl (KNotFound _) \<Rightarrow> True | _ \<Rightarrow> False) then
       pbind (createCM rm owned) (\<lambda>err. Ret (case err of Some e \<Rightarrow> Inl e | None \<Rightarrow> Inr False))
     else if res = Inr cm then Ret (Inr False)
     else pbind (if preserveLabels then Ret (cm_Labels cm) else getLabels rm (cm_Name cm) (cm_Labels cm)) (\<lambda>labels.
       pbind (k_do (KObj (UpdateCM (owned\<lparr>cm_Labels := labels\<rparr>)))) (\<lambda>err.
       Ret (case err of Some e \<Rightarrow> Inl e | None \<Rightarrow> Inr True))))"

definition CreateOrUpdateConfigMap :: "resource_manager \<Rightarrow> config_map \<Rightarrow> (err + bool) kube" where
  "CreateOrUpdateConfigMap rm cm = createOrUpdateConfigMap rm cm False"

definition CreateOrUpdateManagedConfigMap :: "resource_manager \<Rightarrow> config_map \<Rightarrow> (err + bool) kube" where
  "CreateOrUpdateManagedConfigMap rm cm = createOrUpdateConfigMap rm cm True"

definition CreateConfigMapIfNotExists :: "resource_manager \<Rightarrow> config_map \<Rightarrow> err option kube" where
  "CreateConfigMapIfNotExists rm cm = pbind (getCM (cm_Name cm)) (\<lambda>res.
     case res of Inl (KNotFound _) \<Rightarrow> createCM rm cm | _ \<Rightarrow> Ret None)"

definition patroniConfigMaps :: "string \<Rightarrow> string list" where
  "patroniConfigMaps clusterName = [clusterName @ ''-leader'', clusterName @ ''-config'']"

definition updatePatroniConfigMap :: "resource_manager \<Rightarrow> string \<Rightarrow> err option kube" where
  "updatePatroniConfigMap rm name = pbind (GetConfigMap name) (\<lambda>res. case res of
     Inl e \<Rightarrow> Ret (Some e)
   | Inr cmap \<Rightarrow> pbind (CreateOrUpdateManagedConfigMap rm (cmap\<lparr>cm_Owners := GetOwnerReferences rm\<rparr>)) (\<lambda>res.
       Ret (case res of Inl e \<Rightarrow> Some e | Inr _ \<Rightarrow> None)))"

definition UpdatePatroniConfigMaps :: "resource_manager \<Rightarrow> string \<Rightarrow> err option kube" where
  "UpdatePatroniConfigMaps rm clusterName =
     for_err (patroniConfigMaps clusterName) (\<lambda>name. RetryOnConflict 4 (updatePatroniConfigMap rm name))"

definition UpdatePGService :: "resource_manager \<Rightarrow> err option kube" where
  "UpdatePGService rm = for_err [''postgres-operator'', ''dbaas-postgres-adapter''] (\<lambda>svcName.
     pbind (GetService svcName) (\<lambda>found. case found of
       None \<Rightarrow> Ret None
     | Some svc \<Rightarrow> pbind (getLabels rm svcName None) (\<lambda>_. UpdateService svc)))"

text \<open>The map found by its name has no data as a nil map, and writing to it panics.\<close>

definition StoreDataToCM :: "resource_manager \<Rightarrow> string \<Rightarrow> string \<Rightarrow> unit kube" where
  "StoreDataToCM rm key val = pbind (getCM ''deployment-info'') (\<lambda>res.
     pbind (case res of
       Inr cm \<Rightarrow> if cm_Data cm = [] then Panic ''assignment to entry in nil map''
         else Ret (cm\<lparr>cm_Data := AList.update key (trim_space val) (cm_Data cm)\<rparr>)
     | Inl _ \<Rightarrow> Ret \<lparr>cm_Name = ''deployment-info'', cm_Data = [(key, trim_space val)], cm_Annotations = None,
         cm_Labels = None, cm_ResourceVersion = '''', cm_Owners = []\<rparr>) (\<lambda>cm.
     pbind (CreateOrUpdateConfigMap rm cm) (\<lambda>_. Ret ())))"

subsection \<open>Deployments\<close>

definition FindWorkload :: "string \<Rightarrow> string \<Rightarrow> (workload \<times> k_resp option) kube" where
  "FindWorkload kind name = Call (KObj (GetWorkload kind name)) (\<lambda>r. Ret (case r of
     KObjResp (OWorkload w) \<Rightarrow> (w, None)
   | KNotFound e \<Rightarrow> (empty_workload, Some (KNotFound e))
   | KErr e \<Rightarrow> (empty_workload, Some (KErr e))
   | _ \<Rightarrow> (empty_workload, Some (KErr ''unexpected response''))))"

definition FindDeployment :: "workload \<Rightarrow> (workload \<times> k_resp option) kube" where
  "FindDeployment deployment = FindWorkload depl (wl_Name deployment)"

definition FindStatefulSet :: "workload \<Rightarrow> (workload \<times> k_resp option) kube" where
  "FindStatefulSet statefulset = FindWorkload stset (wl_Name statefulset)"

definition notFound :: "k_resp option \<Rightarrow> bool" where
  "notFound r = (case r of Some (KNotFound _) \<Rightarrow> True | _ \<Rightarrow> False)"

text \<open>The parts of a workload that belong to its spec.\<close>

definition workload_spec ::
  "workload \<Rightarrow> string \<times> (string \<times> string) list \<times> (string \<times> string) list \<times> string list \<times> string list \<times> int option" where
  "workload_spec w = (wl_SpecHash w, wl_TemplateLabels w, wl_TemplateAnnotations w, wl_InitContainers w, wl_Images w, wl_Replicas w)"

definition kubeSysAnnotations :: string where "kubeSysAnnotations = ''kubernetes.io''"

definition copySystemAnnotationsToMap :: "(string \<times> string) list \<Rightarrow> (string \<times> string) list \<Rightarrow> (string \<times> string) list" where
  "copySystemAnnotationsToMap source target =
     overlay target (filter (\<lambda>(k, v). contains_sub kubeSysAnnotations k) source)"

definition copySystemAnnotations :: "workload \<Rightarrow> workload \<Rightarrow> workload" where
  "copySystemAnnotations source target =
     target\<lparr>wl_TemplateAnnotations := copySystemAnnotationsToMap (wl_TemplateAnnotations source) (wl_TemplateAnnotations target)\<rparr>"

definition CreateOrUpdateDeployment :: "nat \<Rightarrow> resource_manager \<Rightarrow> workload \<Rightarrow> bool \<Rightarrow> err option kube" where
  "CreateOrUpdateDeployment ticks rm deployment waitStability =
     pbind (FindDeployment deployment) (\<lambda>(before, err).
     pbind (getLabelsForDeployment rm deployment) (\<lambda>labels.
     pbind (if notFound err then k_do (KObj (CreateWorkload depl (deployment\<lparr>wl_Labels := labels\<rparr>)))
            else k_do (KObj (UpdateWorkload depl ((copySystemAnnotations before deployment)\<lparr>wl_Labels := labels\<rparr>)))) (\<lambda>err.
     case err of
       Some e \<Rightarrow> Ret (Some e)
     | None \<Rightarrow>
         if waitStability then
           pbind (FindDeployment deployment) (\<lambda>(after, _).
             WaitForStabilityDepl ticks (wl_Name deployment)
               (if workload_spec before \<noteq> workload_spec after then 1 else 0) (wl_Generation deployment))
         else Ret None)))"

definition deploymentGone :: "string \<Rightarrow> (err + bool) kube" where
  "deploymentGone name = pbind (FindWorkload depl name) (\<lambda>(_, err). Ret (Inr (notFound err)))"

definition WaitTillDeploymentDeleted :: "string \<Rightarrow> err option kube" where
  "WaitTillDeploymentDeleted name = poll 60 (deploymentGone name)"

definition rm_DeleteDeployment :: "string \<Rightarrow> err option kube" where
  "rm_DeleteDeployment name = pbind (FindWorkload depl name) (\<lambda>(_, err). case err of
     Some (KNotFound _) \<Rightarrow> Ret None
   | Some r \<Rightarrow> Ret (k_error r)
   | None \<Rightarrow> pbind (k_do (KObj (DeleteWorkload depl name))) (\<lambda>err. case err of
       Some e \<Rightarrow> Ret (Some e)
     | None \<Rightarrow> WaitTillDeploymentDeleted name))"

definition CreateOrUpdateDeploymentForce :: "nat \<Rightarrow> resource_manager \<Rightarrow> workload \<Rightarrow> bool \<Rightarrow> err option kube" where
  "CreateOrUpdateDeploymentForce ticks rm deployment waitStability =
     pbind (CreateOrUpdateDeployment ticks rm deployment waitStability) (\<lambda>err. if err = None then Ret None else
     pbind (rm_DeleteDeployment (wl_Name deployment)) (\<lambda>err. case err of
       Some e \<Rightarrow> Ret (Some e)
     | None \<Rightarrow> pbind (WaitTillDeploymentDeleted (wl_Name deployment)) (\<lambda>_.
         CreateOrUpdateDeployment ticks rm deployment waitStability)))"

definition ScaleDeployment :: "string \<Rightarrow> int \<Rightarrow> err option kube" where
  "ScaleDeployment name replicas = RetryOnConflict 4 (pbind (getWorkload depl name) (\<lambda>res. case res of
     Inl e \<Rightarrow> Ret (Some e)
   | Inr w \<Rightarrow> k_do (KObj (UpdateWorkload depl (w\<lparr>wl_Replicas := Some replicas\<rparr>)))))"

subsection \<open>Stateful sets\<close>

text \<open>A stateful set that changed is deleted and created again.\<close>

definition CreateOrUpdateStatefulset :: "nat \<Rightarrow> resource_manager \<Rightarrow> workload \<Rightarrow> bool \<Rightarrow> err option kube" where
  "CreateOrUpdateStatefulset ticks rm given waitStability =
     pbind (deref (wl_Labels given)) (\<lambda>labels.
     let statefulSet = given\<lparr>wl_Labels := Some (AList.update ''clone-mode-type'' ''data'' labels)\<rparr>;
         create = pbind (getLabels rm (wl_Name statefulSet) (wl_Labels statefulSet)) (\<lambda>ls.
           k_do (KObj (CreateWorkload stset (statefulSet\<lparr>wl_Labels := ls\<rparr>)))) in
     pbind (FindStatefulSet statefulSet) (\<lambda>(before, err).
     pbind (if notFound err then pbind create (\<lambda>err. Ret (err, wl_Revision statefulSet, wl_Generation statefulSet))
            else if workload_spec before \<noteq> workload_spec statefulSet then
              pbind (k_do (KObj (DeleteWorkload stset (wl_Name before)))) (\<lambda>err. case err of
                Some e \<Rightarrow> Ret (Some e, '''', 0)
              | None \<Rightarrow> pbind create (\<lambda>err. pbind (FindStatefulSet statefulSet) (\<lambda>(after, _).
                  Ret (err, wl_Revision after, 0))))
            else Ret (None, wl_Revision statefulSet, wl_Generation statefulSet)) (\<lambda>(err, revision, oldGeneration).
     case err of
       Some e \<Rightarrow> Ret (Some e)
     | None \<Rightarrow>
         if waitStability then
           pbind (FindStatefulSet statefulSet) (\<lambda>(after, _).
             WaitForStabilityStatefulSet ticks (wl_Name statefulSet)
               (if workload_spec before \<noteq> workload_spec after then wl_Revision after else revision) oldGeneration)
         else Ret None)))"

text \<open>Only the first container with the name is removed.\<close>

fun withoutContainer :: "string \<Rightarrow> string list \<Rightarrow> string list" where
  "withoutContainer name [] = []"
| "withoutContainer name (c # cs) = (if name = c then cs else c # withoutContainer name cs)"

definition DeleteInitContainer :: "nat \<Rightarrow> resource_manager \<Rightarrow> workload list \<Rightarrow> string \<Rightarrow> err option kube" where
  "DeleteInitContainer ticks rm statefulSetsList containerName = for_err statefulSetsList (\<lambda>stSet.
     if wl_InitContainers stSet = [] then Ret None
     else CreateOrUpdateStatefulset ticks rm
       (stSet\<lparr>wl_InitContainers := withoutContainer containerName (wl_InitContainers stSet)\<rparr>) True)"

definition DeleteCleanerInitContainer :: "nat \<Rightarrow> resource_manager \<Rightarrow> string \<Rightarrow> err option kube" where
  "DeleteCleanerInitContainer ticks rm clusterName =
     pbind (GetStatefulsetByNameRegExp (''pg-'' @ clusterName @ ''-node'')) (\<lambda>res. case res of
       Inl e \<Rightarrow> Ret (Some e)
     | Inr stSets \<Rightarrow> DeleteInitContainer ticks rm stSets ''pg-cleaner'')"

definition ScaleStatefulSet :: "string \<Rightarrow> int \<Rightarrow> err option kube" where
  "ScaleStatefulSet name replicas = RetryOnConflict 4 (pbind (getWorkload stset name) (\<lambda>res. case res of
     Inl e \<Rightarrow> Ret (Some e)
   | Inr w \<Rightarrow> k_do (KObj (UpdateWorkload stset (w\<lparr>wl_Replicas := Some replicas\<rparr>)))))"

subsection \<open>Pods\<close>

definition listPods :: "(string \<times> string) list \<Rightarrow> (err + pod list) kube" where
  "listPods selectors = Call (KObj (ListPods selectors False)) (\<lambda>r. Ret (case r of
     KObjResp (OPods pods) \<Rightarrow> Inr pods | KErr e \<Rightarrow> Inl e | KNotFound e \<Rightarrow> Inl e | _ \<Rightarrow> Inl ''unexpected response''))"

definition GetPodsByLabel :: "(string \<times> string) list \<Rightarrow> (err + pod list) kube" where
  "GetPodsByLabel selectors = listPods selectors"

definition GetNamespacePodListBySelectors :: "(string \<times> string) list \<Rightarrow> (err + pod list) kube" where
  "GetNamespacePodListBySelectors selectors = listPods selectors"

definition CreatePod :: "string \<Rightarrow> err option kube" where
  "CreatePod name = k_do (KObj (CreatePodCall name))"

text \<open>A pod that is not found is deleted by the empty name of the empty object.\<close>

definition DeletePod :: "string \<Rightarrow> err option kube" where
  "DeletePod name = pbind (getPod name) (\<lambda>res. case res of
     Inr p \<Rightarrow> k_do (KObj (DeletePodCall (pod_Name p)))
   | Inl (KNotFound _) \<Rightarrow> k_do (KObj (DeletePodCall ''''))
   | Inl r \<Rightarrow> Ret (k_error r))"

definition DeletePodWithWaiting :: "string \<Rightarrow> err option kube" where
  "DeletePodWithWaiting name = pbind (DeletePod name) (\<lambda>err. case err of
     Some e \<Rightarrow> Ret (Some e)
   | None \<Rightarrow> WaitDeletePod name)"

text \<open>\<open>node(\d+)\<close>: the digits after the first \<open>node\<close> that has some.\<close>

fun nodeDigits :: "string \<Rightarrow> string option" where
  "nodeDigits [] = None"
| "nodeDigits (c # cs) =
     (if has_prefix (c # cs) ''node'' \<and> takeWhile is_digit (drop 3 cs) \<noteq> [] then Some (takeWhile is_digit (drop 3 cs))
      else nodeDigits cs)"

definition GetContainerNameForPatroniPod :: "string \<Rightarrow> string \<Rightarrow> string" where
  "GetContainerNameForPatroniPod podName clusterName =
     ''pg-'' @ clusterName @ ''-node'' @ (case nodeDigits podName of Some ds \<Rightarrow> ds | None \<Rightarrow> ''1'')"

definition ExecCmdOnPod :: "string \<Rightarrow> string \<Rightarrow> string \<Rightarrow> string \<Rightarrow> (err + string) kube" where
  "ExecCmdOnPod podName container command shell =
     Call (KObj (ExecPod podName container command (if shell \<noteq> '''' then shell else ''/bin/sh''))) (\<lambda>r. Ret (case r of
       KObjResp (OText out) \<Rightarrow> Inr out | KErr e \<Rightarrow> Inl e | KNotFound e \<Rightarrow> Inl e | _ \<Rightarrow> Inl ''unexpected response''))"

definition ExecCmdOnPatroniPod :: "resource_manager \<Rightarrow> string \<Rightarrow> string \<Rightarrow> string \<Rightarrow> (err + string) kube" where
  "ExecCmdOnPatroniPod rm podName command shell =
     ExecCmdOnPod podName
       (if contains_sub ''pg-major-upgrade-check'' podName then ''pg-upgrade-check''
        else GetContainerNameForPatroniPod podName (case rm_Cluster rm of None \<Rightarrow> ''patroni'' | Some c \<Rightarrow> c))
       command shell"

subsection \<open>Versions\<close>

definition versionOfPod :: "string \<Rightarrow> resource_manager \<Rightarrow> string \<Rightarrow> string kube" where
  "versionOfPod command rm podName = pbind (ExecCmdOnPatroniPod rm podName command '''') (\<lambda>res. Ret (case res of
     Inl _ \<Rightarrow> '''' | Inr version \<Rightarrow> trim_space version))"

definition GetPGVersionFromPod :: "resource_manager \<Rightarrow> string \<Rightarrow> string kube" where
  "GetPGVersionFromPod rm podName =
     versionOfPod (''pg_config --version | awk '' @ squote ''{print $2}'' @ '' | cut -d'' @ squote ''.'' @ '' -f1'') rm podName"

definition GetLocaleVersionFromPod :: "resource_manager \<Rightarrow> string \<Rightarrow> string kube" where
  "GetLocaleVersionFromPod rm podName =
     versionOfPod (''locale --version | grep  '' @ dquote ''[0-9]*'' @ '' | head -n 1 | awk -F '' @ squote '' '' @ '' ''
       @ squote ''{ print $NF }'') rm podName"

definition storedVersion :: "string \<Rightarrow> (k_resp + config_map) \<Rightarrow> string option" where
  "storedVersion key res = (case res of
     Inl _ \<Rightarrow> None
   | Inr cm \<Rightarrow> (case map_of (cm_Data cm) key of
       None \<Rightarrow> None
     | Some version \<Rightarrow> if version = '''' then None else Some (trim_space version)))"

definition GetPGVersion :: "resource_manager \<Rightarrow> string \<Rightarrow> string kube" where
  "GetPGVersion rm podName = pbind (getCM ''deployment-info'') (\<lambda>res. case storedVersion ''pg-version'' res of
     None \<Rightarrow> GetPGVersionFromPod rm podName
   | Some version \<Rightarrow> Ret version)"

definition EnsureLocaleVersion :: "resource_manager \<Rightarrow> string \<Rightarrow> string kube" where
  "EnsureLocaleVersion rm podName = pbind (getCM ''deployment-info'') (\<lambda>res. case storedVersion ''locale-version'' res of
     Some version \<Rightarrow> Ret version
   | None \<Rightarrow> pbind (GetLocaleVersionFromPod rm podName) (\<lambda>version.
       if version \<noteq> '''' then pbind (StoreDataToCM rm ''locale-version'' version) (\<lambda>_. Ret version) else Ret version))"

text \<open>The last character of each name as a number; an empty name panics.\<close>

fun GetStatefulSetIds :: "workload list \<Rightarrow> (err + int list) kube" where
  "GetStatefulSetIds [] = Ret (Inr [])"
| "GetStatefulSetIds (w # ws) =
     (if wl_Name w = '''' then Panic ''slice bounds out of range''
      else let (idx, ok) = atoi [last (wl_Name w)] in
        if \<not> ok then Ret (Inl ''invalid syntax'')
        else pbind (GetStatefulSetIds ws) (\<lambda>res. Ret (case res of Inl e \<Rightarrow> Inl e | Inr ids \<Rightarrow> Inr (idx # ids))))"

end
