(* ===== verification/Upgrade_Slots.thy ===== *)
theory Upgrade_Slots
  imports Resource_Manager
begin

section \<open>Replication slots and a major upgrade\<close>

text \<open>
  Models \<^verbatim>\<open>operator/pkg/upgrade/replication.go\<close>: before a major upgrade the databases of logical slots are made
  read-only and written to a config map, and the operator waits until no slot lags; after the upgrade they are
  made writable again.  Also the lists of databases of \<^verbatim>\<open>patroni_core_helper.go\<close> and the recovery wait.
\<close>

subsection \<open>The client of PostgreSQL\<close>

text \<open>A client that cannot be made is a nil pointer that the next call follows.\<close>

definition withClient :: "string \<Rightarrow> 'a kube \<Rightarrow> 'a kube" where
  "withClient pgHost body = pbind (k_do (KPgClient pgHost)) (\<lambda>err. if err \<noteq> None then Panic nil_deref else body)"

definition pgc_Execute :: "string \<Rightarrow> string \<Rightarrow> err option kube" where
  "pgc_Execute pgHost query = pbind (k_do (KPgConnect pgHost)) (\<lambda>err. case err of
     Some e \<Rightarrow> Ret (Some e)
   | None \<Rightarrow> k_do (KPgExec pgHost query))"

fun oneColumn :: "scan_row list \<Rightarrow> err + string list" where
  "oneColumn [] = Inr []"
| "oneColumn (KText [Some s] # rows) = (case oneColumn rows of Inl e \<Rightarrow> Inl e | Inr ss \<Rightarrow> Inr (s # ss))"
| "oneColumn (KScanErr e # rows) = Inl e"
| "oneColumn (row # rows) = Inl ''cannot scan''"

definition databaseQuery :: "string \<Rightarrow> string" where
  "databaseQuery condition = ''SELECT datname FROM pg_database where datname not in ('' @ squote ''template0'' @ '')''
     @ (if condition \<noteq> '''' then '' and '' @ condition else '''')"

definition GetFilteredDatabaseslist :: "string \<Rightarrow> string \<Rightarrow> (err + string list) kube" where
  "GetFilteredDatabaseslist pgHost condition =
     pbind (k_do (KPgClient pgHost)) (\<lambda>err. if err \<noteq> None then Ret (Inl ''postgresql client is empty'') else
     pbind (k_do (KPgConnect pgHost)) (\<lambda>err. case err of Some e \<Rightarrow> Ret (Inl e) | None \<Rightarrow>
     Call (KPgQuery pgHost (databaseQuery condition)) (\<lambda>r. Ret (case r of
       KRows rows \<Rightarrow> oneColumn rows | KErr e \<Rightarrow> Inl e | _ \<Rightarrow> Inl ''unexpected response''))))"

definition GetAllDatabases :: "string \<Rightarrow> (err + string list) kube" where
  "GetAllDatabases pgHost = GetFilteredDatabaseslist pgHost ''''"

definition GetDatabasesForLocaleUpdate :: "string \<Rightarrow> string \<Rightarrow> (err + string list) kube" where
  "GetDatabasesForLocaleUpdate pgHost newLocale = GetFilteredDatabaseslist pgHost (''datcollversion <> '' @ squote newLocale)"

text \<open>Rows that cannot be read leave the flag as it was.\<close>

fun lastFlag :: "bool \<Rightarrow> scan_row list \<Rightarrow> bool" where
  "lastFlag flag [] = flag"
| "lastFlag flag (KText [Some s] # rows) = lastFlag (s = ''t'') rows"
| "lastFlag flag (row # rows) = lastFlag flag rows"

definition IsPostgresInRecovery :: "string \<Rightarrow> (err + bool) kube" where
  "IsPostgresInRecovery pgHost =
     pbind (k_do (KPgClient pgHost)) (\<lambda>err. if err \<noteq> None then Ret (Inr False) else
     pbind (k_do (KPgConnect pgHost)) (\<lambda>err. case err of Some e \<Rightarrow> Ret (Inl e) | None \<Rightarrow>
     Call (KPgQuery pgHost ''select pg_is_in_recovery();'') (\<lambda>r. Ret (case r of
       KRows rows \<Rightarrow> Inr (lastFlag False rows) | KErr e \<Rightarrow> Inl e | _ \<Rightarrow> Inl ''unexpected response''))))"

definition WaitUntilRecoveryIsDone :: "string \<Rightarrow> err option kube" where
  "WaitUntilRecoveryIsDone pgHost = poll 120 (ptry (IsPostgresInRecovery pgHost) (\<lambda>r. Ret (Inr (\<not> r))))"

subsection \<open>Statements\<close>

definition upgradeReplicationDatabasesCM :: string where "upgradeReplicationDatabasesCM = ''databases''"

definition replicationSlotsQuery :: string where
  "replicationSlotsQuery = ''SELECT slot_name, slot_type, COALESCE(database, '' @ squote '''' @ ''), active, CASE WHEN slot_type = ''
     @ squote ''logical'' @ '' THEN COALESCE(pg_wal_lsn_diff(pg_current_wal_lsn(), confirmed_flush_lsn), 0) ''
     @ ''ELSE COALESCE(pg_wal_lsn_diff(pg_current_wal_lsn(), restart_lsn), 0) END AS lag FROM pg_replication_slots''"

definition quotedDB :: "string \<Rightarrow> string" where
  "quotedDB db = replace_char dq [dq, dq] db"

definition setRoQuery :: "string \<Rightarrow> string" where
  "setRoQuery db = ''ALTER DATABASE '' @ dquote db @ '' SET default_transaction_read_only = on''"

definition restoreROQuery :: "string \<Rightarrow> string" where
  "restoreROQuery db = ''ALTER DATABASE '' @ dquote db @ '' SET default_transaction_read_only = off''"

definition terminateQuery :: "string \<Rightarrow> string" where
  "terminateQuery db = ''SELECT pg_terminate_backend(pid) FROM pg_stat_activity WHERE datname = '' @ squote db
     @ '' AND pid <> pg_backend_pid()''"

subsection \<open>Slots\<close>

fun scanSlots :: "(err + replication_slot) list \<Rightarrow> err + replication_slot list" where
  "scanSlots [] = Inr []"
| "scanSlots (Inl e # rows) = Inl (''failed to scan replication slot: '' @ e)"
| "scanSlots (Inr slot # rows) = (case scanSlots rows of Inl e \<Rightarrow> Inl e | Inr slots \<Rightarrow> Inr (slot # slots))"

definition up_getReplicationSlots :: "string \<Rightarrow> (err + replication_slot list) kube" where
  "up_getReplicationSlots pgHost = pbind (k_do (KPgConnect pgHost)) (\<lambda>err. case err of
     Some e \<Rightarrow> Ret (Inl e)
   | None \<Rightarrow> Call (KPgQuery pgHost replicationSlotsQuery) (\<lambda>r. Ret (case r of
       KObjResp (OSlotRows rows) \<Rightarrow> scanSlots rows
     | KErr e \<Rightarrow> Inl (''failed to query replication slots: '' @ e)
     | _ \<Rightarrow> Inl ''unexpected response'')))"

fun logicalDatabases :: "string list \<Rightarrow> replication_slot list \<Rightarrow> string list" where
  "logicalDatabases seen [] = []"
| "logicalDatabases seen (slot # slots) =
     (if rs_SlotType slot \<noteq> ''logical'' \<or> rs_Database slot = '''' then logicalDatabases seen slots
      else if rs_Database slot \<in> set seen then logicalDatabases seen slots
      else rs_Database slot # logicalDatabases (rs_Database slot # seen) slots)"

definition uniqueLogicalDatabases :: "replication_slot list \<Rightarrow> string list" where
  "uniqueLogicalDatabases slots = logicalDatabases [] slots"

text \<open>\<open>fmt.Errorf\<close> with \<open>%w\<close> around an error that is not nil.\<close>

definition wrapErr :: "string \<Rightarrow> err option kube \<Rightarrow> err option kube" where
  "wrapErr msg m = pbind m (\<lambda>err. Ret (map_option (\<lambda>e. msg @ e) err))"

definition protectDatabase :: "string \<Rightarrow> string \<Rightarrow> err option kube" where
  "protectDatabase pgHost db =
     pbind (wrapErr (''failed to set database '' @ dquote db @ '' read-only: '')
         (pgc_Execute pgHost (setRoQuery (quotedDB db)))) (\<lambda>err. case err of
       Some e \<Rightarrow> Ret (Some e)
     | None \<Rightarrow> wrapErr (''failed to terminate connections to database '' @ dquote db @ '': '')
         (pgc_Execute pgHost (terminateQuery db)))"

definition prepareRODatabases :: "string \<Rightarrow> string list \<Rightarrow> err option kube" where
  "prepareRODatabases pgHost databases = for_err databases (protectDatabase pgHost)"

definition replicationSlotDatabasesCMName :: "string \<Rightarrow> string" where
  "replicationSlotDatabasesCMName clusterName = clusterName @ ''-upgrade-replication-databases''"

definition saveRODatabasesCM :: "resource_manager \<Rightarrow> string \<Rightarrow> string list \<Rightarrow> err option kube" where
  "saveRODatabasesCM rm clusterName databases =
     pbind (CreateOrUpdateConfigMap rm \<lparr>cm_Name = replicationSlotDatabasesCMName clusterName,
         cm_Data = [(upgradeReplicationDatabasesCM, join_with '','' databases)], cm_Annotations = None, cm_Labels = None,
         cm_ResourceVersion = '''', cm_Owners = []\<rparr>) (\<lambda>res. Ret (case res of
       Inl e \<Rightarrow> Some (''failed to save replication slot databases configmap: '' @ e)
     | Inr _ \<Rightarrow> None))"

text \<open>Thirty minutes with a poll every ten seconds.\<close>

definition slotsCaughtUp :: "string \<Rightarrow> (err + bool) kube" where
  "slotsCaughtUp pgHost = ptry (up_getReplicationSlots pgHost) (\<lambda>slots. Ret (Inr (\<not> list_ex (\<lambda>s. rs_Lag s > 0) slots)))"

definition waitForReplicationSlotsLagZero :: "string \<Rightarrow> err option kube" where
  "waitForReplicationSlotsLagZero pgHost = poll 180 (slotsCaughtUp pgHost)"

definition deadSlot :: "replication_slot \<Rightarrow> bool" where
  "deadSlot slot \<longleftrightarrow> \<not> rs_Active slot \<and> rs_Lag slot > 0"

text \<open>What is done for the slots that were read first.\<close>

definition lagError :: "err option \<Rightarrow> err option" where
  "lagError err = (case err of
     None \<Rightarrow> None
   | Some e \<Rightarrow> if e = ''context deadline exceeded''
       then Some ''upgrade error: replication slots did not reach zero lag within 30m0s''
       else Some (''upgrade error: failed waiting for replication slots lag to reach zero: '' @ e))"

definition protectDatabases :: "resource_manager \<Rightarrow> string \<Rightarrow> string \<Rightarrow> string list \<Rightarrow> err option kube" where
  "protectDatabases rm pgHost clusterName databases =
     (if databases \<noteq> [] then pbind (prepareRODatabases pgHost databases) (\<lambda>err. case err of
         Some e \<Rightarrow> Ret (Some e)
       | None \<Rightarrow> saveRODatabasesCM rm clusterName databases)
      else Ret None)"

definition handleSlots :: "resource_manager \<Rightarrow> string \<Rightarrow> string \<Rightarrow> replication_slot list \<Rightarrow> err option kube" where
  "handleSlots rm pgHost clusterName slots =
     (if slots = [] then Ret None
      else case find deadSlot slots of
        Some slot \<Rightarrow> Ret (Some (''upgrade error: replication slot '' @ dquote (rs_Name slot) @ '' is not active and has lag''))
      | None \<Rightarrow> pbind (protectDatabases rm pgHost clusterName (uniqueLogicalDatabases slots)) (\<lambda>err. case err of
          Some e \<Rightarrow> Ret (Some e)
        | None \<Rightarrow> pbind (waitForReplicationSlotsLagZero pgHost) (\<lambda>err. Ret (lagError err))))"

definition HandleReplicationSlotsBeforeUpgrade :: "resource_manager \<Rightarrow> string \<Rightarrow> string \<Rightarrow> err option kube" where
  "HandleReplicationSlotsBeforeUpgrade rm pgHost clusterName =
     withClient pgHost (pbind (up_getReplicationSlots pgHost) (\<lambda>res. case res of
       Inl e \<Rightarrow> Ret (Some e)
     | Inr slots \<Rightarrow> handleSlots rm pgHost clusterName slots))"

definition restoreDatabase :: "string \<Rightarrow> string \<Rightarrow> err option kube" where
  "restoreDatabase pgHost db =
     (if db = '''' then Ret None
      else wrapErr (''failed to unset read-only for database '' @ dquote db @ '': '')
        (pgc_Execute pgHost (restoreROQuery (quotedDB db))))"

definition up_restoreRODatabases :: "string \<Rightarrow> string list \<Rightarrow> err option kube" where
  "up_restoreRODatabases pgHost databases = for_err databases (restoreDatabase pgHost)"

definition savedDatabases :: "config_map \<Rightarrow> string list" where
  "savedDatabases cm = split_on CHR '','' (case map_of (cm_Data cm) upgradeReplicationDatabasesCM of None \<Rightarrow> '''' | Some s \<Rightarrow> s)"

definition removeDatabasesCM :: "string \<Rightarrow> err option kube" where
  "removeDatabasesCM name = Call (KObj (DeleteCM name)) (\<lambda>r. Ret (case r of
     KNotFound _ \<Rightarrow> None
   | _ \<Rightarrow> (case k_error r of
       None \<Rightarrow> None
     | Some e \<Rightarrow> Some (''failed to delete replication slot databases configmap: '' @ e))))"

definition RestoreRODatabases :: "string \<Rightarrow> string \<Rightarrow> err option kube" where
  "RestoreRODatabases pgHost clusterName = pbind (getCM (replicationSlotDatabasesCMName clusterName)) (\<lambda>res. case res of
     Inl (KNotFound _) \<Rightarrow> Ret None
   | Inl r \<Rightarrow> Ret (Some (''failed to get replication slot databases configmap: '' @ errorText r))
   | Inr cm \<Rightarrow>
       let databases = savedDatabases cm in
       pbind (if hd databases \<noteq> '''' then withClient pgHost (up_restoreRODatabases pgHost databases) else Ret None) (\<lambda>err. case err of
         Some e \<Rightarrow> Ret (Some e)
       | None \<Rightarrow> removeDatabasesCM (cm_Name cm)))"

end
