(* ===== verification/Upgrade.thy ===== *)
theory Upgrade
  imports Upgrade_Slots
begin

section \<open>The major upgrade of PostgreSQL\<close>

text \<open>
  Models \<^verbatim>\<open>operator/pkg/upgrade/upgrade.go\<close>: the check whether an upgrade is needed, the prechecks, the stop of
  Patroni, the run of the upgrade pod and the steps after it.  Pods, which the code fills with containers, are
  given by their names; the manifest of the new stateful set (\<^verbatim>\<open>NewPatroniStatefulset\<close>), the YAML parser and
  \<open>ParseQuantity\<close> are parameters.  Integers of 64 bits wrap around.
\<close>

record cluster_settings =
  cl_ClusterName :: string
  cl_PatroniMasterSelectors :: "(string \<times> string) list"
  cl_PatroniReplicasSelector :: "(string \<times> string) list"
  cl_PatroniCommonLabels :: "(string \<times> string) list"
  cl_PgHost :: string
  cl_PatroniUrl :: string
  cl_PatroniTemplate :: string
  cl_ConfigMapKey :: string
  cl_PatroniLabels :: "(string \<times> string) list"
  cl_PostgresServiceName :: string
  cl_PatroniReplicasServiceName :: string
  cl_PatroniCM :: string
  cl_PatroniPropertiesCM :: string
  cl_PostgreSQLUserConf :: string

text \<open>
  The parameters: the polls allowed for the waits, the YAML parser that gives the list \<^verbatim>\<open>bootstrap.initdb\<close> (a
  value of another shape fails a type assertion), the quantity parser and the manifest of the stateful set.
\<close>

datatype initdb_param = InitFlag string | InitMap "(string \<times> string) list"

record upgrade_env =
  ue_Ticks :: nat
  ue_Initdb :: "string \<Rightarrow> err + initdb_param list option"
  ue_ParseQuantity :: "string \<Rightarrow> err + int"
  ue_NewPatroniStatefulset :: "patroni_core \<Rightarrow> int \<Rightarrow> string \<Rightarrow> workload"

definition MasterLabel :: "(string \<times> string) list" where "MasterLabel = [(''pgtype'', ''primary'')]"
definition powaUILabels :: "(string \<times> string) list" where "powaUILabels = [(''name'', ''powa'')]"

definition index_panic :: string where "index_panic = ''index out of range''"

text \<open>\<open>xs[0]\<close>\<close>

definition firstOf :: "'a list \<Rightarrow> 'a kube" where
  "firstOf xs = (case xs of [] \<Rightarrow> Panic index_panic | x # _ \<Rightarrow> Ret x)"

definition getLeaderName :: "(err + string) kube" where
  "getLeaderName = ptry (listPods MasterLabel) (\<lambda>pods. pbind (firstOf pods) (\<lambda>pod.
     pbind (firstOf (pod_Containers pod)) (\<lambda>c. Ret (Inr c))))"

definition CleanInitializeKey :: "string \<Rightarrow> err option kube" where
  "CleanInitializeKey clusterName = pbind (GetConfigMap (clusterName @ ''-config'')) (\<lambda>res. case res of
     Inl e \<Rightarrow> Ret (Some e)
   | Inr cm \<Rightarrow> pbind (deref (cm_Annotations cm)) (\<lambda>as.
       k_do (KObj (UpdateCM (cm\<lparr>cm_Annotations := Some (AList.delete ''initialize'' as)\<rparr>)))))"

definition ProcessSuccessfulUpgrade :: "string \<Rightarrow> err option kube" where
  "ProcessSuccessfulUpgrade clusterName = CleanInitializeKey clusterName"

text \<open>The error of the update is dropped, so it is tried again until the minute is over.\<close>

definition UpdateUpgradeToDone :: "err option kube" where
  "UpdateUpgradeToDone = pbind GetPatroniCoreCR (\<lambda>res. case res of
     Inl e \<Rightarrow> Ret (Some e)
   | Inr newCr \<Rightarrow> pbind (deref (pc_Upgrade newCr)) (\<lambda>up.
       poll 12 (pbind (k_do (KObj (UpdateCoreStatus (newCr\<lparr>pc_Upgrade := Some (up\<lparr>up_Enabled := False\<rparr>)\<rparr>)))) (\<lambda>e.
         Ret (Inr (e = None))))))"

fun initdbText :: "initdb_param list \<Rightarrow> string" where
  "initdbText [] = ''''"
| "initdbText (InitFlag s # ps) = '' --'' @ s @ initdbText ps"
| "initdbText (InitMap kvs # ps) = concat (map (\<lambda>(k, v). '' --'' @ k @ ''='' @ v) kvs) @ initdbText ps"

definition GetInitDbArgs :: "upgrade_env \<Rightarrow> string \<Rightarrow> string \<Rightarrow> (err + string) kube" where
  "GetInitDbArgs env patroniTemplate configMapKey = ptry (GetConfigMap patroniTemplate) (\<lambda>cm.
     case ue_Initdb env (case map_of (cm_Data cm) configMapKey of None \<Rightarrow> '''' | Some s \<Rightarrow> s) of
       Inl e \<Rightarrow> Ret (Inl e)
     | Inr None \<Rightarrow> Panic conversion_panic
     | Inr (Some params) \<Rightarrow> Ret (Inr (initdbText params)))"

definition decideInitDbArgs :: "upgrade_env \<Rightarrow> patroni_core \<Rightarrow> cluster_settings \<Rightarrow> (err + string) kube" where
  "decideInitDbArgs env cr cluster = pbind (deref (pc_Upgrade cr)) (\<lambda>up.
     if up_InitDbParams up \<noteq> '''' then Ret (Inr (up_InitDbParams up))
     else GetInitDbArgs env (cl_PatroniTemplate cluster) (cl_ConfigMapKey cluster))"

subsection \<open>Prechecks\<close>

definition checkForAbsTimeQuery :: string where
  "checkForAbsTimeQuery = ''SELECT 1 FROM information_schema.columns WHERE data_type = '' @ squote ''abstime''
     @ '' AND table_schema <> '' @ squote ''pg_catalog'' @ '';''"

text \<open>A database that cannot be asked counts as one without the type.\<close>

definition IfAbsTimeIsUsed :: "string \<Rightarrow> string \<Rightarrow> bool kube" where
  "IfAbsTimeIsUsed pgHost db = pbind (k_do (KObj (PgDbConnect pgHost db))) (\<lambda>err.
     if err \<noteq> None then Ret False
     else Call (KObj (PgDbQuery pgHost db checkForAbsTimeQuery)) (\<lambda>r. Ret (case r of
       KRows rows \<Rightarrow> rows \<noteq> [] | _ \<Rightarrow> False)))"

fun absTimeDatabases :: "string \<Rightarrow> string list \<Rightarrow> string list kube" where
  "absTimeDatabases pgHost [] = Ret []"
| "absTimeDatabases pgHost (db # dbs) = pbind (IfAbsTimeIsUsed pgHost db) (\<lambda>used.
     pbind (absTimeDatabases pgHost dbs) (\<lambda>found. Ret (if used then db # found else found)))"

text \<open>The list of databases is read with the client that is made for it; its error is dropped.\<close>

definition CheckForAbsTimeUsage :: "string \<Rightarrow> err option kube" where
  "CheckForAbsTimeUsage pgHost =
     pbind (GetAllDatabases pgHost) (\<lambda>res.
     pbind (absTimeDatabases pgHost (case res of Inl _ \<Rightarrow> [] | Inr databaseList \<Rightarrow> databaseList)) (\<lambda>found.
     Ret (if found \<noteq> [] then Some ''Upgrade Error. Next databases have incompatible abstime data type'' else None)))"

text \<open>Rows that cannot be scanned are skipped.\<close>

fun scannedNames :: "scan_row list \<Rightarrow> string list" where
  "scannedNames [] = []"
| "scannedNames (KText [Some s] # rows) = s # scannedNames rows"
| "scannedNames (row # rows) = scannedNames rows"

definition checkForPreparedTxQuery :: string where
  "checkForPreparedTxQuery = ''SELECT DISTINCT database FROM pg_prepared_xacts;''"

definition CheckForPreparedTransactions :: "string \<Rightarrow> err option kube" where
  "CheckForPreparedTransactions pgHost = withClient pgHost (pbind (k_do (KPgConnect pgHost)) (\<lambda>err. case err of
     Some e \<Rightarrow> Ret (Some e)
   | None \<Rightarrow> Call (KPgQuery pgHost checkForPreparedTxQuery) (\<lambda>r. Ret (case r of
       KRows rows \<Rightarrow> if scannedNames rows \<noteq> [] then Some ''Upgrade Error. Prepared transactions exist'' else None
     | KErr e \<Rightarrow> Some (''failed to check for prepared transactions: '' @ e)
     | _ \<Rightarrow> Some ''unexpected response''))))"

text \<open>Two's complement with 64 bits.\<close>

definition int64 :: "int \<Rightarrow> int" where
  "int64 x = (x + 2 ^ 63) mod 2 ^ 64 - 2 ^ 63"

definition requiredBytes :: "int \<Rightarrow> int" where
  "requiredBytes dbSizeKb = int64 (int64 (dbSizeKb * 1024) * 2)"

definition duCommand :: string where
  "duCommand = ''du -sk /var/lib/pgsql/data/postgresql_${POD_IDENTITY} | awk '' @ squote ''{print $1}''"

definition CheckPVCSizeBeforeUpgrade :: "upgrade_env \<Rightarrow> resource_manager \<Rightarrow> string \<Rightarrow> string \<Rightarrow> err option kube" where
  "CheckPVCSizeBeforeUpgrade env rm masterPodName pvcSize =
     pbind (ExecCmdOnPatroniPod rm masterPodName duCommand '''') (\<lambda>res. Ret (case res of
       Inl e \<Rightarrow> Some e
     | Inr out \<Rightarrow>
         let (dbSizeKb, ok) = atoi (trim_space out) in
         if \<not> ok then Some ''failed to parse DB size from du output''
         else (case ue_ParseQuantity env pvcSize of
           Inl e \<Rightarrow> Some (''failed to parse PVC size: '' @ e)
         | Inr pvcSizeBytes \<Rightarrow>
             if requiredBytes dbSizeKb > pvcSizeBytes then Some ''not enough PVC space for PostgreSQL major upgrade'' else None)))"

definition grepCommand :: string where
  "grepCommand = ''grep '' @ dquote ''shared_preload_libraries'' @ '' /var/lib/pgsql/data/postgresql_${POD_IDENTITY}/postgresql.conf || echo ''
     @ dquote ''not found''"

definition dumpCommand :: string where
  "dumpCommand = ''set -o pipefail; pg_dumpall -v -U postgres -w --file=/tmp/test_db_dumpall.custom --schema-only 2>&1 | tail -n 100 >&2''"

definition removeCommand :: string where "removeCommand = ''rm -rf /tmp/test_db_dumpall.custom''"

subsection \<open>Other deployments and pods\<close>

text \<open>The early return is taken when there is a deployment: the loop is left for the empty list.\<close>

definition ScalePowaDeployment :: "upgrade_env \<Rightarrow> resource_manager \<Rightarrow> int \<Rightarrow> err option kube" where
  "ScalePowaDeployment env rm replicas = pbind (GetDeploymentsByNameRegExp ''powa-ui'') (\<lambda>res. case res of
     Inl e \<Rightarrow> Ret (Some e)
   | Inr deploymentsToUpdate \<Rightarrow>
       if length deploymentsToUpdate > 0 then Ret None
       else for_err deploymentsToUpdate (\<lambda>dep.
         CreateOrUpdateDeployment (ue_Ticks env) rm (dep\<lparr>wl_Replicas := Some replicas\<rparr>) True))"

definition withCleaner :: "string \<Rightarrow> workload \<Rightarrow> workload kube" where
  "withCleaner dockerImage dep =
     (if wl_InitContainers dep = [] then
        (case wl_Images dep of
           [] \<Rightarrow> Panic index_panic
         | _ # images \<Rightarrow> Ret (dep\<lparr>wl_InitContainers := [''pg-cleaner''], wl_Images := dockerImage # images, wl_Replicas := Some 1\<rparr>))
      else Ret (dep\<lparr>wl_Replicas := Some 1\<rparr>))"

definition applyCleanerInitContainer ::
  "upgrade_env \<Rightarrow> resource_manager \<Rightarrow> string \<Rightarrow> patroni_spec \<Rightarrow> cluster_settings \<Rightarrow> err option kube" where
  "applyCleanerInitContainer env rm leaderName patroniSpec cluster =
     pbind (GetStatefulsetByNameRegExp (''pg-'' @ cl_ClusterName cluster @ ''-node'')) (\<lambda>res. case res of
       Inl e \<Rightarrow> Ret (Some e)
     | Inr deps \<Rightarrow> for_err deps (\<lambda>dep.
         if wl_Name dep = leaderName then Ret None
         else pbind (withCleaner (DockerImage patroniSpec) dep) (\<lambda>changed.
           CreateOrUpdateStatefulset (ue_Ticks env) rm changed False)))"

text \<open>The poll of four hours with an interval of ten seconds; the flag is whether the pod was pending.\<close>

fun awaitUpgradePod :: "nat \<Rightarrow> string \<Rightarrow> bool \<Rightarrow> err option kube" where
  "awaitUpgradePod n name wasPending = pbind (GetPodPhase name) (\<lambda>(state, err).
     let pending = (wasPending \<or> state = ''Pending'');
         again = (\<lambda>flag. Call KTick (\<lambda>t. case n of
           0 \<Rightarrow> Ret (Some ''context deadline exceeded'')
         | Suc m \<Rightarrow> if k_error t \<noteq> None then Ret (Some ''context deadline exceeded'') else awaitUpgradePod m name flag)) in
     if pending \<and> state = ''NotFound'' then
       pbind (CreatePod name) (\<lambda>err. case err of Some e \<Rightarrow> Ret (Some e) | None \<Rightarrow> again False)
     else if state = ''Succeeded'' \<or> state = ''Failed'' then Ret None
     else (case err of Some e \<Rightarrow> Ret (Some e) | None \<Rightarrow> again pending))"

declare awaitUpgradePod.simps [simp del]

definition createAndWaitTillPodIsReady :: "string \<Rightarrow> (string \<times> err option) kube" where
  "createAndWaitTillPodIsReady name = pbind (CreatePod name) (\<lambda>err. case err of
     Some e \<Rightarrow> Ret ('''', Some e)
   | None \<Rightarrow> pbind (awaitUpgradePod 1440 name False) (\<lambda>pollErr. case pollErr of
       Some e \<Rightarrow> Ret (''TimeOut'', Some (if e = ''context deadline exceeded'' then ''upgrade pod operation timed out: '' @ e else e))
     | None \<Rightarrow> pbind (GetPodPhase name) (\<lambda>(state, _). Ret (state, None))))"

definition now :: "string kube" where
  "now = Call (KObj Now) (\<lambda>r. Ret (case r of KObjResp (OText t) \<Rightarrow> t | _ \<Rightarrow> ''''))"

definition waitTillPodIsRunning :: "string \<Rightarrow> err option kube" where
  "waitTillPodIsRunning name = pbind (WaitForRunningPod name) (\<lambda>(state, err).
     Ret (if state \<noteq> ''Running'' then Some (''pod State is not equals to Running: '' @ state) else err))"

definition RunUpgradePatroniPod :: "(err + string) kube" where
  "RunUpgradePatroniPod = pbind now (\<lambda>t.
     let name = ''pg-major-upgrade-check-'' @ t in
     pbind (CreatePod name) (\<lambda>err. case err of Some e \<Rightarrow> Ret (Inl e) | None \<Rightarrow>
     pbind (waitTillPodIsRunning name) (\<lambda>err. Ret (case err of Some e \<Rightarrow> Inl e | None \<Rightarrow> Inr name))))"

text \<open>The error of the run is dropped; the nil pod is followed then.\<close>

definition CheckUpgrade :: "resource_manager \<Rightarrow> cluster_settings \<Rightarrow> bool kube" where
  "CheckUpgrade rm cluster = pbind (GetPodsByLabel (cl_PatroniMasterSelectors cluster)) (\<lambda>res. case res of
     Inl _ \<Rightarrow> Ret False
   | Inr [] \<Rightarrow> Ret False
   | Inr (masterPod # _) \<Rightarrow>
       pbind (GetPGVersion rm (pod_Name masterPod)) (\<lambda>currentVersion.
       pbind (StoreDataToCM rm ''pg-version'' currentVersion) (\<lambda>_.
       pbind RunUpgradePatroniPod (\<lambda>res. case res of
         Inl _ \<Rightarrow> Panic nil_deref
       | Inr upgradeCheckPod \<Rightarrow>
           pbind (GetPGVersionFromPod rm upgradeCheckPod) (\<lambda>targetVersion.
           pbind (DeletePod upgradeCheckPod) (\<lambda>_.
           Ret (currentVersion \<noteq> targetVersion)))))))"

subsection \<open>The upgrade\<close>

abbreviation andThen :: "err option kube \<Rightarrow> err option kube \<Rightarrow> err option kube" where
  "andThen m k \<equiv> pbind m (\<lambda>err. case err of Some e \<Rightarrow> Ret (Some e) | None \<Rightarrow> k)"

definition pgUpgradeCheckFailed ::
  "upgrade_env \<Rightarrow> resource_manager \<Rightarrow> string \<Rightarrow> cluster_settings \<Rightarrow> patroni_core \<Rightarrow> (bool \<times> err option) kube" where
  "pgUpgradeCheckFailed env rm upgradePod cluster cr = pbind (GetPodExitCodes upgradePod) (\<lambda>res. case res of
     Inl e \<Rightarrow> Ret (False, Some e)
   | Inr codes \<Rightarrow>
       if map_of codes ''pg-upgrade'' = Some 13 then
         pbind (andThen (UpdatePatroniReplicas 1 (cl_ClusterName cluster))
           (andThen (ScalePowaDeployment env rm 1)
           (andThen (WaitForPatroni (ue_Ticks env) cr (cl_PatroniMasterSelectors cluster) (cl_PatroniReplicasSelector cluster))
             (RestoreRODatabases (cl_PgHost cluster) (cl_ClusterName cluster))))) (\<lambda>err.
         Ret (err = None, err))
       else Ret (False, None))"

text \<open>The checks of \<^verbatim>\<open>ProceedUpgrade\<close> before anything is stopped, from the command in the leader's pod on.\<close>

definition checkPreload :: "resource_manager \<Rightarrow> string \<Rightarrow> err option kube" where
  "checkPreload rm masterPodName = pbind (ExecCmdOnPatroniPod rm masterPodName grepCommand '''') (\<lambda>res. Ret (case res of
     Inl e \<Rightarrow> Some e
   | Inr out \<Rightarrow> if contains_sub ''shared_preload_libraries'' out then None
       else Some ''shared_preload_libraries is not found in PostgreSQL config, please check PostgreSQL params, failing major upgrade''))"

definition execIn :: "resource_manager \<Rightarrow> string \<Rightarrow> string \<Rightarrow> string \<Rightarrow> err option kube" where
  "execIn rm podName command shell = pbind (ExecCmdOnPatroniPod rm podName command shell) (\<lambda>res.
     Ret (case res of Inl e \<Rightarrow> Some e | Inr _ \<Rightarrow> None))"

definition checkCluster :: "cluster_settings \<Rightarrow> err option kube" where
  "checkCluster cluster = pbind (GetPatroniClusterConfig (cl_PatroniUrl cluster)) (\<lambda>res.
     pbind (IsPatroniClusterHealthy (case res of Inl _ \<Rightarrow> [] | Inr members \<Rightarrow> members)) (\<lambda>healthy.
     Ret (if healthy then None else Some ''patroni cluster is not healthy enough for upgrade procedure. Exiting'')))"

definition prechecks ::
  "upgrade_env \<Rightarrow> resource_manager \<Rightarrow> string \<Rightarrow> patroni_core \<Rightarrow> cluster_settings \<Rightarrow> err option kube" where
  "prechecks env rm masterPodName cr cluster =
     andThen (checkPreload rm masterPodName)
     (pbind (deref (pc_Patroni cr)) (\<lambda>patroniSpec.
      pbind (deref (PatroniStorage patroniSpec)) (\<lambda>storage.
      andThen (CheckPVCSizeBeforeUpgrade env rm masterPodName (st_Size storage))
     (andThen (execIn rm masterPodName dumpCommand ''/bin/bash'')
     (andThen (execIn rm masterPodName removeCommand '''')
     (andThen (CheckForPreparedTransactions (cl_PgHost cluster))
     (andThen (CheckForAbsTimeUsage (cl_PgHost cluster))
     (andThen (HandleReplicationSlotsBeforeUpgrade rm (cl_PgHost cluster) (cl_ClusterName cluster))
       (checkCluster cluster)))))))))"

definition waitDeleted :: "pod list \<Rightarrow> err option kube" where
  "waitDeleted pods = for_err pods (\<lambda>p. WaitDeletePod (pod_Name p))"

text \<open>The steps after the upgrade pod has succeeded.\<close>

definition finishUpgrade ::
  "upgrade_env \<Rightarrow> resource_manager \<Rightarrow> string \<Rightarrow> workload \<Rightarrow> patroni_core \<Rightarrow> cluster_settings \<Rightarrow> err option kube" where
  "finishUpgrade env rm leaderName patroniSfs cr cluster =
     andThen (CleanInitializeKey (cl_ClusterName cluster))
     (andThen (CreateOrUpdateStatefulset (ue_Ticks env) rm patroniSfs True)
     (andThen (WaitForLeader (ue_Ticks env) (cl_PatroniMasterSelectors cluster))
     (andThen (RestoreRODatabases (cl_PgHost cluster) (cl_ClusterName cluster))
     (pbind (deref (pc_Patroni cr)) (\<lambda>patroniSpec.
      andThen (applyCleanerInitContainer env rm leaderName patroniSpec cluster)
     (pbind (GetPodsByLabel (cl_PatroniMasterSelectors cluster)) (\<lambda>res.
      pbind (firstOf (case res of Inl _ \<Rightarrow> [] | Inr pods \<Rightarrow> pods)) (\<lambda>updatedMasterPod.
      pbind (GetPGVersionFromPod rm (pod_Name updatedMasterPod)) (\<lambda>pgVersion.
      pbind (StoreDataToCM rm ''pg-version'' pgVersion) (\<lambda>_.
      andThen (ScalePowaDeployment env rm 1)
     (andThen UpdateUpgradeToDone
       (WaitForPatroniWithReplicaTimeout (ue_Ticks env) cr (cl_PatroniMasterSelectors cluster)
          (cl_PatroniReplicasSelector cluster) 36000))))))))))))"

definition runUpgradePod ::
  "upgrade_env \<Rightarrow> resource_manager \<Rightarrow> string \<Rightarrow> patroni_core \<Rightarrow> cluster_settings \<Rightarrow> err option kube" where
  "runUpgradePod env rm leaderName cr cluster =
     pbind (decideInitDbArgs env cr cluster) (\<lambda>args. case args of
       Inl e \<Rightarrow> Ret (Some e)
     | Inr _ \<Rightarrow>
         if leaderName = '''' then Panic ''slice bounds out of range''
         else
           let patroniSfs = ue_NewPatroniStatefulset env cr (fst (atoi [last leaderName])) (cl_ClusterName cluster) in
           pbind now (\<lambda>t.
           let upgradePod = ''pg-major-upgrade-'' @ t in
           pbind (createAndWaitTillPodIsReady upgradePod) (\<lambda>(state, err). case err of
             Some e \<Rightarrow> Ret (Some e)
           | None \<Rightarrow>
               if state \<noteq> ''Succeeded'' then
                 pbind (pgUpgradeCheckFailed env rm upgradePod cluster cr) (\<lambda>(failed, checkErr).
                 Ret (if failed then Some ''postgresql major upgrade failed, please, check logs of upgrade pod''
                   else case checkErr of
                     Some e \<Rightarrow> Some e
                   | None \<Rightarrow> Some (''pod State is not equals to Succeeded: '' @ state)))
               else finishUpgrade env rm leaderName patroniSfs cr cluster)))"

text \<open>Scaling down, from the powa deployment to the last pod of Patroni, and the rest.\<close>

definition stopAndUpgrade :: "upgrade_env \<Rightarrow> resource_manager \<Rightarrow> patroni_core \<Rightarrow> cluster_settings \<Rightarrow> err option kube" where
  "stopAndUpgrade env rm cr cluster =
     andThen (ScalePowaDeployment env rm 0)
     (andThen (DeletePodsByLabel powaUILabels)
     (pbind getLeaderName (\<lambda>leader. case leader of
        Inl e \<Rightarrow> Ret (Some e)
      | Inr leaderName \<Rightarrow>
          pbind (GetNamespacePodListBySelectors (cl_PatroniCommonLabels cluster)) (\<lambda>pods. case pods of
            Inl e \<Rightarrow> Ret (Some e)
          | Inr patroniPods \<Rightarrow>
              andThen (UpdatePatroniReplicas 0 (cl_ClusterName cluster))
             (andThen (waitDeleted patroniPods)
               (runUpgradePod env rm leaderName cr cluster))))))"

text \<open>Without a pod of the leader the error of the call, which may be nil, is returned.\<close>

definition ProceedUpgrade :: "upgrade_env \<Rightarrow> resource_manager \<Rightarrow> patroni_core \<Rightarrow> cluster_settings \<Rightarrow> err option kube" where
  "ProceedUpgrade env rm cr cluster = pbind (GetPodsByLabel (cl_PatroniMasterSelectors cluster)) (\<lambda>res. case res of
     Inl e \<Rightarrow> Ret (Some e)
   | Inr [] \<Rightarrow> Ret None
   | Inr (masterPod # _) \<Rightarrow>
       andThen (prechecks env rm (pod_Name masterPod) cr cluster) (stopAndUpgrade env rm cr cluster))"

end
