(* ===== verification/Upgrade_Safety.thy ===== *)
theory Upgrade_Safety
  imports Upgrade Kube_Calls
begin

section \<open>Safety of the major upgrade\<close>

text \<open>
  What holds before Patroni is stopped for a major upgrade, which databases are made read-only and writable
  again, and what the check of the volume's size decides.
\<close>

subsection \<open>Programs that scale nothing\<close>

abbreviation unscaled :: "'a kube \<Rightarrow> bool" where
  "unscaled m \<equiv> emits (all_calls (\<lambda>c. \<not> scales c)) m"

lemma labels_unscaled: "unscaled (getLabels rm name ls)"
  unfolding getLabels_def commonLabels_def GetChartVersion_def GetDeploymentSessionId_def operatorLabel_def
    getOperatorLabels_def GetDeploymentsByNameRegExp_def listWorkloads_def Let_def
  by (auto intro!: kube_rules)

lemma config_map_unscaled: "unscaled (CreateOrUpdateConfigMap rm cm)"
  unfolding CreateOrUpdateConfigMap_def createOrUpdateConfigMap_def createCM_def getCM_def Let_def
  by (auto intro!: kube_rules labels_unscaled)

lemma exec_unscaled: "unscaled (ExecCmdOnPatroniPod rm podName command shell)"
  unfolding ExecCmdOnPatroniPod_def ExecCmdOnPod_def by (auto intro!: kube_rules)

lemma for_err_unscaled: "(\<And>x. unscaled (f x)) \<Longrightarrow> unscaled (for_err xs f)"
  by (rule calls.emits_rules)

lemma execute_unscaled: "unscaled (pgc_Execute h q)"
  unfolding pgc_Execute_def by (auto intro!: kube_rules)

lemma slots_unscaled: "unscaled (up_getReplicationSlots h)"
  unfolding up_getReplicationSlots_def by (auto intro!: kube_rules)

lemma withClient_unscaled: "unscaled m \<Longrightarrow> unscaled (withClient h m)"
  unfolding withClient_def by (auto intro!: kube_rules)

lemma handle_slots_unscaled: "unscaled (HandleReplicationSlotsBeforeUpgrade rm h cl)"
  unfolding HandleReplicationSlotsBeforeUpgrade_def handleSlots_def protectDatabases_def prepareRODatabases_def
    protectDatabase_def wrapErr_def
    saveRODatabasesCM_def waitForReplicationSlotsLagZero_def slotsCaughtUp_def
  by (auto intro!: kube_rules withClient_unscaled slots_unscaled execute_unscaled config_map_unscaled)

lemma abstime_unscaled: "unscaled (CheckForAbsTimeUsage h)"
proof -
  have "unscaled (absTimeDatabases h dbs)" for dbs
    by (induction dbs) (auto intro!: kube_rules simp: IfAbsTimeIsUsed_def)
  then show ?thesis
    unfolding CheckForAbsTimeUsage_def GetAllDatabases_def GetFilteredDatabaseslist_def
    by (auto intro!: kube_rules)
qed

lemma cluster_unscaled: "unscaled (checkCluster cluster)"
  unfolding checkCluster_def IsPatroniClusterHealthy_def by (auto intro!: kube_rules)

lemma prechecks_unscaled: "unscaled (prechecks env rm podName cr cluster)"
  unfolding prechecks_def checkPreload_def execIn_def CheckPVCSizeBeforeUpgrade_def CheckForPreparedTransactions_def
  by (auto intro!: kube_rules exec_unscaled withClient_unscaled abstime_unscaled handle_slots_unscaled cluster_unscaled)

subsection \<open>What the checks found\<close>

text \<open>The size on the disk that the pod reported leaves room in a claim of the size \<open>q\<close>.\<close>

definition fits :: "string \<Rightarrow> int \<Rightarrow> bool" where
  "fits out q \<longleftrightarrow> snd (atoi (trim_space out)) \<and> requiredBytes (fst (atoi (trim_space out))) \<le> q"

lemma exec_spec:
  "spec (ExecCmdOnPatroniPod rm podName command shell) (\<lambda>out u. \<forall>txt. out = Val (Inr txt) \<longrightarrow>
     (\<exists>c. u = [(KObj (ExecPod podName c command (if shell \<noteq> '''' then shell else ''/bin/sh'')), KObjResp (OText txt))]))"
  by (auto simp: ExecCmdOnPatroniPod_def ExecCmdOnPod_def spec_simps split: k_resp.split obj_resp.split)

lemma size_checked:
  assumes "beh (CheckPVCSizeBeforeUpgrade env rm podName pvcSize) (Val None) u"
  shows "\<exists>c out q. (KObj (ExecPod podName c duCommand ''/bin/sh''), KObjResp (OText out)) \<in> set u
    \<and> ue_ParseQuantity env pvcSize = Inr q \<and> fits out q"
proof -
  from assms obtain res u1 where exec: "beh (ExecCmdOnPatroniPod rm podName duCommand '''') (Val res) u1" and u: "u = u1"
    and res: "None = (case res of Inl e \<Rightarrow> Some e
     | Inr out \<Rightarrow>
         let (dbSizeKb, ok) = atoi (trim_space out) in
         if \<not> ok then Some ''failed to parse DB size from du output''
         else (case ue_ParseQuantity env pvcSize of
           Inl e \<Rightarrow> Some (''failed to parse PVC size: '' @ e)
         | Inr pvcSizeBytes \<Rightarrow>
             if requiredBytes dbSizeKb > pvcSizeBytes then Some ''not enough PVC space for PostgreSQL major upgrade'' else None))"
    unfolding CheckPVCSizeBeforeUpgrade_def by (auto simp: beh_pbind)
  from res obtain out where out: "res = Inr out" by (cases res) auto
  with res have "\<exists>q. ue_ParseQuantity env pvcSize = Inr q \<and> fits out q"
    by (auto simp: fits_def split: prod.splits if_splits sum.splits)
  moreover from specD [OF exec_spec exec] out u
  have "\<exists>c. (KObj (ExecPod podName c duCommand ''/bin/sh''), KObjResp (OText out)) \<in> set u" by auto
  ultimately show ?thesis by blast
qed

lemma dump_checked:
  assumes "beh (execIn rm podName command shell) (Val None) u" and "shell \<noteq> ''''"
  shows "\<exists>c out. (KObj (ExecPod podName c command shell), KObjResp (OText out)) \<in> set u"
proof -
  from assms(1) obtain res where exec: "beh (ExecCmdOnPatroniPod rm podName command shell) (Val res) u"
    and res: "None = (case res of Inl e \<Rightarrow> Some e | Inr _ \<Rightarrow> None)"
    unfolding execIn_def by (auto simp: beh_pbind)
  from res obtain out where "res = Inr out" by (cases res) auto
  with specD [OF exec_spec exec] assms(2) show ?thesis by auto
qed

lemma prepared_checked:
  "spec (CheckForPreparedTransactions h) (\<lambda>out u. out = Val None \<longrightarrow>
     (\<exists>rows. (KPgQuery h checkForPreparedTxQuery, KRows rows) \<in> set u \<and> scannedNames rows = []))"
  by (auto simp: CheckForPreparedTransactions_def withClient_def k_do_def spec_simps
      split: option.split k_resp.split if_splits)

text \<open>The server listed the slots and none had a lag.\<close>

definition slots_done :: "string \<Rightarrow> k_trace \<Rightarrow> bool" where
  "slots_done h u \<longleftrightarrow> (\<exists>rows slots. (KPgQuery h replicationSlotsQuery, KObjResp (OSlotRows rows)) \<in> set u
     \<and> scanSlots rows = Inr slots \<and> (\<forall>s \<in> set slots. rs_Lag s \<le> 0))"

lemma slots_done_mono: "slots_done h u \<Longrightarrow> set u \<subseteq> set v \<Longrightarrow> slots_done h v"
  unfolding slots_done_def by blast

lemma slots_read:
  "spec (up_getReplicationSlots h) (\<lambda>out u. \<forall>slots. out = Val (Inr slots) \<longrightarrow>
     (\<exists>rows. (KPgQuery h replicationSlotsQuery, KObjResp (OSlotRows rows)) \<in> set u \<and> scanSlots rows = Inr slots))"
  by (auto simp: up_getReplicationSlots_def k_do_def spec_simps split: option.split k_resp.split obj_resp.split)

lemma lag_checked:
  assumes "beh (waitForReplicationSlotsLagZero h) (Val None) u"
  shows "slots_done h u"
proof -
  from poll_None [OF assms [unfolded waitForReplicationSlotsLagZero_def]] obtain u1 u2 where
    u: "u = u1 @ u2" and caught: "beh (slotsCaughtUp h) (Val (Inr True)) u2" by blast
  from caught obtain slots where "beh (up_getReplicationSlots h) (Val (Inr slots)) u2" "\<not> list_ex (\<lambda>s. rs_Lag s > 0) slots"
    unfolding slotsCaughtUp_def by (auto simp: beh_ptry)
  with specD [OF slots_read] u show ?thesis
    by (fastforce simp: slots_done_def list_ex_iff not_less)
qed

lemma handleSlots_checked:
  assumes "beh (handleSlots rm h cl slots) (Val None) u" and "slots \<noteq> []"
  shows "slots_done h u"
proof -
  from assms have "find deadSlot slots = None" by (auto simp: handleSlots_def split: option.splits)
  with assms obtain u1 u2 err where "u = u1 @ u2" "beh (waitForReplicationSlotsLagZero h) (Val err) u2" "lagError err = None"
    by (auto simp: handleSlots_def beh_err_steps beh_pbind [of "waitForReplicationSlotsLagZero h"])
  moreover from this have "err = None" by (auto simp: lagError_def split: option.splits if_splits)
  ultimately show ?thesis using lag_checked [of h u2] by (auto intro: slots_done_mono [of h u2])
qed

lemma handle_checked:
  assumes "beh (HandleReplicationSlotsBeforeUpgrade rm h cl) (Val None) u"
  shows "slots_done h u"
proof -
  from assms obtain u0 u1 where u: "u = u0 @ u1" and main: "beh (pbind (up_getReplicationSlots h) (\<lambda>res. case res of
      Inl e \<Rightarrow> Ret (Some e) | Inr slots \<Rightarrow> handleSlots rm h cl slots)) (Val None) u1"
    unfolding HandleReplicationSlotsBeforeUpgrade_def withClient_def beh_pbind [of "k_do _"]
    by (auto split: if_splits)
  from main obtain v1 v2 res where v: "u1 = v1 @ v2" and read: "beh (up_getReplicationSlots h) (Val res) v1"
    and rest: "beh (case res of Inl e \<Rightarrow> Ret (Some e) | Inr slots \<Rightarrow> handleSlots rm h cl slots) (Val None) v2"
    unfolding beh_pbind [of "up_getReplicationSlots h"] by blast
  from rest obtain slots where slots: "res = Inr slots" by (cases res) auto
  show ?thesis
  proof (cases "slots = []")
    case True
    with specD [OF slots_read read] slots u v show ?thesis by (fastforce simp: slots_done_def)
  next
    case False
    with rest slots have "slots_done h v2" by (auto intro: handleSlots_checked)
    with u v show ?thesis by (auto intro: slots_done_mono [of h v2])
  qed
qed

definition cluster_up :: "string \<Rightarrow> k_trace \<Rightarrow> bool" where
  "cluster_up url u \<longleftrightarrow> (\<exists>members. (KGetCluster url, KCluster 200 (Some members)) \<in> set u
     \<and> arePatroniMembersRunning members \<and> isLeaderExist members)"

lemma cluster_checked:
  "spec (checkCluster cluster) (\<lambda>out u. out = Val None \<longrightarrow> cluster_up (cl_PatroniUrl cluster) u)"
  by (auto simp: checkCluster_def GetPatroniClusterConfig_def IsPatroniClusterHealthy_def GetPatroniCoreCR_def
      deref_def cluster_up_def spec_simps split: k_resp.split option.split sum.split if_splits)

text \<open>All the facts that are known before the upgrade stops anything.\<close>

definition ready_for_upgrade :: "upgrade_env \<Rightarrow> patroni_core \<Rightarrow> cluster_settings \<Rightarrow> k_trace \<Rightarrow> bool" where
  "ready_for_upgrade env cr cluster u \<longleftrightarrow>
     (\<exists>spec storage p c out q. pc_Patroni cr = Some spec \<and> PatroniStorage spec = Some storage
        \<and> (KObj (ExecPod p c duCommand ''/bin/sh''), KObjResp (OText out)) \<in> set u
        \<and> ue_ParseQuantity env (st_Size storage) = Inr q \<and> fits out q)
   \<and> (\<exists>p c out. (KObj (ExecPod p c dumpCommand ''/bin/bash''), KObjResp (OText out)) \<in> set u)
   \<and> (\<exists>rows. (KPgQuery (cl_PgHost cluster) checkForPreparedTxQuery, KRows rows) \<in> set u \<and> scannedNames rows = [])
   \<and> slots_done (cl_PgHost cluster) u
   \<and> cluster_up (cl_PatroniUrl cluster) u"

lemma cluster_up_mono: "cluster_up url u \<Longrightarrow> set u \<subseteq> set v \<Longrightarrow> cluster_up url v"
  unfolding cluster_up_def by blast

lemma ready_mono: "ready_for_upgrade env cr cluster u \<Longrightarrow> set u \<subseteq> set v \<Longrightarrow> ready_for_upgrade env cr cluster v"
  unfolding ready_for_upgrade_def by (meson slots_done_mono cluster_up_mono subsetD)

lemma prechecks_passed:
  assumes "beh (prechecks env rm podName cr cluster) (Val None) u"
  shows "ready_for_upgrade env cr cluster u"
proof -
  from assms obtain u1 v where u: "u = u1 @ v"
    and v: "beh (pbind (deref (pc_Patroni cr)) (\<lambda>patroniSpec. pbind (deref (PatroniStorage patroniSpec)) (\<lambda>storage.
      andThen (CheckPVCSizeBeforeUpgrade env rm podName (st_Size storage))
     (andThen (execIn rm podName dumpCommand ''/bin/bash'')
     (andThen (execIn rm podName removeCommand '''')
     (andThen (CheckForPreparedTransactions (cl_PgHost cluster))
     (andThen (CheckForAbsTimeUsage (cl_PgHost cluster))
     (andThen (HandleReplicationSlotsBeforeUpgrade rm (cl_PgHost cluster) (cl_ClusterName cluster))
       (checkCluster cluster))))))))) (Val None) v"
    unfolding prechecks_def beh_err_steps by blast
  from v obtain spec storage where spec: "pc_Patroni cr = Some spec" "PatroniStorage spec = Some storage"
    by (cases "pc_Patroni cr"; cases "PatroniStorage (the (pc_Patroni cr))") (auto simp: deref_def)
  with v obtain v1 v2 v3 v4 v5 v6 v7 where w: "v = v1 @ v2 @ v3 @ v4 @ v5 @ v6 @ v7"
    and checks: "beh (CheckPVCSizeBeforeUpgrade env rm podName (st_Size storage)) (Val None) v1"
      "beh (execIn rm podName dumpCommand ''/bin/bash'') (Val None) v2"
      "beh (CheckForPreparedTransactions (cl_PgHost cluster)) (Val None) v4"
      "beh (HandleReplicationSlotsBeforeUpgrade rm (cl_PgHost cluster) (cl_ClusterName cluster)) (Val None) v6"
      "beh (checkCluster cluster) (Val None) v7"
    by (simp add: deref_def beh_err_steps) blast
  have sub: "set v1 \<subseteq> set u" "set v2 \<subseteq> set u" "set v4 \<subseteq> set u" "set v6 \<subseteq> set u" "set v7 \<subseteq> set u"
    by (auto simp: u w)
  have "cluster_up (cl_PatroniUrl cluster) u"
    by (rule cluster_up_mono [OF _ sub(5)]) (use specD [OF cluster_checked checks(5)] in simp)
  moreover have "slots_done (cl_PgHost cluster) u" by (rule slots_done_mono [OF handle_checked [OF checks(4)] sub(4)])
  moreover have "\<exists>rows. (KPgQuery (cl_PgHost cluster) checkForPreparedTxQuery, KRows rows) \<in> set u \<and> scannedNames rows = []"
    using specD [OF prepared_checked checks(3)] sub(3) by blast
  moreover have "\<exists>p c out. (KObj (ExecPod p c dumpCommand ''/bin/bash''), KObjResp (OText out)) \<in> set u"
    using dump_checked [OF checks(2)] sub(2) by blast
  ultimately show ?thesis
    unfolding ready_for_upgrade_def using size_checked [OF checks(1)] sub(1) spec by blast
qed

lemma upgrade_order:
  assumes "beh (ProceedUpgrade env rm cr cluster) out u" and "(KUpdateStatefulSet stSet, r) \<in> set u"
  obtains v w where "u = v @ w" "all_calls (\<lambda>c. \<not> scales c) v" "ready_for_upgrade env cr cluster v"
    "(KUpdateStatefulSet stSet, r) \<in> set w"
proof -
  have first: "unscaled (GetPodsByLabel (cl_PatroniMasterSelectors cluster))"
    unfolding GetPodsByLabel_def listPods_def by (auto intro!: kube_rules)
  have call: "\<not> \<not> scales (KUpdateStatefulSet stSet)" by simp
  obtain u1 u2 res where u: "u = u1 @ u2" and "beh (GetPodsByLabel (cl_PatroniMasterSelectors cluster)) (Val res) u1"
    and u1: "all_calls (\<lambda>c. \<not> scales c) u1"
    and main: "beh (case res of Inl e \<Rightarrow> Ret (Some e) | Inr [] \<Rightarrow> Ret None | Inr (masterPod # _) \<Rightarrow>
       andThen (prechecks env rm (pod_Name masterPod) cr cluster) (stopAndUpgrade env rm cr cluster)) out u2"
    and mem: "(KUpdateStatefulSet stSet, r) \<in> set u2"
    by (rule beh_skip [OF assms [unfolded ProceedUpgrade_def] first call])
  from main mem obtain masterPod pods where "res = Inr (masterPod # pods)"
    by (cases res) (auto split: list.splits)
  with main have both: "beh (andThen (prechecks env rm (pod_Name masterPod) cr cluster) (stopAndUpgrade env rm cr cluster)) out u2"
    by simp
  obtain v w where v: "u2 = v @ w" "beh (prechecks env rm (pod_Name masterPod) cr cluster) (Val None) v"
    "all_calls (\<lambda>c. \<not> scales c) v" "beh (stopAndUpgrade env rm cr cluster) out w" "(KUpdateStatefulSet stSet, r) \<in> set w"
    by (rule beh_skip_err [OF both mem prechecks_unscaled call])
  have "ready_for_upgrade env cr cluster (u1 @ v)" by (rule ready_mono [OF prechecks_passed [OF v(2)]]) simp
  with that [of "u1 @ v" w] u u1 v show ?thesis by simp
qed


definition upgrade_cluster :: cluster_settings where
  "upgrade_cluster = \<lparr>cl_ClusterName = ''c'', cl_PatroniMasterSelectors = MasterLabel, cl_PatroniReplicasSelector = [],
     cl_PatroniCommonLabels = [], cl_PgHost = ''pg'', cl_PatroniUrl = ''url'', cl_PatroniTemplate = ''t'', cl_ConfigMapKey = ''k'',
     cl_PatroniLabels = [], cl_PostgresServiceName = '''', cl_PatroniReplicasServiceName = '''', cl_PatroniCM = '''',
     cl_PatroniPropertiesCM = '''', cl_PostgreSQLUserConf = ''''\<rparr>"

definition upgrade_core :: patroni_core where
  "upgrade_core = empty_core\<lparr>pc_Patroni := Some (empty_patroni\<lparr>Replicas := 1, ClusterName := ''c'', DcsType := ''kubernetes'', DockerImage := ''i'',
     PatroniStorage := Some \<lparr>st_Type = ''provisioned'', st_Size = ''1Gi'', st_Annotations = None,
       st_Selectors = [], st_Volumes = []\<rparr>\<rparr>),
     pc_Upgrade := Some \<lparr>up_Enabled = True, up_InitDbParams = ''x'', up_DockerUpgradeImage = ''u''\<rparr>\<rparr>"

definition upgrade_rm :: resource_manager where
  "upgrade_rm = \<lparr>rm_Name = ''n'', rm_UID = ''u'', rm_Kind = ''k'', rm_Operator = ''op'', rm_Cluster = Some ''c''\<rparr>"

definition sample_upgrade :: upgrade_env where
  "sample_upgrade = \<lparr>ue_Ticks = 0, ue_Initdb = (\<lambda>_. Inr (Some [])), ue_ParseQuantity = (\<lambda>_. Inr 409600),
     ue_NewPatroniStatefulset = (\<lambda>_ _ _. empty_workload)\<rparr>"

text \<open>A server with the given slots and members that refuses to scale.\<close>

fun upgrade_server :: "replication_slot list \<Rightarrow> member list \<Rightarrow> k_trace \<Rightarrow> k_call \<Rightarrow> k_resp" where
  "upgrade_server slots members _ (KObj (ListPods _ _)) = KObjResp (OPods [\<lparr>pod_Name = ''pg-c-node1-0'', pod_Phase = ''Running'',
     pod_Containers = [''pg-c-node1''], pod_ExitCodes = []\<rparr>])"
| "upgrade_server slots members _ (KObj (ExecPod _ _ cmd _)) =
     KObjResp (OText (if cmd = duCommand then ''100'' else ''shared_preload_libraries''))"
| "upgrade_server slots members _ (KPgQuery _ q) =
     (if q = replicationSlotsQuery then KObjResp (OSlotRows (map Inr slots)) else KRows [])"
| "upgrade_server slots members _ (KGetCluster _) = KCluster 200 (Some members)"
| "upgrade_server slots members _ KGetCore = KCoreCR upgrade_core"
| "upgrade_server slots members _ (KObj (ListWorkloads _)) = KObjResp (OWorkloads [])"
| "upgrade_server slots members _ (KObj (GetCM n)) = KNotFound n"
| "upgrade_server slots members _ KListStatefulSets = KStatefulSets [\<lparr>ss_Name = ''pg-c-node1'', ss_Replicas = 1\<rparr>]"
| "upgrade_server slots members _ (KUpdateStatefulSet _) = KErr ''no''"
| "upgrade_server slots members _ _ = KOk"

lemma queries_differ [simp]:
  "checkForPreparedTxQuery \<noteq> replicationSlotsQuery" "databaseQuery '''' \<noteq> replicationSlotsQuery"
  "grepCommand \<noteq> duCommand" "dumpCommand \<noteq> duCommand" "removeCommand \<noteq> duCommand"
  by (simp_all add: checkForPreparedTxQuery_def replicationSlotsQuery_def databaseQuery_def grepCommand_def duCommand_def
      dumpCommand_def removeCommand_def squote_def)

lemmas upgrade_run_defs = ProceedUpgrade_def GetPodsByLabel_def listPods_def upgrade_cluster_def upgrade_core_def
  upgrade_rm_def sample_upgrade_def prechecks_def checkPreload_def ExecCmdOnPatroniPod_def ExecCmdOnPod_def
  CheckPVCSizeBeforeUpgrade_def execIn_def CheckForPreparedTransactions_def withClient_def k_do_def deref_def
  CheckForAbsTimeUsage_def GetAllDatabases_def GetFilteredDatabaseslist_def
  HandleReplicationSlotsBeforeUpgrade_def handleSlots_def up_getReplicationSlots_def
  checkCluster_def GetPatroniClusterConfig_def IsPatroniClusterHealthy_def GetPatroniCoreCR_def
  patroniRunningState_def ifExpectedCountOfMembers_def has_prefix_def

lemma sample_stop:
  "fst (run (upgrade_server [] [\<lparr>mb_Role = ''leader'', mb_State = ''running''\<rparr>])
     (ProceedUpgrade sample_upgrade upgrade_rm upgrade_core upgrade_cluster) []) = Val (Some ''no'')"
  "(KUpdateStatefulSet \<lparr>ss_Name = ''pg-c-node1'', ss_Replicas = 0\<rparr>, KErr ''no'') \<in> set (snd (run
     (upgrade_server [] [\<lparr>mb_Role = ''leader'', mb_State = ''running''\<rparr>])
     (ProceedUpgrade sample_upgrade upgrade_rm upgrade_core upgrade_cluster) []))"
  by (simp_all add: upgrade_run_defs stopAndUpgrade_def ScalePowaDeployment_def GetDeploymentsByNameRegExp_def
      listWorkloads_def namedLike_def DeletePodsByLabel_def getLeaderName_def firstOf_def
      GetNamespacePodListBySelectors_def UpdatePatroniReplicas_def atoi_def trim_space_def is_space_def is_digit_def
      digits_val_def digit_val_def requiredBytes_def int64_def empty_core_def)


subsection \<open>Read-only databases\<close>

text \<open>The statements a run sends to PostgreSQL, in order.\<close>

definition executed :: "k_trace \<Rightarrow> string list" where
  "executed u = concat (map (\<lambda>(c, r). case c of KPgExec h q \<Rightarrow> [q] | _ \<Rightarrow> []) u)"

lemma executed_simps [simp]:
  "executed [] = []" "executed ((KPgExec h q, r) # u) = q # executed u" "executed (u @ v) = executed u @ executed v"
  "executed ((KPgConnect h, r) # u) = executed u" "executed ((KPgClient h, r) # u) = executed u"
  "executed ((KObj c, r) # u) = executed u"
  by (simp_all add: executed_def)

lemma execute_executed: "beh (pgc_Execute h q) (Val None) u \<Longrightarrow> executed u = [q]"
  by (auto simp: pgc_Execute_def beh_err_steps) (auto simp: k_do_def beh_Call_iff)

lemma beh_wrapErr [simp]: "beh (wrapErr msg m) (Val None) u \<longleftrightarrow> beh m (Val None) u"
  by (auto simp: wrapErr_def beh_pbind)

lemma protect_one: "beh (protectDatabase h db) (Val None) u \<Longrightarrow> executed u = [setRoQuery (quotedDB db), terminateQuery db]"
  by (auto simp: protectDatabase_def beh_err_steps execute_executed)

lemma restore_one: "beh (restoreDatabase h db) (Val None) u \<Longrightarrow> db \<noteq> '''' \<Longrightarrow> executed u = [restoreROQuery (quotedDB db)]"
  by (auto simp: restoreDatabase_def execute_executed)

lemma for_err_executed:
  "beh (for_err dbs f) (Val None) u \<Longrightarrow> (\<And>db v. db \<in> set dbs \<Longrightarrow> beh (f db) (Val None) v \<Longrightarrow> executed v = g db) \<Longrightarrow>
     executed u = concat (map g dbs)"
  by (induction dbs arbitrary: u) (auto simp: beh_err_steps)

lemma prepare_executed:
  "beh (prepareRODatabases h dbs) (Val None) u \<Longrightarrow>
     executed u = concat (map (\<lambda>db. [setRoQuery (quotedDB db), terminateQuery db]) dbs)"
  unfolding prepareRODatabases_def by (erule for_err_executed) (rule protect_one)

lemma restore_executed:
  assumes "beh (up_restoreRODatabases h dbs) (Val None) u" and "\<forall>db \<in> set dbs. db \<noteq> ''''"
  shows "executed u = map (\<lambda>db. restoreROQuery (quotedDB db)) dbs"
proof -
  have "executed u = concat (map (\<lambda>db. [restoreROQuery (quotedDB db)]) dbs)"
    using assms by (intro for_err_executed [OF assms(1) [unfolded up_restoreRODatabases_def]]) (auto intro: restore_one)
  then show ?thesis by simp
qed

lemma logicalDatabases_set:
  "set (logicalDatabases seen slots) = {rs_Database s | s. s \<in> set slots \<and> rs_SlotType s = ''logical'' \<and> rs_Database s \<noteq> ''''} - set seen"
  by (induction seen slots rule: logicalDatabases.induct) auto

lemma logicalDatabases_distinct: "distinct (logicalDatabases seen slots)"
  by (induction seen slots rule: logicalDatabases.induct) (auto simp: logicalDatabases_set)

text \<open>Writing and asking for config maps.\<close>

definition saves :: "(string \<times> string) list \<Rightarrow> k_call \<Rightarrow> bool" where
  "saves data c \<longleftrightarrow> (\<forall>cm. c = KObj (CreateCM cm) \<or> c = KObj (UpdateCM cm) \<longrightarrow> cm_Data cm = data)"

fun asks_cm :: "k_call \<Rightarrow> bool" where
  "asks_cm (KObj (GetCM n)) = True"
| "asks_cm _ = False"

lemma labels_saves: "emits (all_calls (saves data)) (getLabels rm name ls)"
  unfolding getLabels_def commonLabels_def GetChartVersion_def GetDeploymentSessionId_def operatorLabel_def
    getOperatorLabels_def GetDeploymentsByNameRegExp_def listWorkloads_def Let_def
  by (auto intro!: kube_rules simp: saves_def)

lemma save_saves:
  "emits (all_calls (saves [(upgradeReplicationDatabasesCM, join_with '','' dbs)])) (saveRODatabasesCM rm cl dbs)"
  unfolding saveRODatabasesCM_def CreateOrUpdateConfigMap_def createOrUpdateConfigMap_def createCM_def getCM_def Let_def
  by (auto intro!: kube_rules labels_saves simp: saves_def)

lemma protect_saves:
  "emits (all_calls (saves [(upgradeReplicationDatabasesCM, join_with '','' dbs)])) (protectDatabases rm h cl dbs)"
  unfolding protectDatabases_def prepareRODatabases_def protectDatabase_def wrapErr_def pgc_Execute_def
  by (auto intro!: kube_rules save_saves simp: saves_def)

lemma save_no_exec: "emits (all_calls (\<lambda>c. \<forall>h q. c \<noteq> KPgExec h q)) (saveRODatabasesCM rm cl dbs)"
  unfolding saveRODatabasesCM_def CreateOrUpdateConfigMap_def createOrUpdateConfigMap_def createCM_def getCM_def Let_def
    getLabels_def commonLabels_def GetChartVersion_def GetDeploymentSessionId_def operatorLabel_def
    getOperatorLabels_def GetDeploymentsByNameRegExp_def listWorkloads_def
  by (auto intro!: kube_rules)

lemma no_exec_executed: "all_calls (\<lambda>c. \<forall>h q. c \<noteq> KPgExec h q) u \<Longrightarrow> executed u = []"
proof (induction u)
  case (Cons cr u)
  then show ?case by (cases cr; cases "fst cr") (auto simp: executed_def)
qed simp

lemma protect_executed:
  assumes "beh (protectDatabases rm h cl dbs) (Val None) u"
  shows "executed u = concat (map (\<lambda>db. [setRoQuery (quotedDB db), terminateQuery db]) dbs)"
proof (cases "dbs = []")
  case True
  with assms show ?thesis by (simp add: protectDatabases_def)
next
  case False
  with assms obtain v w where "u = v @ w" "beh (prepareRODatabases h dbs) (Val None) v" "beh (saveRODatabasesCM rm cl dbs) (Val None) w"
    by (auto simp: protectDatabases_def beh_err_steps)
  with prepare_executed no_exec_executed [OF emitsD [OF save_no_exec]] show ?thesis by auto
qed

lemma restore_asks: "emits (all_calls (\<lambda>c. \<not> asks_cm c)) (up_restoreRODatabases h dbs)"
  unfolding up_restoreRODatabases_def restoreDatabase_def wrapErr_def pgc_Execute_def by (auto intro!: kube_rules)

lemma remove_asks: "emits (all_calls (\<lambda>c. \<not> asks_cm c)) (removeDatabasesCM n)"
  unfolding removeDatabasesCM_def by (auto intro!: kube_rules)

text \<open>What a successful restoration executes for the config map it got.\<close>

lemma RestoreRODatabases_executed:
  assumes "beh (RestoreRODatabases h cl) (Val None) v"
    and "(KObj (GetCM (replicationSlotDatabasesCMName cl)), KObjResp (OCM cm)) \<in> set v"
    and "\<forall>db \<in> set (savedDatabases cm). db \<noteq> ''''" and "savedDatabases cm \<noteq> []"
  shows "executed v = map (\<lambda>db. restoreROQuery (quotedDB db)) (savedDatabases cm)"
proof -
  let ?get = "KObj (GetCM (replicationSlotDatabasesCMName cl))"
  from assms(1) obtain r w where v: "v = (?get, r) # w" and w: "beh (case (case r of
       KObjResp (OCM cm) \<Rightarrow> Inr cm | KNotFound e \<Rightarrow> Inl (KNotFound e) | KErr e \<Rightarrow> Inl (KErr e)
     | _ \<Rightarrow> Inl (KErr ''unexpected response'')) of
     Inl (KNotFound _) \<Rightarrow> Ret None
   | Inl r \<Rightarrow> Ret (Some (''failed to get replication slot databases configmap: '' @ errorText r))
   | Inr cm \<Rightarrow>
       let databases = savedDatabases cm in
       andThen (if hd databases \<noteq> '''' then withClient h (up_restoreRODatabases h databases) else Ret None)
         (removeDatabasesCM (cm_Name cm))) (Val None) w"
    by (auto simp: RestoreRODatabases_def getCM_def beh_Call_iff)
  have no_ask: "emits (all_calls (\<lambda>c. \<not> asks_cm c)) (andThen (if hd (savedDatabases cm') \<noteq> ''''
      then withClient h (up_restoreRODatabases h (savedDatabases cm')) else Ret None) (removeDatabasesCM (cm_Name cm')))" for cm'
    unfolding withClient_def by (auto intro!: kube_rules restore_asks remove_asks)
  have r: "r = KObjResp (OCM cm)"
  proof (cases "\<exists>cm'. r = KObjResp (OCM cm')")
    case True
    then obtain cm' where "r = KObjResp (OCM cm')" by blast
    with w have "all_calls (\<lambda>c. \<not> asks_cm c) w" using emitsD [OF no_ask] by (simp add: Let_def)
    from all_calls_mem [OF this, of ?get "KObjResp (OCM cm)"] assms(2) v show ?thesis by (auto)
  next
    case False
    with w have "w = []" by (auto split: k_resp.splits obj_resp.splits)
    with assms(2) v False show ?thesis by auto
  qed
  with w assms(3,4) obtain w0 w1 w2 where "w = w0 @ w1 @ w2" "beh (k_do (KPgClient h)) (Val None) w0"
    "beh (up_restoreRODatabases h (savedDatabases cm)) (Val None) w1" "beh (removeDatabasesCM (cm_Name cm)) (Val None) w2"
    by (auto simp: Let_def withClient_def beh_err_steps beh_pbind [of "k_do _"] split: if_splits)
  moreover from this have "executed w0 = []" "executed w2 = []"
    by (auto simp: k_do_def removeDatabasesCM_def beh_Call_iff)
  ultimately show ?thesis using restore_executed assms(3) v by simp
qed

text \<open>
  (C23) The read-only mode is undone for exactly the databases it was set for: what a successful protection of the
  databases of the logical slots wrote to the config map, a later successful restoration reads back, one statement
  per database in the same order, provided no name has a comma.
\<close>

theorem read_only_databases_round_trip:
  assumes "dbs = uniqueLogicalDatabases slots" and "dbs \<noteq> []" and "\<forall>db \<in> set dbs. CHR '','' \<notin> set db"
    and "beh (protectDatabases rm h cl dbs) (Val None) u"
    and "(KObj (CreateCM saved), r) \<in> set u \<or> (KObj (UpdateCM saved), r) \<in> set u"
    and "beh (RestoreRODatabases h' cl) (Val None) v"
    and "(KObj (GetCM (replicationSlotDatabasesCMName cl)), KObjResp (OCM found)) \<in> set v"
    and "cm_Data found = cm_Data saved"
  shows "executed u = concat (map (\<lambda>db. [setRoQuery (quotedDB db), terminateQuery db]) dbs)
    \<and> executed v = map (\<lambda>db. restoreROQuery (quotedDB db)) dbs"
proof -
  have "cm_Data saved = [(upgradeReplicationDatabasesCM, join_with '','' dbs)]"
    using all_calls_mem [OF emitsD [OF protect_saves assms(4)]] assms(5) by (auto simp: saves_def)
  then have saved: "savedDatabases found = dbs"
    using assms(2,3,8) by (simp add: savedDatabases_def split_join)
  have "\<forall>db \<in> set dbs. db \<noteq> ''''" using assms(1) by (auto simp: uniqueLogicalDatabases_def logicalDatabases_set)
  with RestoreRODatabases_executed [OF assms(6,7)] saved assms(2) protect_executed [OF assms(4)] show ?thesis by simp
qed

definition sample_slots :: "replication_slot list" where
  "sample_slots = [\<lparr>rs_Name = ''s'', rs_SlotType = ''logical'', rs_Database = ''app'', rs_Active = True, rs_Lag = 0\<rparr>]"

lemma sample_databases: "uniqueLogicalDatabases sample_slots = [''app'']"
  by (simp add: uniqueLogicalDatabases_def sample_slots_def)

lemmas config_map_run_defs = protectDatabases_def prepareRODatabases_def protectDatabase_def wrapErr_def pgc_Execute_def
  saveRODatabasesCM_def CreateOrUpdateConfigMap_def createOrUpdateConfigMap_def createCM_def getCM_def getLabels_def
  commonLabels_def GetChartVersion_def GetDeploymentSessionId_def operatorLabel_def getOperatorLabels_def
  GetDeploymentsByNameRegExp_def listWorkloads_def namedLike_def k_do_def Let_def ptry_def upgrade_rm_def

lemma sample_protected:
  "fst (run (upgrade_server [] []) (protectDatabases upgrade_rm ''pg'' ''c'' [''app'']) []) = Val None"
  "\<exists>saved r. (KObj (CreateCM saved), r) \<in>
     set (snd (run (upgrade_server [] []) (protectDatabases upgrade_rm ''pg'' ''c'' [''app'']) []))"
  by (simp_all add: config_map_run_defs)

definition saved_cm :: config_map where
  "saved_cm = \<lparr>cm_Name = ''c-upgrade-replication-databases'', cm_Data = [(upgradeReplicationDatabasesCM, ''app'')],
     cm_Annotations = None, cm_Labels = None, cm_ResourceVersion = ''1'', cm_Owners = []\<rparr>"

fun cm_server :: "k_trace \<Rightarrow> k_call \<Rightarrow> k_resp" where
  "cm_server _ (KObj (GetCM n)) = KObjResp (OCM saved_cm)"
| "cm_server _ _ = KOk"

lemma sample_restored:
  "run cm_server (RestoreRODatabases ''pg'' ''c'') [] = (Val None, [(KObj (GetCM (replicationSlotDatabasesCMName ''c'')), KObjResp (OCM saved_cm)),
     (KPgClient ''pg'', KOk), (KPgConnect ''pg'', KOk), (KPgExec ''pg'' (restoreROQuery ''app''), KOk),
     (KObj (DeleteCM ''c-upgrade-replication-databases''), KOk)])"
  by (simp add: RestoreRODatabases_def getCM_def savedDatabases_def saved_cm_def Let_def withClient_def k_do_def
      up_restoreRODatabases_def restoreDatabase_def wrapErr_def pgc_Execute_def quotedDB_def removeDatabasesCM_def)

theorem read_only_databases_round_trip_witness:
  "\<exists>u v. executed u = [setRoQuery (quotedDB ''app''), terminateQuery ''app''] \<and> executed v = [restoreROQuery (quotedDB ''app'')]"
proof -
  let ?m = "protectDatabases upgrade_rm ''pg'' ''c'' [''app'']"
  let ?u = "snd (run (upgrade_server [] []) ?m [])"
  have u: "beh ?m (Val None) ?u"
    using run_beh [of ?m "upgrade_server [] []" "[]"] by (simp only: sample_protected(1))
  from sample_protected(2) obtain saved r where saved: "(KObj (CreateCM saved), r) \<in> set ?u" by blast
  have data: "cm_Data saved_cm = cm_Data saved"
    using all_calls_mem [OF emitsD [OF protect_saves u] saved] by (simp add: saves_def saved_cm_def)
  have v: "beh (RestoreRODatabases ''pg'' ''c'') (Val None) (snd (run cm_server (RestoreRODatabases ''pg'' ''c'') []))"
    using run_beh [of "RestoreRODatabases ''pg'' ''c''" cm_server "[]"] by (simp add: sample_restored)
  have found: "(KObj (GetCM (replicationSlotDatabasesCMName ''c'')), KObjResp (OCM saved_cm)) \<in>
      set (snd (run cm_server (RestoreRODatabases ''pg'' ''c'') []))" by (simp add: sample_restored)
  show ?thesis
    using read_only_databases_round_trip [OF sample_databases [symmetric] _ _ u disjI1 [OF saved] v found data] by auto
qed

text \<open>A comma in a name: the restoration is for two other databases.\<close>

lemma comma_splits_database:
  "savedDatabases \<lparr>cm_Name = n, cm_Data = [(upgradeReplicationDatabasesCM, join_with '','' [''a,b''])], cm_Annotations = None,
     cm_Labels = None, cm_ResourceVersion = v, cm_Owners = os\<rparr> = [''a'', ''b'']"
  by (simp add: savedDatabases_def)

lemma restore_differs [simp]: "setRoQuery x \<noteq> restoreROQuery db" "terminateQuery x \<noteq> restoreROQuery db"
proof -
  have "last (setRoQuery x) \<noteq> last (restoreROQuery db)" "last (terminateQuery x) \<noteq> last (restoreROQuery db)"
    by (simp_all add: setRoQuery_def terminateQuery_def restoreROQuery_def last_append)
  then show "setRoQuery x \<noteq> restoreROQuery db" "terminateQuery x \<noteq> restoreROQuery db" by auto
qed

text \<open>
  A precheck that fails after the slots were handled leaves the databases read-only: in this run the
  cluster is found unhealthy, the upgrade returns an error, and nothing makes the database writable again.
\<close>

theorem failed_precheck_leaves_read_only:
  "\<exists>u e. beh (ProceedUpgrade sample_upgrade upgrade_rm upgrade_core upgrade_cluster) (Val (Some e)) u
     \<and> (KPgExec ''pg'' (setRoQuery ''app''), KOk) \<in> set u
     \<and> all_calls (\<lambda>c. \<forall>h db. c \<noteq> KPgExec h (restoreROQuery db)) u"
proof -
  let ?m = "ProceedUpgrade sample_upgrade upgrade_rm upgrade_core upgrade_cluster"
  let ?r = "run (upgrade_server sample_slots []) ?m []"
  have ends: "\<exists>e. fst ?r = Val (Some e)" and set: "(KPgExec ''pg'' (setRoQuery ''app''), KOk) \<in> set (snd ?r)"
    and kept: "all_calls (\<lambda>c. \<forall>h db. c \<noteq> KPgExec h (restoreROQuery db)) (snd ?r)"
    by (simp_all add: upgrade_run_defs config_map_run_defs sample_slots_def deadSlot_def uniqueLogicalDatabases_def
        waitForReplicationSlotsLagZero_def slotsCaughtUp_def poll.simps [of 180] lagError_def pythonServices_def
        replicationSlotDatabasesCMName_def to_lower_def lower_char_def quotedDB_def
        atoi_def trim_space_def is_space_def is_digit_def digits_val_def digit_val_def requiredBytes_def int64_def empty_core_def)
  from ends obtain e where e: "fst ?r = Val (Some e)" by (rule exE)
  have "beh ?m (Val (Some e)) (snd ?r)"
    using run_beh [of ?m "upgrade_server sample_slots []" "[]"] unfolding e .
  then show ?thesis using set kept by (intro exI conjI)
qed

subsection \<open>The check of the size\<close>


lemma sample_space:
  "run (upgrade_server [] []) (CheckPVCSizeBeforeUpgrade sample_upgrade upgrade_rm ''pg-c-node1-0'' ''1Gi'') [] =
     (Val None, [(KObj (ExecPod ''pg-c-node1-0'' ''pg-c-node1'' duCommand ''/bin/sh''), KObjResp (OText ''100''))])"
  by (simp add: CheckPVCSizeBeforeUpgrade_def ExecCmdOnPatroniPod_def ExecCmdOnPod_def has_prefix_def upgrade_rm_def
      sample_upgrade_def GetContainerNameForPatroniPod_def is_digit_def atoi_def trim_space_def is_space_def
      digits_val_def digit_val_def requiredBytes_def int64_def)

lemma sample_space_beh:
  "beh (CheckPVCSizeBeforeUpgrade sample_upgrade upgrade_rm ''pg-c-node1-0'' ''1Gi'') (Val None)
     [(KObj (ExecPod ''pg-c-node1-0'' ''pg-c-node1'' duCommand ''/bin/sh''), KObjResp (OText ''100''))]"
  using run_beh [of "CheckPVCSizeBeforeUpgrade sample_upgrade upgrade_rm ''pg-c-node1-0'' ''1Gi''" "upgrade_server [] []" "[]"]
  by (simp only: sample_space fst_conv snd_conv)

lemma atoi_100: "atoi (trim_space ''100'') = (100, True)"
  by code_simp


text \<open>From 4 EiB on the product is wrong: such a directory needs no room.\<close>

lemma space_check_wraps: "requiredBytes (2 ^ 53) = 0"
  by (simp add: requiredBytes_def int64_def)

subsection \<open>Scaling powa\<close>

text \<open>
  \<open>ScalePowaDeployment\<close> changes nothing: whatever the server answers, its only call lists the deployments.  The
  guard before its loop has the wrong direction.
\<close>

lemma powa_is_never_scaled:
  "emits (all_calls (\<lambda>c. c = KObj (ListWorkloads depl))) (ScalePowaDeployment env rm replicas)"
proof -
  have "(if length deps > 0 then Ret None
      else for_err deps (\<lambda>dep. CreateOrUpdateDeployment n rm (dep\<lparr>wl_Replicas := Some replicas\<rparr>) True)) = Ret None" for deps n
    by (cases deps) simp_all
  then show ?thesis
    unfolding ScalePowaDeployment_def GetDeploymentsByNameRegExp_def listWorkloads_def by (auto intro!: kube_rules)
qed

text \<open>Without a pod of the leader the upgrade does nothing and reports success.\<close>

lemma no_leader_no_upgrade:
  "beh (ProceedUpgrade env rm cr cluster) (Val None)
     [(KObj (ListPods (cl_PatroniMasterSelectors cluster) False), KObjResp (OPods []))]"
  by (simp add: ProceedUpgrade_def GetPodsByLabel_def listPods_def)

text \<open>The check for the type \<^verbatim>\<open>abstime\<close> passes when the list of databases cannot be read.\<close>

lemma unread_databases_pass: "beh (CheckForAbsTimeUsage h) (Val None) [(KPgClient h, KErr e)]"
  by (simp add: CheckForAbsTimeUsage_def GetAllDatabases_def GetFilteredDatabaseslist_def k_do_def)

end
