(* ===== verification/Patroni_Config.thy ===== *)
theory Patroni_Config
  imports Upgrade
begin

section \<open>The configuration of Patroni and PostgreSQL\<close>

text \<open>
  Models the writers of the configuration: the parameters of the custom resource as the reconciler completes and
  reads them (\<^verbatim>\<open>operator/pkg/reconciler/patroni.go\<close>, \<^verbatim>\<open>helper.UpdatePreloadLibraries\<close>), and the patches of \<^verbatim>\<open>operator/pkg/patroni/patroni.go\<close>.
  A parameter is a line \<^verbatim>\<open>key: value\<close> or \<^verbatim>\<open>key=value\<close>.
\<close>

subsection \<open>Lines of parameters\<close>

text \<open>\<^verbatim>\<open>strings.Replace(param, "=", ":", 1)\<close>.\<close>

fun normalized :: "string \<Rightarrow> string" where
  "normalized [] = []"
| "normalized (c # cs) = (if c = CHR ''='' then CHR '':'' # cs else c # normalized cs)"

text \<open>\<^verbatim>\<open>strings.SplitN(param, ":", 2)\<close>: the second part is missing when there is no colon.\<close>

definition key_part :: "string \<Rightarrow> string" where
  "key_part param = takeWhile (\<lambda>c. c \<noteq> CHR '':'') (normalized param)"

definition value_part :: "string \<Rightarrow> string option" where
  "value_part param = (case dropWhile (\<lambda>c. c \<noteq> CHR '':'') (normalized param) of [] \<Rightarrow> None | _ # v \<Rightarrow> Some v)"

definition param_key :: "string \<Rightarrow> string" where
  "param_key param = trim_space (key_part param)"

text \<open>A parameter that is found without a value has the empty value.\<close>

fun getPostgreSQLParam :: "string list \<Rightarrow> string \<Rightarrow> string option" where
  "getPostgreSQLParam [] key = None"
| "getPostgreSQLParam (param # params) key =
     (if param_key param \<noteq> key then getPostgreSQLParam params key
      else Some (case value_part param of None \<Rightarrow> '''' | Some v \<Rightarrow> trim_space v))"

fun ensurePostgreSQLParam :: "string list \<Rightarrow> string \<Rightarrow> string \<Rightarrow> string list" where
  "ensurePostgreSQLParam [] key val = [key @ '': '' @ val]"
| "ensurePostgreSQLParam (param # params) key val =
     (if param_key param \<noteq> key then param # ensurePostgreSQLParam params key val
      else (key @ '': '' @ val) # params)"

definition sharedLibraries :: string where "sharedLibraries = ''shared_preload_libraries''"

definition ensureSharedPreloadLibrary :: "string list \<Rightarrow> string \<Rightarrow> string list" where
  "ensureSharedPreloadLibrary params library =
     (if list_ex (\<lambda>param. param_key param = sharedLibraries) params then params
      else params @ [sharedLibraries @ '': '' @ library])"

text \<open>
  \<^verbatim>\<open>strings.Split(param, ":")\<close> with the first two parts: what follows a second colon is lost, and without a colon
  the index panics.
\<close>

definition second_part :: "string \<Rightarrow> string outcome" where
  "second_part param = (case split_on CHR '':'' (normalized param) of
     _ # v # _ \<Rightarrow> Val v | _ \<Rightarrow> Panicked ''index out of range'')"

definition addLibraries :: "string \<Rightarrow> string list \<Rightarrow> string" where
  "addLibraries val libraries = foldl (\<lambda>v l. if contains_sub l v then v else v @ '', '' @ l) (trim_space val) libraries"

fun UpdatePreloadLibraries :: "string list \<Rightarrow> string list \<Rightarrow> string list outcome" where
  "UpdatePreloadLibraries libraries [] = Val []"
| "UpdatePreloadLibraries libraries (param # params) =
     (case (if param_key param = sharedLibraries then
              (case second_part param of
                 Panicked e \<Rightarrow> Panicked e
               | Val v \<Rightarrow> Val (sharedLibraries @ '': '' @ addLibraries v libraries))
            else Val param) of
        Panicked e \<Rightarrow> Panicked e
      | Val p \<Rightarrow> (case UpdatePreloadLibraries libraries params of Panicked e \<Rightarrow> Panicked e | Val ps \<Rightarrow> Val (p # ps)))"

text \<open>\<^verbatim>\<open>deployment.ExtractParamsFromCRByName\<close>, which reads the value of every line it passes.\<close>

fun ExtractParamsFromCRByName :: "string list \<Rightarrow> string \<Rightarrow> string outcome" where
  "ExtractParamsFromCRByName [] paramName = Val ''200''"
| "ExtractParamsFromCRByName (param # params) paramName =
     (case second_part param of
        Panicked e \<Rightarrow> Panicked e
      | Val v \<Rightarrow> if param_key param = paramName then Val (trim_space v) else ExtractParamsFromCRByName params paramName)"

subsection \<open>Settings for replication slots\<close>

text \<open>The sizes are those of a 64-bit integer, which the caller has.\<close>

definition formatBytesAsPgSize :: "int \<Rightarrow> string" where
  "formatBytesAsPgSize bytes =
     (let kb = 1024; mb = 1024 * kb; gb = 1024 * mb in
      if gb \<le> bytes \<and> bytes mod gb = 0 then itoa (bytes div gb) @ ''GB''
      else if mb \<le> bytes then itoa (bytes div mb) @ ''MB''
      else if kb \<le> bytes then itoa (bytes div kb) @ ''kB''
      else itoa bytes @ ''B'')"

text \<open>\<open>PercentOf\<close> of \<^verbatim>\<open>util.go\<close>; the product wraps in 64 bits and the quotient is rounded towards zero.\<close>

definition quot :: "int \<Rightarrow> int \<Rightarrow> int" where
  "quot a b = (if a < 0 then - ((- a) div b) else a div b)"

definition PercentOf :: "int \<Rightarrow> int \<Rightarrow> int" where
  "PercentOf q percent = quot (int64 (q * percent)) 100"

definition slotWalKey :: string where "slotWalKey = ''max_slot_wal_keep_size''"

definition ensureMaxSlotWalKeepSize :: "(string \<Rightarrow> err + int) \<Rightarrow> storage option \<Rightarrow> string list \<Rightarrow> string list" where
  "ensureMaxSlotWalKeepSize ParseQuantity storage params =
     (if getPostgreSQLParam params slotWalKey \<noteq> None then params
      else case storage of
        None \<Rightarrow> params
      | Some st \<Rightarrow>
          if st_Size st = '''' then params
          else (case ParseQuantity (st_Size st) of
            Inl _ \<Rightarrow> params
          | Inr qty \<Rightarrow>
              let twentyPercentBytes = PercentOf qty 20 in
              if twentyPercentBytes \<le> 0 then params
              else ensurePostgreSQLParam params slotWalKey (formatBytesAsPgSize twentyPercentBytes)))"

text \<open>What a known major version of PostgreSQL needs for slots.\<close>

definition slotParams :: "int \<Rightarrow> string list \<Rightarrow> string list outcome" where
  "slotParams pgVersion params =
     (if 17 \<le> pgVersion then
        Val (ensurePostgreSQLParam (ensurePostgreSQLParam params ''hot_standby_feedback'' ''on'') ''sync_replication_slots'' ''on'')
      else case UpdatePreloadLibraries [''pg_failover_slots''] params of
        Panicked e \<Rightarrow> Panicked e
      | Val ps \<Rightarrow> Val (ensurePostgreSQLParam (ensureSharedPreloadLibrary ps ''pg_failover_slots'') ''hot_standby_feedback'' ''on''))"

definition of_outcome :: "'a outcome \<Rightarrow> 'a kube" where
  "of_outcome r = (case r of Val x \<Rightarrow> Ret x | Panicked e \<Rightarrow> Panic e)"

definition applyUseSlotsAdditionalSettings ::
  "(string \<Rightarrow> err + int) \<Rightarrow> resource_manager \<Rightarrow> (string \<times> string) list \<Rightarrow> patroni_spec \<Rightarrow> patroni_spec kube" where
  "applyUseSlotsAdditionalSettings ParseQuantity rm masterSelectors pspec =
     (if \<not> UseSlots pspec then Ret pspec
      else
        let params = ensureMaxSlotWalKeepSize ParseQuantity (PatroniStorage pspec) (PostgreSQLParams pspec);
            sized = pspec\<lparr>PostgreSQLParams := params\<rparr> in
        pbind (GetPodsByLabel masterSelectors) (\<lambda>res. case res of
          Inr (masterPod # _) \<Rightarrow>
            pbind (GetPGVersion rm (pod_Name masterPod)) (\<lambda>versionStr.
            if versionStr = '''' then Ret sized
            else if \<not> snd (atoi versionStr) then Ret sized
            else pbind (of_outcome (slotParams (fst (atoi versionStr)) params)) (\<lambda>ps. Ret (pspec\<lparr>PostgreSQLParams := ps\<rparr>)))
        | _ \<Rightarrow> Ret sized))"

subsection \<open>Patches of Patroni's configuration\<close>

text \<open>
  Bodies are maps: a later line with the same key overrides an earlier one.  The value of a parameter of PostgreSQL is
  all that follows the first colon, or the whole line without one.
\<close>

definition postgreSQLEntry :: "string \<Rightarrow> string \<times> string" where
  "postgreSQLEntry param = (param_key param, trim_space (case value_part param of None \<Rightarrow> normalized param | Some v \<Rightarrow> v))"

definition mapOf :: "(string \<times> string) list \<Rightarrow> (string \<times> string) list" where
  "mapOf entries = fold (\<lambda>(k, v) m. AList.update k v m) entries []"

definition passwordEncryption :: "(string \<times> string) list \<Rightarrow> (string \<times> string) list" where
  "passwordEncryption m =
     (if map_of m ''password_encryption'' \<noteq> None then m else AList.update ''password_encryption'' ''md5'' m)"

definition outputPluginsDefault :: "string list" where
  "outputPluginsDefault = [''pgoutput'', ''test_decoding'', ''decoderbufs'']"

definition outputPlugins :: "(string \<times> string) list \<Rightarrow> string list" where
  "outputPlugins m = outputPluginsDefault @ (case map_of m sharedLibraries of
     None \<Rightarrow> []
   | Some v \<Rightarrow> concat (map (\<lambda>l. if trim_space l = ''pglogical'' then [''pglogical_output''] else []) (split_on CHR '','' v)))"

definition updateOutputPluginLibraries :: "(string \<times> string) list \<Rightarrow> (string \<times> string) list" where
  "updateOutputPluginLibraries m = AList.update ''output_plugin_libraries'' (join_with '', '' (outputPlugins m)) m"

definition default_hba :: "string list" where
  "default_hba =
    [''local   all             postgres                                trust'',
     ''host    all             postgres             127.0.0.1/32       trust'',
     ''host    all             postgres             ::1/128            trust'',
     ''local   replication     all                                     trust'',
     ''host    replication     all                  127.0.0.1/32       trust'',
     ''host    replication     all                  ::1/128            trust'',
     ''host    replication     replicator           0.0.0.0/0          md5'',
     ''host    replication     postgres             0.0.0.0/0          md5'',
     ''host    all             all                  0.0.0.0/0          md5'',
     ''local   all             all                                     md5'',
     ''host    replication     replicator           ::0/0              md5'',
     ''host    replication     postgres             ::0/0              md5'',
     ''host    all             all                  ::0/0              md5'']"

definition getPgHba :: "string list \<Rightarrow> string list" where
  "getPgHba newHba = (if newHba \<noteq> [] then newHba @ default_hba else default_hba)"

definition UpdatePostgreSQLParams :: "patroni_spec \<Rightarrow> string \<Rightarrow> err option kube" where
  "UpdatePostgreSQLParams patroni patroniUrl =
     UpdatePatroniConfig (PostgreSQLPatch
       (updateOutputPluginLibraries (passwordEncryption (mapOf (map postgreSQLEntry (PostgreSQLParams patroni)))))
       (getPgHba (PgHba patroni))) patroniUrl"

text \<open>A line of Patroni's own parameters without a separator panics; what follows a second one is lost.\<close>

fun patroniEntries :: "string list \<Rightarrow> (string \<times> string) list outcome" where
  "patroniEntries [] = Val []"
| "patroniEntries (param # params) =
     (case second_part param of
        Panicked e \<Rightarrow> Panicked e
      | Val v \<Rightarrow> (case patroniEntries params of
          Panicked e \<Rightarrow> Panicked e | Val es \<Rightarrow> Val ((param_key param, trim_space v) # es)))"

definition UpdatePatroniParams :: "patroni_spec \<Rightarrow> string \<Rightarrow> err option kube" where
  "UpdatePatroniParams patroni patroniUrl = pbind (of_outcome (patroniEntries (PatroniParams patroni))) (\<lambda>es.
     UpdatePatroniConfig (PatroniPatch (mapOf es)) patroniUrl)"

definition GetPatroniClusterName :: "string \<Rightarrow> string" where
  "GetPatroniClusterName name = (if name \<noteq> '''' then name else ''patroni'')"

definition IsStandbyClusterConfigurationExist :: "patroni_core \<Rightarrow> bool kube" where
  "IsStandbyClusterConfigurationExist cr = pbind (deref (pc_Patroni cr)) (\<lambda>spec.
     Ret (StandbyCluster spec \<noteq> None \<and> StandbyCluster spec \<noteq> Some ('''', 0)))"

definition GetCommandForPgbackrest :: "patroni_core \<Rightarrow> string \<Rightarrow> string kube" where
  "GetCommandForPgbackrest cr command = pbind (IsStandbyClusterConfigurationExist cr) (\<lambda>standby.
     if standby then pbind (deref (pc_PgBackRest cr)) (\<lambda>br.
       Ret (if br_DRBucket br \<noteq> '''' then command @ '' --repo=2'' else command))
     else Ret command)"

definition archiveCommand :: string where
  "archiveCommand = ''/opt/scripts/archive_wal.sh '' @ dquote ''%p'' @ '' '' @ dquote ''%f''"

definition restoreCommand :: string where
  "restoreCommand = ''curl -u postgres:'' @ dquote ([CHR 92] @ ''${PG_ROOT_PASSWORD}'')
     @ '' -v -S -f --connect-timeout 3 --speed-time 30 --speed-limit 100 postgres-backup-daemon:8082/archive/get?filename=%f -o %p''"

definition PgBackRestArchiveCommand :: string where
  "PgBackRestArchiveCommand = ''pgbackrest --stanza=patroni archive-push '' @ dquote ''%p''"

definition PgBackRestRestoreCommand :: string where
  "PgBackRestRestoreCommand = ''pgbackrest --stanza=patroni archive-get '' @ dquote ''%f'' @ '' '' @ dquote ''%p''"

text \<open>
  The first argument is whether pgBackRest is configured, the second the backup daemon's \<open>WalArchiving\<close> and
  \<open>RetainArchiveSettings\<close>.
\<close>

definition SetWalArchiving :: "bool \<Rightarrow> (bool \<times> bool) option \<Rightarrow> string \<Rightarrow> err option kube" where
  "SetWalArchiving pgBackRest backupDaemon patroniUrl =
     (if pgBackRest then Ret None
      else pbind (deref backupDaemon) (\<lambda>(walArchiving, retainArchiveSettings).
        UpdatePatroniConfig
          (if walArchiving then
             ArchivingPatch [(''archive_mode'', ''on''), (''archive_command'', archiveCommand)] [(''restore_command'', restoreCommand)]
           else if \<not> retainArchiveSettings then
             ArchivingPatch [(''archive_mode'', ''off''), (''archive_command'', '''')] [(''restore_command'', '''')]
           else ArchivingPatch [] []) patroniUrl))"

definition SetWalArchivingForPgBackRest :: "patroni_core \<Rightarrow> string \<Rightarrow> err option kube" where
  "SetWalArchivingForPgBackRest cr patroniUrl =
     (case pc_PgBackRest cr of
        None \<Rightarrow> UpdatePatroniConfig (ArchivingPatch [] []) patroniUrl
      | Some _ \<Rightarrow> pbind (GetCommandForPgbackrest cr PgBackRestRestoreCommand) (\<lambda>restore.
          UpdatePatroniConfig (ArchivingPatch [(''archive_mode'', ''on''), (''archive_command'', PgBackRestArchiveCommand)]
            [(''restore_command'', restore)]) patroniUrl))"

text \<open>The host and the port that are passed are not used.\<close>

definition GetStandbyClusterConfigurationWithHost :: "patroni_core \<Rightarrow> string \<Rightarrow> int \<Rightarrow> standby_config kube" where
  "GetStandbyClusterConfigurationWithHost cr host port =
     pbind (deref (pc_Patroni cr)) (\<lambda>pspec. pbind (deref (StandbyCluster pspec)) (\<lambda>(standbyHost, standbyPort).
     let conf = \<lparr>sc_Host = standbyHost, sc_Port = standbyPort, sc_Slot = GetPatroniClusterName (ClusterName pspec),
           sc_Methods = [''basebackup''], sc_RestoreCommand = None\<rparr> in
     if pc_PgBackRest cr = None then Ret conf
     else pbind (GetCommandForPgbackrest cr PgBackRestRestoreCommand) (\<lambda>restore.
       Ret (conf\<lparr>sc_Methods := [''pgbackrest'', ''basebackup''], sc_RestoreCommand := Some restore\<rparr>))))"

definition getStandbyClusterConfiguration :: "patroni_core \<Rightarrow> standby_config kube" where
  "getStandbyClusterConfiguration cr =
     pbind (deref (pc_Patroni cr)) (\<lambda>pspec. pbind (deref (StandbyCluster pspec)) (\<lambda>(host, port).
     GetStandbyClusterConfigurationWithHost cr host port))"

definition AddStandbyClusterConfigurationConfigMap :: "patroni_core \<Rightarrow> string \<Rightarrow> err option kube" where
  "AddStandbyClusterConfigurationConfigMap cr patroniUrl = pbind (getStandbyClusterConfiguration cr) (\<lambda>conf.
     UpdatePatroniConfig (StandbyPatch conf) patroniUrl)"

definition SetSslStatus :: "patroni_core \<Rightarrow> string \<Rightarrow> err option kube" where
  "SetSslStatus cr patroniUrl =
     (if pc_TlsEnabled cr = Some False then UpdatePatroniConfig SslOffPatch patroniUrl else Ret None)"

subsection \<open>LDAP\<close>

definition GenerateLDAPConfig :: "patroni_core \<Rightarrow> string list kube" where
  "GenerateLDAPConfig cr = pbind (deref (pc_Ldap cr)) (\<lambda>ldap. Ret
     [''host all +pgadminrole 0.0.0.0/0 ldap ldapserver='' @ ld_Server ldap @ '' ldapport='' @ itoa (ld_Port ldap)
      @ '' ldapbasedn='' @ dquote (ld_BaseDN ldap) @ '' ldapbinddn='' @ dquote (ld_BindDN ldap)
      @ '' ldapbindpasswd='' @ dquote (ld_BindPasswd ldap) @ '' ldapsearchattribute='' @ dquote (ld_SearchAttr ldap)])"

definition GetPatroniCurrentConfig :: "string \<Rightarrow> (err + hba_section) kube" where
  "GetPatroniCurrentConfig patroniUrl = Call (KObj (GetPatroniConfig patroniUrl)) (\<lambda>r. Ret (case r of
     KObjResp (OConfig status body) \<Rightarrow>
       if status = 200 then Inr body else Inl ''unexpected status code while retrieving patroni config''
   | KErr e \<Rightarrow> Inl e | KNotFound e \<Rightarrow> Inl e | _ \<Rightarrow> Inl ''unexpected response''))"

text \<open>The index of the first entry with \<open>md5\<close>, or 0: then the new entries come first.\<close>

fun md5Index :: "nat \<Rightarrow> string list \<Rightarrow> nat" where
  "md5Index i [] = 0"
| "md5Index i (entry # entries) = (if contains_sub ''md5'' entry then i else md5Index (Suc i) entries)"

definition insertLdap :: "string list \<Rightarrow> string list \<Rightarrow> string list" where
  "insertLdap ldapConfig pgHBAEntries =
     (let i = md5Index 0 pgHBAEntries in take i pgHBAEntries @ ldapConfig @ drop i pgHBAEntries)"

definition SetLdapConfig :: "patroni_core \<Rightarrow> string \<Rightarrow> err option kube" where
  "SetLdapConfig cr patroniUrl = pbind (GenerateLDAPConfig cr) (\<lambda>ldapConfig.
     pbind (GetPatroniCurrentConfig patroniUrl) (\<lambda>res. case res of
       Inl e \<Rightarrow> Ret (Some e)
     | Inr NoPostgresql \<Rightarrow> Panic conversion_panic
     | Inr NoHba \<Rightarrow> Ret (Some ''invalid format for pg_hba entries'')
     | Inr (Hba entries) \<Rightarrow>
         UpdatePatroniConfig (HbaPatch (insertLdap ldapConfig (List.map_filter id entries))) patroniUrl))"

text \<open>A second run fails in PostgreSQL, where the role exists.\<close>

definition CreatePgAdminRole :: "string \<Rightarrow> err option kube" where
  "CreatePgAdminRole pgHost = pbind (k_do (KPgClient pgHost)) (\<lambda>err.
     if err \<noteq> None then Ret None else pgc_Execute pgHost ''CREATE ROLE pgadminrole WITH LOGIN;'')"

definition PausePatroni :: "string \<Rightarrow> err option kube" where
  "PausePatroni patroniUrl = UpdatePatroniConfig (PausePatch ''true'') patroniUrl"

definition ResumePatroni :: "string \<Rightarrow> err option kube" where
  "ResumePatroni patroniUrl = UpdatePatroniConfig (PausePatch ''false'') patroniUrl"

definition Switchover :: "string \<Rightarrow> string \<Rightarrow> err option kube" where
  "Switchover patroniURL leader = Call (KObj (PostSwitchover patroniURL leader)) (\<lambda>r. Ret (case r of
     KObjResp (OHttp status) \<Rightarrow> if status < 200 \<or> 300 \<le> status then Some ''Patroni switchover failed'' else None
   | _ \<Rightarrow> (case k_error r of Some e \<Rightarrow> Some e | None \<Rightarrow> Some ''unexpected response'')))"

end
