(* ===== verification/Patroni_Template.thy ===== *)
theory Patroni_Template
  imports Patroni_Config
begin

section \<open>The template of Patroni's configuration\<close>

text \<open>
  Models the functions of \<^verbatim>\<open>operator/pkg/patroni/patroni.go\<close> that change the YAML text in the config map of a cluster.
  The YAML library is a parameter: a parser, which gives an error or none and the map that was read (a nil map is
  \<open>None\<close>), and the printer of maps, which does not fail for what the parser gives.
\<close>

datatype yaml = YText string | YList "string list" | YMap "(string \<times> yaml) list" | YOther string

type_synonym ymap = "(string \<times> yaml) list"

record yaml_lib =
  Unmarshal :: "string \<Rightarrow> err option \<times> ymap option"
  Marshal :: "ymap \<Rightarrow> string"

definition cm_text :: "config_map \<Rightarrow> string \<Rightarrow> string" where
  "cm_text cm key = (case map_of (cm_Data cm) key of None \<Rightarrow> '''' | Some s \<Rightarrow> s)"

definition set_text :: "config_map \<Rightarrow> string \<Rightarrow> string \<Rightarrow> config_map" where
  "set_text cm key txt = cm\<lparr>cm_Data := AList.update key txt (cm_Data cm)\<rparr>"

text \<open>\<^verbatim>\<open>m[key].(map[interface{}]interface{})\<close>; a nil map has no keys.\<close>

definition sub_map :: "string \<Rightarrow> ymap \<Rightarrow> ymap option" where
  "sub_map key m = (case map_of m key of Some (YMap n) \<Rightarrow> Some n | _ \<Rightarrow> None)"

definition nil_map :: "ymap option \<Rightarrow> ymap" where
  "nil_map m = (case m of None \<Rightarrow> [] | Some n \<Rightarrow> n)"

text \<open>An assignment in a nested map: the maps on the way are shared, so the whole changes.\<close>

fun set_in :: "string list \<Rightarrow> string \<Rightarrow> yaml \<Rightarrow> ymap \<Rightarrow> ymap" where
  "set_in [] key v m = AList.update key v m"
| "set_in (k # ks) key v m = AList.update k (YMap (set_in ks key v (nil_map (sub_map k m)))) m"

text \<open>Settings\<close>

definition standby_yaml :: "standby_config \<Rightarrow> yaml" where
  "standby_yaml conf = YMap ([(''host'', YText (sc_Host conf)), (''port'', YOther (itoa (sc_Port conf))),
     (''primary_slot_name'', YText (sc_Slot conf)), (''create_replica_methods'', YList (sc_Methods conf))]
     @ (case sc_RestoreCommand conf of None \<Rightarrow> [] | Some c \<Rightarrow> [(''restore_command'', YText c)]))"

subsection \<open>Changes that check what they find\<close>

definition UpdatePgbackRestSettings ::
  "yaml_lib \<Rightarrow> config_map \<Rightarrow> yaml \<Rightarrow> string \<Rightarrow> err + config_map" where
  "UpdatePgbackRestSettings lib configMap settings configMapKey =
     (case Unmarshal lib (cm_text configMap configMapKey) of
        (Some e, _) \<Rightarrow> Inl e
      | (None, config) \<Rightarrow> (case sub_map ''bootstrap'' (nil_map config) of
          None \<Rightarrow> Inl ''invalid bootstrap configuration''
        | Some bootstrap \<Rightarrow> (case sub_map ''dcs'' bootstrap of
            None \<Rightarrow> Inl ''invalid dcs configuration''
          | Some dcs \<Rightarrow> (case sub_map ''postgresql'' dcs of
              None \<Rightarrow> Inl ''invalid postgresql configuration''
            | Some _ \<Rightarrow> Inr (set_text configMap configMapKey (Marshal lib
                (set_in [''bootstrap'', ''dcs'', ''postgresql''] ''create_replica_methods'' (YList [''pgbackrest'', ''basebackup''])
                (set_in [''bootstrap'', ''dcs'', ''postgresql''] ''pgbackrest'' settings (nil_map config)))))))))"

definition updateStandbyClusterSettings ::
  "yaml_lib \<Rightarrow> config_map \<Rightarrow> yaml \<Rightarrow> string \<Rightarrow> err + config_map" where
  "updateStandbyClusterSettings lib configMap settings configMapKey =
     (case Unmarshal lib (cm_text configMap configMapKey) of
        (Some e, _) \<Rightarrow> Inl (''could not unmarshal patroni config map: '' @ e)
      | (None, None) \<Rightarrow> Inl ''config map is nil after unmarshal''
      | (None, Some config) \<Rightarrow> (case sub_map ''bootstrap'' config of
          None \<Rightarrow> Inl ''config map missing 'bootstrap' section or wrong type''
        | Some bootstrap \<Rightarrow> (case sub_map ''dcs'' bootstrap of
            None \<Rightarrow> Inl ''config map missing 'bootstrap.dcs' section or wrong type''
          | Some _ \<Rightarrow> Inr (set_text configMap configMapKey (Marshal lib
              (set_in [''bootstrap'', ''dcs''] ''standby_cluster'' settings config))))))"

definition AddStandbyClusterSettings ::
  "yaml_lib \<Rightarrow> patroni_core \<Rightarrow> config_map \<Rightarrow> string \<Rightarrow> (err + config_map) kube" where
  "AddStandbyClusterSettings lib cr configMap configMapKey = pbind (getStandbyClusterConfiguration cr) (\<lambda>conf.
     Ret (updateStandbyClusterSettings lib configMap (standby_yaml conf) configMapKey))"

definition DeleteStandbyClusterSettings :: "yaml_lib \<Rightarrow> config_map \<Rightarrow> string \<Rightarrow> err + config_map" where
  "DeleteStandbyClusterSettings lib configMap configMapKey =
     updateStandbyClusterSettings lib configMap (YText '''') configMapKey"

definition UpdateKubernetesSettings :: "yaml_lib \<Rightarrow> config_map \<Rightarrow> string \<Rightarrow> string \<Rightarrow> err + config_map" where
  "UpdateKubernetesSettings lib configMap labelValue configMapKey =
     (case Unmarshal lib (cm_text configMap configMapKey) of
        (Some e, _) \<Rightarrow> Inl e
      | (None, config) \<Rightarrow> (case sub_map ''kubernetes'' (nil_map config) of
          None \<Rightarrow> Inl ''invalid kubernetes configuration''
        | Some _ \<Rightarrow> Inr (set_text configMap configMapKey (Marshal lib
            (set_in [''kubernetes''] ''leader_label_value'' (YText labelValue) (nil_map config))))))"

subsection \<open>Changes for other stores\<close>

text \<open>Errors are only logged, and an assignment to the nil map they leave panics.\<close>

definition UpdatePatroniConfigMap :: "yaml_lib \<Rightarrow> config_map \<Rightarrow> yaml \<Rightarrow> string \<Rightarrow> string \<Rightarrow> config_map kube" where
  "UpdatePatroniConfigMap lib configMap settings key configMapKey =
     (case snd (Unmarshal lib (cm_text configMap configMapKey)) of
        None \<Rightarrow> Panic ''assignment to entry in nil map''
      | Some config \<Rightarrow> Ret (set_text configMap configMapKey (Marshal lib
          (AList.update key settings (AList.delete ''kubernetes'' config)))))"

definition AddEtcdSettings :: "yaml_lib \<Rightarrow> patroni_spec \<Rightarrow> config_map \<Rightarrow> string \<Rightarrow> config_map kube" where
  "AddEtcdSettings lib pspec configMap configMapKey =
     UpdatePatroniConfigMap lib configMap (YMap [(''hosts'', YList (DcsHosts pspec))]) (DcsType pspec) configMapKey"

definition AddTagsSettings :: "yaml_lib \<Rightarrow> (string \<times> string) list \<Rightarrow> config_map \<Rightarrow> string \<Rightarrow> config_map kube" where
  "AddTagsSettings lib tags configMap configMapKey =
     UpdatePatroniConfigMap lib configMap (YMap (map (apsnd YText) tags)) ''tags'' configMapKey"

end
