(* ===== verification/Patroni_Volumes.thy ===== *)
theory Patroni_Volumes
  imports Patroni_Template Volume_Claims
begin

section \<open>The stateful sets of Patroni and their volumes\<close>

text \<open>
  Models \<^verbatim>\<open>operator/pkg/storage/storage.go\<close> and the part of \<^verbatim>\<open>operator/pkg/reconciler/patroni.go\<close> that reconciles one
  stateful set: its claims are created or grown, and a pod that has to be restarted for a larger volume is
  restarted after another pod was made the master.
\<close>

text \<open>A step of another package.\<close>

definition stepErr :: "string \<Rightarrow> err option kube" where
  "stepErr name = k_do (KObj (Step name))"

text \<open>
  What the reconciler takes from outside: the parameters of the upgrade, the YAML library, the files of the operator's
  image, the text of pgBackRest's configuration and the schedules of the goroutines.
\<close>

record patroni_env =
  pe_Upgrade :: upgrade_env
  pe_Yaml :: yaml_lib
  pe_File :: "string \<Rightarrow> string"
  pe_PgBackRestConf :: "patroni_core \<Rightarrow> string"
  pe_Schedules :: "nat list list"

abbreviation pe_Ticks :: "patroni_env \<Rightarrow> nat" where "pe_Ticks env \<equiv> ue_Ticks (pe_Upgrade env)"
abbreviation pe_ParseQuantity :: "patroni_env \<Rightarrow> string \<Rightarrow> err + int" where
  "pe_ParseQuantity env \<equiv> ue_ParseQuantity (pe_Upgrade env)"

subsection \<open>Claims\<close>

text \<open>\<^verbatim>\<open>storageEntity.Selectors[idx-1]\<close> as a pair, which panics when it is missing or has no \<open>=\<close>.\<close>

definition checkSelector :: "storage \<Rightarrow> int \<Rightarrow> unit kube" where
  "checkSelector st idx =
     (if st_Selectors st = [] then Ret ()
      else if idx < 1 \<or> int (length (st_Selectors st)) < idx then Panic index_panic
      else if length (split_on CHR ''='' (st_Selectors st ! nat (idx - 1))) < 2 then Panic index_panic
      else Ret ())"

definition checkVolume :: "storage \<Rightarrow> int \<Rightarrow> unit kube" where
  "checkVolume st idx =
     (if st_Selectors st = [] \<and> idx \<le> int (length (st_Volumes st)) \<and> idx < 1 then Panic index_panic else Ret ())"

text \<open>\<open>resource.MustParse\<close> panics; a storage of another type has no request.\<close>

definition mustParse :: "(string \<Rightarrow> err + int) \<Rightarrow> string \<Rightarrow> int kube" where
  "mustParse ParseQuantity s = (case ParseQuantity s of Inl e \<Rightarrow> Panic e | Inr n \<Rightarrow> Ret n)"

definition NewPvc :: "(string \<Rightarrow> err + int) \<Rightarrow> string \<Rightarrow> storage option \<Rightarrow> int \<Rightarrow> pvc kube" where
  "NewPvc ParseQuantity pvcName storageEntity idx = pbind (deref storageEntity) (\<lambda>st.
     let claim = (\<lambda>requests. empty_pvc\<lparr>pvc_Name := pvcName, pvc_Annotations := st_Annotations st, pvc_Requests := requests\<rparr>) in
     if st_Type st = ''provisioned'' then
       pbind (mustParse ParseQuantity (st_Size st)) (\<lambda>q. Ret (claim (Some (Some q))))
     else if st_Type st = ''pv'' then
       pbind (mustParse ParseQuantity (st_Size st)) (\<lambda>q.
       pbind (checkSelector st idx) (\<lambda>_. pbind (checkVolume st idx) (\<lambda>_. Ret (claim (Some (Some q))))))
     else Ret (claim None))"

subsection \<open>Restarts\<close>

definition trim_suffix :: "string \<Rightarrow> string \<Rightarrow> string" where
  "trim_suffix p s =
     (if length p \<le> length s \<and> drop (length s - length p) s = p then take (length s - length p) s else s)"

definition RestartPatroniPodWithWait :: "string \<Rightarrow> int \<Rightarrow> err option kube" where
  "RestartPatroniPodWithWait podName waitTimeout =
     (let stsName = trim_suffix ''-0'' podName in
      andThen (ScaleStatefulSet stsName 0)
     (andThen (WaitDeletePod podName)
       (Call (KSleep waitTimeout) (\<lambda>_. ScaleStatefulSet stsName 1))))"

definition RestartPatroniPod :: "string \<Rightarrow> err option kube" where
  "RestartPatroniPod podName = RestartPatroniPodWithWait podName 0"

text \<open>The poll for the new master: two minutes with an interval of a second.\<close>

definition masterChanged :: "cluster_settings \<Rightarrow> string \<Rightarrow> (err + bool) kube" where
  "masterChanged cluster currentMaster = pbind (GetPodsByLabel (cl_PatroniMasterSelectors cluster)) (\<lambda>res. Ret (Inr (case res of
     Inr [m] \<Rightarrow> pod_Name m \<noteq> currentMaster | _ \<Rightarrow> False)))"

definition noReplica :: "string \<Rightarrow> string" where
  "noReplica master = ''cannot restart Patroni master '' @ master @ '': no replica available for switchover''"

definition newMasterTimeout :: "string \<Rightarrow> string" where
  "newMasterTimeout master = ''timeout waiting for new Patroni master after switchover from '' @ master @ '': ''"

definition wrongMasters :: "pod list \<Rightarrow> string" where
  "wrongMasters masters = ''expected exactly one Patroni master, found '' @ itoa (int (length masters))"

definition switchover :: "cluster_settings \<Rightarrow> string \<Rightarrow> err option kube" where
  "switchover cluster currentMaster =
     pbind (GetPodsByLabel (cl_PatroniReplicasSelector cluster)) (\<lambda>res. case res of
       Inl e \<Rightarrow> Ret (Some e)
     | Inr [] \<Rightarrow> Ret (Some (noReplica currentMaster))
     | Inr _ \<Rightarrow>
         andThen (Switchover (cl_PatroniUrl cluster) currentMaster)
           (wrapErr (newMasterTimeout currentMaster)
             (poll 120 (masterChanged cluster currentMaster))))"

definition switchoverIfMaster :: "cluster_settings \<Rightarrow> string \<Rightarrow> err option kube" where
  "switchoverIfMaster cluster podName =
     pbind (GetPodsByLabel (cl_PatroniMasterSelectors cluster)) (\<lambda>res. case res of
       Inl e \<Rightarrow> Ret (Some e)
     | Inr [m] \<Rightarrow> if pod_Name m \<noteq> podName then Ret None else switchover cluster (pod_Name m)
     | Inr masters \<Rightarrow> Ret (Some (wrongMasters masters)))"

subsection \<open>Growing volumes\<close>

text \<open>The claims whose growth is in progress.\<close>

fun growClaims :: "patroni_env \<Rightarrow> pvc list \<Rightarrow> (err + pvc list) kube" where
  "growClaims env [] = Ret (Inr [])"
| "growClaims env (p # pvcs) = ptry (CreateOrResizePvc (pe_ParseQuantity env) p) (\<lambda>resizeInProgress.
     ptry (growClaims env pvcs) (\<lambda>resizing. Ret (Inr (if resizeInProgress then p # resizing else resizing))))"

fun restartNeeded :: "pvc list \<Rightarrow> (err + bool) kube" where
  "restartNeeded [] = Ret (Inr False)"
| "restartNeeded (p # pvcs) = pbind (WaitForPvcResizeState 120 (pvc_Name p) (requested p)) (\<lambda>(restart, err). case err of
     Some e \<Rightarrow> Ret (Inl e)
   | None \<Rightarrow> ptry (restartNeeded pvcs) (\<lambda>rest. Ret (Inr (restart \<or> rest))))"

fun allResized :: "pvc list \<Rightarrow> (err + bool) kube" where
  "allResized [] = Ret (Inr True)"
| "allResized (p # pvcs) = ptry (WaitForPvcCapacity 30 (pvc_Name p) (requested p)) (\<lambda>resized.
     ptry (allResized pvcs) (\<lambda>rest. Ret (Inr (resized \<and> rest))))"

text \<open>
  The deadline of ten minutes may pass before each attempt.  The pauses of the first six attempts, from ten seconds
  doubling, are 630 seconds long, so there is no seventh.
\<close>

definition resizeTimeout :: string where "resizeTimeout = ''timeout waiting for Patroni PVC resize''"

fun restartUntilResized :: "nat \<Rightarrow> nat \<Rightarrow> string \<Rightarrow> pvc list \<Rightarrow> err option kube" where
  "restartUntilResized 0 attempt podName resizing = Ret (Some resizeTimeout)"
| "restartUntilResized (Suc n) attempt podName resizing = Call KTick (\<lambda>t.
     if k_error t \<noteq> None then Ret (Some resizeTimeout)
     else andThen (RestartPatroniPodWithWait podName (10 * 2 ^ (attempt - 1)))
       (pbind (allResized resizing) (\<lambda>res. case res of
          Inl e \<Rightarrow> Ret (Some e)
        | Inr True \<Rightarrow> Ret None
        | Inr False \<Rightarrow> restartUntilResized n (Suc attempt) podName resizing)))"

definition statefulSetName :: "cluster_settings \<Rightarrow> int \<Rightarrow> string" where
  "statefulSetName cluster idx = ''pg-'' @ cl_ClusterName cluster @ ''-node'' @ itoa idx"

definition processPatroniPvcResize :: "patroni_env \<Rightarrow> cluster_settings \<Rightarrow> pvc list \<Rightarrow> int \<Rightarrow> err option kube" where
  "processPatroniPvcResize env cluster pvcs deploymentIdx =
     pbind (growClaims env pvcs) (\<lambda>res. case res of
       Inl e \<Rightarrow> Ret (Some e)
     | Inr resizing \<Rightarrow> pbind (restartNeeded resizing) (\<lambda>res. case res of
         Inl e \<Rightarrow> Ret (Some e)
       | Inr False \<Rightarrow> Ret None
       | Inr True \<Rightarrow>
           let podName = statefulSetName cluster deploymentIdx @ ''-0'' in
           andThen (switchoverIfMaster cluster podName) (restartUntilResized 6 1 podName resizing)))"

subsection \<open>One stateful set\<close>

definition patroniPvcs :: "patroni_env \<Rightarrow> patroni_spec \<Rightarrow> int \<Rightarrow> pvc list kube" where
  "patroniPvcs env patroniSpec idx =
     (let name = GetPatroniClusterName (ClusterName patroniSpec) in
      pbind (NewPvc (pe_ParseQuantity env) (name @ ''-data-'' @ itoa idx) (PatroniStorage patroniSpec) idx) (\<lambda>dataPvc.
      if PgWalStorage patroniSpec = None then Ret [dataPvc]
      else pbind (NewPvc (pe_ParseQuantity env) (name @ ''-wals-data-'' @ itoa idx) (PgWalStorage patroniSpec) idx) (\<lambda>walPvc.
        Ret [dataPvc, walPvc])))"

definition pgBackRestPvc :: "patroni_env \<Rightarrow> patroni_core \<Rightarrow> err option kube" where
  "pgBackRestPvc env cr = (case pc_PgBackRest cr of
     None \<Rightarrow> Ret None
   | Some br \<Rightarrow>
       if to_lower (br_RepoType br) = ''rwx'' then
         pbind (NewPvc (pe_ParseQuantity env) ''pgbackrest-backups'' (br_Rwx br) 1) CreatePvcIfNotExists
       else Ret None)"

text \<open>The hash of the secrets that is written to the template is a step of the credential manager.\<close>

definition processPatroniStatefulset ::
  "patroni_env \<Rightarrow> resource_manager \<Rightarrow> cluster_settings \<Rightarrow> patroni_core \<Rightarrow> int \<Rightarrow> err option kube" where
  "processPatroniStatefulset env rm cluster cr deploymentIdx =
     andThen (rm_DeleteDeployment (statefulSetName cluster deploymentIdx))
     (pbind (deref (pc_Patroni cr)) (\<lambda>patroniSpec.
      pbind (patroniPvcs env patroniSpec deploymentIdx) (\<lambda>pvcs.
      andThen (pgBackRestPvc env cr)
     (andThen (processPatroniPvcResize env cluster pvcs deploymentIdx)
     (andThen (stepErr ''AddCredHashToPodTemplate'')
       (CreateOrUpdateStatefulset (pe_Ticks env) rm
         (ue_NewPatroniStatefulset (pe_Upgrade env) cr deploymentIdx (cl_ClusterName cluster)) True))))))"

end
