(* ===== verification/Core_Controller.thy ===== *)
theory Core_Controller
  imports Patroni_Volumes
begin

section \<open>The controller of the PatroniCore resource\<close>

text \<open>
  Models \<^verbatim>\<open>operator/controllers/patroni_core_controller.go\<close> and the core part of \<^verbatim>\<open>conditions.go\<close>: the reconcile
  loop with its counter of failed attempts, the hash and resource version that let a run be skipped, and the
  status conditions.  Parts that other packages do are steps of the environment that succeed or fail: the
  credential manager, Consul, the Patroni reconciler (\<^verbatim>\<open>patroni_Reconcile\<close> of the theory
  \<^verbatim>\<open>Patroni_Reconciler\<close> is the model of that step), the watcher and the scheduler of the slots.
\<close>

definition InProgress :: string where "InProgress = ''In progress''"
definition Successful :: string where "Successful = ''Successful''"
definition Failed :: string where "Failed = ''Failed''"

text \<open>What a reconciler remembers between two runs.\<close>

record reconciler =
  rec_errorCounter :: int
  rec_reason :: string
  rec_message :: string
  rec_resVersions :: "(string \<times> string) list"
  rec_crHash :: string

text \<open>The result of a run: minutes until the next one, whether it is asked for, and the error.\<close>

record run_result =
  RequeueAfter :: nat
  Requeue :: bool
  res_error :: "err option"

definition result :: "nat \<Rightarrow> err option \<Rightarrow> run_result" where
  "result minutes err = \<lparr>RequeueAfter = minutes, Requeue = False, res_error = err\<rparr>"

text \<open>The settings of the process: the number of polls of the waits and \<^verbatim>\<open>PG_RECONCILE_RETRIES\<close>.\<close>

record controller_env =
  ce_Ticks :: nat
  ce_Retries :: "string option"

text \<open>A step of another package that also says yes or no.\<close>

definition stepBool :: "string \<Rightarrow> (err + bool) kube" where
  "stepBool name = Call (KObj (Step name)) (\<lambda>r. Ret (case r of
     KObjResp (OBool b) \<Rightarrow> Inr b | KErr e \<Rightarrow> Inl e | KNotFound e \<Rightarrow> Inl e | _ \<Rightarrow> Inl ''unexpected response''))"

subsection \<open>Status conditions\<close>

definition setCondition :: "string \<Rightarrow> string \<Rightarrow> string \<Rightarrow> condition list \<Rightarrow> condition list" where
  "setCondition statusType reason message conditions =
     (let new = \<lparr>ct_Type = statusType, ct_Status = True, ct_Reason = reason, ct_Message = message\<rparr> in
      case conditions of [] \<Rightarrow> [new] | _ # rest \<Rightarrow> new # rest)"

definition core_forceUpdateStatus :: "patroni_core \<Rightarrow> string \<Rightarrow> string \<Rightarrow> string \<Rightarrow> patroni_core" where
  "core_forceUpdateStatus cr statusType reason message =
     cr\<lparr>pc_Conditions := setCondition statusType reason message (pc_Conditions cr)\<rparr>"

text \<open>
  Without the resource its nil pointer is followed.  The error of the update is not the error that the poll
  returns: the update is tried again for a minute.
\<close>

definition core_updateStatus :: "string \<Rightarrow> string \<Rightarrow> string \<Rightarrow> err option kube" where
  "core_updateStatus statusType reason message = pbind GetPatroniCoreCR (\<lambda>res. case res of
     Inl _ \<Rightarrow> Panic nil_deref
   | Inr newCr \<Rightarrow> poll 60 (pbind (k_do (KObj (UpdateCoreStatus (core_forceUpdateStatus newCr statusType reason message))))
       (\<lambda>e. Ret (Inr (e = None)))))"

subsection \<open>Failed runs\<close>

definition core_failReconcile :: "reconciler \<Rightarrow> string \<Rightarrow> err \<Rightarrow> bool \<Rightarrow> (run_result \<times> reconciler) kube" where
  "core_failReconcile s reason err requeue =
     pbind (core_updateStatus Failed reason (''Postgres service reconcile cycle failed. Error: '' @ err)) (\<lambda>_.
     Ret (\<lparr>RequeueAfter = (if requeue then 1 else 0), Requeue = requeue, res_error = Some err\<rparr>,
       s\<lparr>rec_reason := reason, rec_message := ''PatroniCore service reconcile cycle failed''\<rparr>))"

definition core_stopReconcile :: "reconciler \<Rightarrow> string \<Rightarrow> string \<Rightarrow> err \<Rightarrow> (run_result \<times> reconciler) kube" where
  "core_stopReconcile s newCrHash reason err =
     core_failReconcile (s\<lparr>rec_crHash := newCrHash, rec_errorCounter := 0\<rparr>) reason err False"

definition core_handleReconcileError ::
  "reconciler \<Rightarrow> int \<Rightarrow> string \<Rightarrow> string \<Rightarrow> string \<Rightarrow> err \<Rightarrow> (run_result \<times> reconciler) kube" where
  "core_handleReconcileError s maxAttempts reason errMsg newCrHash err =
     (let counted = s\<lparr>rec_errorCounter := rec_errorCounter s + 1\<rparr> in
      if rec_errorCounter counted < maxAttempts then core_failReconcile counted reason err True
      else core_stopReconcile counted newCrHash ''No reconcile attempts left'' err)"

subsection \<open>Parts of a run\<close>

definition testsVerdict :: "string \<times> err option \<Rightarrow> err option" where
  "testsVerdict s = (case s of (state, err) \<Rightarrow>
     if err \<noteq> None then Some ''State of the test pods is unknown.''
     else if state = ''Succeeded'' then None
     else if state = ''Failed'' then Some ''Tests pod ended with an error.''
     else if state = ''Running'' then Some ''Tests pod Phase: Running. Tests take too long to run''
     else if state = ''Pending'' then Some ''Tests pod Phase: Pending.''
     else Some ''State of the test pods is unknown.'')"

text \<open>What both controllers do with the pod of the tests; an error of the deletion is only logged.\<close>

definition runTestsPod :: "string \<Rightarrow> err option kube" where
  "runTestsPod name = pbind (GetPodPhase name) (\<lambda>(state, err). case err of
     Some e \<Rightarrow> Ret (Some e)
   | None \<Rightarrow>
       pbind (if state = ''Running'' then Ret None
         else pbind (if state \<noteq> ''NotFound'' then pbind (DeletePodWithWaiting name) (\<lambda>_. Ret ()) else Ret ()) (\<lambda>_. CreatePod name)) (\<lambda>err.
       case err of
         Some e \<Rightarrow> Ret (Some e)
       | None \<Rightarrow> pbind (WaitForCompletePod name) (\<lambda>s. Ret (testsVerdict s))))"

definition coreTestsPod :: string where "coreTestsPod = ''integration-robot-tests''"

definition core_createTestsPods :: "patroni_core \<Rightarrow> err option kube" where
  "core_createTestsPods cr =
     (if pc_IntegrationTests cr then pbind (deref (pc_Patroni cr)) (\<lambda>_. runTestsPod coreTestsPod) else Ret None)"

definition core_registerInConsul :: "patroni_core \<Rightarrow> err option kube" where
  "core_registerInConsul cr = pbind (deref (pc_Patroni cr)) (\<lambda>_. stepErr ''RegisterInConsul'')"

definition IsPatroniHasDisabledStatus :: "patroni_services \<Rightarrow> bool" where
  "IsPatroniHasDisabledStatus cr \<longleftrightarrow> sm_Mode (ps_SiteManagerStatus cr) = ''disabled'' \<and> sm_Status (ps_SiteManagerStatus cr) = ''done''"

text \<open>The comparison of two pointers is always true; an error gives an empty resource, which is not disabled.\<close>

definition core_reconcilePatroni :: "err option kube" where
  "core_reconcilePatroni = pbind GetPostgresServiceCR (\<lambda>res.
     if IsPatroniHasDisabledStatus (case res of Inl _ \<Rightarrow> empty_services | Inr cr \<Rightarrow> cr) then Ret None
     else stepErr ''PatroniReconciler.Reconcile'')"

definition reconcilePatroniCoreCluster :: "patroni_core \<Rightarrow> err option kube" where
  "reconcilePatroniCoreCluster cr =
     pbind (if pc_Patroni cr \<noteq> None then
         pbind core_reconcilePatroni (\<lambda>err. case err of
           Some e \<Rightarrow> Ret (Inl e)
         | None \<Rightarrow> pbind (IsStandbyClusterConfigurationExist cr) (\<lambda>standby. Ret (Inr (\<not> standby))))
       else Ret (Inr True)) (\<lambda>res. case res of
     Inl e \<Rightarrow> Ret (Some e)
   | Inr consulRegistrationRequired \<Rightarrow>
       andThen (if consulRegistrationRequired then core_registerInConsul cr else Ret None)
         (if pc_IntegrationTests cr then pbind (deref (pc_Patroni cr)) (\<lambda>spec.
            if StandbyCluster spec = None then core_createTestsPods cr else Ret None)
          else Ret None))"

definition excludeLabel :: string where "excludeLabel = ''velero.io/exclude-from-backup''"

text \<open>An error other than \<open>NotFound\<close> leaves an empty map, and the update is sent for it.\<close>

definition AddExcludeLabelToCm :: "string \<Rightarrow> err option kube" where
  "AddExcludeLabelToCm cmName = pbind (getCM cmName) (\<lambda>res. case res of
     Inl (KNotFound _) \<Rightarrow> Ret None
   | _ \<Rightarrow>
       let foundCm = (case res of Inr cm \<Rightarrow> cm | Inl _ \<Rightarrow> \<lparr>cm_Name = '''', cm_Data = [], cm_Annotations = None,
             cm_Labels = None, cm_ResourceVersion = '''', cm_Owners = []\<rparr>);
           labels = (case cm_Labels foundCm of None \<Rightarrow> [] | Some ls \<Rightarrow> ls) in
       if map_of labels excludeLabel = Some ''true'' then Ret None
       else k_do (KObj (UpdateCM (foundCm\<lparr>cm_Labels := Some (AList.update excludeLabel ''true'' labels)\<rparr>))))"

definition backRestcontainerName :: string where "backRestcontainerName = ''pgbackrest-sidecar''"
definition stanzaUpgradeCommand :: string where "stanzaUpgradeCommand = ''pgbackrest stanza-upgrade''"
definition stanzaCreateStandbyCommand :: string where "stanzaCreateStandbyCommand = ''pgbackrest stanza-create --no-online''"

text \<open>The error of the command is printed and dropped, and without a leader the error may be nil.\<close>

definition stanzaUpgrade :: "bool \<Rightarrow> err option kube" where
  "stanzaUpgrade create = pbind (GetPodsByLabel MasterLabel) (\<lambda>res. case res of
     Inl e \<Rightarrow> Ret (Some e)
   | Inr [] \<Rightarrow> Ret None
   | Inr (masterPod # _) \<Rightarrow>
       pbind (ExecCmdOnPod (pod_Name masterPod) backRestcontainerName
         (if create then stanzaCreateStandbyCommand else stanzaUpgradeCommand) '''') (\<lambda>_. Ret None))"

definition stanzas :: "patroni_core \<Rightarrow> err option kube" where
  "stanzas cr = (case pc_PgBackRest cr of
     None \<Rightarrow> Ret None
   | Some br \<Rightarrow>
       if pc_Patroni cr = None then Ret None
       else pbind (IsStandbyClusterConfigurationExist cr) (\<lambda>standby.
         if standby then (if br_DRBucket br \<noteq> '''' then stanzaUpgrade True else Ret None) else stanzaUpgrade False))"

subsection \<open>The run\<close>

definition maxAttempts :: "controller_env \<Rightarrow> int" where
  "maxAttempts env = (let (n, ok) = atoi (case ce_Retries env of None \<Rightarrow> ''1'' | Some s \<Rightarrow> s) in if ok then n else 2)"

definition core_maxAttempts :: "controller_env \<Rightarrow> patroni_core \<Rightarrow> int" where
  "core_maxAttempts env cr = (case pc_Upgrade cr of
     Some up \<Rightarrow> if up_Enabled up then 1 else maxAttempts env
   | None \<Rightarrow> maxAttempts env)"

text \<open>Whether the resource was handled before, and its last run did not fail or was the last attempt.\<close>

definition unchanged :: "reconciler \<Rightarrow> string \<Rightarrow> string \<Rightarrow> string \<Rightarrow> condition list \<Rightarrow> bool" where
  "unchanged s name newResVersion newCrHash conditions \<longleftrightarrow>
     ((case map_of (rec_resVersions s) name of None \<Rightarrow> '''' | Some v \<Rightarrow> v) = newResVersion \<or> rec_crHash s = newCrHash)
     \<and> (case conditions of
          [] \<Rightarrow> False
        | c # _ \<Rightarrow> ct_Type c \<noteq> Failed \<or> (ct_Type c = Failed \<and> rec_errorCounter s = 0))"

definition setVersion :: "string \<Rightarrow> string \<Rightarrow> reconciler \<Rightarrow> reconciler" where
  "setVersion name version s = s\<lparr>rec_resVersions := AList.update name version (rec_resVersions s)\<rparr>"

text \<open>The end of a run that succeeded: both assignments of the version have the same value.\<close>

definition core_succeed :: "reconciler \<Rightarrow> patroni_core \<Rightarrow> string \<Rightarrow> (run_result \<times> reconciler) kube" where
  "core_succeed s cr message =
     pbind (core_updateStatus Successful ''ReconcileCycleSucceeded'' message) (\<lambda>err.
     let s' = setVersion (pc_Name cr) (pc_ResourceVersion cr) s in
     Ret (case err of Some e \<Rightarrow> result 1 (Some e) | None \<Rightarrow> result 0 None, s'))"

text \<open>The error of a step after the cluster was reconciled ends the run without counting it.\<close>

definition orRetry :: "reconciler \<Rightarrow> err option kube \<Rightarrow> (run_result \<times> reconciler) kube \<Rightarrow> (run_result \<times> reconciler) kube" where
  "orRetry s m k = pbind m (\<lambda>err. case err of Some e \<Rightarrow> Ret (result 1 (Some e), s) | None \<Rightarrow> k)"

definition lockCmName :: string where "lockCmName = ''patroni-core-operator-lock''"

definition core_finish :: "resource_manager \<Rightarrow> reconciler \<Rightarrow> patroni_core \<Rightarrow> (run_result \<times> reconciler) kube" where
  "core_finish rm s cr =
     pbind (deref (pc_Patroni cr)) (\<lambda>spec.
     orRetry s (UpdatePatroniConfigMaps rm (ClusterName spec))
     (orRetry s (stepErr ''informer.Watch'')
     (orRetry s (AddExcludeLabelToCm lockCmName)
     (orRetry s (stanzas cr)
     (pbind (if IgnoreSlots spec then pbind (stepErr ''StartScheduler'') (\<lambda>_. Ret ()) else Ret ()) (\<lambda>_.
      core_succeed (s\<lparr>rec_errorCounter := 0\<rparr>) cr ''Postgres service reconcile cycle succeeded''))))))"

text \<open>A resource with a time for the tests: a run of the tests only.\<close>

definition core_runTests :: "controller_env \<Rightarrow> reconciler \<Rightarrow> patroni_core \<Rightarrow> (run_result \<times> reconciler) kube" where
  "core_runTests env s cr =
     pbind (core_createTestsPods cr) (\<lambda>err. case err of
       Some e \<Rightarrow> core_handleReconcileError s (core_maxAttempts env cr) ''ReconcilePostgresServiceClusterFailed''
         ''Error during reconcile cycle'' (pc_SpecHash cr) e
     | None \<Rightarrow> core_succeed s cr ''Postgres service reconcile cycle succeeded. Only tests were runs'')"

definition core_runCluster ::
  "controller_env \<Rightarrow> resource_manager \<Rightarrow> reconciler \<Rightarrow> patroni_core \<Rightarrow> (run_result \<times> reconciler) kube" where
  "core_runCluster env rm s cr =
     pbind (stepErr ''StopAndClear'') (\<lambda>_.
     pbind (reconcilePatroniCoreCluster cr) (\<lambda>err. case err of
       Some e \<Rightarrow> core_handleReconcileError s (core_maxAttempts env cr) ''ReconcilePatroniCoreClusterFailed''
         ''Error during reconcile cycle'' (pc_SpecHash cr) e
     | None \<Rightarrow> core_finish rm s cr))"

text \<open>
  The part of a run after the status was set to in progress.  The call that handles an error of the credentials
  passes its message where the hash of the resource is expected, and the hash where the message is.
\<close>

definition core_body ::
  "controller_env \<Rightarrow> resource_manager \<Rightarrow> reconciler \<Rightarrow> patroni_core \<Rightarrow> (run_result \<times> reconciler) kube" where
  "core_body env rm s cr =
     Call (KSleep 30) (\<lambda>_.
     pbind (stepErr ''ProcessCreds'') (\<lambda>err. case err of
       Some e \<Rightarrow> core_handleReconcileError s (core_maxAttempts env cr) ''CanNotActualizeCredsOnCluster'' (pc_SpecHash cr)
         ''Error during actualization of creds on cluster'' e
     | None \<Rightarrow> if pc_RunTestsTime cr \<noteq> '''' then core_runTests env s cr else core_runCluster env rm s cr))"

definition core_run ::
  "controller_env \<Rightarrow> resource_manager \<Rightarrow> reconciler \<Rightarrow> patroni_core \<Rightarrow> (run_result \<times> reconciler) kube" where
  "core_run env rm s cr =
     (let s1 = (if rec_errorCounter s = 0 then s\<lparr>rec_reason := ''StartPatroniCoreClusterReconcile'',
            rec_message := ''Start Patroni Core cluster reconcile cycle''\<rparr> else s) in
      pbind (core_updateStatus InProgress ''StartPostgresServiceClusterReconcile''
          ''Start Postgres Service cluster reconcile cycle'') (\<lambda>err. case err of
        Some e \<Rightarrow> Ret (result 1 (Some e), s1)
      | None \<Rightarrow> core_body env rm (s1\<lparr>rec_crHash := pc_SpecHash cr\<rparr>) cr))"

text \<open>The decision to skip the run.\<close>

definition core_decide ::
  "controller_env \<Rightarrow> resource_manager \<Rightarrow> reconciler \<Rightarrow> patroni_core \<Rightarrow> (run_result \<times> reconciler) kube" where
  "core_decide env rm s cr =
     (if unchanged s (pc_Name cr) (pc_ResourceVersion cr) (pc_SpecHash cr) (pc_Conditions cr) then
        pbind (stepBool ''AreCredsChanged'') (\<lambda>res. case res of
          Inl e \<Rightarrow> Ret (result 0 (Some e), s)
        | Inr areCredsChanged \<Rightarrow>
            if \<not> areCredsChanged then
              pbind (core_registerInConsul cr) (\<lambda>err.
              Ret (case err of Some e \<Rightarrow> result 1 (Some e) | None \<Rightarrow> result 0 None, s))
            else core_run env rm s cr)
      else core_run env rm s cr)"

definition core_fetch :: "reconciler \<Rightarrow> (patroni_core \<Rightarrow> (run_result \<times> reconciler) kube) \<Rightarrow> (run_result \<times> reconciler) kube" where
  "core_fetch s k = Call KGetCore (\<lambda>r. case r of
     KCoreCR cr \<Rightarrow> k cr
   | KNotFound _ \<Rightarrow> Ret (result 0 None, s)
   | _ \<Rightarrow> pbind (core_updateStatus Failed ''CannotFetchCrStatus'' (''Cannot fetch CR status. Error: '' @ errorText r)) (\<lambda>err.
       Ret (result 1 (Some (case err of Some e \<Rightarrow> e | None \<Rightarrow> errorText r)), s)))"

definition ownedBy :: "resource_manager \<Rightarrow> string \<Rightarrow> string \<Rightarrow> string \<Rightarrow> resource_manager" where
  "ownedBy rm name uid kind = rm\<lparr>rm_Name := name, rm_UID := uid, rm_Kind := kind\<rparr>"

text \<open>The resource is read twice into the same variable: the second read was meant for the services.\<close>

definition core_Reconcile :: "controller_env \<Rightarrow> resource_manager \<Rightarrow> reconciler \<Rightarrow> (run_result \<times> reconciler) kube" where
  "core_Reconcile env rm s = core_fetch s (\<lambda>_. core_fetch s (\<lambda>cr.
     core_decide env (ownedBy rm (pc_Name cr) (pc_UID cr) ''PatroniCore''
       \<lparr>rm_Cluster := map_option ClusterName (pc_Patroni cr)\<rparr>) s cr))"

end
