(* ===== verification/Controller_Safety.thy ===== *)
theory Controller_Safety
  imports Core_Controller Kube_Calls
begin

section \<open>Retries of the core controller\<close>

text \<open>
  How often a resource that cannot be reconciled is tried and when the operator leaves it alone.
\<close>

subsection \<open>Calls of the parts of a run\<close>

lemma retry_calls:
  assumes "emits (all_calls F) m" and "F KTick"
  shows "emits (all_calls F) (RetryOnConflict n m)"
proof (induction n)
  case 0
  show ?case using assms by (simp add: RetryOnConflict.simps)
next
  case (Suc n)
  then show ?case using assms by (auto simp: RetryOnConflict.simps intro!: kube_rules)
qed

text \<open>A property of calls that holds for all but the steps of other packages and the writes of the status.\<close>

definition plain :: "(k_call \<Rightarrow> bool) \<Rightarrow> bool" where
  "plain F \<longleftrightarrow> (\<forall>c. (\<forall>n. c \<noteq> KObj (Step n)) \<and> (\<forall>cr. c \<noteq> KObj (UpdateCoreStatus cr)) \<and> (\<forall>cr. c \<noteq> KUpdateStatus cr) \<longrightarrow> F c)"

lemma plain_simps:
  assumes "plain F"
  shows "F KGetCore" "F KGetServices" "F KTick" "F (KSleep k)" "F (KObj (GetCM n))" "F (KObj (UpdateCM cm))" "F (KObj (CreateCM cm))"
    "F (KObj (GetPod n))" "F (KObj (CreatePodCall n))" "F (KObj (DeletePodCall n))" "F (KObj (ListPods ls b))"
    "F (KObj (ListWorkloads kind))" "F (KObj (ExecPod p c cmd sh))" "F (KGetService n)" "F (KUpdateService svc)"
  using assms by (simp_all add: plain_def)

lemma plain_labels:
  assumes "plain F"
  shows "emits (all_calls F) (getLabels rm name ls)"
  using assms plain_simps [OF assms]
  unfolding getLabels_def commonLabels_def GetChartVersion_def GetDeploymentSessionId_def operatorLabel_def
    getOperatorLabels_def GetDeploymentsByNameRegExp_def listWorkloads_def Let_def
  by (auto intro!: kube_rules)

lemma plain_config_maps:
  assumes "plain F"
  shows "emits (all_calls F) (UpdatePatroniConfigMaps rm cl)"
  using assms plain_simps [OF assms]
  unfolding UpdatePatroniConfigMaps_def updatePatroniConfigMap_def GetConfigMap_def CreateOrUpdateManagedConfigMap_def
    createOrUpdateConfigMap_def createCM_def getCM_def Let_def
  by (auto intro!: kube_rules retry_calls plain_labels)

lemma plain_exclude:
  assumes "plain F"
  shows "emits (all_calls F) (AddExcludeLabelToCm n)"
  using assms plain_simps [OF assms]
  unfolding AddExcludeLabelToCm_def getCM_def Let_def
  by (auto intro!: kube_rules split: k_resp.split sum.split)

lemma plain_stanza:
  assumes "plain F"
  shows "emits (all_calls F) (stanzaUpgrade b)"
proof -
  have "emits (all_calls F) (case pods of [] \<Rightarrow> Ret None | masterPod # rest \<Rightarrow>
      pbind (ExecCmdOnPod (pod_Name masterPod) backRestcontainerName c '''') (\<lambda>_. Ret None))" for pods :: "pod list" and c
    using plain_simps [OF assms] unfolding ExecCmdOnPod_def by (cases pods) (auto intro!: kube_rules)
  then show ?thesis
    using plain_simps [OF assms] unfolding stanzaUpgrade_def GetPodsByLabel_def listPods_def
    by (auto intro!: kube_rules split: sum.split)
qed

lemma plain_stanzas:
  assumes "plain F"
  shows "emits (all_calls F) (stanzas cr)"
proof (cases "pc_PgBackRest cr")
  case (Some bucket)
  then show ?thesis
    using plain_stanza [OF assms] by (simp add: stanzas_def IsStandbyClusterConfigurationExist_def) (intro kube_rules conjI impI; simp)
qed (simp add: stanzas_def calls.emits_rules)

lemma plain_phase:
  assumes "plain F"
  shows "emits (all_calls F) (GetPodPhase n)"
  using assms plain_simps [OF assms]
  unfolding GetPodPhase_def getPod_def by (auto intro!: kube_rules)

lemma plain_tests:
  assumes "plain F"
  shows "emits (all_calls F) (runTestsPod n)"
  using assms plain_simps [OF assms]
  unfolding runTestsPod_def DeletePodWithWaiting_def DeletePod_def getPod_def WaitDeletePod_def checkDeletePod_def
    CreatePod_def WaitForCompletePod_def waitForPhase_def
  by (auto intro!: kube_rules plain_phase split: sum.split k_resp.split option.split prod.split)

lemma plain_core_tests:
  assumes "plain F"
  shows "emits (all_calls F) (core_createTestsPods cr)"
  using assms
  unfolding core_createTestsPods_def by (auto intro!: kube_rules plain_tests)

lemma step_calls: "F (KObj (Step n)) \<Longrightarrow> emits (all_calls F) (stepErr n)"
  unfolding stepErr_def by (auto intro!: kube_rules)

lemma status_calls:
  assumes "plain F" and "\<And>cr. F (KObj (UpdateCoreStatus (core_forceUpdateStatus cr t r m)))"
  shows "emits (all_calls F) (core_updateStatus t r m)"
  using assms plain_simps [OF assms(1)] unfolding core_updateStatus_def by (auto intro!: kube_rules split: sum.split)

text \<open>A property that the steps after the credentials have, but for the reconciliation of Patroni.\<close>

definition quiet :: "(k_call \<Rightarrow> bool) \<Rightarrow> bool" where
  "quiet F \<longleftrightarrow> plain F \<and> (\<forall>cr. F (KObj (UpdateCoreStatus cr)))
     \<and> (\<forall>n \<in> {''StopAndClear'', ''informer.Watch'', ''StartScheduler'', ''RegisterInConsul''}. F (KObj (Step n)))"

lemma quietD:
  "quiet F \<Longrightarrow> plain F" "quiet F \<Longrightarrow> F (KObj (UpdateCoreStatus cr))" "quiet F \<Longrightarrow> F (KObj (Step ''StopAndClear''))"
  "quiet F \<Longrightarrow> F (KObj (Step ''informer.Watch''))" "quiet F \<Longrightarrow> F (KObj (Step ''StartScheduler''))"
  "quiet F \<Longrightarrow> F (KObj (Step ''RegisterInConsul''))"
  by (simp_all add: quiet_def)

lemma quiet_status: "quiet F \<Longrightarrow> emits (all_calls F) (core_updateStatus t r m)"
  by (rule status_calls) (simp_all add: quietD)

lemma quiet_handle: "quiet F \<Longrightarrow> emits (all_calls F) (core_handleReconcileError s a r m h e)"
  unfolding core_handleReconcileError_def core_stopReconcile_def core_failReconcile_def Let_def
  by (auto intro!: kube_rules quiet_status)

lemma quiet_succeed: "quiet F \<Longrightarrow> emits (all_calls F) (core_succeed s cr m)"
  unfolding core_succeed_def Let_def by (auto intro!: kube_rules quiet_status)

lemma quiet_consul: "quiet F \<Longrightarrow> emits (all_calls F) (core_registerInConsul cr)"
  unfolding core_registerInConsul_def by (auto intro!: kube_rules step_calls simp: quietD)

lemma quiet_finish:
  assumes "quiet F"
  shows "emits (all_calls F) (core_finish rm s cr)"
  using quietD [OF assms] unfolding core_finish_def orRetry_def
  by (auto intro!: kube_rules plain_config_maps plain_exclude plain_stanzas step_calls quiet_succeed [OF assms])

lemma quiet_tests: "quiet F \<Longrightarrow> emits (all_calls F) (core_runTests env s cr)"
  unfolding core_runTests_def
  by (auto intro!: kube_rules plain_core_tests quiet_handle quiet_succeed simp: quietD split: option.split)

text \<open>What follows the reconciliation of Patroni in that of the cluster.\<close>

definition after_patroni :: "patroni_core \<Rightarrow> bool \<Rightarrow> err option kube" where
  "after_patroni cr required = andThen (if required then core_registerInConsul cr else Ret None)
     (if pc_IntegrationTests cr then pbind (deref (pc_Patroni cr)) (\<lambda>spec.
        if StandbyCluster spec = None then core_createTestsPods cr else Ret None)
      else Ret None)"

definition consulRequired :: "patroni_core \<Rightarrow> (err + bool) kube" where
  "consulRequired cr = pbind (IsStandbyClusterConfigurationExist cr) (\<lambda>standby. Ret (Inr (\<not> standby)))"

lemma cluster_eq:
  "reconcilePatroniCoreCluster cr =
     (if pc_Patroni cr = None then after_patroni cr True
      else pbind core_reconcilePatroni (\<lambda>x. pbind (case x of Some e \<Rightarrow> Ret (Inl e) | None \<Rightarrow> consulRequired cr)
        (\<lambda>res. case res of Inl e \<Rightarrow> Ret (Some e) | Inr required \<Rightarrow> after_patroni cr required)))"
  unfolding reconcilePatroniCoreCluster_def after_patroni_def consulRequired_def
  by (cases "pc_Patroni cr = None") (simp_all only: if_True if_False not_False_eq_True not_True_eq_False pbind_assoc
    pbind.simps sum.case simp_thms)

lemma quiet_after: "quiet F \<Longrightarrow> emits (all_calls F) (after_patroni cr required)"
  unfolding after_patroni_def by (auto intro!: kube_rules quiet_consul plain_core_tests simp: quietD)

lemma consul_required_calls: "emits (all_calls F) (consulRequired cr)"
  unfolding consulRequired_def IsStandbyClusterConfigurationExist_def by (auto intro!: kube_rules)

subsection \<open>Steps that do not reconcile Patroni\<close>

definition patroniStep :: string where "patroniStep = ''PatroniReconciler.Reconcile''"

definition no_patroni :: "k_call \<Rightarrow> bool" where
  "no_patroni c \<longleftrightarrow> c \<noteq> KObj (Step patroniStep)"

lemma no_patroni_simps [simp]:
  "quiet no_patroni" "\<not> no_patroni (KObj (Step patroniStep))" "no_patroni (KObj (Step ''ProcessCreds''))" "no_patroni (KSleep k)"
  by (simp_all add: quiet_def plain_def no_patroni_def patroniStep_def)

text \<open>The step is part of the reconciliation of the cluster, and its failure is the failure of the whole.\<close>

definition patroni_failed :: "k_trace \<Rightarrow> bool" where
  "patroni_failed u \<longleftrightarrow> (\<exists>e. (KObj (Step patroniStep), KErr e) \<in> set u)"

lemma not_failed:
  assumes "emits (all_calls no_patroni) m" and "beh m out v"
  shows "\<not> patroni_failed v"
  using all_calls_mem [OF emitsD [OF assms]] by (fastforce simp: patroni_failed_def)

lemma patroni_step_failed:
  assumes "beh core_reconcilePatroni (Val None) u"
  shows "\<not> patroni_failed u"
proof -
  have "spec core_reconcilePatroni (\<lambda>out v. patroni_failed v \<longrightarrow> (\<exists>e. out = Val (Some e)))"
    unfolding core_reconcilePatroni_def GetPostgresServiceCR_def stepErr_def k_do_def patroniStep_def [symmetric]
    by (simp add: spec_simps patroni_failed_def split: if_split) (auto simp: patroniStep_def)
  from specD [OF this assms] show ?thesis by auto
qed

lemma reconcile_failed:
  assumes "beh (reconcilePatroniCoreCluster cr) (Val err) u" and "patroni_failed u"
  shows "err \<noteq> None"
proof (cases "pc_Patroni cr = None")
  case True
  with assms(1) have "beh (after_patroni cr True) (Val err) u" by (simp add: cluster_eq)
  from not_failed [OF quiet_after this] assms(2) show ?thesis by simp
next
  case False
  let ?next = "\<lambda>x. pbind (case x of Some e \<Rightarrow> Ret (Inl e) | None \<Rightarrow> consulRequired cr)
      (\<lambda>res. case res of Inl e \<Rightarrow> Ret (Some e) | Inr required \<Rightarrow> after_patroni cr required)"
  have eq: "reconcilePatroniCoreCluster cr = pbind core_reconcilePatroni ?next"
    using False by (simp only: cluster_eq if_False)
  from iffD1 [OF beh_pbind, OF assms(1) [unfolded eq]] obtain u1 u2 x
    where u: "u = u1 @ u2" and u1: "beh core_reconcilePatroni (Val x) u1" and u2: "beh (?next x) (Val err) u2"
    by blast
  show ?thesis
  proof (cases x)
    case (Some e)
    with u2 show ?thesis by simp
  next
    case None
    have "emits (all_calls no_patroni) (pbind (consulRequired cr)
        (\<lambda>res. case res of Inl e \<Rightarrow> Ret (Some e) | Inr required \<Rightarrow> after_patroni cr required))"
      by (auto intro!: kube_rules quiet_after consul_required_calls split: sum.split)
    from not_failed [OF this] u2 None have "\<not> patroni_failed u2" by simp
    with patroni_step_failed u1 None u assms(2) show ?thesis by (auto simp: patroni_failed_def)
  qed
qed

text \<open>What a run is made of when the reconciliation of Patroni failed in it: its error is counted.\<close>

lemma failed_skip:
  assumes "beh (pbind p f) out u" and "patroni_failed u" and "emits (all_calls no_patroni) p"
  obtains x v where "beh (f x) out v" "patroni_failed v"
proof -
  from assms(2) obtain e where e: "(KObj (Step patroniStep), KErr e) \<in> set u" by (auto simp: patroni_failed_def)
  show ?thesis
    by (rule beh_skip [OF assms(1) e assms(3) no_patroni_simps(2)]) (use that in \<open>auto simp: patroni_failed_def\<close>)
qed

lemma cluster_failed:
  assumes "beh (core_runCluster env rm s cr) out u" and "patroni_failed u"
  obtains e v where "beh (core_handleReconcileError s (core_maxAttempts env cr) ''ReconcilePatroniCoreClusterFailed''
       ''Error during reconcile cycle'' (pc_SpecHash cr) e) out v"
  | e where "out = Panicked e"
proof -
  let ?after = "\<lambda>err. case err of Some e \<Rightarrow> core_handleReconcileError s (core_maxAttempts env cr)
      ''ReconcilePatroniCoreClusterFailed'' ''Error during reconcile cycle'' (pc_SpecHash cr) e
    | None \<Rightarrow> core_finish rm s cr"
  have stop: "emits (all_calls no_patroni) (stepErr ''StopAndClear'')" by (simp add: step_calls quietD)
  obtain v where v: "beh (pbind (reconcilePatroniCoreCluster cr) ?after) out v" "patroni_failed v"
    by (rule failed_skip [OF assms(1) [unfolded core_runCluster_def] assms(2) stop])
  from iffD1 [OF beh_pbind, OF v(1)] show ?thesis
  proof (elim disjE exE conjE)
    fix u1 u2 err
    assume parts: "beh (reconcilePatroniCoreCluster cr) (Val err) u1" "beh (?after err) out u2" "v = u1 @ u2"
    show ?thesis
    proof (cases err)
      case None
      with parts(2) have "\<not> patroni_failed u2" using not_failed [OF quiet_finish [OF no_patroni_simps(1)]] by auto
      with v(2) parts(3) have "patroni_failed u1" by (auto simp: patroni_failed_def)
      with reconcile_failed [OF parts(1)] None show ?thesis by blast
    next
      case (Some e)
      with parts(2) that(1) show ?thesis by simp
    qed
  qed (use that(2) in blast)
qed

lemma failed_run:
  assumes run: "beh (core_run env rm s cr) (Val x) u" and failed: "patroni_failed u"
  obtains s1 e v where "rec_errorCounter s1 = rec_errorCounter s" "rec_crHash s1 = pc_SpecHash cr"
    "rec_resVersions s1 = rec_resVersions s"
    "beh (core_handleReconcileError s1 (core_maxAttempts env cr) ''ReconcilePatroniCoreClusterFailed''
       ''Error during reconcile cycle'' (pc_SpecHash cr) e) (Val x) v"
proof -
  let ?start = "if rec_errorCounter s = 0 then s\<lparr>rec_reason := ''StartPatroniCoreClusterReconcile'',
            rec_message := ''Start Patroni Core cluster reconcile cycle''\<rparr> else s"
  let ?s = "?start\<lparr>rec_crHash := pc_SpecHash cr\<rparr>"
  have status: "emits (all_calls no_patroni) (core_updateStatus InProgress ''StartPostgresServiceClusterReconcile''
          ''Start Postgres Service cluster reconcile cycle'')" by (simp add: quiet_status)
  have creds: "emits (all_calls no_patroni) (stepErr ''ProcessCreds'')" by (simp add: step_calls)
  obtain err v1 where v1: "beh (case err of Some e \<Rightarrow> Ret (result 1 (Some e), ?start) | None \<Rightarrow> core_body env rm ?s cr) (Val x) v1"
      "patroni_failed v1"
    by (rule failed_skip [OF run [unfolded core_run_def Let_def] failed status])
  then have "err = None" by (cases err) (auto simp: patroni_failed_def)
  with v1(1) obtain r v2 where v2: "v1 = (KSleep 30, r) # v2" "beh (pbind (stepErr ''ProcessCreds'') (\<lambda>err. case err of
       Some e \<Rightarrow> core_handleReconcileError ?s (core_maxAttempts env cr) ''CanNotActualizeCredsOnCluster'' (pc_SpecHash cr)
         ''Error during actualization of creds on cluster'' e
     | None \<Rightarrow> if pc_RunTestsTime cr \<noteq> '''' then core_runTests env ?s cr else core_runCluster env rm ?s cr)) (Val x) v2"
    by (auto simp: core_body_def beh_Call_iff)
  from v1(2) v2(1) have f2: "patroni_failed v2" by (auto simp: patroni_failed_def)
  obtain err v3 where v3: "beh (case err of
       Some e \<Rightarrow> core_handleReconcileError ?s (core_maxAttempts env cr) ''CanNotActualizeCredsOnCluster'' (pc_SpecHash cr)
         ''Error during actualization of creds on cluster'' e
     | None \<Rightarrow> if pc_RunTestsTime cr \<noteq> '''' then core_runTests env ?s cr else core_runCluster env rm ?s cr) (Val x) v3"
     "patroni_failed v3"
    by (rule failed_skip [OF v2(2) f2 creds])
  then have "beh (core_runCluster env rm ?s cr) (Val x) v3"
    using not_failed [OF quiet_handle [OF no_patroni_simps(1)]] not_failed [OF quiet_tests [OF no_patroni_simps(1)]] by (cases err) (auto split: if_splits)
  then show ?thesis by (rule cluster_failed [OF _ v3(2)]) (use that [of ?s] in auto)
qed

subsection \<open>Attempts\<close>

lemma handle_result:
  assumes "beh (core_handleReconcileError s a r m h e) (Val (res, t)) u"
  shows "rec_errorCounter t = (if rec_errorCounter s + 1 < a then rec_errorCounter s + 1 else 0)"
    and "rec_crHash t = (if rec_errorCounter s + 1 < a then rec_crHash s else h)"
    and "rec_resVersions t = rec_resVersions s"
  using assms
  by (auto simp: core_handleReconcileError_def core_stopReconcile_def core_failReconcile_def Let_def beh_pbind split: if_splits)

lemma failed_run_result:
  assumes "beh (core_run env rm s cr) (Val (res, t)) u" and "patroni_failed u"
  shows "rec_errorCounter t = (if rec_errorCounter s + 1 < core_maxAttempts env cr then rec_errorCounter s + 1 else 0)"
    and "rec_crHash t = pc_SpecHash cr"
  by (rule failed_run [OF assms]; auto dest: handle_result)+

text \<open>Runs of one specification, one after the other, in each of which the reconciliation of Patroni failed.\<close>

inductive failing :: "controller_env \<Rightarrow> resource_manager \<Rightarrow> string \<Rightarrow> int \<Rightarrow> reconciler \<Rightarrow> nat \<Rightarrow> reconciler \<Rightarrow> bool"
  for env :: controller_env and rm :: resource_manager and h :: string and a :: int and s :: reconciler where
  no_run: "failing env rm h a s 0 s"
| next_run: "failing env rm h a s n t \<Longrightarrow> pc_SpecHash cr = h \<Longrightarrow> core_maxAttempts env cr = a \<Longrightarrow>
    beh (core_run env rm t cr) (Val (res, t')) u \<Longrightarrow> patroni_failed u \<Longrightarrow> failing env rm h a s (Suc n) t'"

inductive_cases failing_SucE: "failing env rm h a s (Suc n) t"

lemma failing_counts:
  assumes "failing env rm h a s n t" and "rec_errorCounter s = 0" and "int n \<le> max 1 a"
  shows "rec_errorCounter t = (if int n < max 1 a then int n else 0) \<and> (n \<noteq> 0 \<longrightarrow> rec_crHash t = h)"
  using assms
proof (induction rule: failing.induct)
  case (next_run n t cr res t' u)
  then have "rec_errorCounter t = int n" by simp
  with failed_run_result [OF next_run.hyps(4,5)] next_run.hyps(2,3) next_run.prems show ?case
    by (auto simp: max_def split: if_splits)
qed simp

lemma decide_skips:
  assumes "unchanged t (pc_Name cr) (pc_ResourceVersion cr) (pc_SpecHash cr) (pc_Conditions cr)"
    and "beh (core_decide env rm t cr) out u" and "(KObj (Step patroniStep), r) \<in> set u"
  shows "(KObj (Step ''AreCredsChanged''), KObjResp (OBool True)) \<in> set u"
proof -
  obtain r' v where u: "u = (KObj (Step ''AreCredsChanged''), r') # v"
    and v: "beh (case (case r' of KObjResp (OBool b) \<Rightarrow> Inr b | KErr e \<Rightarrow> Inl e | KNotFound e \<Rightarrow> Inl e
         | _ \<Rightarrow> Inl ''unexpected response'') of
       Inl e \<Rightarrow> Ret (result 0 (Some e), t)
     | Inr areCredsChanged \<Rightarrow>
         if \<not> areCredsChanged then
           pbind (core_registerInConsul cr) (\<lambda>err.
             Ret (case err of Some e \<Rightarrow> result 1 (Some e) | None \<Rightarrow> result 0 None, t))
         else core_run env rm t cr) out v"
    using assms(1,2) by (auto simp: core_decide_def stepBool_def beh_Call_iff)
  have consul: "emits (all_calls no_patroni) (pbind (core_registerInConsul cr) (\<lambda>err.
             Ret (case err of Some e \<Rightarrow> result 1 (Some e) | None \<Rightarrow> result 0 None, t)))"
    by (auto intro!: kube_rules quiet_consul)
  have m: "(KObj (Step patroniStep), r) \<in> set v" using assms(3) u by (auto simp: patroniStep_def)
  then have "\<not> all_calls no_patroni v" using all_calls_mem [of no_patroni v] no_patroni_simps(2) by blast
  with v m emitsD [OF consul] have "r' = KObjResp (OBool True)"
    by (auto split: k_resp.splits obj_resp.splits if_splits)
  with u show ?thesis by simp
qed

text \<open>
  (C5) A resource whose Patroni cluster cannot be reconciled is tried exactly as often as the attempts allow (once,
  when they are fewer): after fewer failures its next event starts a run again, even if neither the specification nor
  the version changed, and after the last one it is left alone until the credentials change.  The count starts anew
  with it.
\<close>

theorem failing_runs_are_counted:
  assumes "failing env rm h a s n t" and "rec_errorCounter s = 0" and "1 \<le> n" and "int n \<le> max 1 a"
    and "pc_SpecHash cr = h" and "pc_Conditions cr = c # cs" and "ct_Type c = Failed"
  shows "rec_errorCounter t = (if int n < max 1 a then int n else 0)
    \<and> (int n < max 1 a \<longrightarrow> core_decide env rm t cr = core_run env rm t cr)
    \<and> (int n = max 1 a \<longrightarrow> (\<forall>out u r. beh (core_decide env rm t cr) out u \<longrightarrow> (KObj (Step patroniStep), r) \<in> set u
         \<longrightarrow> (KObj (Step ''AreCredsChanged''), KObjResp (OBool True)) \<in> set u))"
proof -
  have t: "rec_errorCounter t = (if int n < max 1 a then int n else 0)" "rec_crHash t = h"
    using failing_counts [OF assms(1,2,4)] assms(3) by auto
  have "unchanged t (pc_Name cr) (pc_ResourceVersion cr) (pc_SpecHash cr) (pc_Conditions cr) \<longleftrightarrow> int n = max 1 a"
    using t assms(3-7) by (auto simp: unchanged_def)
  with t(1) decide_skips [of t cr] show ?thesis
    by (auto simp: core_decide_def)
qed

text \<open>A server on which the reconciliation of Patroni fails, or the processing of the credentials.\<close>

definition sample_spec :: patroni_spec where
  "sample_spec = empty_patroni\<lparr>Replicas := 1, ClusterName := ''c'', DcsType := ''kubernetes'', DockerImage := ''i''\<rparr>"

definition failing_core :: patroni_core where
  "failing_core = empty_core\<lparr>pc_Patroni := Some sample_spec, pc_SpecHash := ''h'', pc_ResourceVersion := ''2'',
     pc_Conditions := [\<lparr>ct_Type = Failed, ct_Status = True, ct_Reason = '''', ct_Message = ''''\<rparr>]\<rparr>"

definition fresh_reconciler :: reconciler where
  "fresh_reconciler = \<lparr>rec_errorCounter = 0, rec_reason = '''', rec_message = '''', rec_resVersions = [], rec_crHash = ''''\<rparr>"

definition sample_env :: controller_env where
  "sample_env = \<lparr>ce_Ticks = 3, ce_Retries = Some ''1''\<rparr>"

definition sample_rm :: resource_manager where
  "sample_rm = \<lparr>rm_Name = '''', rm_UID = '''', rm_Kind = '''', rm_Operator = '''', rm_Cluster = None\<rparr>"

fun failing_server :: "string \<Rightarrow> k_trace \<Rightarrow> k_call \<Rightarrow> k_resp" where
  "failing_server step _ (KObj (Step n)) = (if n = step then KErr ''no'' else KOk)"
| "failing_server step _ KGetCore = KCoreCR failing_core"
| "failing_server step _ _ = KOk"

lemma sample_attempts: "core_maxAttempts sample_env failing_core = 1"
  by code_simp

lemmas failing_run_defs = core_run_def Let_def core_updateStatus_def GetPatroniCoreCR_def k_do_def poll.simps [of 60]
  core_body_def stepErr_def core_runCluster_def reconcilePatroniCoreCluster_def core_reconcilePatroni_def GetPostgresServiceCR_def
  IsPatroniHasDisabledStatus_def core_handleReconcileError_def core_stopReconcile_def core_failReconcile_def
  sample_attempts

lemma sample_failing_run:
  "\<exists>a b u. run (failing_server patroniStep) (core_run sample_env sample_rm fresh_reconciler failing_core) [] = (Val (a, b), u)
    \<and> patroni_failed u"
  unfolding failing_run_defs
  by (simp add: failing_core_def fresh_reconciler_def empty_services_def patroniStep_def patroni_failed_def empty_core_def)

theorem failing_runs_are_counted_witness:
  "\<exists>t. rec_errorCounter t = 0 \<and> (\<forall>out u r. beh (core_decide sample_env sample_rm t failing_core) out u
     \<longrightarrow> (KObj (Step patroniStep), r) \<in> set u \<longrightarrow> (KObj (Step ''AreCredsChanged''), KObjResp (OBool True)) \<in> set u)"
proof -
  obtain a t u where run: "run (failing_server patroniStep) (core_run sample_env sample_rm fresh_reconciler failing_core) [] = (Val (a, t), u)"
    and failed: "patroni_failed u" using sample_failing_run by blast
  have "beh (core_run sample_env sample_rm fresh_reconciler failing_core) (Val (a, t)) u"
    using run_beh [of "core_run sample_env sample_rm fresh_reconciler failing_core" "failing_server patroniStep" "[]"] run by simp
  then have "failing sample_env sample_rm (pc_SpecHash failing_core) 1 fresh_reconciler 1 t"
    using failing.next_run [OF failing.no_run refl sample_attempts _ failed] by simp
  from failing_runs_are_counted [OF this, of failing_core "hd (pc_Conditions failing_core)" "[]"] show ?thesis
    by (intro exI [of _ t]) (simp add: fresh_reconciler_def failing_core_def)
qed

subsection \<open>Failures of the credentials\<close>

definition credStep :: string where "credStep = ''ProcessCreds''"

definition no_creds :: "k_call \<Rightarrow> bool" where
  "no_creds c \<longleftrightarrow> c \<noteq> KObj (Step credStep)"

lemma no_creds_simps [simp]:
  "quiet no_creds" "\<not> no_creds (KObj (Step credStep))" "no_creds (KObj (Step patroniStep))" "no_creds (KSleep k)"
  by (simp_all add: quiet_def plain_def no_creds_def patroniStep_def credStep_def)

lemma patroni_no_creds: "emits (all_calls no_creds) core_reconcilePatroni"
  using plain_simps [OF quietD(1) [OF no_creds_simps(1)]] no_creds_simps(3)
  unfolding core_reconcilePatroni_def patroniStep_def [symmetric]
  by (auto intro!: kube_rules step_calls)

lemma cluster_no_creds: "emits (all_calls no_creds) (core_runCluster env rm s cr)"
proof -
  note quiet = no_creds_simps(1)
  have next_step: "emits (all_calls no_creds) (pbind (case x of Some e \<Rightarrow> Ret (Inl e) | None \<Rightarrow> consulRequired cr)
      (\<lambda>res. case res of Inl e \<Rightarrow> Ret (Some e) | Inr required \<Rightarrow> after_patroni cr required))" for x
    by (cases x) (auto intro!: kube_rules quiet_after [OF quiet] consul_required_calls split: sum.split)
  have cluster: "emits (all_calls no_creds) (reconcilePatroniCoreCluster cr)"
    unfolding cluster_eq by (simp add: quiet_after [OF quiet]) (intro impI calls.emits_rules patroni_no_creds next_step)
  have rest: "emits (all_calls no_creds) (case err of
       Some e \<Rightarrow> core_handleReconcileError s (core_maxAttempts env cr) ''ReconcilePatroniCoreClusterFailed''
         ''Error during reconcile cycle'' (pc_SpecHash cr) e
     | None \<Rightarrow> core_finish rm s cr)" for err
    by (cases err) (simp_all add: quiet_handle [OF quiet] quiet_finish [OF quiet])
  show ?thesis
    unfolding core_runCluster_def by (intro calls.emits_rules step_calls quietD(3) [OF quiet] cluster rest)
qed

lemma failed_creds_run:
  assumes run: "beh (core_run env rm s cr) (Val x) u" and failed: "(KObj (Step credStep), KErr e0) \<in> set u"
  obtains s1 e v where "rec_errorCounter s1 = rec_errorCounter s" "rec_crHash s1 = pc_SpecHash cr"
    "rec_resVersions s1 = rec_resVersions s"
    "beh (core_handleReconcileError s1 (core_maxAttempts env cr) ''CanNotActualizeCredsOnCluster'' (pc_SpecHash cr)
         ''Error during actualization of creds on cluster'' e) (Val x) v"
proof -
  let ?start = "if rec_errorCounter s = 0 then s\<lparr>rec_reason := ''StartPatroniCoreClusterReconcile'',
            rec_message := ''Start Patroni Core cluster reconcile cycle''\<rparr> else s"
  let ?s = "?start\<lparr>rec_crHash := pc_SpecHash cr\<rparr>"
  let ?after = "\<lambda>err. case err of
       Some e \<Rightarrow> core_handleReconcileError ?s (core_maxAttempts env cr) ''CanNotActualizeCredsOnCluster'' (pc_SpecHash cr)
         ''Error during actualization of creds on cluster'' e
     | None \<Rightarrow> if pc_RunTestsTime cr \<noteq> '''' then core_runTests env ?s cr else core_runCluster env rm ?s cr"
  have status: "emits (all_calls no_creds) (core_updateStatus InProgress ''StartPostgresServiceClusterReconcile''
          ''Start Postgres Service cluster reconcile cycle'')" by (simp add: quiet_status)
  obtain err v1 where v1: "beh (case err of Some e \<Rightarrow> Ret (result 1 (Some e), ?start) | None \<Rightarrow> core_body env rm ?s cr) (Val x) v1"
      "(KObj (Step credStep), KErr e0) \<in> set v1"
    by (rule beh_skip [OF run [unfolded core_run_def Let_def] failed status no_creds_simps(2)]) blast
  then have "err = None" by (cases err) auto
  moreover have "core_body env rm ?s cr = Call (KSleep 30) (\<lambda>_. Call (KObj (Step credStep)) (\<lambda>r. ?after (k_error r)))"
    by (simp add: core_body_def stepErr_def k_do_def credStep_def)
  ultimately obtain r0 r v2 where u: "v1 = (KSleep 30, r0) # (KObj (Step credStep), r) # v2"
    and v2: "beh (?after (k_error r)) (Val x) v2"
    using v1(1) by (auto simp: beh_Call_iff simp del: if_split)
  show ?thesis
  proof (cases "k_error r")
    case None
    with v1(2) u have "(KObj (Step credStep), KErr e0) \<in> set v2" by auto
    then have "\<not> all_calls no_creds v2" using all_calls_mem [of no_creds v2] no_creds_simps(2) by blast
    moreover have "emits (all_calls no_creds) (if pc_RunTestsTime cr \<noteq> '''' then core_runTests env ?s cr else core_runCluster env rm ?s cr)"
      using quiet_tests [OF no_creds_simps(1)] cluster_no_creds by auto
    ultimately show ?thesis using v2 None emitsD [of _ _ "Val x" v2] by (metis option.simps(4))
  next
    case (Some e)
    with v2 that [of ?s] show ?thesis by auto
  qed
qed

text \<open>
  (C29) A failure to process the credentials in the last attempt is not given up: what the controller keeps as the hash
  of the resource is the text of a message, so the next version of the resource (any write of its status makes
  one) starts a run again, for the same specification.
\<close>

theorem failed_credentials_keep_running:
  assumes "beh (core_run env rm s cr) (Val (res, t)) u" and "(KObj (Step ''ProcessCreds''), KErr e) \<in> set u"
    and "core_maxAttempts env cr \<le> rec_errorCounter s + 1"
    and "pc_SpecHash cr' \<noteq> ''Error during actualization of creds on cluster''"
    and "map_of (rec_resVersions s) (pc_Name cr') = Some v" and "v \<noteq> pc_ResourceVersion cr'"
  shows "rec_errorCounter t = 0 \<and> rec_crHash t = ''Error during actualization of creds on cluster''
    \<and> core_decide env rm t cr' = core_run env rm t cr'"
proof -
  have t: "rec_errorCounter t = 0" "rec_crHash t = ''Error during actualization of creds on cluster''"
    "rec_resVersions t = rec_resVersions s"
    by (rule failed_creds_run [OF assms(1) assms(2) [folded credStep_def]]; use assms(3) in \<open>auto dest: handle_result\<close>)+
  then have "\<not> unchanged t (pc_Name cr') (pc_ResourceVersion cr') (pc_SpecHash cr') (pc_Conditions cr')"
    using assms(4-6) by (auto simp: unchanged_def)
  with t show ?thesis by (simp add: core_decide_def)
qed

definition known_reconciler :: reconciler where
  "known_reconciler = fresh_reconciler\<lparr>rec_resVersions := [('''', ''1'')]\<rparr>"

lemma sample_failing_creds:
  "\<exists>a b u. run (failing_server ''ProcessCreds'') (core_run sample_env sample_rm known_reconciler failing_core) [] = (Val (a, b), u)
    \<and> (KObj (Step ''ProcessCreds''), KErr ''no'') \<in> set u"
  unfolding failing_run_defs
  by (simp add: failing_core_def fresh_reconciler_def known_reconciler_def empty_core_def)

theorem failed_credentials_keep_running_witness:
  "\<exists>t. rec_errorCounter t = 0 \<and> core_decide sample_env sample_rm t failing_core = core_run sample_env sample_rm t failing_core"
proof -
  obtain a t u where run: "run (failing_server ''ProcessCreds'') (core_run sample_env sample_rm known_reconciler failing_core) []
      = (Val (a, t), u)" and failed: "(KObj (Step ''ProcessCreds''), KErr ''no'') \<in> set u"
    using sample_failing_creds by blast
  have "beh (core_run sample_env sample_rm known_reconciler failing_core) (Val (a, t)) u"
    using run_beh [of "core_run sample_env sample_rm known_reconciler failing_core" "failing_server ''ProcessCreds''" "[]"] run by simp
  note kept = failed_credentials_keep_running [OF this failed, of failing_core "''1''"]
  have "rec_errorCounter t = 0 \<and> core_decide sample_env sample_rm t failing_core = core_run sample_env sample_rm t failing_core"
    using kept unfolding sample_attempts
    by (simp add: known_reconciler_def fresh_reconciler_def failing_core_def empty_core_def)
  then show ?thesis by blast
qed

end
