(* ===== verification/Patroni_Services.thy ===== *)
theory Patroni_Services
  imports Patroni_Config
begin

section \<open>The names, services and secrets of a cluster\<close>

text \<open>
  Models \<^verbatim>\<open>GetPatroniClusterSettings\<close> of \<^verbatim>\<open>operator/pkg/util/util.go\<close>, the services and endpoint slices that
  \<^verbatim>\<open>reconciler/common.go\<close> builds and \<^verbatim>\<open>reconciler/patroni.go\<close> asks for, and the helpers of \<^verbatim>\<open>resource_management.go\<close>
  that create or update them.  Labels of services are not part of the model.
\<close>

definition GetPatroniClusterSettings :: "string \<Rightarrow> string \<Rightarrow> cluster_settings" where
  "GetPatroniClusterSettings namespace patroniClusterName =
     (let clusterName = GetPatroniClusterName patroniClusterName in
      \<lparr>cl_ClusterName = clusterName,
       cl_PatroniMasterSelectors = [(''pgtype'', ''primary''), (''pgcluster'', clusterName)],
       cl_PatroniReplicasSelector = [(''pgtype'', ''replica''), (''pgcluster'', clusterName)],
       cl_PatroniCommonLabels = [(''app'', clusterName)],
       cl_PgHost = ''pg-'' @ clusterName @ ''.'' @ namespace @ ''.svc.cluster.local'',
       cl_PatroniUrl = ''http://pg-'' @ clusterName @ ''-api:8008/'',
       cl_PatroniTemplate = clusterName @ ''-patroni.config.yaml'',
       cl_ConfigMapKey = ''patroni-config-template.yaml'',
       cl_PatroniLabels = [(''app'', clusterName), (''pgcluster'', clusterName)],
       cl_PostgresServiceName = ''pg-'' @ clusterName,
       cl_PatroniReplicasServiceName = ''pg-'' @ clusterName @ ''-ro'',
       cl_PatroniCM = ''patroni.config.yaml'',
       cl_PatroniPropertiesCM = ''postgres'',
       cl_PostgreSQLUserConf = ''postgres-'' @ clusterName @ ''.properties''\<rparr>)"

subsection \<open>Manifests\<close>

definition GetPortsForPatroniService :: "string \<Rightarrow> service_port list" where
  "GetPortsForPatroniService clusterName =
     [\<lparr>sp_Name = ''pg-'' @ clusterName, sp_Port = 5432, sp_TargetPort = 0\<rparr>,
      \<lparr>sp_Name = clusterName @ ''-api'', sp_Port = 8008, sp_TargetPort = 0\<rparr>,
      \<lparr>sp_Name = clusterName @ ''-ssh'', sp_Port = 22, sp_TargetPort = 3022\<rparr>]"

definition reconcileService :: "string \<Rightarrow> (string \<times> string) list \<Rightarrow> service_port list \<Rightarrow> bool \<Rightarrow> k8s_service" where
  "reconcileService name selectors ports headless =
     \<lparr>svc_Name = name, svc_Ports = ports, svc_ExternalName = '''',
      svc_Selector = (if headless then None else Some selectors), svc_Headless = headless, svc_ResourceVersion = ''''\<rparr>"

definition backrestPorts :: "service_port list" where
  "backrestPorts = [\<lparr>sp_Name = ''backrest'', sp_Port = 3000, sp_TargetPort = 0\<rparr>]"

definition GetPgBackRestService :: "(string \<times> string) list \<Rightarrow> bool \<Rightarrow> k8s_service" where
  "GetPgBackRestService labels standby =
     \<lparr>svc_Name = (if standby then ''backrest-standby'' else ''backrest''), svc_Ports = backrestPorts, svc_ExternalName = '''',
      svc_Selector = Some labels, svc_Headless = False, svc_ResourceVersion = ''''\<rparr>"

definition GetBackrestHeadless :: k8s_service where
  "GetBackrestHeadless = \<lparr>svc_Name = ''backrest-headless'', svc_Ports = backrestPorts, svc_ExternalName = '''',
     svc_Selector = Some [(''app'', ''patroni'')], svc_Headless = True, svc_ResourceVersion = ''''\<rparr>"

text \<open>Labels that are given win over the label with the name of the service.\<close>

definition reconcileEndpointSlice :: "string \<Rightarrow> (string \<times> string) list \<Rightarrow> (string \<times> string) list" where
  "reconcileEndpointSlice name labels = overlay [(''kubernetes.io/service-name'', name)] labels"

subsection \<open>Creating and updating\<close>

text \<open>An error other than \<open>NotFound\<close> is taken for a service that exists, with no version.\<close>

definition CreateOrUpdateService :: "resource_manager \<Rightarrow> k8s_service \<Rightarrow> err option kube" where
  "CreateOrUpdateService rm service = Call (KGetService (svc_Name service)) (\<lambda>r.
     if (case r of KNotFound _ \<Rightarrow> True | _ \<Rightarrow> False) then
       pbind (getLabels rm (svc_Name service) None) (\<lambda>_. k_do (KCreateService service))
     else if r = KService service then Ret None
     else pbind (getLabels rm (svc_Name service) None) (\<lambda>_.
       k_do (KUpdateService (service\<lparr>svc_ResourceVersion := (case r of KService found \<Rightarrow> svc_ResourceVersion found | _ \<Rightarrow> '''')\<rparr>))))"

definition CreateEndpointSliceIfNotExists :: "string \<Rightarrow> (string \<times> string) list \<Rightarrow> err option kube" where
  "CreateEndpointSliceIfNotExists name labels = Call (KObj (GetEndpointSlice name)) (\<lambda>r. case r of
     KNotFound _ \<Rightarrow> k_do (KObj (CreateEndpointSlice name labels))
   | _ \<Rightarrow> Ret (k_error r))"

text \<open>An error other than \<open>NotFound\<close> is dropped.\<close>

definition CreateSecretIfNotExists :: "resource_manager \<Rightarrow> string \<Rightarrow> err option kube" where
  "CreateSecretIfNotExists rm name = Call (KObj (GetSecretCall name)) (\<lambda>r. case r of
     KNotFound _ \<Rightarrow> pbind (getLabels rm name None) (\<lambda>_. k_do (KObj (CreateSecretCall name)))
   | _ \<Rightarrow> Ret None)"

subsection \<open>The services of a cluster\<close>

definition createServicesForEtcdAsDcs :: "resource_manager \<Rightarrow> cluster_settings \<Rightarrow> err option kube" where
  "createServicesForEtcdAsDcs rm cluster =
     (let ports = GetPortsForPatroniService (cl_ClusterName cluster) in
      andThen (CreateOrUpdateService rm
          (reconcileService (cl_PostgresServiceName cluster) (cl_PatroniMasterSelectors cluster) ports True))
        (CreateOrUpdateService rm
          (reconcileService (cl_PatroniReplicasServiceName cluster @ ''-ro'') (cl_PatroniReplicasSelector cluster) ports True)))"

definition createEndpointsForEtcdAsDcs :: "cluster_settings \<Rightarrow> err option kube" where
  "createEndpointsForEtcdAsDcs cluster =
     (let slice = (\<lambda>name. CreateEndpointSliceIfNotExists name (reconcileEndpointSlice name (cl_PatroniLabels cluster))) in
      andThen (slice (cl_PostgresServiceName cluster)) (slice (cl_PostgresServiceName cluster @ ''-ro'')))"

definition pgBackRestServices :: "resource_manager \<Rightarrow> cluster_settings \<Rightarrow> patroni_core \<Rightarrow> err option kube" where
  "pgBackRestServices rm cluster cr = (case pc_PgBackRest cr of
     None \<Rightarrow> Ret None
   | Some br \<Rightarrow>
       andThen (CreateOrUpdateService rm (GetPgBackRestService (cl_PatroniMasterSelectors cluster) False))
      (andThen (if br_BackupFromStandby br
          then CreateOrUpdateService rm (GetPgBackRestService (cl_PatroniReplicasSelector cluster) True) else Ret None)
        (CreateOrUpdateService rm GetBackrestHeadless)))"

definition etcdDcs :: "patroni_spec \<Rightarrow> bool" where
  "etcdDcs pspec \<longleftrightarrow> DcsType pspec = ''etcd'' \<or> DcsType pspec = ''etcd3''"

definition processPatroniServices ::
  "resource_manager \<Rightarrow> cluster_settings \<Rightarrow> patroni_core \<Rightarrow> patroni_spec \<Rightarrow> err option kube" where
  "processPatroniServices rm cluster cr patroniSpec =
     (let ports = GetPortsForPatroniService (cl_ClusterName cluster);
          pgService = (\<lambda>suffix selectors. reconcileService (cl_PostgresServiceName cluster @ suffix) selectors ports False) in
      if etcdDcs patroniSpec then
        andThen (createServicesForEtcdAsDcs rm cluster)
          (if CreateEndpoint patroniSpec then createEndpointsForEtcdAsDcs cluster else Ret None)
      else
        andThen (CreateOrUpdateService rm (pgService '''' (cl_PatroniMasterSelectors cluster)))
       (andThen (CreateServiceIfNotExists (pgService ''-ro'' (cl_PatroniReplicasSelector cluster)))
       (andThen (CreateServiceIfNotExists (pgService ''-api'' (cl_PatroniCommonLabels cluster)))
         (pgBackRestServices rm cluster cr))))"

end
