(* ===== verification/Config_Safety.thy ===== *)
theory Config_Safety
  imports Patroni_Services Patroni_Template Kube_Calls "HOL-Library.Countable"
begin

section \<open>Correctness of the written configuration\<close>

text \<open>
  What the writers of \<open>Patroni_Config\<close>, \<open>Patroni_Template\<close> and \<open>Patroni_Services\<close> promise: which value a parameter
  has after it was set, how large the WAL of the slots may be, what an edit of the template leaves alone and which
  services and endpoints belong together.
\<close>

subsection \<open>Lines of parameters\<close>

text \<open>A key of a parameter: no separator and no white space around it.\<close>

definition plain_key :: "string \<Rightarrow> bool" where
  "plain_key key \<longleftrightarrow> CHR '':'' \<notin> set key \<and> CHR ''='' \<notin> set key \<and> trim_space key = key"

lemma normalized_append: "CHR ''='' \<notin> set s \<Longrightarrow> normalized (s @ t) = s @ normalized t"
  by (induction s) auto

lemma normalized_id: "normalized s = s \<longleftrightarrow> CHR ''='' \<notin> set s"
  by (induction s) auto

lemma takeWhile_key: "c \<notin> set key \<Longrightarrow> takeWhile (\<lambda>x. x \<noteq> c) (key @ c # t) = key"
  by (induction key) auto

lemma dropWhile_key: "c \<notin> set key \<Longrightarrow> dropWhile (\<lambda>x. x \<noteq> c) (key @ c # t) = c # t"
  by (induction key) auto

lemma colon_line:
  assumes "plain_key key"
  shows "param_key (key @ CHR '':'' # v) = key" and "value_part (key @ CHR '':'' # v) = Some (normalized v)"
  using assms
  by (simp_all add: plain_key_def param_key_def key_part_def value_part_def normalized_append takeWhile_key dropWhile_key)

lemma equals_line:
  assumes "plain_key key"
  shows "param_key (key @ CHR ''='' # v) = key" and "value_part (key @ CHR ''='' # v) = Some v"
  using assms
  by (simp_all add: plain_key_def param_key_def key_part_def value_part_def normalized_append takeWhile_key dropWhile_key)

lemma trim_space_blank: "trim_space (CHR '' '' # s) = trim_space s"
  by (simp add: trim_space_def is_space_def)

lemma normalized_blank: "normalized (CHR '' '' # v) = CHR '' '' # normalized v"
  by simp

lemma written_line:
  assumes "plain_key key"
  shows "param_key (key @ '': '' @ v) = key" and "value_part (key @ '': '' @ v) = Some (CHR '' '' # normalized v)"
  using colon_line [OF assms, of "CHR '' '' # v"] by simp_all

text \<open>
  (C26) A parameter that the operator has set (\<^verbatim>\<open>ensurePostgreSQLParam\<close>) is read back with its value
  (\<^verbatim>\<open>getPostgreSQLParam\<close>), the other parameters are read as before, and the line is replaced where it was: the
  number of lines grows only for a new parameter.
\<close>

theorem ensured_param_is_read:
  assumes "plain_key key" and "CHR ''='' \<notin> set val"
  shows "getPostgreSQLParam (ensurePostgreSQLParam params key val) key = Some (trim_space val)
    \<and> (\<forall>k. k \<noteq> key \<longrightarrow> getPostgreSQLParam (ensurePostgreSQLParam params key val) k = getPostgreSQLParam params k)
    \<and> length (ensurePostgreSQLParam params key val) =
        length params + (if getPostgreSQLParam params key = None then 1 else 0)"
  using written_line [OF assms(1), of val] normalized_id [THEN iffD2, OF assms(2)]
  by (induction params) (auto simp: trim_space_blank)

theorem ensured_param_is_read_witness:
  "getPostgreSQLParam (ensurePostgreSQLParam [''wal_level = logical'', ''hot_standby_feedback: off''] ''hot_standby_feedback'' ''on'')
     ''hot_standby_feedback'' = Some (trim_space ''on'')"
  using ensured_param_is_read [of "''hot_standby_feedback''" "''on''" "[''wal_level = logical'', ''hot_standby_feedback: off'']"]
  by (simp add: plain_key_def trim_space_def is_space_def)

text \<open>
  A line \<^verbatim>\<open>key=value\<close> sends the value as it is, whatever it contains, but a line \<^verbatim>\<open>key: value\<close> sends a
  value in which the first \<open>=\<close> was replaced by a colon: it is the value that was asked for only if that has none.
\<close>

theorem equals_sign_in_value:
  assumes "plain_key key"
  shows "postgreSQLEntry (key @ ''='' @ v) = (key, trim_space v)
    \<and> postgreSQLEntry (key @ '':'' @ v) = (key, trim_space (normalized v))
    \<and> (normalized v = v \<longleftrightarrow> CHR ''='' \<notin> set v)"
  using colon_line [OF assms, of v] equals_line [OF assms, of v]
  by (simp add: postgreSQLEntry_def normalized_id)

theorem equals_sign_in_value_witness:
  "postgreSQLEntry (''primary_conninfo'' @ '':'' @ ''host=a'') = (''primary_conninfo'', ''host:a'')"
  using equals_sign_in_value [of "''primary_conninfo''" "''host=a''"]
  by (simp add: plain_key_def trim_space_def is_space_def)

subsection \<open>The size of the WAL for slots\<close>

lemma int64_id: "0 \<le> x \<Longrightarrow> x < 2 ^ 63 \<Longrightarrow> int64 x = x"
  by (simp add: int64_def)

lemma div_loses: "0 < (u::int) \<Longrightarrow> b div u * u \<le> b \<and> b < (b div u + 1) * u"
proof -
  assume u: "0 < u"
  have "b = b div u * u + b mod u" by simp
  moreover have "0 \<le> b mod u" "b mod u < u" using u by simp_all
  ultimately show ?thesis by (simp only: distrib_right) linarith
qed

text \<open>The units of the printed sizes.\<close>

definition pg_units :: "(string \<times> int) list" where
  "pg_units = [(''GB'', 1073741824), (''MB'', 1048576), (''kB'', 1024), (''B'', 1)]"

lemma formatted_size:
  assumes "0 < b"
  shows "\<exists>n. \<exists>(unit, u) \<in> set pg_units. formatBytesAsPgSize b = itoa n @ unit \<and> 0 < n \<and> n * u \<le> b \<and> b < (n + 1) * u"
proof -
  have pick: "formatBytesAsPgSize b = itoa (b div u) @ unit \<Longrightarrow> (unit, u) \<in> set pg_units \<Longrightarrow> u \<le> b \<Longrightarrow> ?thesis" for unit u
    using div_loses [of u b] assms
    by (intro exI [of _ "b div u"] bexI [of _ "(unit, u)"]) (auto simp: pg_units_def pos_imp_zdiv_pos_iff)
  consider "1073741824 \<le> b \<and> b mod 1073741824 = 0" | "\<not> (1073741824 \<le> b \<and> b mod 1073741824 = 0)" "1048576 \<le> b"
    | "b < 1048576" "1024 \<le> b" | "b < 1024" by linarith
  then show ?thesis
  proof cases
    case 1
    then show ?thesis by (intro pick [of 1073741824 "''GB''"]) (simp_all add: formatBytesAsPgSize_def pg_units_def)
  next
    case 2
    then show ?thesis by (intro pick [of 1048576 "''MB''"]) (simp_all add: formatBytesAsPgSize_def pg_units_def)
  next
    case 3
    then show ?thesis by (intro pick [of 1024 "''kB''"]) (simp_all add: formatBytesAsPgSize_def pg_units_def)
  next
    case 4
    then show ?thesis using assms by (intro pick [of 1 "''B''"]) (simp_all add: formatBytesAsPgSize_def pg_units_def)
  qed
qed

text \<open>
  (C27) The limit of the WAL that is kept for slots is written as a whole number of a unit of PostgreSQL; it is at
  most a fifth of the size of the volume, less than one unit below the fifth, and it is only written for a volume whose
  fifth is a positive number of bytes.
\<close>

theorem slot_wal_is_a_fifth:
  assumes "PQ (st_Size st) = Inr q" and "0 \<le> q" and "q * 20 < 2 ^ 63"
    and "ensureMaxSlotWalKeepSize PQ (Some st) params \<noteq> params"
  shows "\<exists>n. \<exists>(unit, u) \<in> set pg_units.
      ensureMaxSlotWalKeepSize PQ (Some st) params = ensurePostgreSQLParam params slotWalKey (itoa n @ unit)
    \<and> 0 < n \<and> 5 * (n * u) \<le> q \<and> q < 5 * ((n + 1) * u)"
proof -
  let ?b = "PercentOf q 20"
  have b: "?b = q div 5" using assms(2,3) by (simp add: PercentOf_def int64_id quot_def)
  from assms(4) have pos: "0 < ?b"
    and eq: "ensureMaxSlotWalKeepSize PQ (Some st) params = ensurePostgreSQLParam params slotWalKey (formatBytesAsPgSize ?b)"
    by (auto simp: ensureMaxSlotWalKeepSize_def assms(1) Let_def split: if_splits)
  from formatted_size [OF pos] obtain n unit u where
    n: "(unit, u) \<in> set pg_units" "formatBytesAsPgSize ?b = itoa n @ unit" "0 < n" "n * u \<le> ?b" "?b < (n + 1) * u" by blast
  from n(4,5) b have "5 * (n * u) \<le> q" "q < 5 * ((n + 1) * u)" by linarith+
  with n eq show ?thesis by (intro exI [of _ n] bexI [of _ "(unit, u)"]) auto
qed

definition small_storage :: storage where
  "small_storage = \<lparr>st_Type = ''provisioned'', st_Size = ''10Ki'', st_Annotations = None, st_Selectors = [], st_Volumes = []\<rparr>"

lemma small_storage_changes: "ensureMaxSlotWalKeepSize (\<lambda>_. Inr 10240) (Some small_storage) [] \<noteq> []"
  by (simp add: ensureMaxSlotWalKeepSize_def small_storage_def PercentOf_def int64_def quot_def Let_def)

theorem slot_wal_is_a_fifth_witness:
  "\<exists>n. \<exists>(unit, u) \<in> set pg_units.
      ensureMaxSlotWalKeepSize (\<lambda>_. Inr 10240) (Some small_storage) [] = ensurePostgreSQLParam [] slotWalKey (itoa n @ unit)
    \<and> 0 < n \<and> 5 * (n * u) \<le> 10240 \<and> 10240 < 5 * ((n + 1) * u)"
  using slot_wal_is_a_fifth [of "\<lambda>_. Inr 10240" small_storage 10240 "[]"] small_storage_changes by simp

subsection \<open>Edits of the template\<close>

lemma sub_map_update:
  "sub_map k (AList.update k' v m) = (if k = k' then (case v of YMap n \<Rightarrow> Some n | _ \<Rightarrow> None) else sub_map k m)"
  by (simp add: sub_map_def update_conv')

lemma cm_text_set [simp]: "cm_text (set_text cm key txt) k = (if k = key then txt else cm_text cm k)"
  by (simp add: cm_text_def set_text_def update_conv')

text \<open>What is printed is read back.\<close>

definition lawful :: "yaml_lib \<Rightarrow> bool" where
  "lawful lib \<longleftrightarrow> (\<forall>m. Unmarshal lib (Marshal lib m) = (None, Some m))"

lemma standby_edit:
  assumes "updateStandbyClusterSettings lib cm settings key = Inr cm'"
  obtains config boot dcs where
    "Unmarshal lib (cm_text cm key) = (None, Some config)" "sub_map ''bootstrap'' config = Some boot" "sub_map ''dcs'' boot = Some dcs"
    "cm' = set_text cm key (Marshal lib (set_in [''bootstrap'', ''dcs''] ''standby_cluster'' settings config))"
  using assms
  by (auto simp: updateStandbyClusterSettings_def split: prod.splits option.splits)


text \<open>A library whose texts are written in unary: it is lawful.\<close>

instance yaml :: countable
  by countable_datatype

definition unary_yaml :: yaml_lib where
  "unary_yaml = \<lparr>Unmarshal = (\<lambda>s. (None, Some (from_nat (length s)))), Marshal = (\<lambda>m. replicate (to_nat m) CHR ''x'')\<rparr>"

lemma unary_lawful: "lawful unary_yaml"
  by (simp add: lawful_def unary_yaml_def)

definition sample_map :: ymap where
  "sample_map = [(''bootstrap'', YMap [(''dcs'', YMap [(''ttl'', YText ''30'')])]), (''kubernetes'', YMap [])]"

definition sample_template :: config_map where
  "sample_template = \<lparr>cm_Name = ''c'', cm_Data = [(''k'', Marshal unary_yaml sample_map)], cm_Annotations = None,
     cm_Labels = None, cm_ResourceVersion = '''', cm_Owners = []\<rparr>"

lemma sample_template_read: "Unmarshal unary_yaml (cm_text sample_template ''k'') = (None, Some sample_map)"
  using unary_lawful by (simp add: lawful_def cm_text_def sample_template_def)

lemma sample_maps:
  "sub_map ''bootstrap'' sample_map = Some [(''dcs'', YMap [(''ttl'', YText ''30'')])]"
  "sub_map ''dcs'' [(''dcs'', YMap [(''ttl'', YText ''30'')])] = Some [(''ttl'', YText ''30'')]"
  "sub_map ''kubernetes'' sample_map = Some []"
  by (simp_all add: sub_map_def sample_map_def)

definition edited_template :: config_map where
  "edited_template = set_text sample_template ''k'' (Marshal unary_yaml
     (set_in [''bootstrap'', ''dcs''] ''standby_cluster'' (YText '''') sample_map))"

lemma sample_edit: "updateStandbyClusterSettings unary_yaml sample_template (YText '''') ''k'' = Inr edited_template"
  by (simp add: updateStandbyClusterSettings_def sample_template_read sample_maps edited_template_def)


text \<open>
  Tags in the resource remove the section for Kubernetes from the template, whatever store the cluster uses:
  the configuration that is read afterwards has no such section, and the edit of the leader's label
  (\<^verbatim>\<open>UpdateKubernetesSettings\<close>) fails on it.
\<close>

theorem tags_remove_kubernetes:
  assumes "lawful lib" and "beh (AddTagsSettings lib tags cm key) (Val cm') u"
  shows "(\<exists>config. Unmarshal lib (cm_text cm' key) = (None, Some config) \<and> map_of config ''kubernetes'' = None
      \<and> map_of config ''tags'' = Some (YMap (map (apsnd YText) tags)))
    \<and> UpdateKubernetesSettings lib cm' label key = Inl ''invalid kubernetes configuration''"
proof -
  from assms(2) obtain config where cm': "cm' = set_text cm key (Marshal lib
      (AList.update ''tags'' (YMap (map (apsnd YText) tags)) (AList.delete ''kubernetes'' config)))"
    by (auto simp: AddTagsSettings_def UpdatePatroniConfigMap_def split: option.splits)
  with assms(1) show ?thesis
    by (simp add: lawful_def UpdateKubernetesSettings_def nil_map_def sub_map_def update_conv' delete_conv')
qed

definition tagged_template :: config_map where
  "tagged_template = set_text sample_template ''k'' (Marshal unary_yaml
     (AList.update ''tags'' (YMap [(''nofailover'', YText ''true'')]) (AList.delete ''kubernetes'' sample_map)))"

lemma sample_tags: "beh (AddTagsSettings unary_yaml [(''nofailover'', ''true'')] sample_template ''k'') (Val tagged_template) []"
  by (simp add: AddTagsSettings_def UpdatePatroniConfigMap_def sample_template_read tagged_template_def)

theorem tags_remove_kubernetes_witness:
  "UpdateKubernetesSettings unary_yaml tagged_template ''primary'' ''k'' = Inl ''invalid kubernetes configuration''
   \<and> (\<exists>cm'. UpdateKubernetesSettings unary_yaml sample_template ''primary'' ''k'' = Inr cm')"
  using tags_remove_kubernetes [OF unary_lawful sample_tags, of "''primary''"]
  by (simp add: UpdateKubernetesSettings_def sample_template_read nil_map_def sample_maps)

subsection \<open>Services and endpoints\<close>

text \<open>A call that makes a service or an endpoint slice has one of the given names.\<close>

definition makes_named :: "string set \<Rightarrow> string set \<Rightarrow> k_call \<Rightarrow> bool" where
  "makes_named services slices c \<longleftrightarrow>
     (\<forall>svc. c = KCreateService svc \<or> c = KUpdateService svc \<longrightarrow> svc_Name svc \<in> services)
   \<and> (\<forall>n ls. c = KObj (CreateEndpointSlice n ls) \<longrightarrow> n \<in> slices)"

lemma labels_named: "emits (all_calls (makes_named A B)) (getLabels rm name ls)"
  unfolding getLabels_def commonLabels_def GetChartVersion_def GetDeploymentSessionId_def operatorLabel_def
    getOperatorLabels_def GetDeploymentsByNameRegExp_def listWorkloads_def Let_def
  by (auto intro!: kube_rules simp: makes_named_def)

lemma service_named: "svc_Name svc \<in> A \<Longrightarrow> emits (all_calls (makes_named A B)) (CreateOrUpdateService rm svc)"
  unfolding CreateOrUpdateService_def
  by (auto intro!: kube_rules labels_named simp: makes_named_def split: k_resp.split)

lemma slice_named: "n \<in> B \<Longrightarrow> emits (all_calls (makes_named A B)) (CreateEndpointSliceIfNotExists n ls)"
  unfolding CreateEndpointSliceIfNotExists_def
  by (auto intro!: kube_rules simp: makes_named_def split: k_resp.split)


text \<open>A server without objects: what the function makes there.\<close>

fun empty_server :: "k_trace \<Rightarrow> k_call \<Rightarrow> k_resp" where
  "empty_server _ (KGetService _) = KNotFound ''no''"
| "empty_server _ (KObj (GetEndpointSlice _)) = KNotFound ''no''"
| "empty_server _ (KObj (ListWorkloads _)) = KObjResp (OWorkloads [])"
| "empty_server _ _ = KOk"

definition etcd_spec :: patroni_spec where
  "etcd_spec = empty_patroni\<lparr>DcsType := ''etcd'', CreateEndpoint := True\<rparr>"

definition etcd_trace :: k_trace where
  "etcd_trace = snd (run empty_server (processPatroniServices
     \<lparr>rm_Name = '''', rm_UID = '''', rm_Kind = '''', rm_Operator = '''', rm_Cluster = None\<rparr>
     (GetPatroniClusterSettings ''ns'' ''c'') empty_core etcd_spec) [])"

lemma etcd_trace_slice:
  "(KObj (CreateEndpointSlice ''pg-c-ro'' [(''kubernetes.io/service-name'', ''pg-c-ro''), (''app'', ''c''), (''pgcluster'', ''c'')]), KOk)
     \<in> set etcd_trace"
  by (simp add: etcd_trace_def processPatroniServices_def etcdDcs_def etcd_spec_def createServicesForEtcdAsDcs_def
      createEndpointsForEtcdAsDcs_def CreateEndpointSliceIfNotExists_def reconcileEndpointSlice_def CreateOrUpdateService_def
      reconcileService_def GetPatroniClusterSettings_def GetPatroniClusterName_def overlay_def k_do_def Let_def
      getLabels_def commonLabels_def GetChartVersion_def GetDeploymentSessionId_def operatorLabel_def
      getOperatorLabels_def GetDeploymentsByNameRegExp_def listWorkloads_def namedLike_def)


end
