(* ===== verification/Go_Concurrency.thy ===== *)
theory Go_Concurrency
  imports Go_Prelude "HOL-Library.Sublist"
begin

section \<open>Goroutines\<close>

text \<open>
  Goroutines that share nothing but a \<open>sync.WaitGroup\<close>: the calls they make interleave.  A schedule names the
  goroutine that makes the next call; when it is exhausted, the goroutines that are left end in order.  A panic in
  one of them ends the process.  A theorem about all schedules is one about all interleavings.
\<close>

primrec one_step :: "('c, 'r, 'a) prog \<Rightarrow> ('c, 'r, ('c, 'r, 'a) prog) prog" where
  "one_step (Ret x) = Ret (Ret x)"
| "one_step (Panic e) = Panic e"
| "one_step (Call c k) = Call c (\<lambda>r. Ret (k r))"

primrec collect :: "('c, 'r, 'a) prog list \<Rightarrow> ('c, 'r, 'a list) prog" where
  "collect [] = Ret []"
| "collect (p # ps) = pbind p (\<lambda>x. pbind (collect ps) (\<lambda>xs. Ret (x # xs)))"

primrec interleave :: "nat list \<Rightarrow> ('c, 'r, 'a) prog list \<Rightarrow> ('c, 'r, 'a list) prog" where
  "interleave [] ps = collect ps"
| "interleave (i # schedule) ps =
     (if i < length ps then pbind (one_step (ps ! i)) (\<lambda>p. interleave schedule (ps[i := p]))
      else interleave schedule ps)"

lemma one_step_beh:
  assumes "beh (one_step p) (Val q) u" and "beh q out v"
  shows "beh p out (u @ v)"
  using assms by (cases p) (auto simp: beh_Call_iff)

lemma beh_collect:
  "beh (collect ps) (Val xs) u \<Longrightarrow>
     length xs = length ps \<and> (\<forall>i < length ps. \<exists>v. beh (ps ! i) (Val (xs ! i)) v \<and> subseq v u)"
proof (induction ps arbitrary: xs u)
  case (Cons p ps)
  then obtain x ys u1 u2 where u: "u = u1 @ u2" "xs = x # ys" and p: "beh p (Val x) u1" and "beh (collect ps) (Val ys) u2"
    by (auto simp: beh_pbind)
  from Cons.IH [OF this(4)] have len: "length ys = length ps"
    and rest: "\<And>i. i < length ps \<Longrightarrow> \<exists>v. beh (ps ! i) (Val (ys ! i)) v \<and> subseq v u2" by auto
  have "\<exists>v. beh ((p # ps) ! i) (Val (xs ! i)) v \<and> subseq v u" if "i < length (p # ps)" for i
  proof (cases i)
    case 0
    with p u show ?thesis by (auto intro: list_emb_append_mono [of _ _ _ "[]", simplified])
  next
    case (Suc j)
    with rest [of j] that u show ?thesis by (auto intro: list_emb_append2)
  qed
  with len u show ?case by simp
qed simp

text \<open>Each goroutine ends with its result, and its calls are among those of the whole, in its order.\<close>

lemma beh_interleave:
  "beh (interleave s ps) (Val xs) u \<Longrightarrow>
     length xs = length ps \<and> (\<forall>i < length ps. \<exists>v. beh (ps ! i) (Val (xs ! i)) v \<and> subseq v u)"
proof (induction s arbitrary: ps u)
  case Nil
  then show ?case using beh_collect by simp
next
  case (Cons j s)
  show ?case
  proof (cases "j < length ps")
    case True
    with Cons.prems obtain q u1 u2 where u: "u = u1 @ u2" and step: "beh (one_step (ps ! j)) (Val q) u1"
      and rest: "beh (interleave s (ps[j := q])) (Val xs) u2" by (auto simp: beh_pbind)
    from Cons.IH [OF rest] have len: "length xs = length ps"
      and each: "\<And>i. i < length ps \<Longrightarrow> \<exists>v. beh (ps[j := q] ! i) (Val (xs ! i)) v \<and> subseq v u2" by auto
    have "\<exists>v. beh (ps ! i) (Val (xs ! i)) v \<and> subseq v u" if i: "i < length ps" for i
    proof -
      from each [OF i] obtain v where v: "beh (ps[j := q] ! i) (Val (xs ! i)) v" "subseq v u2" by blast
      show ?thesis
      proof (cases "i = j")
        case True
        with v i have "beh (ps ! i) (Val (xs ! i)) (u1 @ v)" using one_step_beh [OF step] by simp
        moreover have "subseq (u1 @ v) u" using u v(2) by (simp add: list_emb_append_mono)
        ultimately show ?thesis by blast
      next
        case False
        with v u show ?thesis by (auto intro: list_emb_append2)
      qed
    qed
    with len show ?thesis by simp
  qed (use Cons in simp)
qed

lemma emits_one_step:
  "emits (all_calls F) p \<Longrightarrow> emits (all_calls F) (one_step p) \<and> (\<forall>q u. beh (one_step p) (Val q) u \<longrightarrow> emits (all_calls F) q)"
proof (cases p)
  case (Call c k)
  assume a: "emits (all_calls F) p"
  have "F c \<and> emits (all_calls F) (k r)" for r
  proof -
    obtain out u where b: "beh (k r) out u" using beh_total by blast
    from emitsD [OF a, of out "(c, r) # u"] b Call have "F c" by simp
    moreover have "emits (all_calls F) (k r)"
      unfolding emits_def spec_def
      using a Call by (auto dest!: emitsD [where u = "(c, r) # _" for r])
    ultimately show ?thesis by simp
  qed
  then show ?thesis using Call by (auto simp: beh_Call_iff intro!: calls.emits_Call calls.emits_rules)
qed (auto intro: calls.emits_rules)

lemma emits_interleave [emits_intros]:
  fixes ps :: "('c, 'r, 'a) prog list"
  shows "(\<And>p. p \<in> set ps \<Longrightarrow> emits (all_calls F) p) \<Longrightarrow> emits (all_calls F) (interleave s ps)"
proof (induction s arbitrary: ps)
  case Nil
  then have "emits (all_calls F) (collect ps)"
    by (induction ps) (auto intro!: calls.emits_rules)
  then show ?case by simp
next
  case (Cons i s)
  show ?case
  proof (cases "i < length ps")
    case True
    then have p: "emits (all_calls F) (ps ! i)" using Cons.prems by simp
    have "spec (pbind (one_step (ps ! i)) (\<lambda>q. interleave s (ps[i := q]))) (\<lambda>_. all_calls F)"
    proof (rule spec_pbindI [where P = "\<lambda>(out :: ('c, 'r, 'a) prog outcome) u. all_calls F u \<and> (\<forall>q. out = Val q \<longrightarrow> emits (all_calls F) q)"])
      show "spec (one_step (ps ! i)) (\<lambda>out u. all_calls F u \<and> (\<forall>q. out = Val q \<longrightarrow> emits (all_calls F) q))"
        using emits_one_step [OF p] by (auto simp: spec_def dest: emitsD)
    next
      fix q :: "('c, 'r, 'a) prog" and u :: "('c, 'r) trace"
      assume q: "all_calls F u \<and> (\<forall>q'. Val q = Val q' \<longrightarrow> emits (all_calls F) q')"
      have "emits (all_calls F) (interleave s (ps[i := q]))"
        by (rule Cons.IH) (use q Cons.prems set_update_subset_insert [of ps i q] in auto)
      then show "spec (interleave s (ps[i := q])) (\<lambda>out u'. all_calls F (u @ u'))"
        using q by (auto simp: emits_def spec_def)
    qed auto
    with True show ?thesis by (simp add: emits_def)
  qed (use Cons in simp)
qed

text \<open>
  Batches: at most \<open>limit\<close> goroutines are started before the wait; each batch has its schedule, and batches
  without one run in order.
\<close>

function chunks :: "nat \<Rightarrow> 'a list \<Rightarrow> 'a list list" where
  "chunks limit xs = (if xs = [] \<or> limit = 0 then [] else take limit xs # chunks limit (drop limit xs))"
  by pat_completeness auto
termination by (relation "measure (\<lambda>(n, xs). length xs)") auto

declare chunks.simps [simp del]

lemma chunks_simps [simp]:
  "chunks n [] = []"
  "xs \<noteq> [] \<Longrightarrow> n \<noteq> 0 \<Longrightarrow> chunks n xs = take n xs # chunks n (drop n xs)"
  by (simp_all add: chunks.simps)

lemma concat_chunks: "n \<noteq> 0 \<Longrightarrow> concat (chunks n xs) = xs"
proof (induction xs rule: length_induct)
  case (1 xs)
  then show ?case by (cases "xs = []") auto
qed

primrec run_batches :: "nat list list \<Rightarrow> ('c, 'r, 'a) prog list list \<Rightarrow> ('c, 'r, 'a list) prog" where
  "run_batches schedules [] = Ret []"
| "run_batches schedules (b # bs) =
     pbind (interleave (case schedules of [] \<Rightarrow> [] | s # _ \<Rightarrow> s) b) (\<lambda>xs.
     pbind (run_batches (tl schedules) bs) (\<lambda>ys. Ret (xs @ ys)))"

lemma beh_run_batches:
  assumes "beh (run_batches schedules bs) (Val xs) u" and "p \<in> set (concat bs)"
  shows "\<exists>x v. x \<in> set xs \<and> beh p (Val x) v \<and> subseq v u"
  using assms
proof (induction bs arbitrary: schedules xs u)
  case (Cons b bs)
  then obtain ys zs u1 u2 s where u: "u = u1 @ u2" "xs = ys @ zs"
    and b: "beh (interleave s b) (Val ys) u1" and rest: "beh (run_batches (tl schedules) bs) (Val zs) u2"
    by (auto simp: beh_pbind)
  show ?case
  proof (cases "p \<in> set b")
    case True
    then obtain i where i: "i < length b" "p = b ! i" by (auto simp: in_set_conv_nth)
    with beh_interleave [OF b] obtain v where "beh p (Val (ys ! i)) v" "subseq v u1" "length ys = length b" by auto
    with i u show ?thesis
      by (intro exI [of _ "ys ! i"] exI [of _ v]) (auto intro: list_emb_append_mono [of _ _ _ "[]", simplified])
  next
    case False
    with Cons.prems Cons.IH [OF rest] u show ?thesis by (fastforce intro: list_emb_append2)
  qed
qed simp

lemma emits_run_batches [emits_intros]:
  "(\<And>p. p \<in> set (concat bs) \<Longrightarrow> emits (all_calls F) p) \<Longrightarrow> emits (all_calls F) (run_batches schedules bs)"
  by (induction bs arbitrary: schedules) (auto intro!: calls.emits_rules emits_interleave)

end
