(* ===== verification/Locale_Fix.thy ===== *)
theory Locale_Fix
  imports Patroni_Config Go_Concurrency
begin

section \<open>The repair of collations after a change of the locale\<close>

text \<open>
  Models the part of \<^verbatim>\<open>operator/pkg/reconciler/patroni.go\<close> that runs when the version of the system's locale is not
  the one that is recorded in \<^verbatim>\<open>deployment-info\<close>: the databases are reindexed in goroutines, ten at a time, their broken
  indexes are repaired and the versions of their collations are refreshed; then the new version is recorded.
\<close>

subsection \<open>Statements\<close>

definition ExecuteForDB :: "string \<Rightarrow> string \<Rightarrow> string \<Rightarrow> err option kube" where
  "ExecuteForDB pgHost db query = pbind (k_do (KObj (PgDbConnect pgHost db))) (\<lambda>err. case err of
     Some e \<Rightarrow> Ret (Some e)
   | None \<Rightarrow> k_do (KObj (PgDbExec pgHost db query)))"

definition queryDB :: "string \<Rightarrow> string \<Rightarrow> string \<Rightarrow> (err + scan_row list) kube" where
  "queryDB pgHost db query = pbind (k_do (KObj (PgDbConnect pgHost db))) (\<lambda>err. case err of
     Some e \<Rightarrow> Ret (Inl e)
   | None \<Rightarrow> Call (KObj (PgDbQuery pgHost db query)) (\<lambda>r. Ret (case r of
       KRows rows \<Rightarrow> Inr rows | KErr e \<Rightarrow> Inl e | KNotFound e \<Rightarrow> Inl e | _ \<Rightarrow> Inl ''unexpected response'')))"

definition reindexDatabase :: "string \<Rightarrow> string" where
  "reindexDatabase db = ''REINDEX DATABASE CONCURRENTLY '' @ dquote db"

definition reindexSystem :: "string \<Rightarrow> string" where
  "reindexSystem db = ''REINDEX SYSTEM '' @ dquote db"

definition refreshDatabase :: "string \<Rightarrow> string" where
  "refreshDatabase db = ''ALTER DATABASE '' @ dquote db @ '' REFRESH COLLATION VERSION''"

text \<open>The queries, with white space as single blanks.\<close>

definition brokenIndexQuery :: string where
  "brokenIndexQuery = ''SELECT n.nspname AS schema_name, c.relname AS index_name FROM pg_index i ''
     @ ''JOIN pg_class c ON i.indexrelid = c.oid JOIN pg_namespace n ON c.relnamespace = n.oid ''
     @ ''WHERE n.nspname NOT IN ('' @ squote ''pg_catalog'' @ '', '' @ squote ''information_schema''
     @ '') AND i.indisvalid = false AND ( c.relname like '' @ squote ''%_ccnew%'' @ '' or c.relname like '' @ squote ''%_ccold%''
     @ '') ORDER BY schema_name, index_name;''"

definition collationsQuery :: string where
  "collationsQuery = ''SELECT distinct c.collname AS '' @ dquote ''Collation'' @ '' FROM pg_depend d JOIN pg_collation c ON (refclassid = ''
     @ squote ''pg_collation'' @ ''::regclass AND refobjid = c.oid) ''
     @ ''WHERE c.collversion <> pg_collation_actual_version(c.oid) or c.collversion is null;''"

subsection \<open>Broken indexes\<close>

fun indexNames :: "scan_row list \<Rightarrow> err + string list" where
  "indexNames [] = Inr []"
| "indexNames (KText [Some schema, Some index] # rows) = (case indexNames rows of
     Inl e \<Rightarrow> Inl e | Inr names \<Rightarrow> Inr ((dquote schema @ ''.'' @ dquote index) # names))"
| "indexNames (KScanErr e # rows) = Inl e"
| "indexNames (row # rows) = Inl ''cannot scan''"

definition findBrokenIndexes :: "string \<Rightarrow> string \<Rightarrow> (err + string list) kube" where
  "findBrokenIndexes pgHost db = ptry (queryDB pgHost db brokenIndexQuery) (\<lambda>rows. Ret (indexNames rows))"

text \<open>\<^verbatim>\<open>strings.Split(s, p)[0]\<close>\<close>

fun before_sub :: "string \<Rightarrow> string \<Rightarrow> string" where
  "before_sub p [] = []"
| "before_sub p (c # cs) = (if has_prefix (c # cs) p then [] else c # before_sub p cs)"

text \<open>Each broken index is dropped, and the one it was built for is built again; all are tried.\<close>

fun fixIndexes :: "string \<Rightarrow> string \<Rightarrow> string list \<Rightarrow> bool kube" where
  "fixIndexes pgHost db [] = Ret True"
| "fixIndexes pgHost db (name # names) =
     pbind (ExecuteForDB pgHost db (''DROP INDEX IF EXISTS '' @ name)) (\<lambda>dropErr.
     pbind (if contains_sub ''_ccnew'' name
         then ExecuteForDB pgHost db (''REINDEX INDEX CONCURRENTLY '' @ before_sub ''_ccnew'' name @ [dq])
         else Ret None) (\<lambda>reindexErr.
     pbind (fixIndexes pgHost db names) (\<lambda>indexesFixed.
     Ret (dropErr = None \<and> reindexErr = None \<and> indexesFixed))))"

definition fixBrokenIndexes :: "string \<Rightarrow> string \<Rightarrow> string list \<Rightarrow> err option kube" where
  "fixBrokenIndexes pgHost db brokenIndNames = pbind (fixIndexes pgHost db brokenIndNames) (\<lambda>indexesFixed.
     if indexesFixed then pbind (findBrokenIndexes pgHost db) (\<lambda>res. Ret (case res of
         Inl e \<Rightarrow> Some e
       | Inr remainingIndexes \<Rightarrow>
           if remainingIndexes \<noteq> [] then Some (''broken indexes still present in db: '' @ db) else None))
     else Ret (Some (''Broken indexes not fixed for db: '' @ db)))"

subsection \<open>Collations\<close>

definition getCollationsForRefresh :: "string \<Rightarrow> string \<Rightarrow> (err + string list) kube" where
  "getCollationsForRefresh pgHost db = ptry (queryDB pgHost db collationsQuery) (\<lambda>rows. Ret (oneColumn rows))"

definition refreshDependCollationsVersion :: "string \<Rightarrow> string \<Rightarrow> err option kube" where
  "refreshDependCollationsVersion pgHost db = pbind (getCollationsForRefresh pgHost db) (\<lambda>res. case res of
     Inl e \<Rightarrow> Ret (Some e)
   | Inr collations \<Rightarrow> for_err collations (\<lambda>collation.
       ExecuteForDB pgHost db (''ALTER COLLATION '' @ dquote collation @ '' REFRESH VERSION'')))"

subsection \<open>One database\<close>

text \<open>What a goroutine does, and the error that it sends to the channel.\<close>

definition repairDB :: "string \<Rightarrow> int \<Rightarrow> string \<Rightarrow> err option kube" where
  "repairDB pgHost pgVersion db =
     andThen (ExecuteForDB pgHost db (reindexDatabase db))
     (andThen (ExecuteForDB pgHost db (reindexSystem db))
     (pbind (findBrokenIndexes pgHost db) (\<lambda>res. case res of
        Inl e \<Rightarrow> Ret (Some e)
      | Inr brokenIndNames \<Rightarrow>
          andThen (if brokenIndNames \<noteq> [] then fixBrokenIndexes pgHost db brokenIndNames else Ret None)
         (andThen (if 15 \<le> pgVersion then pgc_Execute pgHost (refreshDatabase db) else Ret None)
           (refreshDependCollationsVersion pgHost db)))))"

definition fixCollationVersionForDB :: "string \<Rightarrow> int \<Rightarrow> string \<Rightarrow> err option kube" where
  "fixCollationVersionForDB pgHost pgVersion db =
     wrapErr (''failed to fix collation version for database '' @ db @ '': '') (repairDB pgHost pgVersion db)"

subsection \<open>All databases\<close>

text \<open>The schedules say how the goroutines of each batch of ten interleave.\<close>

definition fixDatabases :: "nat list list \<Rightarrow> string \<Rightarrow> int \<Rightarrow> string list \<Rightarrow> err option kube" where
  "fixDatabases schedules pgHost pgVersion databaseList =
     pbind (run_batches schedules (chunks 10 (map (fixCollationVersionForDB pgHost pgVersion) databaseList))) (\<lambda>results.
     let errors = List.map_filter id results in
     Ret (if errors \<noteq> []
       then Some (''encountered '' @ itoa (int (length errors)) @ '' errors during collation version fix'') else None))"

definition runLocaleFixScript :: "nat list list \<Rightarrow> string \<Rightarrow> int \<Rightarrow> string \<Rightarrow> bool \<Rightarrow> err option kube" where
  "runLocaleFixScript schedules pgHost pgVersion newLocale forced =
     andThen (WaitUntilRecoveryIsDone pgHost)
     (pbind (if forced then GetAllDatabases pgHost else GetDatabasesForLocaleUpdate pgHost newLocale) (\<lambda>res. case res of
        Inl e \<Rightarrow> Ret (Some e)
      | Inr databaseList \<Rightarrow> fixDatabases schedules pgHost pgVersion databaseList))"

text \<open>A standby cluster only records the version.\<close>

definition localeOfPrimary ::
  "nat list list \<Rightarrow> resource_manager \<Rightarrow> cluster_settings \<Rightarrow> bool \<Rightarrow> string \<Rightarrow> string \<Rightarrow> string \<Rightarrow> err option kube" where
  "localeOfPrimary schedules rm cluster forced localeVersion newLocaleVersion podName =
     pbind (GetPGVersionFromPod rm podName) (\<lambda>version.
     if \<not> snd (atoi version) then Ret (Some ''invalid syntax'')
     else if localeVersion \<noteq> newLocaleVersion \<or> forced then
       andThen (runLocaleFixScript schedules (cl_PgHost cluster) (fst (atoi version)) newLocaleVersion forced)
         (pbind (StoreDataToCM rm ''locale-version'' newLocaleVersion) (\<lambda>_. Ret None))
     else Ret None)"

definition performLocaleUpgrade ::
  "nat list list \<Rightarrow> resource_manager \<Rightarrow> cluster_settings \<Rightarrow> patroni_core \<Rightarrow> string \<Rightarrow> err option kube" where
  "performLocaleUpgrade schedules rm cluster cr localeVersion =
     pbind (GetPodsByLabel (cl_PatroniMasterSelectors cluster)) (\<lambda>res. case res of
       Inl e \<Rightarrow> Ret (Some e)
     | Inr [] \<Rightarrow> Ret (Some ''master pod is not available, cannot update locale version'')
     | Inr (updatedMasterPod # _) \<Rightarrow>
         pbind (GetLocaleVersionFromPod rm (pod_Name updatedMasterPod)) (\<lambda>newLocaleVersion.
         pbind (IsStandbyClusterConfigurationExist cr) (\<lambda>standby.
         if standby then
           (if newLocaleVersion \<noteq> localeVersion
            then pbind (StoreDataToCM rm ''locale-version'' newLocaleVersion) (\<lambda>_. Ret None) else Ret None)
         else pbind (deref (pc_Patroni cr)) (\<lambda>pspec.
           localeOfPrimary schedules rm cluster (ForceCollationVersionUpgrade pspec) localeVersion newLocaleVersion
             (pod_Name updatedMasterPod)))))"

end
