(* ===== verification/Patroni_Steps.thy ===== *)
theory Patroni_Steps
  imports Patroni_Volumes Patroni_Services Locale_Fix
begin

section \<open>Steps of the Patroni reconciler\<close>

text \<open>
  Models what the reconcile loop of \<^verbatim>\<open>operator/pkg/reconciler/patroni.go\<close> calls besides volumes, services and
  collations: the health of the cluster during an update, the password of the replicator, POWA (\<^verbatim>\<open>pkg/powa/powa.go\<close>),
  the external storage of the WAL, the restart after the rename of the leader's label, and pgBackRest.
\<close>

subsection \<open>Health during an update\<close>

definition IsPatroniClusterHealthyDuringUpdate :: "member list \<Rightarrow> int \<Rightarrow> bool" where
  "IsPatroniClusterHealthyDuringUpdate config replicas \<longleftrightarrow>
     arePatroniMembersRunning config \<and> isLeaderExist config \<and> ifExpectedCountOfMembers replicas config"

definition IsPatroniClusterDegradedDuringUpdate :: "member list \<Rightarrow> string \<Rightarrow> int \<Rightarrow> bool kube" where
  "IsPatroniClusterDegradedDuringUpdate config pgHost replicas =
     pbind (isExpectedReplicationCount pgHost (replicas - 1)) (\<lambda>expectedReplication.
     Ret (\<not> expectedReplication \<or> \<not> ifExpectedCountOfMembers replicas config))"

definition IsHealthyDuringUpdate :: "string \<Rightarrow> string \<Rightarrow> int \<Rightarrow> bool kube" where
  "IsHealthyDuringUpdate patroniUrl pgHost replicas = pbind (GetPatroniClusterConfig patroniUrl) (\<lambda>res. case res of
     Inl _ \<Rightarrow> Ret False
   | Inr config \<Rightarrow>
       pbind (IsPatroniClusterDegradedDuringUpdate config pgHost replicas) (\<lambda>isDegraded.
       Ret (IsPatroniClusterHealthyDuringUpdate config replicas \<and> \<not> isDegraded)))"

definition IsHealthyWithTimeoutDuringUpdate :: "nat \<Rightarrow> string \<Rightarrow> string \<Rightarrow> int \<Rightarrow> err option kube" where
  "IsHealthyWithTimeoutDuringUpdate ticks patroniUrl pgHost replicas =
     poll ticks (pbind (IsHealthyDuringUpdate patroniUrl pgHost replicas) (\<lambda>h. Ret (Inr h)))"

subsection \<open>Passwords\<close>

definition EscapeString :: "string \<Rightarrow> string" where
  "EscapeString s = replace_char sq [sq, sq] s"

text \<open>Without the file the password is empty.\<close>

definition readSecretFile :: "string \<Rightarrow> string kube" where
  "readSecretFile path = Call (KObj (ReadFile path)) (\<lambda>r. Ret (ReadSecretFile
     (case r of KObjResp (OText t) \<Rightarrow> Some t | _ \<Rightarrow> None) ''''))"

definition replicatorPasswordPath :: string where
  "replicatorPasswordPath = ''/var/run/secrets/postgresql/replicator-credentials/''"

definition SyncReplicatorPassword :: "string \<Rightarrow> err option kube" where
  "SyncReplicatorPassword pgHost =
     pbind (readSecretFile (replicatorPasswordPath @ ''password'')) (\<lambda>password.
     pbind (k_do (KPgClient pgHost)) (\<lambda>err. if err \<noteq> None then Ret (Some ''Can't create Postgres Client'') else
     pbind (IsPostgresInRecovery pgHost) (\<lambda>inRecovery.
     if inRecovery = Inr True then Ret None
     else pgc_Execute pgHost (''alter role replicator with password '' @ squote (EscapeString password) @ '';''))))"

definition AlterUserPassword :: "string \<Rightarrow> string \<Rightarrow> string \<Rightarrow> err option kube" where
  "AlterUserPassword pgHost username password =
     pgc_Execute pgHost (''ALTER USER '' @ dquote (EscapeString username) @ '' WITH PASSWORD '' @ squote (EscapeString password) @ '' ;'')"

subsection \<open>POWA\<close>

definition extPOWATable :: "string list" where
  "extPOWATable = [''pg_stat_statements'', ''btree_gist'', ''powa'', ''pg_qualstats'', ''pg_stat_kcache'', ''hypopg'',
     ''pg_track_settings'', ''pg_wait_sampling'']"

definition powaLibraries :: "string list" where
  "powaLibraries = [''powa'', ''pg_stat_kcache'', ''pg_qualstats'', ''pg_wait_sampling'']"

definition pgSettings :: "string list" where
  "pgSettings = [''track_io_timing=on'', ''pg_wait_sampling.profile_queries=true'']"

definition UpdatePgSettings :: "patroni_spec \<Rightarrow> patroni_spec" where
  "UpdatePgSettings pspec = pspec\<lparr>PostgreSQLParams := PostgreSQLParams pspec @ pgSettings\<rparr>"

text \<open>Errors of single extensions are only logged.\<close>

definition CreateExtensionsForDBs :: "string \<Rightarrow> string list \<Rightarrow> string list \<Rightarrow> unit kube" where
  "CreateExtensionsForDBs pgHost databases extensions = for_do databases (\<lambda>d.
     if d = ''template0'' then Ret ()
     else for_do extensions (\<lambda>e. pbind (ExecuteForDB pgHost d (''CREATE EXTENSION IF NOT EXISTS '' @ e)) (\<lambda>_. Ret ())))"

definition existsRow :: "string \<Rightarrow> string \<Rightarrow> (err + bool) kube" where
  "existsRow pgHost query = pbind (k_do (KPgConnect pgHost)) (\<lambda>err. case err of
     Some e \<Rightarrow> Ret (Inl e)
   | None \<Rightarrow> Call (KPgQuery pgHost query) (\<lambda>r. Ret (case r of
       KRows rows \<Rightarrow> Inr (rows \<noteq> []) | KErr e \<Rightarrow> Inl e | KNotFound e \<Rightarrow> Inl e | _ \<Rightarrow> Inl ''unexpected response'')))"

definition getPowaPassword :: "(err + string) kube" where
  "getPowaPassword = Call (KObj (GetSecretCall ''powa-secret'')) (\<lambda>r. Ret (case r of
     KObjResp (OSecret secret) \<Rightarrow> Inr (case map_of secret ''password'' of None \<Rightarrow> '''' | Some p \<Rightarrow> p)
   | _ \<Rightarrow> Inl (errorText r)))"

definition createPOWATableWithExtension :: "string \<Rightarrow> unit kube" where
  "createPOWATableWithExtension pgHost = pbind (pgc_Execute pgHost ''CREATE DATABASE powa;'') (\<lambda>err.
     if err \<noteq> None then Ret () else CreateExtensionsForDBs pgHost [''powa''] extPOWATable)"

definition createPOWAExtensions :: "string \<Rightarrow> unit kube" where
  "createPOWAExtensions pgHost = pbind (GetAllDatabases pgHost) (\<lambda>res.
     CreateExtensionsForDBs pgHost (case res of Inl _ \<Rightarrow> [] | Inr databases \<Rightarrow> databases) [''hypopg''])"

definition createPOWAUser :: "string \<Rightarrow> string \<Rightarrow> err option kube" where
  "createPOWAUser password pgHost =
     pbind (pgc_Execute pgHost (''CREATE ROLE powa SUPERUSER LOGIN PASSWORD '' @ squote (EscapeString password) @ '' ;'')) (\<lambda>_. Ret None)"

definition SetUpPOWA :: "string \<Rightarrow> err option kube" where
  "SetUpPOWA pgHost = pbind getPowaPassword (\<lambda>res. case res of
     Inl e \<Rightarrow> Ret (Some e)
   | Inr password \<Rightarrow>
       andThen (WaitUntilRecoveryIsDone pgHost)
      (withClient pgHost
      (pbind (existsRow pgHost (''select * from pg_database where datname = '' @ squote ''powa'' @ '';'')) (\<lambda>res. case res of
         Inl e \<Rightarrow> Ret (Some e)
       | Inr isPowaDBExist \<Rightarrow>
      (pbind (existsRow pgHost (''select * from pg_roles where rolname='' @ squote ''powa'' @ '';'')) (\<lambda>res. case res of
         Inl e \<Rightarrow> Ret (Some e)
       | Inr isPowaUserExist \<Rightarrow>
           andThen (if isPowaUserExist then AlterUserPassword pgHost ''powa'' password else createPOWAUser password pgHost)
             (if isPowaDBExist then Ret None
              else pseq (createPOWATableWithExtension pgHost) (pseq (createPOWAExtensions pgHost) (Ret None)))))))))"

subsection \<open>The external storage of the WAL\<close>

text \<open>The commands for a node; \<open>i\<close> is the last character of its container's name.\<close>

definition walCommands :: "string \<Rightarrow> string list" where
  "walCommands i =
    [''pg_ctl stop -D /var/lib/pgsql/data/postgresql_node'' @ i,
     ''cp -R /var/lib/pgsql/data/postgresql_node'' @ i @ ''/pg_wal/* /var/lib/pgsql/pg_wal/'',
     ''rm -rf /var/lib/pgsql/data/postgresql_node'' @ i @ ''/pg_wal_backup'',
     ''mv /var/lib/pgsql/data/postgresql_node'' @ i @ ''/pg_wal /var/lib/pgsql/data/postgresql_node'' @ i @ ''/pg_wal_backup'',
     ''ln -s /var/lib/pgsql/pg_wal /var/lib/pgsql/data/postgresql_node'' @ i,
     ''pg_ctl start -D /var/lib/pgsql/data/postgresql_node'' @ i @ '' -l /proc/1/fd/1'',
     ''rm -rf /var/lib/pgsql/data/postgresql_node'' @ i @ ''/pg_wal_backup'']"

definition execWalMovingForNode :: "resource_manager \<Rightarrow> string \<Rightarrow> string \<Rightarrow> err option kube" where
  "execWalMovingForNode rm podName podIdentity = for_err (walCommands podIdentity) (\<lambda>cmd. execIn rm podName cmd '''')"

definition checkSymlinkAlreadyExist :: "resource_manager \<Rightarrow> string \<Rightarrow> string \<Rightarrow> bool kube" where
  "checkSymlinkAlreadyExist rm podName podIdentity =
     pbind (ExecCmdOnPatroniPod rm podName
       (''if [ -L /var/lib/pgsql/data/postgresql_node'' @ podIdentity @ ''/pg_wal ]; then echo true ; else echo false; fi'') '''')
       (\<lambda>res. Ret (case res of Inl _ \<Rightarrow> False | Inr out \<Rightarrow> trim_space out = ''true''))"

definition containerName :: "pod \<Rightarrow> string kube" where
  "containerName p = firstOf (pod_Containers p)"

definition lastChar :: "string \<Rightarrow> string kube" where
  "lastChar name = (if name = '''' then Panic ''slice bounds out of range'' else Ret [last name])"

definition moveWal :: "resource_manager \<Rightarrow> pod \<Rightarrow> err option kube" where
  "moveWal rm p = pbind (containerName p) (\<lambda>name. pbind (lastChar name) (\<lambda>podIdentity.
     pbind (checkSymlinkAlreadyExist rm (pod_Name p) podIdentity) (\<lambda>linked.
     if linked then Ret None else execWalMovingForNode rm (pod_Name p) podIdentity)))"

text \<open>Replicas that cannot be listed are skipped.\<close>

definition processPgWalStorageExternal :: "resource_manager \<Rightarrow> cluster_settings \<Rightarrow> err option kube" where
  "processPgWalStorageExternal rm cluster =
     pbind (GetPodsByLabel (cl_PatroniReplicasSelector cluster)) (\<lambda>replicas.
     andThen (for_err (case replicas of Inl _ \<Rightarrow> [] | Inr pods \<Rightarrow> pods) (moveWal rm))
       (pbind (GetPodsByLabel (cl_PatroniMasterSelectors cluster)) (\<lambda>masters. case masters of
          Inl e \<Rightarrow> Ret (Some e)
        | Inr pods \<Rightarrow> pbind (firstOf pods) (moveWal rm))))"

subsection \<open>The label of the leader\<close>

definition ReplicasLabel :: "(string \<times> string) list" where "ReplicasLabel = [(''pgtype'', ''replica'')]"

definition updated :: "(err + bool) kube \<Rightarrow> err option kube" where
  "updated m = pbind m (\<lambda>res. Ret (case res of Inl e \<Rightarrow> Some e | Inr _ \<Rightarrow> None))"

definition restartPods :: "pod list \<Rightarrow> err option kube" where
  "restartPods pods = for_err pods (\<lambda>p. RestartPatroniPod (pod_Name p))"

text \<open>Pods that still carry the former value of the label: replicas are restarted before leaders.\<close>

definition ReloadPatroniIfLegacyLeader ::
  "patroni_env \<Rightarrow> resource_manager \<Rightarrow> patroni_core \<Rightarrow> string \<Rightarrow> string \<Rightarrow> err option kube" where
  "ReloadPatroniIfLegacyLeader env rm cr patroniConfigMapName configMapKey =
     pbind (GetPodsByLabel [(''pgtype'', ''master'')]) (\<lambda>res. case res of
       Inl e \<Rightarrow> Ret (Some e)
     | Inr [] \<Rightarrow> Ret None
     | Inr leaders \<Rightarrow> pbind (GetConfigMap patroniConfigMapName) (\<lambda>res. case res of
         Inl e \<Rightarrow> Ret (Some e)
       | Inr cm \<Rightarrow> (case UpdateKubernetesSettings (pe_Yaml env) cm ''primary'' configMapKey of
           Inl e \<Rightarrow> Ret (Some e)
         | Inr changed \<Rightarrow>
             andThen (updated (CreateOrUpdateConfigMap rm changed))
               (pbind (GetPodsByLabel ReplicasLabel) (\<lambda>res. case res of
                  Inl e \<Rightarrow> Ret (Some e)
                | Inr followers \<Rightarrow>
                    andThen (restartPods followers)
                   (pbind (deref (pc_Patroni cr)) (\<lambda>pspec.
                    andThen (WaitForReplicas (pe_Ticks env) ReplicasLabel (Replicas pspec - 1))
                   (andThen (restartPods leaders)
                     (WaitForPatroni (pe_Ticks env) cr MasterLabel ReplicasLabel)))))))))"

subsection \<open>pgBackRest\<close>

definition restoreBackrest :: string where
  "restoreBackrest = ''pgbackrest --stanza=patroni --type=standby --delta --log-level-file=detail restore''"

definition plainCM :: "string \<Rightarrow> (string \<times> string) list \<Rightarrow> config_map" where
  "plainCM name contents = \<lparr>cm_Name = name, cm_Data = contents, cm_Annotations = None, cm_Labels = None,
     cm_ResourceVersion = '''', cm_Owners = []\<rparr>"

text \<open>The key pair of the new secret is not part of the model.\<close>

definition ensureBackrestKeys :: "resource_manager \<Rightarrow> err option kube" where
  "ensureBackrestKeys rm = Call (KObj (GetSecretCall ''pgbackrest-keys'')) (\<lambda>r. case r of
     KNotFound _ \<Rightarrow> CreateSecretIfNotExists rm ''pgbackrest-keys''
   | _ \<Rightarrow> Ret (k_error r))"

definition preparePgbackRest ::
  "patroni_env \<Rightarrow> resource_manager \<Rightarrow> cluster_settings \<Rightarrow> patroni_core \<Rightarrow> config_map \<Rightarrow> (err + config_map) kube" where
  "preparePgbackRest env rm cluster cr patroniConfigMap =
     pbind (updated (CreateOrUpdateConfigMap rm (plainCM ''pgbackrest-conf'' [(''pgbackrest.conf'', pe_PgBackRestConf env cr)]))) (\<lambda>err.
     case err of Some e \<Rightarrow> Ret (Inl e) | None \<Rightarrow>
       pbind (GetCommandForPgbackrest cr restoreBackrest) (\<lambda>command.
       case UpdatePgbackRestSettings (pe_Yaml env) patroniConfigMap
           (YMap [(''command'', YText command), (''keep_data'', YText ''true''), (''no_params'', YText ''true'')])
           (cl_ConfigMapKey cluster) of
         Inl e \<Rightarrow> Ret (Inl e)
       | Inr cm \<Rightarrow> pbind (deref (pc_PgBackRest cr)) (\<lambda>br.
           pbind (if br_BackupFromStandby br then ensureBackrestKeys rm else Ret None) (\<lambda>err.
           Ret (case err of Some e \<Rightarrow> Inl e | None \<Rightarrow> Inr cm)))))"

end
