(* ===== verification/Patroni_Reconciler.thy ===== *)
theory Patroni_Reconciler
  imports Patroni_Steps
begin

section \<open>The reconciler of Patroni\<close>

text \<open>
  Models \<^verbatim>\<open>Reconcile\<close> of \<^verbatim>\<open>operator/pkg/reconciler/patroni.go\<close>: the config maps and secrets, the update of an existing
  cluster with its replicas before the master, the first installation, and the settings that are written to
  Patroni.  A major upgrade that is found on the way starts the function again; the fuel bounds how often.
\<close>

definition listOrNone :: "(string \<times> string) list \<Rightarrow> (err + pod list) kube" where
  "listOrNone selectors = Call (KObj (ListPods selectors False)) (\<lambda>r. Ret (case r of
     KObjResp (OPods pods) \<Rightarrow> Inr pods | KNotFound _ \<Rightarrow> Inr [] | KErr e \<Rightarrow> Inl e | _ \<Rightarrow> Inl ''unexpected response''))"

subsection \<open>The upgrade that was asked for\<close>

definition upgradeIfEnabled ::
  "patroni_env \<Rightarrow> resource_manager \<Rightarrow> cluster_settings \<Rightarrow> patroni_core \<Rightarrow> pod list \<Rightarrow> err option kube" where
  "upgradeIfEnabled env rm cluster cr masters =
     (if (case pc_Upgrade cr of None \<Rightarrow> True | Some up \<Rightarrow> \<not> up_Enabled up) then Ret None
      else if masters = [] then Ret (Some ''master pod is not available, cannot perform major upgrade'')
      else pbind (CheckUpgrade rm cluster) (\<lambda>needed.
        if \<not> needed then UpdateUpgradeToDone
        else Call (KSleep 30) (\<lambda>_. ProceedUpgrade (pe_Upgrade env) rm cr cluster)))"

subsection \<open>Config maps and secrets\<close>

definition templateCM :: "patroni_env \<Rightarrow> cluster_settings \<Rightarrow> config_map" where
  "templateCM env cluster = plainCM (cl_ClusterName cluster @ ''-'' @ cl_PatroniCM cluster)
     [(cl_ConfigMapKey cluster, pe_File env (''/opt/operator/'' @ cl_PatroniCM cluster))]"

definition propertiesCM :: "patroni_env \<Rightarrow> cluster_settings \<Rightarrow> config_map" where
  "propertiesCM env cluster = plainCM (cl_PatroniPropertiesCM cluster @ ''-'' @ cl_ClusterName cluster @ ''.properties'')
     [(''postgresql.user.conf'', pe_File env (''/opt/operator/'' @ cl_PatroniPropertiesCM cluster))]"

definition standbyInTemplate ::
  "patroni_env \<Rightarrow> cluster_settings \<Rightarrow> patroni_core \<Rightarrow> bool \<Rightarrow> config_map \<Rightarrow> (err + config_map) kube" where
  "standbyInTemplate env cluster cr standby cm =
     (if standby then AddStandbyClusterSettings (pe_Yaml env) cr cm (cl_ConfigMapKey cluster)
      else Ret (DeleteStandbyClusterSettings (pe_Yaml env) cm (cl_ConfigMapKey cluster)))"

definition etcdInTemplate ::
  "patroni_env \<Rightarrow> cluster_settings \<Rightarrow> patroni_spec \<Rightarrow> config_map \<Rightarrow> config_map kube" where
  "etcdInTemplate env cluster patroniSpec cm =
     (if etcdDcs patroniSpec then
        pbind (AddEtcdSettings (pe_Yaml env) patroniSpec cm (cl_ConfigMapKey cluster)) (\<lambda>cm.
          UpdatePatroniConfigMap (pe_Yaml env) cm (YText (Scope patroniSpec)) ''scope'' (cl_ConfigMapKey cluster))
      else Ret cm)"

definition tagsInTemplate ::
  "patroni_env \<Rightarrow> cluster_settings \<Rightarrow> patroni_spec \<Rightarrow> config_map \<Rightarrow> config_map kube" where
  "tagsInTemplate env cluster patroniSpec cm = (case Tags patroniSpec of
     None \<Rightarrow> Ret cm
   | Some tags \<Rightarrow> AddTagsSettings (pe_Yaml env) tags cm (cl_ConfigMapKey cluster))"

definition fillTemplate ::
  "patroni_env \<Rightarrow> resource_manager \<Rightarrow> cluster_settings \<Rightarrow> patroni_core \<Rightarrow> patroni_spec \<Rightarrow> bool \<Rightarrow> (err + config_map) kube" where
  "fillTemplate env rm cluster cr patroniSpec standby =
     ptry (standbyInTemplate env cluster cr standby (templateCM env cluster)) (\<lambda>cm.
     pbind (etcdInTemplate env cluster patroniSpec cm) (\<lambda>cm.
     pbind (tagsInTemplate env cluster patroniSpec cm) (\<lambda>cm.
     if pc_PgBackRest cr = None then Ret (Inr cm) else preparePgbackRest env rm cluster cr cm)))"

definition secretNames :: "string list" where "secretNames = [''replicator'', ''postgres'']"

definition writeTemplates ::
  "patroni_env \<Rightarrow> resource_manager \<Rightarrow> cluster_settings \<Rightarrow> config_map \<Rightarrow> err option kube" where
  "writeTemplates env rm cluster cm =
     andThen (updated (CreateOrUpdateConfigMap rm cm))
    (andThen (updated (CreateOrUpdateConfigMap rm (propertiesCM env cluster)))
      (for_err secretNames (\<lambda>userName. CreateSecretIfNotExists rm (userName @ ''-credentials''))))"

subsection \<open>The update of a cluster\<close>

definition GetStatefulsetCountByNameRegExp :: "string \<Rightarrow> (err + int) kube" where
  "GetStatefulsetCountByNameRegExp pattern = ptry (GetStatefulsetByNameRegExp pattern) (\<lambda>ws. Ret (Inr (int (length ws))))"

definition nodePattern :: "cluster_settings \<Rightarrow> string" where
  "nodePattern cluster = ''pg-'' @ cl_ClusterName cluster @ ''-node''"

definition countNodes :: "cluster_settings \<Rightarrow> (err + int) kube" where
  "countNodes cluster = pbind (GetStatefulsetCountByNameRegExp (nodePattern cluster)) (\<lambda>first.
     if (case first of Inl _ \<Rightarrow> 0 | Inr n \<Rightarrow> n) = 0 then
       ptry (GetDeploymentsByNameRegExp (nodePattern cluster)) (\<lambda>ds. Ret (Inr (int (length ds))))
     else GetStatefulsetCountByNameRegExp (nodePattern cluster))"

text \<open>The number at the end of the name of a pod's container; a last character that is no digit gives 0.\<close>

definition nodeIndex :: "pod \<Rightarrow> int kube" where
  "nodeIndex p = pbind (containerName p) (\<lambda>name. pbind (lastChar name) (\<lambda>c. Ret (let (n, ok) = atoi c in if ok then n else 0)))"

definition updateNode ::
  "patroni_env \<Rightarrow> resource_manager \<Rightarrow> cluster_settings \<Rightarrow> patroni_core \<Rightarrow> pod \<Rightarrow> err option kube" where
  "updateNode env rm cluster cr p = pbind (nodeIndex p) (processPatroniStatefulset env rm cluster cr)"

definition healthyDuringUpdate :: "cluster_settings \<Rightarrow> int \<Rightarrow> err option kube" where
  "healthyDuringUpdate cluster statefulCount =
     IsHealthyWithTimeoutDuringUpdate 180 (cl_PatroniUrl cluster) (cl_PgHost cluster) statefulCount"

definition createNodes ::
  "patroni_env \<Rightarrow> resource_manager \<Rightarrow> cluster_settings \<Rightarrow> patroni_core \<Rightarrow> int list \<Rightarrow> err option kube" where
  "createNodes env rm cluster cr idxs = for_err idxs (processPatroniStatefulset env rm cluster cr)"

definition addMissingNodes ::
  "patroni_env \<Rightarrow> resource_manager \<Rightarrow> cluster_settings \<Rightarrow> patroni_core \<Rightarrow> int \<Rightarrow> err option kube" where
  "addMissingNodes env rm cluster cr replicas =
     pbind (GetStatefulsetByNameRegExp (nodePattern cluster)) (\<lambda>res. case res of
       Inl e \<Rightarrow> Ret (Some e)
     | Inr existing \<Rightarrow>
         if int (length existing) < replicas then
           pbind (GetStatefulSetIds existing) (\<lambda>ids. case ids of
             Inl e \<Rightarrow> Ret (Some e)
           | Inr existingIds \<Rightarrow> createNodes env rm cluster cr (filter (\<lambda>eId. eId \<notin> set existingIds) [1..replicas]))
         else Ret None)"

definition healthyAfterUpdate :: "cluster_settings \<Rightarrow> err option kube" where
  "healthyAfterUpdate cluster = pbind (IsHealthyWithTimeout 180 (cl_PatroniUrl cluster) (cl_PgHost cluster)) (\<lambda>healthy.
     Ret (if healthy then None else Some ''context deadline exceeded''))"

text \<open>Replicas, then the master, then nodes that are missing.\<close>

definition rollNodes ::
  "patroni_env \<Rightarrow> resource_manager \<Rightarrow> cluster_settings \<Rightarrow> patroni_core \<Rightarrow> int \<Rightarrow> pod \<Rightarrow> pod list \<Rightarrow> err option kube" where
  "rollNodes env rm cluster cr statefulCount master replicaPods =
     andThen (for_err replicaPods (updateNode env rm cluster cr))
    (andThen (healthyDuringUpdate cluster statefulCount)
    (andThen (updateNode env rm cluster cr master)
    (pbind (deref (pc_Patroni cr)) (\<lambda>spec.
     andThen (if replicaPods = [] \<and> 0 < Replicas spec - 1 then createNodes env rm cluster cr [2..Replicas spec] else Ret None)
    (andThen (addMissingNodes env rm cluster cr (Replicas spec))
      (healthyAfterUpdate cluster))))))"

definition updateNodes ::
  "patroni_env \<Rightarrow> resource_manager \<Rightarrow> cluster_settings \<Rightarrow> patroni_core \<Rightarrow> int \<Rightarrow> pod \<Rightarrow> err option kube" where
  "updateNodes env rm cluster cr statefulCount master =
     andThen (healthyDuringUpdate cluster statefulCount)
    (pbind (EnsureLocaleVersion rm (pod_Name master)) (\<lambda>localeVersion.
     pbind (GetPodsByLabel (cl_PatroniReplicasSelector cluster)) (\<lambda>res. case res of
       Inl e \<Rightarrow> Ret (Some e)
     | Inr replicaPods \<Rightarrow>
         andThen (rollNodes env rm cluster cr statefulCount master replicaPods)
           (performLocaleUpgrade (pe_Schedules env) rm cluster cr localeVersion))))"

text \<open>The error of the SSL setting is dropped.\<close>

definition sslOff :: "cluster_settings \<Rightarrow> patroni_core \<Rightarrow> patroni_spec \<Rightarrow> unit kube" where
  "sslOff cluster cr patroniSpec = pbind (of_outcome (ExtractParamsFromCRByName (PostgreSQLParams patroniSpec) ''ssl'')) (\<lambda>sslVal.
     if sslVal = ''off'' then pbind (SetSslStatus cr (cl_PatroniUrl cluster)) (\<lambda>_. Ret ()) else Ret ())"

definition updateCluster ::
  "patroni_env \<Rightarrow> resource_manager \<Rightarrow> cluster_settings \<Rightarrow> patroni_core \<Rightarrow> patroni_spec \<Rightarrow> pod \<Rightarrow> err option kube" where
  "updateCluster env rm cluster cr patroniSpec master =
     pbind (countNodes cluster) (\<lambda>res. case res of
       Inl e \<Rightarrow> Ret (Some e)
     | Inr statefulCount \<Rightarrow>
         pbind (sslOff cluster cr patroniSpec) (\<lambda>_. updateNodes env rm cluster cr statefulCount master))"

definition installCluster ::
  "patroni_env \<Rightarrow> resource_manager \<Rightarrow> cluster_settings \<Rightarrow> patroni_core \<Rightarrow> patroni_spec \<Rightarrow> bool \<Rightarrow> err option kube" where
  "installCluster env rm cluster cr patroniSpec standby =
     andThen (createNodes env rm cluster cr [1..Replicas patroniSpec])
    (andThen (if standby
        then WaitForPatroni (pe_Ticks env) cr (cl_PatroniMasterSelectors cluster) (cl_PatroniReplicasSelector cluster) else Ret None)
      (processPatroniServices rm cluster cr patroniSpec))"

subsection \<open>The settings\<close>

definition queryExporterLibraries :: "string list" where
  "queryExporterLibraries = [''pg_stat_statements'', ''pgsentinel'', ''pg_stat_kcache'', ''pg_wait_sampling'', ''pgnodemx'']"

definition withLibraries :: "string list \<Rightarrow> patroni_spec \<Rightarrow> patroni_spec kube" where
  "withLibraries libraries pspec = pbind (of_outcome (UpdatePreloadLibraries libraries (PostgreSQLParams pspec))) (\<lambda>ps.
     Ret (pspec\<lparr>PostgreSQLParams := ps\<rparr>))"

text \<open>The parameters of the resource with what the operator adds; they are changed in memory only.\<close>

definition completeParams ::
  "patroni_env \<Rightarrow> resource_manager \<Rightarrow> cluster_settings \<Rightarrow> patroni_spec \<Rightarrow> patroni_spec kube" where
  "completeParams env rm cluster patroniSpec =
     pbind (if PowaInstall patroniSpec then withLibraries powaLibraries (UpdatePgSettings patroniSpec) else Ret patroniSpec) (\<lambda>s1.
     pbind (withLibraries queryExporterLibraries s1) (\<lambda>s2.
       applyUseSlotsAdditionalSettings (pe_ParseQuantity env) rm (cl_PatroniMasterSelectors cluster) s2))"

definition setLdap :: "cluster_settings \<Rightarrow> patroni_core \<Rightarrow> err option kube" where
  "setLdap cluster cr =
     (if (case pc_Ldap cr of None \<Rightarrow> False | Some ldap \<Rightarrow> ld_Enabled ldap) then
        andThen (CreatePgAdminRole (cl_PgHost cluster))
          (pbind (SetLdapConfig cr (cl_PatroniUrl cluster)) (\<lambda>_. Ret None))
      else Ret None)"

text \<open>An error of the copy is only logged; Patroni is resumed.\<close>

definition moveWals :: "resource_manager \<Rightarrow> cluster_settings \<Rightarrow> patroni_spec \<Rightarrow> err option kube" where
  "moveWals rm cluster patroniSpec =
     (if PgWalStorage patroniSpec \<noteq> None \<and> PgWalStorageAutoManage patroniSpec then
        andThen (PausePatroni (cl_PatroniUrl cluster))
          (pbind (processPgWalStorageExternal rm cluster) (\<lambda>_. ResumePatroni (cl_PatroniUrl cluster)))
      else Ret None)"

definition standbySettings :: "cluster_settings \<Rightarrow> patroni_core \<Rightarrow> bool \<Rightarrow> err option kube" where
  "standbySettings cluster cr standby =
     andThen (if standby then AddStandbyClusterConfigurationConfigMap cr (cl_PatroniUrl cluster)
        else ClearStandbyClusterConfigurationConfigMap (cl_PatroniUrl cluster))
      (if standby then Ret None else SyncReplicatorPassword (cl_PgHost cluster))"

definition waitPatroni :: "patroni_env \<Rightarrow> cluster_settings \<Rightarrow> patroni_core \<Rightarrow> err option kube" where
  "waitPatroni env cluster cr =
     WaitForPatroni (pe_Ticks env) cr (cl_PatroniMasterSelectors cluster) (cl_PatroniReplicasSelector cluster)"

text \<open>The config maps of Patroni itself; without the one that cannot be read its nil pointer is followed.\<close>

definition annotateConfigMap :: "resource_manager \<Rightarrow> patroni_spec \<Rightarrow> string \<Rightarrow> err option kube" where
  "annotateConfigMap rm patroniSpec name = pbind (getCM name) (\<lambda>res. case res of
     Inl (KNotFound _) \<Rightarrow> Ret None
   | Inl _ \<Rightarrow> Panic nil_deref
   | Inr cm \<Rightarrow>
       let as = AList.update ''argocd.argoproj.io/ignore-resource-updates'' ''true''
             (case cm_Annotations cm of None \<Rightarrow> [] | Some as \<Rightarrow> as) in
       updated (CreateOrUpdateManagedConfigMap rm (cm\<lparr>cm_Annotations := Some (overlay as (ConfigMapAnnotations patroniSpec))\<rparr>)))"

definition configureCluster ::
  "patroni_env \<Rightarrow> resource_manager \<Rightarrow> cluster_settings \<Rightarrow> patroni_core \<Rightarrow> patroni_spec \<Rightarrow> bool \<Rightarrow> err option kube" where
  "configureCluster env rm cluster cr patroniSpec standby =
     andThen (standbySettings cluster cr standby)
    (pbind (completeParams env rm cluster patroniSpec) (\<lambda>pspec.
     andThen (UpdatePatroniParams pspec (cl_PatroniUrl cluster))
    (andThen (UpdatePostgreSQLParams pspec (cl_PatroniUrl cluster))
    (andThen (if pc_PgBackRest cr \<noteq> None then SetWalArchivingForPgBackRest cr (cl_PatroniUrl cluster) else Ret None)
    (andThen (setLdap cluster cr)
    (andThen (waitPatroni env cluster cr)
    (andThen (moveWals rm cluster pspec)
    (andThen (waitPatroni env cluster cr)
    (andThen (if PowaInstall pspec \<and> \<not> standby then SetUpPOWA (cl_PgHost cluster) else Ret None)
      (for_err [cl_ClusterName cluster @ ''-config'', cl_ClusterName cluster @ ''-leader''] (annotateConfigMap rm pspec)))))))))))"

subsection \<open>The function\<close>

definition prepareCluster ::
  "patroni_env \<Rightarrow> resource_manager \<Rightarrow> cluster_settings \<Rightarrow> patroni_core \<Rightarrow> err option kube" where
  "prepareCluster env rm cluster cr =
     andThen (ReloadPatroniIfLegacyLeader env rm cr (cm_Name (templateCM env cluster)) (cl_ConfigMapKey cluster))
    (pbind (IsStandbyClusterConfigurationExist cr) (\<lambda>standby.
     pbind (listOrNone (cl_PatroniMasterSelectors cluster)) (\<lambda>res. case res of
       Inl e \<Rightarrow> Ret (Some e)
     | Inr masters \<Rightarrow>
         pbind (case masters of [] \<Rightarrow> Ret '''' | m # _ \<Rightarrow> EnsureLocaleVersion rm (pod_Name m)) (\<lambda>_.
         andThen (upgradeIfEnabled env rm cluster cr masters)
           (pbind (deref (pc_Patroni cr)) (\<lambda>patroniSpec.
            pbind (fillTemplate env rm cluster cr patroniSpec standby) (\<lambda>res. case res of
              Inl e \<Rightarrow> Ret (Some e)
            | Inr cm \<Rightarrow> writeTemplates env rm cluster cm)))))))"

text \<open>The services of a cluster that runs, and whether its version has changed.\<close>

definition servicesAndCheck ::
  "resource_manager \<Rightarrow> cluster_settings \<Rightarrow> patroni_core \<Rightarrow> patroni_spec \<Rightarrow> (err + bool) kube" where
  "servicesAndCheck rm cluster cr patroniSpec =
     pbind (processPatroniServices rm cluster cr patroniSpec) (\<lambda>err. case err of
       Some e \<Rightarrow> Ret (Inl e)
     | None \<Rightarrow> pbind (CheckUpgrade rm cluster) (\<lambda>isUpgrade. Ret (Inr isUpgrade)))"

fun patroni_Reconcile ::
  "nat \<Rightarrow> patroni_env \<Rightarrow> resource_manager \<Rightarrow> cluster_settings \<Rightarrow> patroni_core \<Rightarrow> err option kube" where
  "patroni_Reconcile fuel env rm cluster cr =
     andThen (prepareCluster env rm cluster cr)
    (pbind (IsStandbyClusterConfigurationExist cr) (\<lambda>standby.
     pbind (deref (pc_Patroni cr)) (\<lambda>patroniSpec.
     pbind (listOrNone (cl_PatroniMasterSelectors cluster)) (\<lambda>res. case res of
       Inl e \<Rightarrow> Ret (Some e)
     | Inr [] \<Rightarrow>
         andThen (installCluster env rm cluster cr patroniSpec standby)
           (configureCluster env rm cluster cr patroniSpec standby)
     | Inr (master # _) \<Rightarrow>
         pbind (servicesAndCheck rm cluster cr patroniSpec) (\<lambda>res. case res of
           Inl e \<Rightarrow> Ret (Some e)
         | Inr True \<Rightarrow> pbind (deref (pc_Upgrade cr)) (\<lambda>up. case fuel of
             0 \<Rightarrow> Panic ''out of fuel''
           | Suc n \<Rightarrow> patroni_Reconcile n env rm cluster (cr\<lparr>pc_Upgrade := Some (up\<lparr>up_Enabled := True\<rparr>)\<rparr>))
         | Inr False \<Rightarrow>
             andThen (updateCluster env rm cluster cr patroniSpec master)
               (configureCluster env rm cluster cr patroniSpec standby))))))"

declare patroni_Reconcile.simps [simp del]

end
