(* ===== verification/Reconciler_Safety.thy ===== *)
theory Reconciler_Safety
  imports Patroni_Reconciler Kube_Calls
begin

section \<open>Safety of the Patroni reconciler\<close>

text \<open>
  What holds before a pod is restarted for a larger volume, before the version of the locale is recorded and before
  the master is updated, whatever the servers answer and however the goroutines interleave.
\<close>

lemma beh_pbindE:
  assumes "beh (pbind m f) (Val y) u"
  obtains u1 u2 x where "u = u1 @ u2" "beh m (Val x) u1" "beh (f x) (Val y) u2"
  using assms unfolding beh_pbind by blast

lemma beh_past:
  assumes "beh (pbind p f) out u" and "(c, r) \<in> set u" and "emits (all_calls F) p" and "\<not> F c"
  obtains u1 u2 x where "u = u1 @ u2" "all_calls F u1" "(c, r) \<in> set u2" "beh (f x) out u2"
  by (rule beh_skip [OF assms]) (rule that)

subsection \<open>Restarts for larger volumes\<close>

fun no_workload :: "k_call \<Rightarrow> bool" where
  "no_workload (KObj (UpdateWorkload _ _)) = False"
| "no_workload _ = True"

lemma resize_no_workload: "emits (all_calls no_workload) (CreateOrResizePvc PQ p)"
  unfolding CreateOrResizePvc_def getPvc_def resizeFound_def finishResize_def Let_def
  by (auto intro!: kube_rules split: sum.split k_resp.split prod.split)

lemma grow_no_workload: "emits (all_calls no_workload) (growClaims env pvcs)"
  by (induction pvcs) (auto intro!: kube_rules resize_no_workload)

lemma wait_state_no_workload: "emits (all_calls no_workload) (WaitForPvcResizeState n p q)"
proof (induction n)
  case 0
  show ?case
    by (subst WaitForPvcResizeState.simps) (auto intro!: kube_rules simp: getPvc_def split: sum.split)
next
  case (Suc n)
  then show ?case
    by (subst WaitForPvcResizeState.simps) (auto intro!: kube_rules simp: getPvc_def split: sum.split)
qed

lemma needed_no_workload: "emits (all_calls no_workload) (restartNeeded pvcs)"
  by (induction pvcs) (auto intro!: kube_rules wait_state_no_workload split: prod.split)

lemma list_no_workload: "emits (all_calls no_workload) (GetPodsByLabel ls)"
  unfolding GetPodsByLabel_def listPods_def by (auto intro!: kube_rules)

lemma pods_spec:
  "spec (GetPodsByLabel ls) (\<lambda>out u. \<forall>pods. out = Val (Inr pods) \<longrightarrow> u = [(KObj (ListPods ls False), KObjResp (OPods pods))])"
  by (auto simp: GetPodsByLabel_def listPods_def spec_simps split: k_resp.split obj_resp.split)

lemma pods_listed:
  "beh (GetPodsByLabel ls) (Val (Inr pods)) u \<Longrightarrow> u = [(KObj (ListPods ls False), KObjResp (OPods pods))]"
  using specD [OF pods_spec] by blast

text \<open>The server named exactly one master, and it is another pod.\<close>

definition other_master :: "cluster_settings \<Rightarrow> string \<Rightarrow> k_trace \<Rightarrow> bool" where
  "other_master cluster podName u \<longleftrightarrow>
     (\<exists>m. (KObj (ListPods (cl_PatroniMasterSelectors cluster) False), KObjResp (OPods [m])) \<in> set u \<and> pod_Name m \<noteq> podName)"

lemma master_changed:
  assumes "beh (masterChanged cluster p) (Val (Inr True)) u"
  shows "other_master cluster p u"
proof -
  from assms obtain res where list: "beh (GetPodsByLabel (cl_PatroniMasterSelectors cluster)) (Val res) u"
    and changed: "case res of Inr [m] \<Rightarrow> pod_Name m \<noteq> p | _ \<Rightarrow> False"
    by (auto simp: masterChanged_def elim!: beh_pbindE)
  from changed obtain m where "res = Inr [m]" "pod_Name m \<noteq> p" by (auto split: sum.splits list.splits)
  with pods_listed list show ?thesis by (fastforce simp: other_master_def)
qed

lemma wrapped: "beh (wrapErr msg m) (Val None) v \<Longrightarrow> beh m (Val None) v"
  by (auto simp: wrapErr_def elim!: beh_pbindE)

lemma switchover_done:
  assumes "beh (switchover cluster p) (Val None) u"
  shows "other_master cluster p u"
proof -
  obtain u1 u2 res where u: "u = u1 @ u2" and "beh (GetPodsByLabel (cl_PatroniReplicasSelector cluster)) (Val res) u1"
    and rest: "beh (case res of Inl e \<Rightarrow> Ret (Some e)
     | Inr [] \<Rightarrow> Ret (Some (noReplica p))
     | Inr _ \<Rightarrow> andThen (Switchover (cl_PatroniUrl cluster) p)
           (wrapErr (newMasterTimeout p)
             (poll 120 (masterChanged cluster p)))) (Val None) u2"
    by (rule beh_pbindE [OF assms [unfolded switchover_def]])
  then have "beh (andThen (Switchover (cl_PatroniUrl cluster) p)
      (wrapErr (newMasterTimeout p) (poll 120 (masterChanged cluster p)))) (Val None) u2"
    by (auto split: sum.splits list.splits)
  from iffD1 [OF beh_err_steps(2) this] obtain v1 v2 where v: "u2 = v1 @ v2" "beh (poll 120 (masterChanged cluster p)) (Val None) v2"
    using wrapped by blast
  from poll_None [OF v(2)] obtain w1 w2 where "v2 = w1 @ w2" "beh (masterChanged cluster p) (Val (Inr True)) w2" by blast
  with master_changed u v(1) show ?thesis by (fastforce simp: other_master_def)
qed

lemma switched:
  assumes "beh (switchoverIfMaster cluster p) (Val None) u"
  shows "other_master cluster p u"
proof -
  obtain u1 u2 res where u: "u = u1 @ u2" and list: "beh (GetPodsByLabel (cl_PatroniMasterSelectors cluster)) (Val res) u1"
    and rest: "beh (case res of Inl e \<Rightarrow> Ret (Some e)
     | Inr [m] \<Rightarrow> if pod_Name m \<noteq> p then Ret None else switchover cluster (pod_Name m)
     | Inr masters \<Rightarrow> Ret (Some (wrongMasters masters))) (Val None) u2"
    by (rule beh_pbindE [OF assms [unfolded switchoverIfMaster_def]])
  from rest obtain m where m: "res = Inr [m]" and "beh (if pod_Name m \<noteq> p then Ret None else switchover cluster (pod_Name m)) (Val None) u2"
    by (cases res rule: sum.exhaust) (auto split: list.splits)
  with switchover_done [of cluster p] pods_listed [OF list [unfolded m]] u show ?thesis
    by (fastforce simp: other_master_def split: if_splits)
qed

lemma switch_no_workload: "emits (all_calls no_workload) (switchoverIfMaster cluster p)"
proof -
  have "emits (all_calls no_workload) (Switchover url l)" for url l
    unfolding Switchover_def by (auto intro!: kube_rules)
  moreover have "emits (all_calls no_workload) (masterChanged cluster q)" for q
    unfolding masterChanged_def by (auto intro!: kube_rules list_no_workload)
  ultimately show ?thesis
    unfolding switchoverIfMaster_def switchover_def wrapErr_def
    by (auto intro!: kube_rules list_no_workload split: sum.split list.split)
qed


text \<open>A claim that grows, a cluster whose master is the second node, and a server that refuses to scale.\<close>

definition growing_claim :: pvc where
  "growing_claim = \<lparr>pvc_Name = ''c-data-1'', pvc_Annotations = None, pvc_Owners = [], pvc_Requests = Some (Some 8),
     pvc_Capacity = Some 5, pvc_Conditions = [''Resizing'']\<rparr>"

definition sample_cluster :: cluster_settings where
  "sample_cluster = GetPatroniClusterSettings ''ns'' ''c''"

definition roll_env :: patroni_env where
  "roll_env = \<lparr>pe_Upgrade = \<lparr>ue_Ticks = 0, ue_Initdb = (\<lambda>_. Inr (Some [])), ue_ParseQuantity = (\<lambda>_. Inr 8),
       ue_NewPatroniStatefulset = (\<lambda>_ idx _. empty_workload\<lparr>wl_Name := ''pg-c-node'' @ itoa idx, wl_Labels := Some []\<rparr>)\<rparr>,
     pe_Yaml = \<lparr>Unmarshal = (\<lambda>_. (None, None)), Marshal = (\<lambda>_. '''')\<rparr>, pe_File = (\<lambda>_. ''''), pe_PgBackRestConf = (\<lambda>_. ''''),
     pe_Schedules = []\<rparr>"

definition node_pod :: "string \<Rightarrow> pod" where
  "node_pod name = \<lparr>pod_Name = name @ ''-0'', pod_Phase = ''Running'', pod_Containers = [name], pod_ExitCodes = []\<rparr>"

fun volume_server :: "k_trace \<Rightarrow> k_call \<Rightarrow> k_resp" where
  "volume_server _ (KObj (GetPvc _)) = KObjResp (OPvc growing_claim)"
| "volume_server _ (KObj (ListPods _ _)) = KObjResp (OPods [node_pod ''pg-c-node2''])"
| "volume_server _ (KObj (GetWorkload _ _)) = KObjResp (OWorkload empty_workload)"
| "volume_server _ (KObj (UpdateWorkload _ _)) = KErr ''no''"
| "volume_server _ _ = KOk"

lemmas claim_simps = CreateOrResizePvc_def preparePvcCustomAnnotations_def getCustomAnnotationKeys_def pairs_def
  getPvc_def resizeFound_def checkPvcChangedByJobAnnotation_def requested_def pvcStorageSize_def Let_def deref_def
  finishResize_def reconcilePvcCustomAnnotations_def reconcileAnnotations_def previousCustomAnnotations_def
  setTracking_def drop_empty_def k_do_def zero_qty_def

lemma sample_name: "statefulSetName sample_cluster 1 = ''pg-c-node1''"
  by code_simp

lemmas six_restarts = restartUntilResized.simps(2) [of 5, simplified] RetryOnConflict.simps(2) [of 3, simplified]

lemma volume_run:
  "(KObj (UpdateWorkload stset (empty_workload\<lparr>wl_Replicas := Some 0\<rparr>)), KErr ''no'') \<in>
     set (snd (run volume_server (processPatroniPvcResize roll_env sample_cluster [growing_claim] 1) []))"
  by (simp add: processPatroniPvcResize_def growing_claim_def roll_env_def claim_simps WaitForPvcResizeState.simps [of 120]
      resizing_conditions_def switchoverIfMaster_def GetPodsByLabel_def listPods_def node_pod_def
      sample_name [simplified] RestartPatroniPodWithWait_def
      ScaleStatefulSet_def getWorkload_def trim_suffix_def IsConflict_def has_prefix_def
      six_restarts)


subsection \<open>The version of the locale\<close>

fun no_cm_write :: "k_call \<Rightarrow> bool" where
  "no_cm_write (KObj (UpdateCM _)) = False"
| "no_cm_write (KObj (CreateCM _)) = False"
| "no_cm_write _ = True"

abbreviation keeps_cms :: "'a kube \<Rightarrow> bool" where
  "keeps_cms m \<equiv> emits (all_calls no_cm_write) m"

lemma pods_keep: "keeps_cms (GetPodsByLabel ls)"
  unfolding GetPodsByLabel_def listPods_def by (auto intro!: kube_rules)

lemma version_keeps: "keeps_cms (versionOfPod cmd rm podName)"
  unfolding versionOfPod_def ExecCmdOnPatroniPod_def ExecCmdOnPod_def by (auto intro!: kube_rules)

lemma exec_db_keeps: "keeps_cms (ExecuteForDB h db q)"
  unfolding ExecuteForDB_def by (auto intro!: kube_rules)

lemma find_keeps: "keeps_cms (findBrokenIndexes h db)"
  unfolding findBrokenIndexes_def queryDB_def by (auto intro!: kube_rules)

lemma indexes_keep: "keeps_cms (fixIndexes h db names)"
  by (induction names) (auto intro!: kube_rules exec_db_keeps)

lemma repair_keeps: "keeps_cms (fixCollationVersionForDB h v db)"
  unfolding fixCollationVersionForDB_def wrapErr_def repairDB_def fixBrokenIndexes_def refreshDependCollationsVersion_def
    getCollationsForRefresh_def queryDB_def pgc_Execute_def
  by (auto intro!: kube_rules exec_db_keeps find_keeps indexes_keep)

lemma fix_databases_keep: "keeps_cms (fixDatabases schedules h v dbs)"
  unfolding fixDatabases_def Let_def
  by (auto intro!: kube_rules emits_run_batches repair_keeps simp: concat_chunks [of 10, simplified] set_concat [symmetric] simp del: set_concat)

lemma list_databases_keeps: "keeps_cms (GetFilteredDatabaseslist h c)"
  unfolding GetFilteredDatabaseslist_def by (auto intro!: kube_rules)

lemma recovery_keeps: "keeps_cms (WaitUntilRecoveryIsDone h)"
  unfolding WaitUntilRecoveryIsDone_def IsPostgresInRecovery_def by (auto intro!: kube_rules)

text \<open>A statement was executed; the indexes of a database were built again and none is left that is broken.\<close>

definition psql_run :: "string \<Rightarrow> string \<Rightarrow> string \<Rightarrow> k_trace \<Rightarrow> bool" where
  "psql_run h db q u \<longleftrightarrow> (\<exists>r. (KObj (PgDbExec h db q), r) \<in> set u \<and> k_error r = None)"

definition repaired :: "string \<Rightarrow> string \<Rightarrow> k_trace \<Rightarrow> bool" where
  "repaired h db u \<longleftrightarrow> psql_run h db (reindexDatabase db) u \<and> psql_run h db (reindexSystem db) u
     \<and> (KObj (PgDbQuery h db brokenIndexQuery), KRows []) \<in> set u"

lemma repaired_mono: "repaired h db u \<Longrightarrow> set u \<subseteq> set v \<Longrightarrow> repaired h db v"
  by (auto simp: repaired_def psql_run_def)

lemma execute_done:
  assumes "beh (ExecuteForDB h db q) (Val None) u"
  shows "psql_run h db q u"
  using iffD1 [OF beh_err_steps(2), OF assms [unfolded ExecuteForDB_def]] k_do_done
  by (fastforce simp: psql_run_def)

lemma no_index_names: "indexNames rows = Inr [] \<Longrightarrow> rows = []"
  by (cases rows rule: indexNames.cases) (auto split: sum.splits)

lemma none_broken:
  assumes "beh (findBrokenIndexes h db) (Val (Inr [])) u"
  shows "(KObj (PgDbQuery h db brokenIndexQuery), KRows []) \<in> set u"
proof -
  have "spec (findBrokenIndexes h db) (\<lambda>out u. out = Val (Inr []) \<longrightarrow> (KObj (PgDbQuery h db brokenIndexQuery), KRows []) \<in> set u)"
    by (auto simp: findBrokenIndexes_def queryDB_def k_do_def spec_simps dest: no_index_names split: option.split k_resp.split)
  from specD [OF this assms] show ?thesis by simp
qed

lemma broken_fixed:
  assumes "beh (fixBrokenIndexes h db names) (Val None) u"
  shows "(KObj (PgDbQuery h db brokenIndexQuery), KRows []) \<in> set u"
proof -
  obtain u1 u2 fixed where u: "u = u1 @ u2" and "beh (fixIndexes h db names) (Val fixed) u1"
    and rest: "beh (if fixed then pbind (findBrokenIndexes h db) (\<lambda>res. Ret (case res of
         Inl e \<Rightarrow> Some e
       | Inr remainingIndexes \<Rightarrow>
           if remainingIndexes \<noteq> [] then Some (''broken indexes still present in db: '' @ db) else None))
     else Ret (Some (''Broken indexes not fixed for db: '' @ db))) (Val None) u2"
    by (rule beh_pbindE [OF assms [unfolded fixBrokenIndexes_def]])
  from rest have "beh (findBrokenIndexes h db) (Val (Inr [])) u2"
    by (auto elim!: beh_pbindE split: if_splits sum.splits)
  with none_broken u show ?thesis by auto
qed

lemma repair_done:
  assumes "beh (repairDB h v db) (Val None) u"
  shows "repaired h db u"
proof -
  from iffD1 [OF beh_err_steps(2), OF assms [unfolded repairDB_def]] obtain u1 u2 where u: "u = u1 @ u2"
    and one: "beh (ExecuteForDB h db (reindexDatabase db)) (Val None) u1"
    and r2: "beh (andThen (ExecuteForDB h db (reindexSystem db))
     (pbind (findBrokenIndexes h db) (\<lambda>res. case res of
        Inl e \<Rightarrow> Ret (Some e)
      | Inr brokenIndNames \<Rightarrow>
          andThen (if brokenIndNames \<noteq> [] then fixBrokenIndexes h db brokenIndNames else Ret None)
         (andThen (if 15 \<le> v then pgc_Execute h (refreshDatabase db) else Ret None)
           (refreshDependCollationsVersion h db))))) (Val None) u2" by blast
  from iffD1 [OF beh_err_steps(2), OF r2] obtain u3 u4 where u2: "u2 = u3 @ u4"
    and two: "beh (ExecuteForDB h db (reindexSystem db)) (Val None) u3"
    and r4: "beh (pbind (findBrokenIndexes h db) (\<lambda>res. case res of
        Inl e \<Rightarrow> Ret (Some e)
      | Inr brokenIndNames \<Rightarrow>
          andThen (if brokenIndNames \<noteq> [] then fixBrokenIndexes h db brokenIndNames else Ret None)
         (andThen (if 15 \<le> v then pgc_Execute h (refreshDatabase db) else Ret None)
           (refreshDependCollationsVersion h db)))) (Val None) u4" by blast
  obtain u5 u6 res where u4: "u4 = u5 @ u6" and find: "beh (findBrokenIndexes h db) (Val res) u5"
    and r6: "beh (case res of
        Inl e \<Rightarrow> Ret (Some e)
      | Inr brokenIndNames \<Rightarrow>
          andThen (if brokenIndNames \<noteq> [] then fixBrokenIndexes h db brokenIndNames else Ret None)
         (andThen (if 15 \<le> v then pgc_Execute h (refreshDatabase db) else Ret None)
           (refreshDependCollationsVersion h db))) (Val None) u6"
    by (rule beh_pbindE [OF r4])
  from r6 obtain names where names: "res = Inr names" by (cases res) auto
  from iffD1 [OF beh_err_steps(2), OF r6 [unfolded names sum.case]] obtain u7 u8 where u6: "u6 = u7 @ u8"
    and "beh (if names \<noteq> [] then fixBrokenIndexes h db names else Ret None) (Val None) u7" by blast
  then have "(KObj (PgDbQuery h db brokenIndexQuery), KRows []) \<in> set u5 \<union> set u7"
    using broken_fixed none_broken find names by (cases "names = []") auto
  with execute_done [OF one] execute_done [OF two] u u2 u4 u6 show ?thesis
    by (auto simp: repaired_def psql_run_def)
qed

lemma no_errors: "List.map_filter id results = [] \<Longrightarrow> \<forall>x \<in> set results. x = None"
  by (induction results) (auto simp: List.map_filter_simps split: option.splits)

lemma databases_done:
  assumes "beh (fixDatabases schedules h v dbs) (Val None) u" and "db \<in> set dbs"
  shows "repaired h db u"
proof -
  let ?fix = "fixCollationVersionForDB h v"
  obtain u1 u2 results where u: "u = u1 @ u2"
    and run: "beh (run_batches schedules (chunks 10 (map ?fix dbs))) (Val results) u1"
    and res: "beh (let errors = List.map_filter id results in
     Ret (if errors \<noteq> []
       then Some (''encountered '' @ itoa (int (length errors)) @ '' errors during collation version fix'') else None)) (Val None) u2"
    by (rule beh_pbindE [OF assms(1) [unfolded fixDatabases_def]])
  have "List.map_filter id results = []"
  proof (rule ccontr)
    assume "List.map_filter id results \<noteq> []"
    with res show False by (simp only: Let_def if_True not_False_eq_True beh.simps outcome.inject option.distinct simp_thms)
  qed
  then have ok: "\<forall>x \<in> set results. x = None" by (rule no_errors)
  have "?fix db \<in> set (concat (chunks 10 (map ?fix dbs)))"
    using assms(2) by (simp add: concat_chunks [of 10, simplified] del: set_concat)
  from beh_run_batches [OF run this] obtain x t where t: "x \<in> set results" "beh (?fix db) (Val x) t" "subseq t u1"
    by (elim exE conjE)
  with ok have "beh (?fix db) (Val None) t" by metis
  from wrapped [OF this [unfolded fixCollationVersionForDB_def]] have "repaired h db t" by (rule repair_done)
  then show ?thesis
    by (rule repaired_mono) (use t(3) u in \<open>auto elim: list_emb_set\<close>)
qed

lemma databases_listed:
  "spec (GetFilteredDatabaseslist h c) (\<lambda>out u. \<forall>dbs. out = Val (Inr dbs) \<longrightarrow>
     (\<exists>q rows. (KPgQuery h q, KRows rows) \<in> set u \<and> oneColumn rows = Inr dbs))"
  by (auto simp: GetFilteredDatabaseslist_def k_do_def spec_simps split: option.split k_resp.split)

text \<open>The server listed databases, and each of them was repaired.\<close>

definition all_repaired :: "string \<Rightarrow> k_trace \<Rightarrow> bool" where
  "all_repaired h u \<longleftrightarrow> (\<exists>q rows dbs. (KPgQuery h q, KRows rows) \<in> set u \<and> oneColumn rows = Inr dbs \<and> (\<forall>db \<in> set dbs. repaired h db u))"

lemma script_done:
  assumes "beh (runLocaleFixScript schedules h v l forced) (Val None) u"
  shows "all_repaired h u"
proof -
  let ?list = "if forced then GetAllDatabases h else GetDatabasesForLocaleUpdate h l"
  from iffD1 [OF beh_err_steps(2), OF assms [unfolded runLocaleFixScript_def]] obtain u1 u2 where u: "u = u1 @ u2"
    and r2: "beh (pbind ?list (\<lambda>res. case res of Inl e \<Rightarrow> Ret (Some e)
      | Inr databaseList \<Rightarrow> fixDatabases schedules h v databaseList)) (Val None) u2" by blast
  obtain u3 u4 res where u2: "u2 = u3 @ u4" and list: "beh ?list (Val res) u3"
    and r4: "beh (case res of Inl e \<Rightarrow> Ret (Some e) | Inr databaseList \<Rightarrow> fixDatabases schedules h v databaseList) (Val None) u4"
    by (rule beh_pbindE [OF r2])
  from r4 obtain dbs where dbs: "res = Inr dbs" by (cases res) auto
  from list dbs have "\<exists>c. beh (GetFilteredDatabaseslist h c) (Val (Inr dbs)) u3"
    by (auto simp: GetAllDatabases_def GetDatabasesForLocaleUpdate_def split: if_splits)
  with specD [OF databases_listed] obtain q rows where "(KPgQuery h q, KRows rows) \<in> set u3" "oneColumn rows = Inr dbs" by blast
  moreover have "repaired h db u" if "db \<in> set dbs" for db
  proof (rule repaired_mono)
    show "repaired h db u4" using databases_done [of schedules h v dbs u4 db] r4 dbs that by simp
  qed (use u u2 in auto)
  ultimately show ?thesis using u u2 by (auto simp: all_repaired_def)
qed

lemma script_keeps: "keeps_cms (runLocaleFixScript schedules h v l forced)"
  unfolding runLocaleFixScript_def GetAllDatabases_def GetDatabasesForLocaleUpdate_def
  by (auto intro!: kube_rules recovery_keeps list_databases_keeps fix_databases_keep)

lemma primary_order:
  assumes "beh (localeOfPrimary schedules rm cluster forced old new podName) out u" and "(c, r) \<in> set u" and "\<not> no_cm_write c"
  shows "\<exists>v w. u = v @ w \<and> all_calls no_cm_write v \<and> (c, r) \<in> set w \<and> all_repaired (cl_PgHost cluster) v"
proof -
  have version: "keeps_cms (GetPGVersionFromPod rm podName)"
    unfolding GetPGVersionFromPod_def by (rule version_keeps)
  obtain u1 u2 ver where u1: "u = u1 @ u2" "all_calls no_cm_write u1" "(c, r) \<in> set u2"
    and r2: "beh (if \<not> snd (atoi ver) then Ret (Some ''invalid syntax'')
      else if old \<noteq> new \<or> forced then
       andThen (runLocaleFixScript schedules (cl_PgHost cluster) (fst (atoi ver)) new forced)
         (pbind (StoreDataToCM rm ''locale-version'' new) (\<lambda>_. Ret None))
      else Ret None) out u2"
    by (rule beh_past [OF assms(1) [unfolded localeOfPrimary_def] assms(2) version assms(3)])
  then have "beh (andThen (runLocaleFixScript schedules (cl_PgHost cluster) (fst (atoi ver)) new forced)
         (pbind (StoreDataToCM rm ''locale-version'' new) (\<lambda>_. Ret None))) out u2"
    by (auto split: if_splits)
  from this u1(3) script_keeps assms(3) obtain u3 u4 where
    "u2 = u3 @ u4" "beh (runLocaleFixScript schedules (cl_PgHost cluster) (fst (atoi ver)) new forced) (Val None) u3"
    "all_calls no_cm_write u3" "(c, r) \<in> set u4"
    by (rule beh_skip_err)
  with script_done u1 show ?thesis
    by (intro exI [of _ "u1 @ u3"] exI [of _ u4]) (fastforce simp: all_repaired_def repaired_def psql_run_def)
qed


text \<open>A cluster with one database, whose locale is new.\<close>

fun locale_server :: "k_trace \<Rightarrow> k_call \<Rightarrow> k_resp" where
  "locale_server _ (KObj (ListPods _ _)) = KObjResp (OPods [node_pod ''pg-c-node1''])"
| "locale_server _ (KObj (ExecPod _ _ _ _)) = KObjResp (OText ''15'')"
| "locale_server _ (KObj (GetCM _)) = KNotFound ''no''"
| "locale_server _ (KObj (ListWorkloads _)) = KObjResp (OWorkloads [])"
| "locale_server _ (KPgQuery _ q) = KRows (if q = ''select pg_is_in_recovery();'' then [] else [KText [Some ''app'']])"
| "locale_server _ (KObj (PgDbQuery _ _ _)) = KRows []"
| "locale_server _ _ = KOk"

definition locale_core :: patroni_core where
  "locale_core = empty_core\<lparr>pc_Patroni := Some empty_patroni\<rparr>"

definition locale_rm :: resource_manager where
  "locale_rm = \<lparr>rm_Name = '''', rm_UID = '''', rm_Kind = '''', rm_Operator = '''', rm_Cluster = None\<rparr>"

definition locale_run :: "err option outcome \<times> k_trace" where
  "locale_run = run locale_server (performLocaleUpgrade [[0, 0]] locale_rm sample_cluster locale_core ''14'') []"

lemma atoi_15: "atoi ''15'' = (15, True)" "trim_space ''15'' = ''15''"
  by code_simp+

lemma locale_written: "list_ex (\<lambda>(c, r). \<not> no_cm_write c) (snd locale_run)"
  unfolding locale_run_def performLocaleUpgrade_def localeOfPrimary_def runLocaleFixScript_def fixDatabases_def
    GetLocaleVersionFromPod_def GetPGVersionFromPod_def versionOfPod_def ExecCmdOnPatroniPod_def ExecCmdOnPod_def
    GetPodsByLabel_def listPods_def WaitUntilRecoveryIsDone_def IsPostgresInRecovery_def GetDatabasesForLocaleUpdate_def
    GetFilteredDatabaseslist_def
  by (simp add: atoi_15 IsStandbyClusterConfigurationExist_def locale_core_def deref_def poll_unfold(2) [of 119, simplified]
      fixCollationVersionForDB_def wrapErr_def repairDB_def ExecuteForDB_def findBrokenIndexes_def queryDB_def pgc_Execute_def
      refreshDependCollationsVersion_def getCollationsForRefresh_def databaseQuery_def k_do_def List.map_filter_simps
      StoreDataToCM_def CreateOrUpdateConfigMap_def createOrUpdateConfigMap_def createCM_def getCM_def Let_def
      getLabels_def commonLabels_def GetChartVersion_def GetDeploymentSessionId_def operatorLabel_def
      getOperatorLabels_def GetDeploymentsByNameRegExp_def listWorkloads_def namedLike_def)


subsection \<open>The order of the update\<close>

text \<open>The work on a node starts with the question for the deployment it had in former releases.\<close>

definition unasked :: "string \<Rightarrow> k_call \<Rightarrow> bool" where
  "unasked name c \<longleftrightarrow> c \<noteq> KObj (GetWorkload depl name)"

lemma unasked_simps [simp]:
  "\<not> unasked n (KObj (GetWorkload depl n))" "unasked n (KObj (GetWorkload stset m))" "unasked n (KObj (GetPvc p))"
  "unasked n (KObj (CreatePvc q))" "unasked n (KObj (UpdatePvc q))" "unasked n (KObj (ListPods ls b))" "unasked n (KObj (GetPod p))"
  "unasked n (KObj (PostSwitchover url l))" "unasked n (KObj (UpdateWorkload k w))" "unasked n (KObj (CreateWorkload k w))"
  "unasked n (KObj (DeleteWorkload k m))" "unasked n (KObj (ListWorkloads k))" "unasked n (KObj (Step s))" "unasked n KTick"
  "unasked n (KSleep i)" "unasked n (KGetCluster url)" "unasked n (KPgClient h)" "unasked n (KPgConnect h)" "unasked n (KPgQuery h sql)"
  "m \<noteq> n \<Longrightarrow> unasked n (KObj (GetWorkload k m))"
  by (simp_all add: unasked_def depl_def stset_def)

lemma unasked_labels: "emits (all_calls (unasked n)) (getLabels rm name ls)"
  unfolding getLabels_def commonLabels_def GetChartVersion_def GetDeploymentSessionId_def operatorLabel_def
    getOperatorLabels_def GetDeploymentsByNameRegExp_def listWorkloads_def Let_def
  by (auto intro!: kube_rules)

lemma retry_unasked:
  assumes "emits (all_calls (unasked n)) m"
  shows "emits (all_calls (unasked n)) (RetryOnConflict k m)"
proof (induction k)
  case 0
  show ?case using assms by (simp add: RetryOnConflict.simps)
next
  case (Suc k)
  then show ?case using assms by (auto simp: RetryOnConflict.simps intro!: kube_rules)
qed

lemma unasked_restart: "emits (all_calls (unasked n)) (RestartPatroniPodWithWait p d)"
  unfolding RestartPatroniPodWithWait_def ScaleStatefulSet_def getWorkload_def WaitDeletePod_def checkDeletePod_def getPod_def Let_def
  by (auto intro!: kube_rules retry_unasked)

lemma unasked_resize: "emits (all_calls (unasked n)) (CreateOrResizePvc PQ p)"
  unfolding CreateOrResizePvc_def getPvc_def resizeFound_def finishResize_def Let_def
  by (auto intro!: kube_rules split: sum.split k_resp.split prod.split)

lemma unasked_grow: "emits (all_calls (unasked n)) (growClaims env pvcs)"
  by (induction pvcs) (auto intro!: kube_rules unasked_resize)

lemma unasked_state: "emits (all_calls (unasked n)) (WaitForPvcResizeState k p q)"
proof (induction k)
  case 0
  show ?case
    by (subst WaitForPvcResizeState.simps) (auto intro!: kube_rules simp: getPvc_def split: sum.split)
next
  case (Suc k)
  then show ?case
    by (subst WaitForPvcResizeState.simps) (auto intro!: kube_rules simp: getPvc_def split: sum.split)
qed

lemma unasked_needed: "emits (all_calls (unasked n)) (restartNeeded pvcs)"
  by (induction pvcs) (auto intro!: kube_rules unasked_state split: prod.split)

lemma unasked_all: "emits (all_calls (unasked n)) (allResized pvcs)"
  by (induction pvcs) (auto intro!: kube_rules simp: WaitForPvcCapacity_def pvcCapacityReached_def getPvc_def split: sum.split)

lemma unasked_until: "emits (all_calls (unasked n)) (restartUntilResized k a p pvcs)"
  by (induction k arbitrary: a) (auto intro!: kube_rules unasked_restart unasked_all split: bool.split)

lemma unasked_pods: "emits (all_calls (unasked n)) (GetPodsByLabel ls)"
  unfolding GetPodsByLabel_def listPods_def by (auto intro!: kube_rules)

lemma unasked_switch: "emits (all_calls (unasked n)) (switchoverIfMaster cluster p)"
proof -
  have "emits (all_calls (unasked n)) (Switchover url l)" for url l
    unfolding Switchover_def by (auto intro!: kube_rules)
  moreover have "emits (all_calls (unasked n)) (masterChanged cluster q)" for q
    unfolding masterChanged_def by (auto intro!: kube_rules unasked_pods)
  ultimately show ?thesis
    unfolding switchoverIfMaster_def switchover_def wrapErr_def
    by (auto intro!: kube_rules unasked_pods split: sum.split list.split)
qed

lemma unasked_volumes: "emits (all_calls (unasked n)) (processPatroniPvcResize env cluster pvcs idx)"
  unfolding processPatroniPvcResize_def Let_def
  by (auto intro!: kube_rules unasked_grow unasked_needed unasked_switch unasked_until split: bool.split)

lemma unasked_new_pvc: "emits (all_calls (unasked n)) (NewPvc PQ name st idx)"
  unfolding NewPvc_def mustParse_def checkSelector_def checkVolume_def Let_def
  by (auto intro!: kube_rules)

lemma unasked_stateful: "emits (all_calls (unasked n)) (CreateOrUpdateStatefulset t rm w b)"
  unfolding CreateOrUpdateStatefulset_def FindStatefulSet_def FindWorkload_def WaitForStabilityStatefulSet_def statefulSetStatus_def
    getLabelsForDeployment_def getWorkload_def Let_def
  by (auto intro!: kube_rules unasked_labels split: prod.split sum.split option.split)

lemma digits_no_sign: "nat_str k \<noteq> CHR 0x2D # s"
  using nat_str_digits [of k] by (auto simp: is_digit_def)

lemma nat_str_inj: "nat_str a = nat_str b \<Longrightarrow> a = b"
  using nat_str_digits [of a] nat_str_digits [of b] by metis

lemma itoa_inj: "itoa i = itoa j \<longleftrightarrow> i = j"
  using digits_no_sign [of "nat j" "nat_str (nat (- i))"] digits_no_sign [of "nat i" "nat_str (nat (- j))"]
  by (auto simp: itoa_def dest!: nat_str_inj split: if_splits)

lemma unasked_node:
  assumes "j \<noteq> i"
  shows "emits (all_calls (unasked (statefulSetName cluster i))) (processPatroniStatefulset env rm cluster cr j)"
proof -
  have "statefulSetName cluster j \<noteq> statefulSetName cluster i" using assms by (simp add: statefulSetName_def itoa_inj)
  then have "emits (all_calls (unasked (statefulSetName cluster i))) (rm_DeleteDeployment (statefulSetName cluster j))"
    unfolding rm_DeleteDeployment_def WaitTillDeploymentDeleted_def deploymentGone_def FindWorkload_def
    by (auto intro!: kube_rules split: prod.split k_resp.split)
  moreover have "emits (all_calls (unasked n)) (patroniPvcs env ps j)" for n ps
    unfolding patroniPvcs_def Let_def by (auto intro!: kube_rules unasked_new_pvc)
  moreover have "emits (all_calls (unasked n)) (pgBackRestPvc env cr)" for n
    unfolding pgBackRestPvc_def CreatePvcIfNotExists_def getPvc_def Let_def
    by (auto intro!: kube_rules unasked_new_pvc split: sum.split k_resp.split)
  moreover have "emits (all_calls (unasked n)) (stepErr s)" for n s
    unfolding stepErr_def by (auto intro!: kube_rules)
  ultimately show ?thesis
    unfolding processPatroniStatefulset_def by (auto intro!: kube_rules unasked_volumes unasked_stateful)
qed

lemma for_err_done:
  "beh (for_err xs f) (Val None) u \<Longrightarrow> x \<in> set xs \<Longrightarrow> \<exists>t. beh (f x) (Val None) t \<and> subseq t u"
proof (induction xs arbitrary: u)
  case (Cons y ys)
  from iffD1 [OF beh_err_steps(2), OF Cons.prems(1) [unfolded for_err.simps]] obtain u1 u2 where
    u: "u = u1 @ u2" "beh (f y) (Val None) u1" "beh (for_err ys f) (Val None) u2" by blast
  show ?case
  proof (cases "x = y")
    case True
    with u show ?thesis by (auto intro: list_emb_append_mono [of _ _ _ "[]", simplified])
  next
    case False
    with Cons.prems(2) Cons.IH [OF u(3)] u(1) show ?thesis by (auto intro: list_emb_append2)
  qed
qed simp

text \<open>Patroni's answer shows a leader and as many running members as there were stateful sets.\<close>

definition seen_healthy :: "string \<Rightarrow> int \<Rightarrow> k_trace \<Rightarrow> bool" where
  "seen_healthy url n u \<longleftrightarrow> (\<exists>ms. (KGetCluster url, KCluster 200 (Some ms)) \<in> set u \<and> IsPatroniClusterHealthyDuringUpdate ms n)"

lemma healthy_seen:
  assumes "beh (healthyDuringUpdate cluster n) (Val None) u"
  shows "seen_healthy (cl_PatroniUrl cluster) n u"
proof -
  from poll_None [OF assms [unfolded healthyDuringUpdate_def IsHealthyWithTimeoutDuringUpdate_def]] obtain u1 u2 where
    u: "u = u1 @ u2" and h: "beh (pbind (IsHealthyDuringUpdate (cl_PatroniUrl cluster) (cl_PgHost cluster) n) (\<lambda>h. Ret (Inr h :: err + bool)))
      (Val (Inr True)) u2" by (elim exE conjE)
  have "spec (GetPatroniClusterConfig (cl_PatroniUrl cluster)) (\<lambda>out v. \<forall>ms. out = Val (Inr ms) \<longrightarrow> ms \<noteq> [] \<longrightarrow>
      (KGetCluster (cl_PatroniUrl cluster), KCluster 200 (Some ms)) \<in> set v)"
    by (auto simp: GetPatroniClusterConfig_def spec_simps split: k_resp.split option.split)
  note answer = specD [OF this]
  from h have "beh (IsHealthyDuringUpdate (cl_PatroniUrl cluster) (cl_PgHost cluster) n) (Val True) u2"
    by (auto elim!: beh_pbindE)
  then obtain res v1 v2 where v: "u2 = v1 @ v2" "beh (GetPatroniClusterConfig (cl_PatroniUrl cluster)) (Val res) v1"
    and rest: "beh (case res of Inl _ \<Rightarrow> Ret False
   | Inr config \<Rightarrow>
       pbind (IsPatroniClusterDegradedDuringUpdate config (cl_PgHost cluster) n) (\<lambda>isDegraded.
       Ret (IsPatroniClusterHealthyDuringUpdate config n \<and> \<not> isDegraded))) (Val True) v2"
    unfolding IsHealthyDuringUpdate_def by (rule beh_pbindE)
  then obtain ms where ms: "res = Inr ms" "IsPatroniClusterHealthyDuringUpdate ms n"
    by (cases res) (auto elim!: beh_pbindE)
  then have "ms \<noteq> []" by (auto simp: IsPatroniClusterHealthyDuringUpdate_def)
  with answer [OF v(2)] ms u v(1) show ?thesis by (fastforce simp: seen_healthy_def)
qed

lemma health_unasked: "emits (all_calls (unasked n)) (healthyDuringUpdate cluster k)"
  unfolding healthyDuringUpdate_def IsHealthyWithTimeoutDuringUpdate_def IsHealthyDuringUpdate_def
    IsPatroniClusterDegradedDuringUpdate_def isExpectedReplicationCount_def
  by (auto intro!: kube_rules)


text \<open>Two nodes; the claim of the master's volume cannot be made.\<close>

fun rolling_server :: "k_trace \<Rightarrow> k_call \<Rightarrow> k_resp" where
  "rolling_server _ (KObj (GetWorkload kind _)) = (if kind = depl then KNotFound ''no''
     else KObjResp (OWorkload (empty_workload\<lparr>wl_Generation := 1, wl_ObservedGeneration := 1\<rparr>)))"
| "rolling_server _ (KObj (GetPvc _)) = KNotFound ''no''"
| "rolling_server _ (KObj (CreatePvc p)) = (if pvc_Name p = ''patroni-data-1'' then KErr ''no'' else KOk)"
| "rolling_server _ (KGetCluster _) = KCluster 200 (Some [\<lparr>mb_Role = ''leader'', mb_State = ''running''\<rparr>,
     \<lparr>mb_Role = ''replica'', mb_State = ''streaming''\<rparr>])"
| "rolling_server _ (KPgQuery _ _) = KRows [KText [Some ''42'']]"
| "rolling_server _ _ = KOk"

definition rolling_core :: patroni_core where
  "rolling_core = empty_core\<lparr>pc_Patroni := Some (empty_patroni\<lparr>Replicas := 2, PatroniStorage :=
     Some \<lparr>st_Type = ''provisioned'', st_Size = ''1Gi'', st_Annotations = None, st_Selectors = [], st_Volumes = []\<rparr>\<rparr>)\<rparr>"

definition rolling_trace :: k_trace where
  "rolling_trace = snd (run rolling_server (rollNodes roll_env locale_rm sample_cluster rolling_core 2
     (node_pod ''pg-c-node1'') [node_pod ''pg-c-node2'']) [])"

lemma node_names: "statefulSetName sample_cluster 2 = ''pg-c-node2''" "itoa 1 = ''1''" "itoa 2 = ''2''"
  by code_simp+

lemma node_indexes: "nodeIndex (node_pod ''pg-c-node1'') = Ret 1" "nodeIndex (node_pod ''pg-c-node2'') = Ret 2"
  by (simp_all add: nodeIndex_def containerName_def firstOf_def lastChar_def node_pod_def) (code_simp+)

lemma rolling_master: "(KObj (GetWorkload depl (statefulSetName sample_cluster 1)), KNotFound ''no'') \<in> set rolling_trace"
  unfolding rolling_trace_def rollNodes_def updateNode_def processPatroniStatefulset_def
  by (simp add: node_indexes sample_name [simplified] node_names [simplified] rm_DeleteDeployment_def FindWorkload_def k_do_def
      rolling_core_def empty_core_def deref_def patroniPvcs_def NewPvc_def mustParse_def roll_env_def GetPatroniClusterName_def Let_def
      pgBackRestPvc_def processPatroniPvcResize_def CreateOrResizePvc_def preparePvcCustomAnnotations_def
      getCustomAnnotationKeys_def pairs_def getPvc_def empty_pvc_def drop_empty_def stepErr_def
      CreateOrUpdateStatefulset_def FindStatefulSet_def notFound_def workload_spec_def empty_workload_def
      WaitForStabilityStatefulSet_def poll_unfold(1) getWorkload_def statefulSetStatus_def rolloutStatus_def
      GetDeploymentCondition_def depl_def stset_def healthyDuringUpdate_def IsHealthyWithTimeoutDuringUpdate_def
      poll_unfold(2) [of 179, simplified] IsHealthyDuringUpdate_def GetPatroniClusterConfig_def
      IsPatroniClusterHealthyDuringUpdate_def IsPatroniClusterDegradedDuringUpdate_def isExpectedReplicationCount_def
      patroniRunningState_def ifExpectedCountOfMembers_def)


subsection \<open>The fuel of the reconciler\<close>

text \<open>
  A run that did not use up its fuel is a run with any larger amount: the fuel only bounds how often a major upgrade
  that is found on the way starts the function again.
\<close>

lemma beh_then:
  assumes "beh (pbind p f) out u" and "\<And>x v. beh (f x) out v \<Longrightarrow> beh (g x) out v"
  shows "beh (pbind p g) out u"
  using assms unfolding beh_pbind by blast

definition one_turn ::
  "(upgrade_spec \<Rightarrow> err option kube) \<Rightarrow> patroni_env \<Rightarrow> resource_manager \<Rightarrow> cluster_settings \<Rightarrow> patroni_core \<Rightarrow> err option kube" where
  "one_turn again env rm cluster cr =
     andThen (prepareCluster env rm cluster cr)
    (pbind (IsStandbyClusterConfigurationExist cr) (\<lambda>standby.
     pbind (deref (pc_Patroni cr)) (\<lambda>patroniSpec.
     pbind (listOrNone (cl_PatroniMasterSelectors cluster)) (\<lambda>res. case res of
       Inl e \<Rightarrow> Ret (Some e)
     | Inr [] \<Rightarrow>
         andThen (installCluster env rm cluster cr patroniSpec standby)
           (configureCluster env rm cluster cr patroniSpec standby)
     | Inr (master # _) \<Rightarrow>
         pbind (servicesAndCheck rm cluster cr patroniSpec) (\<lambda>res. case res of
           Inl e \<Rightarrow> Ret (Some e)
         | Inr True \<Rightarrow> pbind (deref (pc_Upgrade cr)) again
         | Inr False \<Rightarrow>
             andThen (updateCluster env rm cluster cr patroniSpec master)
               (configureCluster env rm cluster cr patroniSpec standby))))))"

lemma one_turn_mono:
  assumes "beh (one_turn again env rm cluster cr) out u" and "\<And>up v. beh (again up) out v \<Longrightarrow> beh (again' up) out v"
  shows "beh (one_turn again' env rm cluster cr) out u"
  using assms(1) unfolding one_turn_def
  by (rule beh_then) (auto elim!: beh_then split: option.splits sum.splits list.splits bool.splits, rule assms(2))

lemma turns:
  "patroni_Reconcile 0 env rm cluster cr = one_turn (\<lambda>_. Panic ''out of fuel'') env rm cluster cr"
  "patroni_Reconcile (Suc n) env rm cluster cr =
     one_turn (\<lambda>up. patroni_Reconcile n env rm cluster (cr\<lparr>pc_Upgrade := Some (up\<lparr>up_Enabled := True\<rparr>)\<rparr>)) env rm cluster cr"
  unfolding one_turn_def by (subst patroni_Reconcile.simps; simp)+

lemma patroni_Reconcile_more_fuel:
  assumes "beh (patroni_Reconcile n env rm cluster cr) out u" and "out \<noteq> Panicked ''out of fuel''"
  shows "beh (patroni_Reconcile (Suc n) env rm cluster cr) out u"
  using assms(1)
proof (induction n arbitrary: cr u)
  case 0
  then show ?case unfolding turns by (rule one_turn_mono) (use assms(2) in simp)
next
  case (Suc n)
  from Suc.prems [unfolded turns(2)] show ?case unfolding turns(2) [of "Suc n"] by (rule one_turn_mono) (rule Suc.IH)
qed

end
