(* ===== verification/Spec2Isabelle.thy ===== *)
theory Spec2Isabelle
  imports Replication_Safety Provision_Outcome Backup_Safety Recovery_Modes Slot_Safety Drop_Safety Metadata_Safety
    Cloud_Safety Volume_Safety Upgrade_Safety Controller_Safety
    Config_Safety Reconciler_Safety
begin

text \<open>
  This is the root of a verification development for pgskipper: a Kubernetes operator for PostgreSQL
  clusters that Patroni manages (\<^verbatim>\<open>src/operator\<close>), with the services it deploys next to them, of which the
  DBaaS adapter (\<^verbatim>\<open>src/services/dbaas-adapter\<close>) and the replication controller
  (\<^verbatim>\<open>src/services/replication-controller\<close>) are modelled.

  \<^bold>\<open>How the program is modelled.\<close>  The Go code spends its time calling a PostgreSQL server, the Kubernetes
  API, Patroni's REST API or a cloud API and reacting to the answers.  A function is a value of
  \<^verbatim>\<open>('c, 'r, 'a) prog\<close> (\<^verbatim>\<open>Go_Prelude\<close>): a tree of the calls it makes, with a continuation for every
  response and leaves for the returned value or a Go panic.  \<^verbatim>\<open>beh m out u\<close> says that \<open>m\<close> can end with \<open>out\<close>
  after the calls and responses of \<open>u\<close>; nothing is assumed about the responses, so a claim about all
  behaviours holds against every server.  \<^verbatim>\<open>run\<close> evaluates a program in a given environment and the two agree
  (\<^verbatim>\<open>beh_iff_run\<close>); \<^verbatim>\<open>spec\<close> is the predicate of all behaviours with its calculus, and the locale
  \<^verbatim>\<open>trace_law\<close> is the interface of trace properties that programs inherit from their parts, interpreted for
  the pools, the mutex and the calls of the models.  Errors are values (\<open>err + 'a\<close> or \<open>err option\<close>), nil
  pointers are \<open>None\<close>, \<open>defer\<close> and \<open>recover\<close> are combinators, and a Go map is an association list that a
  \<open>range\<close> visits in an order of the environment's choice (\<^verbatim>\<open>Go_Stdlib\<close>).  Logging is left out.

  \<^bold>\<open>DBaaS adapter.\<close>
  \<^item> \<^verbatim>\<open>Sql_Helper\<close>: every statement of \<^verbatim>\<open>basic/sql_helper.go\<close> as text; \<^verbatim>\<open>Sql_Quoting\<close>: a reference lexer of
    PostgreSQL's quoting and how the statements are read by it.
  \<^item> \<^verbatim>\<open>Dbaas_Util\<close>, \<^verbatim>\<open>Cluster_Adapter\<close>, \<^verbatim>\<open>Dbaas_Service\<close>: \<^verbatim>\<open>util.go\<close>, \<^verbatim>\<open>cluster.go\<close>, the state and the helpers of
    \<^verbatim>\<open>basic.go\<close>; \<^verbatim>\<open>Dbaas_Metadata\<close>, \<^verbatim>\<open>Dbaas_Grants\<close>, \<^verbatim>\<open>Dbaas_Provision\<close>, \<^verbatim>\<open>Dbaas_Drop\<close>, \<^verbatim>\<open>Dbaas_Settings\<close>: its
    operations and those of \<^verbatim>\<open>basic_roles.go\<close> and \<^verbatim>\<open>handlers.go\<close>; \<^verbatim>\<open>Dbaas_Initial\<close>: the start-up migration;
    \<^verbatim>\<open>Dbaas_Backup\<close>: the client of the backup daemon.
  \<^item> Claims: \<^verbatim>\<open>Dbaas_Resources\<close> (every pool is closed, the mutex is used correctly, on every path),
    \<^verbatim>\<open>Grants_Safety\<close>, \<^verbatim>\<open>Provision_Safety\<close>, \<^verbatim>\<open>Provision_Outcome\<close>, \<^verbatim>\<open>Drop_Safety\<close>, \<^verbatim>\<open>Metadata_Safety\<close>, \<^verbatim>\<open>Backup_Safety\<close>.
    \<^verbatim>\<open>Sample_Server\<close> holds the environments the witnesses run against.

  \<^bold>\<open>Replication controller.\<close>  \<^verbatim>\<open>Replication_Controller\<close> models its client, publications, users and handlers;
  \<^verbatim>\<open>Replication_Safety\<close> says which statements a request leads to and how they are read.

  \<^bold>\<open>Operator.\<close>
  \<^item> \<^verbatim>\<open>Operator_Kube\<close>: the calls to Kubernetes and Patroni and the helpers of \<^verbatim>\<open>pkg/helper\<close>; \<^verbatim>\<open>Wait_Util\<close>: every wait
    of \<^verbatim>\<open>pkg/util/wait_util.go\<close>; \<^verbatim>\<open>Resource_Manager\<close>: \<^verbatim>\<open>resource_management.go\<close> and the commands in pods;
    \<^verbatim>\<open>Kube_Calls\<close>: the rules for the calls of such programs.
  \<^item> \<^verbatim>\<open>Disaster_Recovery\<close> (\<^verbatim>\<open>disasterrecovery/patroni.go\<close>, \<^verbatim>\<open>server.go\<close>) with \<^verbatim>\<open>Recovery_Health\<close> and
    \<^verbatim>\<open>Recovery_Modes\<close>: what a healthy cluster is, that the wait for it ends, and what the reported modes promise.
  \<^item> \<^verbatim>\<open>Cloud_Sql\<close> (\<^verbatim>\<open>disasterrecovery/cloud_sql.go\<close>) with \<^verbatim>\<open>Cloud_Safety\<close>: when an instance is deleted, and what the
    reported status says.
  \<^item> \<^verbatim>\<open>Slot_Scheduler\<close> (\<^verbatim>\<open>pkg/scheduler\<close>) with \<^verbatim>\<open>Slot_Safety\<close>: the ignored replication slots refine a set and keep
    their invariant over any number of cron runs.
  \<^item> \<^verbatim>\<open>Volume_Claims\<close> (the claims in \<^verbatim>\<open>resource_management.go\<close>) with \<^verbatim>\<open>Volume_Safety\<close>: sizes never shrink, and the managed
    annotations of a claim become the desired ones.
  \<^item> \<^verbatim>\<open>Upgrade_Slots\<close>, \<^verbatim>\<open>Upgrade\<close> (\<^verbatim>\<open>pkg/upgrade\<close>) with \<^verbatim>\<open>Upgrade_Safety\<close>: the checks before Patroni is stopped, and the
    read-only databases on the way to the upgrade and back.
  \<^item> \<^verbatim>\<open>Patroni_Config\<close>, \<^verbatim>\<open>Patroni_Template\<close> (\<^verbatim>\<open>pkg/patroni/patroni.go\<close>), \<^verbatim>\<open>Patroni_Services\<close> (\<^verbatim>\<open>reconciler/common.go\<close>,
    \<^verbatim>\<open>util.go\<close>) with \<^verbatim>\<open>Config_Safety\<close>: the parameters and patches of PostgreSQL and Patroni, the edits of the template and
    the services of a cluster: what is read back after an edit, the limits that are written, the names that are made.
  \<^item> \<^verbatim>\<open>Patroni_Volumes\<close>, \<^verbatim>\<open>Go_Concurrency\<close> with \<^verbatim>\<open>Locale_Fix\<close>, \<^verbatim>\<open>Patroni_Steps\<close>, \<^verbatim>\<open>Patroni_Reconciler\<close>
    (\<^verbatim>\<open>pkg/reconciler/patroni.go\<close>, \<^verbatim>\<open>storage.go\<close>, \<^verbatim>\<open>powa.go\<close>) with \<^verbatim>\<open>Reconciler_Safety\<close>: the reconcile function of Patroni;
    no master is restarted for its volume, the master is updated after its replicas, and the version of the locale is
    recorded after every database was repaired, however the goroutines interleave.
  \<^item> \<^verbatim>\<open>Core_Controller\<close> (\<^verbatim>\<open>controllers/patroni_core_controller.go\<close>, \<^verbatim>\<open>conditions.go\<close>) with \<^verbatim>\<open>Controller_Safety\<close>: which events
    start a run, how failed runs are counted, and when a resource is left alone.  The reconciliation of Patroni is a step
    there, whose model is \<^verbatim>\<open>patroni_Reconcile\<close>.

  \<^bold>\<open>Bounds and fuel.\<close>  \<^verbatim>\<open>poll n\<close> models \<open>wait.PollUntilContextTimeout\<close>: \<open>n\<close> is the quotient of timeout and interval,
  and the environment may let the deadline pass earlier.  The loop of \<^verbatim>\<open>waitForClusterHealthy\<close> has no bound
  of its own: its fuel \<^verbatim>\<open>wait_fuel\<close> is proved to be enough for limits that are not negative
  (\<^verbatim>\<open>waiting_terminates\<close>).  All other loops run over finite lists.  A wait whose timeout the process
  is configured with (\<^verbatim>\<open>getWaitTimeout\<close>) has the number of its polls as an argument, so the claims hold for all of them.
  The fuel of \<^verbatim>\<open>patroni_Reconcile\<close> is how many major upgrades a run may find on its way; a run that did not use it up is the
  same with more (\<^verbatim>\<open>patroni_Reconcile_more_fuel\<close>).  The restarts for a larger volume double their pause from ten seconds, so
  six of them last longer than the ten minutes they have.

  \<^bold>\<open>Not modelled.\<close>
  The generated deep copies and the type declarations of the custom resources (the fields that are read are
  records), the functions that only build Kubernetes manifests (\<^verbatim>\<open>pkg/deployment\<close>, \<^verbatim>\<open>pkg/pooler\<close>) and the reconcilers that
  only apply them, logging,
  flag parsing and route set-up, the query exporter and the monitoring agent (metrics scraping), the Azure and
  pgBackRest wrappers and the Python and shell parts of the repository.  Consul and the credentials are steps of the
  core controller's environment that succeed or fail, and the stateful set of a Patroni node, the YAML library and
  the parser of quantities are parameters.  Goroutines interleave call by call in the repair of collations
  (\<^verbatim>\<open>Go_Concurrency\<close>); those of the migration of the DBaaS adapter run one after the other in any order.
\<close>

end
